(* ===== verification/Prelude.thy ===== *)
theory Prelude
  imports "HOL-Library.Word" "HOL-Library.Sublist"
begin

text \<open>
  The shared vocabulary of the development.

  \<^item> Machine integers: \<open>u8\<close> \<dots> \<open>u64\<close> are the unsigned C types at their width;
    signed values are read off with \<^const>\<open>sint\<close>.
  \<^item> Failures: a failed \<open>assert\<close>, an access outside an array, a null pointer,
    an integer division by zero and a shift by a negative amount are values of \<open>fault\<close>.  Code that cannot loop
    forever has type \<open>'a res\<close>; code with a loop whose counter may wrap has type
    \<open>'a run\<close>, where \<^const>\<open>None\<close> says that the loop never ends.
  \<^item> Loops: \<open>for_u32\<close> is the C loop \<open>for (i = 0; i + k < n; i += s)\<close> on
    32-bit unsigned counters, wrap-around included; \<open>for_u32_fold\<close> turns it
    into a fold over the iteration numbers when the counter cannot wrap.
  \<^item> Promises about results: \<open>safe\<close> says that a result satisfies a predicate and,
    if strict, that there is one.
\<close>

unbundle bit_operations_syntax

named_theorems run_simps \<open>rewrite rules for the sequencing operators\<close>

section \<open>Machine integers and failures\<close>

type_synonym u8 = "8 word"
type_synonym u16 = "16 word"
type_synonym u32 = "32 word"
type_synonym u64 = "64 word"

datatype fault = Assertion | Out_of_bounds | Null_pointer | Div_by_zero | Bad_shift

type_synonym 'a res = "fault + 'a"
type_synonym 'a run = "'a res option"

definition res_bind :: "'a res \<Rightarrow> ('a \<Rightarrow> 'b res) \<Rightarrow> 'b res" where
  "res_bind m f = (case m of Inl e \<Rightarrow> Inl e | Inr x \<Rightarrow> f x)"

definition run_bind :: "'a run \<Rightarrow> ('a \<Rightarrow> 'b run) \<Rightarrow> 'b run" where
  "run_bind m f = Option.bind m (case_sum (\<lambda>e. Some (Inl e)) f)"

definition assert_res :: "bool \<Rightarrow> unit res" where
  "assert_res b = (if b then Inr () else Inl Assertion)"

definition get_at :: "'a list \<Rightarrow> nat \<Rightarrow> 'a res" where
  "get_at xs i = (if i < length xs then Inr (xs ! i) else Inl Out_of_bounds)"

definition put_at :: "'a list \<Rightarrow> nat \<Rightarrow> 'a \<Rightarrow> 'a list res" where
  "put_at xs i v = (if i < length xs then Inr (xs[i := v]) else Inl Out_of_bounds)"

section \<open>Sequencing\<close>

lemma res_bind_simps [simp]:
  "res_bind (Inl e) f = Inl e"
  "res_bind (Inr x) f = f x"
  by (simp_all add: res_bind_def)

lemma res_bind_eq_Inr:
  "res_bind m f = Inr y \<longleftrightarrow> (\<exists>x. m = Inr x \<and> f x = Inr y)"
  by (cases m) simp_all

lemma res_bind_assoc [run_simps]:
  "res_bind (res_bind m f) g = res_bind m (\<lambda>x. res_bind (f x) g)"
  by (cases m) simp_all

lemma run_bind_simps [simp]:
  "run_bind None f = None"
  "run_bind (Some (Inl e)) f = Some (Inl e)"
  "run_bind (Some (Inr x)) f = f x"
  by (simp_all add: run_bind_def)

lemma run_bind_assoc [run_simps]:
  "run_bind (run_bind m f) g = run_bind m (\<lambda>x. run_bind (f x) g)"
  by (cases m; cases "the m"; simp)

lemma run_bind_cong [fundef_cong]:
  "m = m' \<Longrightarrow> (\<And>x. m' = Some (Inr x) \<Longrightarrow> f x = f' x) \<Longrightarrow> run_bind m f = run_bind m' f'"
  by (cases m'; cases "the m'"; simp)

lemma res_bind_cong [fundef_cong]:
  "m = m' \<Longrightarrow> (\<And>x. m' = Inr x \<Longrightarrow> f x = f' x) \<Longrightarrow> res_bind m f = res_bind m' f'"
  by (cases m') simp_all

lemma run_bind_mono [partial_function_mono]:
  assumes "mono_option B" and "\<And>y. mono_option (\<lambda>f. C y f)"
  shows "mono_option (\<lambda>f. run_bind (B f) (\<lambda>y. C y f))"
  unfolding run_bind_def
proof (rule bind_mono [OF assms(1)])
  fix y show "mono_option (\<lambda>f. case y of Inl e \<Rightarrow> Some (Inl e) | Inr y \<Rightarrow> C y f)"
    using assms(2) by (cases y) (simp_all add: option.const_mono)
qed

lemma assert_res_simps [simp]:
  "assert_res True = Inr ()"
  "assert_res False = Inl Assertion"
  by (simp_all add: assert_res_def)

lemma assert_res_eq_Inr [simp]: "assert_res b = Inr u \<longleftrightarrow> b"
  by (simp add: assert_res_def)

lemma get_at_in [simp]: "i < length xs \<Longrightarrow> get_at xs i = Inr (xs ! i)"
  by (simp add: get_at_def)

lemma put_at_in [simp]: "i < length xs \<Longrightarrow> put_at xs i v = Inr (xs[i := v])"
  by (simp add: put_at_def)

section \<open>Loops\<close>

primrec fold_run :: "('a \<Rightarrow> 's \<Rightarrow> 's run) \<Rightarrow> 'a list \<Rightarrow> 's \<Rightarrow> 's run" where
  "fold_run body [] st = Some (Inr st)"
| "fold_run body (x # xs) st = run_bind (body x st) (fold_run body xs)"

primrec fold_res :: "('a \<Rightarrow> 's \<Rightarrow> 's res) \<Rightarrow> 'a list \<Rightarrow> 's \<Rightarrow> 's res" where
  "fold_res body [] st = Inr st"
| "fold_res body (x # xs) st = res_bind (body x st) (fold_res body xs)"

partial_function (option) for_u32 ::
  "u32 \<Rightarrow> u32 \<Rightarrow> u32 \<Rightarrow> (u32 \<Rightarrow> 's \<Rightarrow> 's run) \<Rightarrow> u32 \<Rightarrow> 's \<Rightarrow> 's run" where
  [code]: "for_u32 k s n body i st =
    (if i + k < n then run_bind (body i st) (\<lambda>st'. for_u32 k s n body (i + s) st')
     else Some (Inr st))"

definition trips :: "nat \<Rightarrow> nat \<Rightarrow> nat \<Rightarrow> nat" where
  "trips k s n = (if k < n then (n - k - 1) div s + 1 else 0)"

lemma fold_run_append [run_simps]:
  "fold_run body (xs @ ys) st = run_bind (fold_run body xs st) (fold_run body ys)"
  by (induction xs arbitrary: st) (simp_all add: run_bind_assoc cong: run_bind_cong)

lemma fold_res_append [run_simps]:
  "fold_res body (xs @ ys) st = res_bind (fold_res body xs st) (fold_res body ys)"
  by (induction xs arbitrary: st) (simp_all add: res_bind_assoc cong: res_bind_cong)

lemma fold_res_invariant:
  assumes "fold_res body xs st = Inr st'" and "P st"
    and "\<And>x s s'. x \<in> set xs \<Longrightarrow> P s \<Longrightarrow> body x s = Inr s' \<Longrightarrow> P s'"
  shows "P st'"
  using assms
proof (induction xs arbitrary: st)
  case (Cons x xs)
  from Cons.prems(1) obtain s1 where s1: "body x st = Inr s1" "fold_res body xs s1 = Inr st'"
    by (auto simp: res_bind_eq_Inr)
  have "P s1" by (rule Cons.prems(3) [OF _ Cons.prems(2) s1(1)]) simp
  then show ?case using Cons.IH [OF s1(2)] Cons.prems(3) by (meson list.set_intros(2))
qed simp

lemma trips_less_iff:
  assumes "0 < s" shows "j < trips k s n \<longleftrightarrow> s * j + k < n"
proof (cases "k < n")
  case True
  have "j < trips k s n \<longleftrightarrow> j \<le> (n - k - 1) div s"
    using True by (auto simp: trips_def)
  also have "\<dots> \<longleftrightarrow> j * s \<le> n - k - 1"
    using assms by (simp add: less_eq_div_iff_mult_less_eq)
  also have "\<dots> \<longleftrightarrow> s * j + k < n"
    using True by (auto simp: mult.commute)
  finally show ?thesis .
qed (auto simp: trips_def)

lemma unat_of_nat_small: "a < 2 ^ 32 \<Longrightarrow> unat (of_nat a :: u32) = a"
  by (simp add: unat_of_nat take_bit_nat_eq_self)

lemma unat_of_nat_add:
  fixes k :: u32
  assumes "a + unat k < 2 ^ 32" shows "unat (of_nat a + k) = a + unat k"
  using assms by (simp add: unat_word_ariths(1) unat_of_nat_small)

lemma unat_Suc_u32:
  fixes k :: u32
  assumes "unat k + 1 < 2 ^ 32" shows "unat (k + 1) = unat k + 1"
  using assms unat_of_nat_add [of 1 k] by (simp add: add.commute)

lemma trips_step: "0 < s \<Longrightarrow> k < n + s \<Longrightarrow> trips k s (n + s) = Suc (trips k s n)"
proof (cases "k < n")
  case True
  assume "0 < s"
  moreover have "n + s - k - 1 = (n - k - 1) + s" using True by simp
  ultimately have "(n + s - k - 1) div s = Suc ((n - k - 1) div s)" by (metis div_add_self2 Suc_eq_plus1 less_numeral_extra(3))
  then show ?thesis using True by (simp add: trips_def)
qed (auto simp: trips_def)

lemma unat_u32_less: "unat (x :: u32) < 4294967296"
  using unsigned_less [of x, where ?'a = nat] by simp

lemma unat_exp_u32: "i < 32 \<Longrightarrow> unat (2 ^ i :: u32) = 2 ^ i"
  using unat_of_nat_small [of "2 ^ i"] power_strict_increasing [of i 32 "2 :: nat"] by simp

lemma upt_0_Suc: "[0..<Suc n] = 0 # map Suc [0..<n]"
  unfolding map_Suc_upt by (rule upt_conv_Cons) simp

lemma for_u32_fold_from:
  assumes s: "0 < s" and n: "unat n + unat s \<le> 2 ^ 32" and j: "j \<le> trips (unat k) (unat s) (unat n)"
  shows "for_u32 k s n body (of_nat (unat s * j)) st =
    fold_run (\<lambda>j. body (of_nat (unat s * j))) [j..<trips (unat k) (unat s) (unat n)] st"
  using j
proof (induction "trips (unat k) (unat s) (unat n) - j" arbitrary: j st)
  case 0
  let ?T = "trips (unat k) (unat s) (unat n)"
  have s': "0 < unat s" using s by (simp add: word_less_nat_alt)
  have jT: "j = ?T" using 0 by simp
  have ge: "\<not> unat s * j + unat k < unat n" using trips_less_iff [OF s', of j "unat k" "unat n"] jT by simp
  have lt: "unat s * j + unat k < 2 ^ 32"
  proof (cases j)
    case 0
    then show ?thesis using unsigned_less [of k] by simp
  next
    case (Suc i)
    then have "unat s * i + unat k < unat n"
      using trips_less_iff [OF s', of i "unat k" "unat n"] jT by simp
    then show ?thesis using n Suc by simp
  qed
  have "unat (of_nat (unat s * j) + k) = unat s * j + unat k"
    using lt by (rule unat_of_nat_add)
  then have "\<not> of_nat (unat s * j) + k < n" using ge by (simp add: word_less_nat_alt)
  then show ?case using jT by (subst for_u32.simps) simp
next
  case (Suc m)
  let ?T = "trips (unat k) (unat s) (unat n)"
  have s': "0 < unat s" using s by (simp add: word_less_nat_alt)
  have jT: "j < ?T" using Suc.hyps(2) by simp
  have lt: "unat s * j + unat k < unat n" using trips_less_iff [OF s', of j "unat k" "unat n"] jT by simp
  then have "unat (of_nat (unat s * j) + k) = unat s * j + unat k"
    using n by (intro unat_of_nat_add) simp
  then have c: "of_nat (unat s * j) + k < n" using lt by (simp add: word_less_nat_alt)
  have step: "of_nat (unat s * j) + s = (of_nat (unat s * Suc j) :: u32)"
    by (simp add: algebra_simps)
  have IH: "for_u32 k s n body (of_nat (unat s * Suc j)) =
      fold_run (\<lambda>j. body (of_nat (unat s * j))) [Suc j..<?T]"
    using Suc.hyps jT by (intro ext Suc.hyps(1)) auto
  show ?case
    using c jT by (subst for_u32.simps) (simp only: step IH if_True upt_conv_Cons fold_run.simps)
qed

lemma for_u32_fold:
  assumes "0 < s" and "unat n + unat s \<le> 2 ^ 32"
  shows "for_u32 k s n body 0 st =
    fold_run (\<lambda>j. body (of_nat (unat s * j))) [0..<trips (unat k) (unat s) (unat n)] st"
  using for_u32_fold_from [OF assms, of 0 k body st] by simp

lemma for_u32_all:
  "for_u32 0 1 n body 0 st = fold_run (\<lambda>j. body (of_nat j)) [0..<unat n] st"
proof -
  have "trips 0 1 m = m" for m by (cases m) (simp_all add: trips_def)
  then show ?thesis using for_u32_fold [of 1 n 0 body st] unat_u32_less [of n] by simp
qed

lemma fold_res_concat:
  "fold_res (\<lambda>x. fold_res f (g x)) xs st = fold_res f (concat (map g xs)) st"
  by (induction xs arbitrary: st) (simp_all add: fold_res_append cong: res_bind_cong)

lemma fold_res_map: "fold_res f (map g xs) st = fold_res (\<lambda>x. f (g x)) xs st"
  by (induction xs arbitrary: st) (simp_all cong: res_bind_cong)

lemma fold_res_cong:
  "(\<And>x st. x \<in> set xs \<Longrightarrow> f x st = g x st) \<Longrightarrow> fold_res f xs st = fold_res g xs st"
  by (induction xs arbitrary: st) (simp_all cong: res_bind_cong)

lemma run_bind_Some: "run_bind (Some m) f = (case m of Inl e \<Rightarrow> Some (Inl e) | Inr x \<Rightarrow> f x)"
  by (cases m) simp_all

lemma unat_mult_small:
  fixes a b :: u32
  shows "unat a * unat b < 2 ^ 32 \<Longrightarrow> unat (a * b) = unat a * unat b"
  by (simp add: unat_word_ariths(2))

section \<open>Safety of a result\<close>

text \<open>
  \<open>safe strict P m\<close>: if \<open>m\<close> returns, its value satisfies \<open>P\<close>; if \<open>strict\<close>, it does return.
\<close>

definition safe :: "bool \<Rightarrow> ('a \<Rightarrow> bool) \<Rightarrow> 'a res \<Rightarrow> bool" where
  "safe strict P m = (case m of Inl e \<Rightarrow> \<not> strict | Inr x \<Rightarrow> P x)"

named_theorems safe_intros \<open>introduction rules for \<^const>\<open>safe\<close>\<close>

lemma safe_Inr [simp]: "safe t P (Inr x) \<longleftrightarrow> P x"
  by (simp add: safe_def)

lemma safe_bind:
  "safe t Q m \<Longrightarrow> (\<And>x. Q x \<Longrightarrow> safe t P (f x)) \<Longrightarrow> safe t P (res_bind m f)"
  by (cases m) (simp_all add: safe_def)

lemma safe_if: "(c \<Longrightarrow> safe t P x) \<Longrightarrow> (\<not> c \<Longrightarrow> safe t P y) \<Longrightarrow> safe t P (if c then x else y)"
  by simp

lemma safe_mono: "safe t Q m \<Longrightarrow> (\<And>x. Q x \<Longrightarrow> P x) \<Longrightarrow> safe t P m"
  by (cases m) (simp_all add: safe_def)

lemma safe_fold:
  "P st \<Longrightarrow> (\<And>x s. x \<in> set xs \<Longrightarrow> P s \<Longrightarrow> safe t P (body x s)) \<Longrightarrow> safe t P (fold_res body xs st)"
proof (induction xs arbitrary: st)
  case (Cons x xs)
  then show ?case by (auto intro: safe_bind)
qed simp

lemma safe_totalD: "safe True P m \<Longrightarrow> \<exists>x. m = Inr x \<and> P x"
  by (cases m) (simp_all add: safe_def)

lemma safe_partialD: "safe t P m \<Longrightarrow> m = Inr x \<Longrightarrow> P x"
  by (simp add: safe_def)

lemma safe_get_at: "i < length xs \<Longrightarrow> safe t (\<lambda>x. x = xs ! i) (get_at xs i)"
  by simp

lemma safe_put_at: "i < length xs \<Longrightarrow> safe t (\<lambda>ys. length ys = length xs) (put_at xs i v)"
  by simp

end
