(* ===== verification/Prim_Rewrite.thy ===== *)
theory Prim_Rewrite
  imports Prelude
begin

text \<open>
  Primitive rewriting of the NV2A renderer back ends
  (\<open>hw/xbox/nv2a/pgraph/prim_rewrite.c\<close>, \<open>prim_rewrite.h\<close>): strips, loops, fans,
  quads and polygons are turned into line and triangle lists, with the
  provoking vertex moved to the front.

  The output buffer is the list \<open>buf_data\<close>; a write outside it is an
  \<^const>\<open>Out_of_bounds\<close> fault.  The \<open>ref_\<close> functions are the reference: they
  assemble primitives by recursion on the vertex list, with no counters and no
  buffer.  The lemmas show that each rewriting loop returns, stays inside the
  buffer sized by \<open>max_output_indices\<close> and writes what the reference gives.
\<close>

section \<open>Data\<close>

datatype ShaderPrimitiveMode =
    PRIM_TYPE_INVALID | PRIM_TYPE_POINTS | PRIM_TYPE_LINES | PRIM_TYPE_LINE_LOOP
  | PRIM_TYPE_LINE_STRIP | PRIM_TYPE_TRIANGLES | PRIM_TYPE_TRIANGLE_STRIP
  | PRIM_TYPE_TRIANGLE_FAN | PRIM_TYPE_QUADS | PRIM_TYPE_QUAD_STRIP | PRIM_TYPE_POLYGON

datatype ShaderPolygonMode = POLY_MODE_FILL | POLY_MODE_POINT | POLY_MODE_LINE

record PrimRewriteBuf =
  buf_data :: "u32 list"
  buf_capacity :: u32

record PrimRewrite =
  rw_indices :: "u32 list option"
  rw_num_indices :: u32

record PrimAssemblyState =
  primitive_mode :: ShaderPrimitiveMode
  polygon_mode :: ShaderPolygonMode
  last_provoking :: bool
  flat_shading :: bool

section \<open>Operations\<close>

definition pgraph_prim_rewrite_init :: PrimRewriteBuf where
  "pgraph_prim_rewrite_init = \<lparr>buf_data = [], buf_capacity = 0\<rparr>"

definition pgraph_prim_rewrite_finalize :: "PrimRewriteBuf \<Rightarrow> PrimRewriteBuf" where
  "pgraph_prim_rewrite_finalize buf = buf\<lparr>buf_data := [], buf_capacity := 0\<rparr>"

text \<open>The words \<open>g_realloc\<close> adds are not initialised: \<open>fresh\<close> gives their contents.\<close>

definition ensure_capacity :: "(nat \<Rightarrow> u32) \<Rightarrow> PrimRewriteBuf \<Rightarrow> u32 \<Rightarrow> PrimRewriteBuf" where
  "ensure_capacity fresh buf needed =
    (if needed \<le> buf_capacity buf then buf
     else let cap = max needed (buf_capacity buf * 2) in
       buf\<lparr>buf_capacity := cap,
           buf_data := take (unat cap) (buf_data buf) @
             map fresh [length (buf_data buf)..<unat cap]\<rparr>)"

fun pgraph_prim_rewrite_get_output_mode ::
  "ShaderPrimitiveMode \<Rightarrow> ShaderPolygonMode \<Rightarrow> ShaderPrimitiveMode res" where
  "pgraph_prim_rewrite_get_output_mode PRIM_TYPE_POINTS pm = Inr PRIM_TYPE_POINTS"
| "pgraph_prim_rewrite_get_output_mode PRIM_TYPE_LINES pm = Inr PRIM_TYPE_LINES"
| "pgraph_prim_rewrite_get_output_mode PRIM_TYPE_LINE_STRIP pm = Inr PRIM_TYPE_LINES"
| "pgraph_prim_rewrite_get_output_mode PRIM_TYPE_LINE_LOOP pm = Inr PRIM_TYPE_LINES"
| "pgraph_prim_rewrite_get_output_mode PRIM_TYPE_TRIANGLES pm = Inr PRIM_TYPE_TRIANGLES"
| "pgraph_prim_rewrite_get_output_mode PRIM_TYPE_TRIANGLE_STRIP pm = Inr PRIM_TYPE_TRIANGLES"
| "pgraph_prim_rewrite_get_output_mode PRIM_TYPE_TRIANGLE_FAN pm = Inr PRIM_TYPE_TRIANGLES"
| "pgraph_prim_rewrite_get_output_mode PRIM_TYPE_QUADS pm =
    Inr (if pm = POLY_MODE_LINE then PRIM_TYPE_LINES else PRIM_TYPE_TRIANGLES)"
| "pgraph_prim_rewrite_get_output_mode PRIM_TYPE_QUAD_STRIP pm =
    Inr (if pm = POLY_MODE_LINE then PRIM_TYPE_LINES else PRIM_TYPE_TRIANGLES)"
| "pgraph_prim_rewrite_get_output_mode PRIM_TYPE_POLYGON pm =
    Inr (if pm = POLY_MODE_LINE then PRIM_TYPE_LINES else PRIM_TYPE_TRIANGLES)"
| "pgraph_prim_rewrite_get_output_mode PRIM_TYPE_INVALID pm = Inl Assertion"

definition needs_rewrite :: "PrimAssemblyState \<Rightarrow> bool" where
  "needs_rewrite mode = (case primitive_mode mode of
      PRIM_TYPE_POINTS \<Rightarrow> False
    | PRIM_TYPE_LINES \<Rightarrow> last_provoking mode \<and> flat_shading mode
    | PRIM_TYPE_TRIANGLES \<Rightarrow> last_provoking mode \<and> flat_shading mode
    | _ \<Rightarrow> True)"

definition max_output_indices ::
  "ShaderPrimitiveMode \<Rightarrow> ShaderPolygonMode \<Rightarrow> u32 \<Rightarrow> u32" where
  "max_output_indices mode pm input_count = (case mode of
      PRIM_TYPE_LINES \<Rightarrow> input_count
    | PRIM_TYPE_LINE_STRIP \<Rightarrow> if input_count \<ge> 2 then (input_count - 1) * 2 else 0
    | PRIM_TYPE_LINE_LOOP \<Rightarrow> if input_count \<ge> 2 then input_count * 2 else 0
    | PRIM_TYPE_TRIANGLES \<Rightarrow> input_count
    | PRIM_TYPE_TRIANGLE_STRIP \<Rightarrow> if input_count \<ge> 3 then (input_count - 2) * 3 else 0
    | PRIM_TYPE_TRIANGLE_FAN \<Rightarrow> if input_count \<ge> 3 then (input_count - 2) * 3 else 0
    | PRIM_TYPE_POLYGON \<Rightarrow>
        if pm = POLY_MODE_LINE then (if input_count \<ge> 2 then input_count * 2 else 0)
        else (if input_count \<ge> 3 then (input_count - 2) * 3 else 0)
    | PRIM_TYPE_QUADS \<Rightarrow>
        if pm = POLY_MODE_LINE then (input_count div 4) * 8 else (input_count div 4) * 6
    | PRIM_TYPE_QUAD_STRIP \<Rightarrow>
        if pm = POLY_MODE_LINE then (if input_count \<ge> 4 then ((input_count - 2) div 2) * 8 else 0)
        else (if input_count \<ge> 4 then ((input_count - 2) div 2) * 6 else 0)
    | _ \<Rightarrow> 0)"

definition idx_at :: "u32 list option \<Rightarrow> u32 \<Rightarrow> u32 \<Rightarrow> u32 res" where
  "idx_at idx i base = (case idx of Some xs \<Rightarrow> get_at xs (unat i) | None \<Rightarrow> Inr (base + i))"

definition emit_vertex :: "PrimRewrite \<Rightarrow> u32 \<Rightarrow> PrimRewrite res" where
  "emit_vertex r v = (case rw_indices r of
      None \<Rightarrow> Inl Null_pointer
    | Some d \<Rightarrow> res_bind (put_at d (unat (rw_num_indices r)) v)
        (\<lambda>d'. Inr (r\<lparr>rw_indices := Some d', rw_num_indices := rw_num_indices r + 1\<rparr>)))"

definition emit_line :: "PrimRewrite \<Rightarrow> u32 \<Rightarrow> u32 \<Rightarrow> PrimRewrite res" where
  "emit_line r a b = res_bind (emit_vertex r a) (\<lambda>r. emit_vertex r b)"

definition emit_line_pv :: "PrimRewrite \<Rightarrow> u32 \<Rightarrow> u32 \<Rightarrow> u32 \<Rightarrow> PrimRewrite res" where
  "emit_line_pv r a b p = (if p = a then emit_line r a b else emit_line r b a)"

definition emit_tri :: "PrimRewrite \<Rightarrow> u32 \<Rightarrow> u32 \<Rightarrow> u32 \<Rightarrow> PrimRewrite res" where
  "emit_tri r a b c =
    res_bind (emit_vertex r a) (\<lambda>r. res_bind (emit_vertex r b) (\<lambda>r. emit_vertex r c))"

definition emit_tri_pv :: "PrimRewrite \<Rightarrow> u32 \<Rightarrow> u32 \<Rightarrow> u32 \<Rightarrow> u32 \<Rightarrow> PrimRewrite res" where
  "emit_tri_pv r a b c p =
    (if p = a then emit_tri r a b c else if p = b then emit_tri r b c a else emit_tri r c a b)"

definition idx_at2 :: "u32 list option \<Rightarrow> u32 \<Rightarrow> u32 \<Rightarrow> (u32 \<Rightarrow> u32 \<Rightarrow> 'a res) \<Rightarrow> 'a res" where
  "idx_at2 idx base i f =
    res_bind (idx_at idx i base) (\<lambda>v0. res_bind (idx_at idx (i + 1) base) (\<lambda>v1. f v0 v1))"

definition idx_at3 ::
  "u32 list option \<Rightarrow> u32 \<Rightarrow> u32 \<Rightarrow> (u32 \<Rightarrow> u32 \<Rightarrow> u32 \<Rightarrow> 'a res) \<Rightarrow> 'a res" where
  "idx_at3 idx base i f =
    idx_at2 idx base i (\<lambda>v0 v1. res_bind (idx_at idx (i + 2) base) (\<lambda>v2. f v0 v1 v2))"

definition idx_at4 ::
  "u32 list option \<Rightarrow> u32 \<Rightarrow> u32 \<Rightarrow> (u32 \<Rightarrow> u32 \<Rightarrow> u32 \<Rightarrow> u32 \<Rightarrow> 'a res) \<Rightarrow> 'a res" where
  "idx_at4 idx base i f =
    idx_at3 idx base i (\<lambda>v0 v1 v2. res_bind (idx_at idx (i + 3) base) (\<lambda>v3. f v0 v1 v2 v3))"

definition rewrite_lines ::
  "PrimRewrite \<Rightarrow> u32 list option \<Rightarrow> u32 \<Rightarrow> u32 \<Rightarrow> bool \<Rightarrow> PrimRewrite run" where
  "rewrite_lines r idx base count lastp =
    for_u32 1 2 count (\<lambda>i r. Some (idx_at2 idx base i (\<lambda>v0 v1.
      emit_line_pv r v0 v1 (if lastp then v1 else v0)))) 0 r"

definition rewrite_line_strip ::
  "PrimRewrite \<Rightarrow> u32 list option \<Rightarrow> u32 \<Rightarrow> u32 \<Rightarrow> bool \<Rightarrow> PrimRewrite run" where
  "rewrite_line_strip r idx base count lastp =
    for_u32 1 1 count (\<lambda>i r. Some (idx_at2 idx base i (\<lambda>v0 v1.
      emit_line_pv r v0 v1 (if lastp then v1 else v0)))) 0 r"

definition rewrite_line_loop ::
  "PrimRewrite \<Rightarrow> u32 list option \<Rightarrow> u32 \<Rightarrow> u32 \<Rightarrow> bool \<Rightarrow> PrimRewrite run" where
  "rewrite_line_loop r idx base count lastp =
    (if count < 2 then Some (Inr r)
     else run_bind
       (for_u32 1 1 count (\<lambda>i r. Some (idx_at2 idx base i (\<lambda>v0 v1.
          emit_line_pv r v0 v1 (if lastp then v1 else v0)))) 0 r)
       (\<lambda>r. Some (res_bind (idx_at idx (count - 1) base) (\<lambda>v_last.
          res_bind (idx_at idx 0 base) (\<lambda>v_first.
            emit_line_pv r v_last v_first (if lastp then v_first else v_last))))))"

definition rewrite_triangles ::
  "PrimRewrite \<Rightarrow> u32 list option \<Rightarrow> u32 \<Rightarrow> u32 \<Rightarrow> bool \<Rightarrow> PrimRewrite run" where
  "rewrite_triangles r idx base count lastp =
    for_u32 2 3 count (\<lambda>i r. Some (idx_at3 idx base i (\<lambda>v0 v1 v2.
      emit_tri_pv r v0 v1 v2 (if lastp then v2 else v0)))) 0 r"

definition rewrite_triangle_strip ::
  "PrimRewrite \<Rightarrow> u32 list option \<Rightarrow> u32 \<Rightarrow> u32 \<Rightarrow> bool \<Rightarrow> PrimRewrite run" where
  "rewrite_triangle_strip r idx base count lastp =
    for_u32 2 1 count (\<lambda>i r. Some (idx_at3 idx base i (\<lambda>v0 v1 v2.
      let pv = (if lastp then v2 else v0) in
        if i AND 1 \<noteq> 0 then emit_tri_pv r v1 v0 v2 pv else emit_tri_pv r v0 v1 v2 pv))) 0 r"

definition rewrite_triangle_fan ::
  "PrimRewrite \<Rightarrow> u32 list option \<Rightarrow> u32 \<Rightarrow> u32 \<Rightarrow> bool \<Rightarrow> PrimRewrite run" where
  "rewrite_triangle_fan r idx base count lastp =
    (if count < 3 then Some (Inr r)
     else run_bind (Some (idx_at idx 0 base)) (\<lambda>hub.
       for_u32 2 1 count (\<lambda>i r. Some (idx_at2 idx base (i + 1) (\<lambda>v1 v2.
         emit_tri_pv r hub v1 v2 (if lastp then v2 else v1)))) 0 r))"

definition rewrite_quads ::
  "PrimRewrite \<Rightarrow> u32 list option \<Rightarrow> u32 \<Rightarrow> u32 \<Rightarrow> bool \<Rightarrow> PrimRewrite run" where
  "rewrite_quads r idx base count flat =
    for_u32 3 4 count (\<lambda>i r. Some (idx_at4 idx base i (\<lambda>v0 v1 v2 v3.
      if flat then res_bind (emit_tri r v3 v0 v1) (\<lambda>r. emit_tri r v3 v1 v2)
      else res_bind (emit_tri r v0 v1 v2) (\<lambda>r. emit_tri r v0 v2 v3)))) 0 r"

definition rewrite_quads_line ::
  "PrimRewrite \<Rightarrow> u32 list option \<Rightarrow> u32 \<Rightarrow> u32 \<Rightarrow> PrimRewrite run" where
  "rewrite_quads_line r idx base count =
    for_u32 3 4 count (\<lambda>i r. Some (idx_at4 idx base i (\<lambda>v0 v1 v2 v3.
      res_bind (emit_line r v0 v1) (\<lambda>r. res_bind (emit_line r v1 v2) (\<lambda>r.
        res_bind (emit_line r v2 v3) (\<lambda>r. emit_line r v3 v0)))))) 0 r"

definition rewrite_quad_strip ::
  "PrimRewrite \<Rightarrow> u32 list option \<Rightarrow> u32 \<Rightarrow> u32 \<Rightarrow> bool \<Rightarrow> PrimRewrite run" where
  "rewrite_quad_strip r idx base count flat =
    (if count < 4 then Some (Inr r)
     else for_u32 3 2 count (\<lambda>i r. Some (idx_at4 idx base i (\<lambda>v0 v1 v2 v3.
       if flat then res_bind (emit_tri r v3 v2 v0) (\<lambda>r. emit_tri r v3 v0 v1)
       else res_bind (emit_tri r v0 v1 v2) (\<lambda>r. emit_tri r v2 v1 v3)))) 0 r)"

definition rewrite_quad_strip_line ::
  "PrimRewrite \<Rightarrow> u32 list option \<Rightarrow> u32 \<Rightarrow> u32 \<Rightarrow> PrimRewrite run" where
  "rewrite_quad_strip_line r idx base count =
    (if count < 4 then Some (Inr r)
     else for_u32 3 2 count (\<lambda>i r. Some (idx_at4 idx base i (\<lambda>v0 v1 v2 v3.
       res_bind (emit_line r v0 v1) (\<lambda>r. res_bind (emit_line r v1 v3) (\<lambda>r.
         res_bind (emit_line r v3 v2) (\<lambda>r. emit_line r v2 v0)))))) 0 r)"

definition rewrite_polygon ::
  "PrimRewrite \<Rightarrow> u32 list option \<Rightarrow> u32 \<Rightarrow> u32 \<Rightarrow> PrimRewrite run" where
  "rewrite_polygon r idx base count =
    (if count < 3 then Some (Inr r)
     else run_bind (Some (idx_at idx 0 base)) (\<lambda>hub.
       for_u32 2 1 count (\<lambda>i r. Some (idx_at2 idx base (i + 1) (\<lambda>v1 v2.
         emit_tri r hub v1 v2))) 0 r))"

definition rewrite_polygon_line ::
  "PrimRewrite \<Rightarrow> u32 list option \<Rightarrow> u32 \<Rightarrow> u32 \<Rightarrow> PrimRewrite run" where
  "rewrite_polygon_line r idx base count =
    (if count < 2 then Some (Inr r)
     else run_bind
       (for_u32 1 1 count (\<lambda>i r. Some (idx_at2 idx base i (\<lambda>v0 v1. emit_line r v0 v1))) 0 r)
       (\<lambda>r. Some (res_bind (idx_at idx (count - 1) base) (\<lambda>v_last.
          res_bind (idx_at idx 0 base) (\<lambda>v_first. emit_line r v_last v_first)))))"

definition rewrite_indices ::
  "PrimRewrite \<Rightarrow> PrimAssemblyState \<Rightarrow> u32 list option \<Rightarrow> u32 \<Rightarrow> u32 \<Rightarrow> PrimRewrite run" where
  "rewrite_indices r mode idx base n = (case primitive_mode mode of
      PRIM_TYPE_LINES \<Rightarrow> rewrite_lines r idx base n (last_provoking mode)
    | PRIM_TYPE_LINE_STRIP \<Rightarrow> rewrite_line_strip r idx base n (last_provoking mode)
    | PRIM_TYPE_LINE_LOOP \<Rightarrow> rewrite_line_loop r idx base n (last_provoking mode)
    | PRIM_TYPE_TRIANGLES \<Rightarrow> rewrite_triangles r idx base n (last_provoking mode)
    | PRIM_TYPE_TRIANGLE_STRIP \<Rightarrow> rewrite_triangle_strip r idx base n (last_provoking mode)
    | PRIM_TYPE_TRIANGLE_FAN \<Rightarrow> rewrite_triangle_fan r idx base n (last_provoking mode)
    | PRIM_TYPE_QUADS \<Rightarrow>
        if polygon_mode mode = POLY_MODE_LINE then rewrite_quads_line r idx base n
        else rewrite_quads r idx base n (flat_shading mode)
    | PRIM_TYPE_QUAD_STRIP \<Rightarrow>
        if polygon_mode mode = POLY_MODE_LINE then rewrite_quad_strip_line r idx base n
        else rewrite_quad_strip r idx base n (flat_shading mode)
    | PRIM_TYPE_POLYGON \<Rightarrow>
        if polygon_mode mode = POLY_MODE_LINE then rewrite_polygon_line r idx base n
        else rewrite_polygon r idx base n
    | _ \<Rightarrow> Some (Inl Assertion))"

definition null_rewrite :: PrimRewrite where
  "null_rewrite = \<lparr>rw_indices = None, rw_num_indices = 0\<rparr>"

text \<open>
  \<open>result.indices\<close> aliases \<open>buf->data\<close>: the buffer returned holds what was written
  through the result.
\<close>

definition write_back :: "PrimRewriteBuf \<Rightarrow> PrimRewrite \<Rightarrow> PrimRewriteBuf" where
  "write_back buf r = (case rw_indices r of None \<Rightarrow> buf | Some d \<Rightarrow> buf\<lparr>buf_data := d\<rparr>)"

definition total_max_output ::
  "PrimAssemblyState \<Rightarrow> u32 list \<Rightarrow> u32 \<Rightarrow> u32 run" where
  "total_max_output mode counts num_ranges =
    for_u32 0 1 num_ranges (\<lambda>i tot. Some (res_bind (get_at counts (unat i)) (\<lambda>c.
      Inr (tot + max_output_indices (primitive_mode mode) (polygon_mode mode) c)))) 0 0"

definition pgraph_prim_rewrite_ranges ::
  "(nat \<Rightarrow> u32) \<Rightarrow> PrimRewriteBuf \<Rightarrow> PrimAssemblyState \<Rightarrow> u32 list \<Rightarrow> u32 list \<Rightarrow> u32 \<Rightarrow>
    (PrimRewriteBuf \<times> PrimRewrite) run" where
  "pgraph_prim_rewrite_ranges fresh buf mode starts counts num_ranges =
    (if \<not> (polygon_mode mode \<noteq> POLY_MODE_POINT \<or> primitive_mode mode \<noteq> PRIM_TYPE_POLYGON)
     then Some (Inl Assertion)
     else if \<not> needs_rewrite mode then Some (Inr (buf, null_rewrite))
     else run_bind (total_max_output mode counts num_ranges) (\<lambda>total.
       if total = 0 then Some (Inr (buf, null_rewrite))
       else let buf = ensure_capacity fresh buf total in
         run_bind
           (for_u32 0 1 num_ranges (\<lambda>i r.
              run_bind (Some (get_at counts (unat i))) (\<lambda>c.
                if c = 0 then Some (Inr r)
                else run_bind (Some (get_at starts (unat i))) (\<lambda>st.
                  rewrite_indices r mode None st c)))
              0 (null_rewrite\<lparr>rw_indices := Some (buf_data buf)\<rparr>))
           (\<lambda>r. Some (Inr (write_back buf r, r)))))"

definition pgraph_prim_rewrite_indexed ::
  "(nat \<Rightarrow> u32) \<Rightarrow> PrimRewriteBuf \<Rightarrow> PrimAssemblyState \<Rightarrow> u32 list \<Rightarrow> u32 \<Rightarrow>
    (PrimRewriteBuf \<times> PrimRewrite) run" where
  "pgraph_prim_rewrite_indexed fresh buf mode input_indices num_input_indices =
    (if \<not> (polygon_mode mode \<noteq> POLY_MODE_POINT \<or> primitive_mode mode \<noteq> PRIM_TYPE_POLYGON)
     then Some (Inl Assertion)
     else if \<not> needs_rewrite mode then Some (Inr (buf, null_rewrite))
     else let max_output = max_output_indices (primitive_mode mode) (polygon_mode mode)
                             num_input_indices in
       if max_output = 0 then Some (Inr (buf, null_rewrite))
       else let buf = ensure_capacity fresh buf max_output in
         run_bind
           (rewrite_indices (null_rewrite\<lparr>rw_indices := Some (buf_data buf)\<rparr>) mode
              (Some input_indices) 0 num_input_indices)
           (\<lambda>r. Some (Inr (write_back buf r, r))))"

definition pgraph_prim_rewrite_sequential ::
  "(nat \<Rightarrow> u32) \<Rightarrow> PrimRewriteBuf \<Rightarrow> PrimAssemblyState \<Rightarrow> u32 \<Rightarrow> u32 \<Rightarrow>
    (PrimRewriteBuf \<times> PrimRewrite) run" where
  "pgraph_prim_rewrite_sequential fresh buf mode start count =
    pgraph_prim_rewrite_ranges fresh buf mode [start] [count] 1"

section \<open>Reference assembly\<close>

text \<open>
  \<open>rot_first p vs\<close> rotates \<open>vs\<close> so that its first \<open>p\<close> leads: the winding order is
  that of \<open>vs\<close>.
\<close>

definition rot_first :: "'v \<Rightarrow> 'v list \<Rightarrow> 'v list" where
  "rot_first p vs = dropWhile (\<lambda>v. v \<noteq> p) vs @ takeWhile (\<lambda>v. v \<noteq> p) vs"

fun ref_lines :: "bool \<Rightarrow> 'v list \<Rightarrow> 'v list list" where
  "ref_lines lp (a # b # vs) = rot_first (if lp then b else a) [a, b] # ref_lines lp vs"
| "ref_lines lp vs = []"

fun ref_line_strip :: "bool \<Rightarrow> 'v list \<Rightarrow> 'v list list" where
  "ref_line_strip lp (a # b # vs) =
    rot_first (if lp then b else a) [a, b] # ref_line_strip lp (b # vs)"
| "ref_line_strip lp vs = []"

definition ref_line_loop :: "bool \<Rightarrow> 'v list \<Rightarrow> 'v list list" where
  "ref_line_loop lp vs = (if length vs < 2 then [] else ref_line_strip lp (vs @ [hd vs]))"

fun ref_triangles :: "bool \<Rightarrow> 'v list \<Rightarrow> 'v list list" where
  "ref_triangles lp (a # b # c # vs) =
    rot_first (if lp then c else a) [a, b, c] # ref_triangles lp vs"
| "ref_triangles lp vs = []"

fun ref_triangle_strip :: "bool \<Rightarrow> bool \<Rightarrow> 'v list \<Rightarrow> 'v list list" where
  "ref_triangle_strip lp flip (a # b # c # vs) =
    rot_first (if lp then c else a) (if flip then [b, a, c] else [a, b, c])
      # ref_triangle_strip lp (\<not> flip) (b # c # vs)"
| "ref_triangle_strip lp flip vs = []"

fun ref_fan :: "bool \<Rightarrow> 'v \<Rightarrow> 'v list \<Rightarrow> 'v list list" where
  "ref_fan lp hub (b # c # vs) =
    rot_first (if lp then c else b) [hub, b, c] # ref_fan lp hub (c # vs)"
| "ref_fan lp hub vs = []"

fun ref_quads :: "bool \<Rightarrow> 'v list \<Rightarrow> 'v list list" where
  "ref_quads flat (a # b # c # d # vs) =
    (if flat then [[d, a, b], [d, b, c]] else [[a, b, c], [a, c, d]]) @ ref_quads flat vs"
| "ref_quads flat vs = []"

fun ref_quads_line :: "'v list \<Rightarrow> 'v list list" where
  "ref_quads_line (a # b # c # d # vs) =
    [[a, b], [b, c], [c, d], [d, a]] @ ref_quads_line vs"
| "ref_quads_line vs = []"

fun ref_quad_strip :: "bool \<Rightarrow> 'v list \<Rightarrow> 'v list list" where
  "ref_quad_strip flat (a # b # c # d # vs) =
    (if flat then [[d, c, a], [d, a, b]] else [[a, b, c], [c, b, d]])
      @ ref_quad_strip flat (c # d # vs)"
| "ref_quad_strip flat vs = []"

fun ref_quad_strip_line :: "'v list \<Rightarrow> 'v list list" where
  "ref_quad_strip_line (a # b # c # d # vs) =
    [[a, b], [b, d], [d, c], [c, a]] @ ref_quad_strip_line (c # d # vs)"
| "ref_quad_strip_line vs = []"

fun ref_polygon :: "'v \<Rightarrow> 'v list \<Rightarrow> 'v list list" where
  "ref_polygon hub (b # c # vs) = [hub, b, c] # ref_polygon hub (c # vs)"
| "ref_polygon hub vs = []"

definition ref_polygon_line :: "'v list \<Rightarrow> 'v list list" where
  "ref_polygon_line vs = ref_line_loop False vs"

definition ref_prims :: "PrimAssemblyState \<Rightarrow> 'v list \<Rightarrow> 'v list list" where
  "ref_prims mode vs = (case primitive_mode mode of
      PRIM_TYPE_LINES \<Rightarrow> ref_lines (last_provoking mode) vs
    | PRIM_TYPE_LINE_STRIP \<Rightarrow> ref_line_strip (last_provoking mode) vs
    | PRIM_TYPE_LINE_LOOP \<Rightarrow> ref_line_loop (last_provoking mode) vs
    | PRIM_TYPE_TRIANGLES \<Rightarrow> ref_triangles (last_provoking mode) vs
    | PRIM_TYPE_TRIANGLE_STRIP \<Rightarrow> ref_triangle_strip (last_provoking mode) False vs
    | PRIM_TYPE_TRIANGLE_FAN \<Rightarrow> ref_fan (last_provoking mode) (hd vs) (tl vs)
    | PRIM_TYPE_QUADS \<Rightarrow>
        if polygon_mode mode = POLY_MODE_LINE then ref_quads_line vs
        else ref_quads (flat_shading mode) vs
    | PRIM_TYPE_QUAD_STRIP \<Rightarrow>
        if polygon_mode mode = POLY_MODE_LINE then ref_quad_strip_line vs
        else ref_quad_strip (flat_shading mode) vs
    | PRIM_TYPE_POLYGON \<Rightarrow>
        if polygon_mode mode = POLY_MODE_LINE then ref_polygon_line vs
        else ref_polygon (hd vs) (tl vs)
    | _ \<Rightarrow> [])"

section \<open>What an emitting step appends\<close>

definition emitted :: "PrimRewrite \<Rightarrow> u32 list" where
  "emitted r = take (unat (rw_num_indices r)) (the (rw_indices r))"

definition rw_room :: "PrimRewrite \<Rightarrow> nat \<Rightarrow> bool" where
  "rw_room r n = (case rw_indices r of None \<Rightarrow> False
    | Some d \<Rightarrow> unat (rw_num_indices r) + n \<le> length d \<and> length d < 2 ^ 32)"

definition appended :: "PrimRewrite \<Rightarrow> u32 list \<Rightarrow> PrimRewrite \<Rightarrow> bool" where
  "appended r vs r' \<longleftrightarrow>
    emitted r' = emitted r @ vs \<and>
    unat (rw_num_indices r') = unat (rw_num_indices r) + length vs \<and>
    map_option length (rw_indices r') = map_option length (rw_indices r)"

definition appends :: "(PrimRewrite \<Rightarrow> PrimRewrite run) \<Rightarrow> u32 list \<Rightarrow> bool" where
  "appends m vs \<longleftrightarrow>
    (\<forall>r. rw_room r (length vs) \<longrightarrow> (\<exists>r'. m r = Some (Inr r') \<and> appended r vs r'))"

lemma appended_room:
  "appended r vs r' \<Longrightarrow> rw_room r (length vs + n) \<Longrightarrow> rw_room r' n"
  by (auto simp: appended_def rw_room_def split: option.splits)

lemma appended_trans:
  "appended r vs r' \<Longrightarrow> appended r' ws r'' \<Longrightarrow> appended r (vs @ ws) r''"
  by (simp add: appended_def)

lemma appends_return: "appends (\<lambda>r. Some (Inr r)) []"
  by (simp add: appends_def appended_def)

lemma appends_bind:
  assumes "appends m vs" and "appends f ws"
  shows "appends (\<lambda>r. run_bind (m r) f) (vs @ ws)"
  unfolding appends_def
proof (intro allI impI)
  fix r assume room: "rw_room r (length (vs @ ws))"
  then have "rw_room r (length vs)" by (auto simp: rw_room_def split: option.splits)
  then obtain r1 where r1: "m r = Some (Inr r1)" "appended r vs r1"
    using assms(1) by (auto simp: appends_def)
  moreover have "rw_room r1 (length ws)" using appended_room r1(2) room by simp
  then obtain r2 where "f r1 = Some (Inr r2)" "appended r1 ws r2"
    using assms(2) by (auto simp: appends_def)
  ultimately show "\<exists>r'. run_bind (m r) f = Some (Inr r') \<and> appended r (vs @ ws) r'"
    using appended_trans by auto
qed

lemma appends_res_bind:
  assumes "appends (\<lambda>r. Some (m r)) vs" and "appends (\<lambda>r. Some (f r)) ws"
  shows "appends (\<lambda>r. Some (res_bind (m r) f)) (vs @ ws)"
proof -
  have "Some (res_bind (m r) f) = run_bind (Some (m r)) (\<lambda>r. Some (f r))" for r
    by (cases "m r") simp_all
  then show ?thesis using appends_bind [OF assms] by simp
qed

lemma appends_fold:
  assumes "\<And>x. x \<in> set xs \<Longrightarrow> appends (body x) (h x)"
  shows "appends (fold_run body xs) (concat (map h xs))"
  using assms
proof (induction xs)
  case (Cons x xs)
  then show ?case using appends_bind [of "body x" "h x" "fold_run body xs"] by simp
next
  case Nil
  show ?case using appends_return by (simp add: appends_def)
qed

lemma appends_emit_vertex: "appends (\<lambda>r. Some (emit_vertex r v)) [v]"
  unfolding appends_def
proof (intro allI impI)
  fix r assume room: "rw_room r (length [v])"
  then obtain d where d: "rw_indices r = Some d" "unat (rw_num_indices r) < length d" "length d < 2 ^ 32"
    by (auto simp: rw_room_def split: option.splits)
  then have "unat (rw_num_indices r + 1) = unat (rw_num_indices r) + 1"
    by (intro unat_Suc_u32) simp
  then show "\<exists>r'. Some (emit_vertex r v) = Some (Inr r') \<and> appended r [v] r'"
    using d by (simp add: emit_vertex_def appended_def emitted_def take_Suc_conv_app_nth
        flip: Suc_eq_plus1)
qed

lemma appends_emit:
  "appends (\<lambda>r. Some (emit_line r a b)) [a, b]"
  "appends (\<lambda>r. Some (emit_tri r a b c)) [a, b, c]"
  using appends_res_bind [OF appends_emit_vertex appends_emit_vertex]
    appends_res_bind [OF appends_emit_vertex appends_res_bind [OF appends_emit_vertex appends_emit_vertex]]
  by (simp_all add: emit_line_def emit_tri_def)

lemma appends_emit_line_pv:
  "p \<in> {a, b} \<Longrightarrow> appends (\<lambda>r. Some (emit_line_pv r a b p)) (rot_first p [a, b])"
  using appends_emit(1) by (auto simp: emit_line_pv_def rot_first_def)

lemma appends_emit_tri_pv:
  "p \<in> {a, b, c} \<Longrightarrow> appends (\<lambda>r. Some (emit_tri_pv r a b c p)) (rot_first p [a, b, c])"
  using appends_emit(2) by (auto simp: emit_tri_pv_def rot_first_def)

lemma appends_for:
  assumes "0 < s" and "unat n + unat s \<le> 2 ^ 32"
    and "\<And>j. unat s * j + unat k < unat n \<Longrightarrow> appends (body (of_nat (unat s * j))) (h j)"
  shows "appends (for_u32 k s n body 0) (concat (map h [0..<trips (unat k) (unat s) (unat n)]))"
proof -
  have s: "0 < unat s" using assms(1) by (simp add: word_less_nat_alt)
  have eq: "for_u32 k s n body 0 =
      fold_run (\<lambda>j. body (of_nat (unat s * j))) [0..<trips (unat k) (unat s) (unat n)]"
    by (rule ext) (rule for_u32_fold [OF assms(1,2)])
  show ?thesis unfolding eq using assms(3) trips_less_iff [OF s] by (intro appends_fold) simp
qed

section \<open>Reading the vertices\<close>

definition idx_ok :: "u32 list option \<Rightarrow> u32 \<Rightarrow> bool" where
  "idx_ok idx n = (case idx of Some xs \<Rightarrow> unat n \<le> length xs | None \<Rightarrow> True)"

definition vertices :: "u32 list option \<Rightarrow> u32 \<Rightarrow> u32 \<Rightarrow> u32 list" where
  "vertices idx base n = (case idx of Some xs \<Rightarrow> take (unat n) xs
    | None \<Rightarrow> map (\<lambda>i. base + of_nat i) [0..<unat n])"

lemma length_vertices [simp]: "idx_ok idx n \<Longrightarrow> length (vertices idx base n) = unat n"
  by (auto simp: idx_ok_def vertices_def split: option.splits)

lemma idx_at_vertices:
  assumes "idx_ok idx n" and "i < unat n"
  shows "idx_at idx (of_nat i) base = Inr (vertices idx base n ! i)"
proof -
  have "i < 2 ^ 32" using assms(2) unat_u32_less [of n] by simp
  then have "unat (of_nat i :: u32) = i" by (rule unat_of_nat_small)
  then show ?thesis using assms
    by (auto simp: idx_at_def idx_ok_def vertices_def split: option.splits)
qed

lemma idx_at_offset:
  assumes "idx_ok idx n" and "i + d < unat n"
  shows "idx_at idx (of_nat i + of_nat d) base = Inr (vertices idx base n ! (i + d))"
  using idx_at_vertices [OF assms, of base] by simp

lemma idx_at2_ok:
  assumes "idx_ok idx n" and "i + 1 < unat n"
  shows "idx_at2 idx base (of_nat i) f =
    f (vertices idx base n ! i) (vertices idx base n ! (i + 1))"
  using idx_at_offset [OF assms(1), of i 0] idx_at_offset [OF assms(1), of i 1] assms(2)
  by (simp add: idx_at2_def)

lemma idx_at3_ok:
  assumes "idx_ok idx n" and "i + 2 < unat n"
  shows "idx_at3 idx base (of_nat i) f =
    f (vertices idx base n ! i) (vertices idx base n ! (i + 1)) (vertices idx base n ! (i + 2))"
  using idx_at_offset [OF assms(1), of i 2] assms(2) by (simp add: idx_at3_def idx_at2_ok [OF assms(1)])

lemma idx_at4_ok:
  assumes "idx_ok idx n" and "i + 3 < unat n"
  shows "idx_at4 idx base (of_nat i) f =
    f (vertices idx base n ! i) (vertices idx base n ! (i + 1)) (vertices idx base n ! (i + 2))
      (vertices idx base n ! (i + 3))"
  using idx_at_offset [OF assms(1), of i 3] assms(2) by (simp add: idx_at4_def idx_at3_ok [OF assms(1)])

section \<open>Index windows and the reference\<close>

text \<open>
  A reference function consumes \<open>s\<close> vertices at a time while more than \<open>k\<close> are left;
  iteration \<open>j\<close> of the loop reads the same vertices by index.
\<close>

lemma windows_fold:
  assumes f: "\<And>j vs. f j vs = (if length vs \<le> k then [] else g j vs @ f (Suc j) (drop s vs))"
    and s: "0 < s"
  shows "concat (map (\<lambda>j. g (i + j) (drop (s * j) vs)) [0..<trips k s (length vs)]) = f i vs"
proof (induction "trips k s (length vs)" arbitrary: i vs)
  case 0
  then have "length vs \<le> k" by (auto simp: trips_def split: if_splits)
  then have "f i vs = []" by (subst f) simp
  then show ?case using 0 by simp
next
  case (Suc m)
  then have k: "k < length vs" by (auto simp: trips_def split: if_splits)
  have m: "trips k s (length (drop s vs)) = m"
  proof (cases "s \<le> length vs")
    case True
    then show ?thesis using trips_step [of s k "length vs - s"] s k Suc.hyps(2) by simp
  next
    case False
    then have "(length vs - k - 1) div s = 0" by simp
    then show ?thesis using False k Suc.hyps(2) by (simp add: trips_def)
  qed
  have IH: "concat (map (\<lambda>j. g (Suc i + j) (drop (s * j) (drop s vs))) [0..<m]) =
      f (Suc i) (drop s vs)"
    using Suc.hyps(1) [OF m [symmetric], of "Suc i"] m by simp
  have "concat (map (\<lambda>j. g (i + j) (drop (s * j) vs)) [0..<Suc m]) =
      g i vs @ f (Suc i) (drop s vs)"
    using IH by (simp add: upt_0_Suc comp_def add.commute del: upt_Suc)
  moreover have "f i vs = g i vs @ f (Suc i) (drop s vs)" using k by (subst f) simp
  ultimately show ?case unfolding Suc.hyps(2) [symmetric] by (simp only:)
qed

lemma appends_windows:
  assumes f: "\<And>i vs. f i vs = (if length vs \<le> unat k then [] else g i vs @ f (i + unat s) (drop (unat s) vs))"
    and "0 < s" and "unat n + unat s \<le> 2 ^ 32" and "length vs = unat n"
    and body: "\<And>i. i + unat k < unat n \<Longrightarrow> appends (body (of_nat i)) (g i (drop i vs))"
  shows "appends (for_u32 k s n body 0) (f 0 vs)"
proof -
  have s: "0 < unat s" using assms(2) by (simp add: word_less_nat_alt)
  have f': "f (unat s * j) vs = (if length vs \<le> unat k then []
      else g (unat s * j) vs @ f (unat s * Suc j) (drop (unat s) vs))" for j vs
    using f [of "unat s * j" vs] by (simp add: add.commute)
  have eq: "concat (map (\<lambda>j. g (unat s * (0 + j)) (drop (unat s * j) vs)) [0..<trips (unat k) (unat s) (length vs)])
      = f (unat s * 0) vs"
    by (rule windows_fold [of "\<lambda>j. f (unat s * j)" "unat k" "\<lambda>j. g (unat s * j)" "unat s" 0 vs, OF f' s])
  have "appends (for_u32 k s n body 0)
      (concat (map (\<lambda>j. g (unat s * j) (drop (unat s * j) vs)) [0..<trips (unat k) (unat s) (unat n)]))"
    by (rule appends_for [OF assms(2,3)]) (rule body)
  then show ?thesis using eq unfolding assms(4) by simp
qed

lemma ref_steps:
  "ref_lines lp vs = (if length vs \<le> 1 then []
    else rot_first (if lp then vs ! 1 else vs ! 0) [vs ! 0, vs ! 1] # ref_lines lp (drop 2 vs))"
  "ref_line_strip lp vs = (if length vs \<le> 1 then []
    else rot_first (if lp then vs ! 1 else vs ! 0) [vs ! 0, vs ! 1] # ref_line_strip lp (drop 1 vs))"
  "ref_triangles lp vs = (if length vs \<le> 2 then []
    else rot_first (if lp then vs ! 2 else vs ! 0) [vs ! 0, vs ! 1, vs ! 2] # ref_triangles lp (drop 3 vs))"
  "ref_triangle_strip lp flip vs = (if length vs \<le> 2 then []
    else rot_first (if lp then vs ! 2 else vs ! 0)
        (if flip then [vs ! 1, vs ! 0, vs ! 2] else [vs ! 0, vs ! 1, vs ! 2])
      # ref_triangle_strip lp (\<not> flip) (drop 1 vs))"
  "ref_fan lp hub vs = (if length vs \<le> 1 then []
    else rot_first (if lp then vs ! 1 else vs ! 0) [hub, vs ! 0, vs ! 1] # ref_fan lp hub (drop 1 vs))"
  "ref_quads flat vs = (if length vs \<le> 3 then []
    else (if flat then [[vs ! 3, vs ! 0, vs ! 1], [vs ! 3, vs ! 1, vs ! 2]]
          else [[vs ! 0, vs ! 1, vs ! 2], [vs ! 0, vs ! 2, vs ! 3]]) @ ref_quads flat (drop 4 vs))"
  "ref_quads_line vs = (if length vs \<le> 3 then []
    else [[vs ! 0, vs ! 1], [vs ! 1, vs ! 2], [vs ! 2, vs ! 3], [vs ! 3, vs ! 0]]
      @ ref_quads_line (drop 4 vs))"
  "ref_quad_strip flat vs = (if length vs \<le> 3 then []
    else (if flat then [[vs ! 3, vs ! 2, vs ! 0], [vs ! 3, vs ! 0, vs ! 1]]
          else [[vs ! 0, vs ! 1, vs ! 2], [vs ! 2, vs ! 1, vs ! 3]]) @ ref_quad_strip flat (drop 2 vs))"
  "ref_quad_strip_line vs = (if length vs \<le> 3 then []
    else [[vs ! 0, vs ! 1], [vs ! 1, vs ! 3], [vs ! 3, vs ! 2], [vs ! 2, vs ! 0]]
      @ ref_quad_strip_line (drop 2 vs))"
  "ref_polygon hub vs = (if length vs \<le> 1 then []
    else [hub, vs ! 0, vs ! 1] # ref_polygon hub (drop 1 vs))"
  apply -
  subgoal by (cases vs rule: ref_quads_line.cases) simp_all
  subgoal by (cases vs rule: ref_quads_line.cases) simp_all
  subgoal by (cases vs rule: ref_quads_line.cases) simp_all
  subgoal by (cases vs rule: ref_quads_line.cases) simp_all
  subgoal by (cases vs rule: ref_quads_line.cases) simp_all
  subgoal by (cases vs rule: ref_quads_line.cases) simp_all
  subgoal by (cases vs rule: ref_quads_line.cases) simp_all
  subgoal by (cases vs rule: ref_quads_line.cases) simp_all
  subgoal by (cases vs rule: ref_quads_line.cases) simp_all
  subgoal by (cases vs rule: ref_quads_line.cases) simp_all
  done

section \<open>Each loop writes what the reference gives\<close>

lemmas window_simps = idx_at2_ok idx_at3_ok idx_at4_ok appends_emit_line_pv appends_emit_tri_pv
  appends_emit

lemma loop_lines:
  assumes "idx_ok idx n" and "unat n + 2 \<le> 2 ^ 32"
  shows "appends (\<lambda>r. rewrite_lines r idx base n lp) (concat (ref_lines lp (vertices idx base n)))"
  unfolding rewrite_lines_def
  by (rule appends_windows [where f = "\<lambda>i vs. concat (ref_lines lp vs)"
        and g = "\<lambda>i vs. rot_first (if lp then vs ! 1 else vs ! 0) [vs ! 0, vs ! 1]"])
    (use assms in \<open>simp_all add: ref_steps(1) window_simps\<close>)

lemma loop_line_strip:
  assumes "idx_ok idx n" and "unat n + 1 \<le> 2 ^ 32"
  shows "appends (\<lambda>r. rewrite_line_strip r idx base n lp)
    (concat (ref_line_strip lp (vertices idx base n)))"
  unfolding rewrite_line_strip_def
  by (rule appends_windows [where f = "\<lambda>i vs. concat (ref_line_strip lp vs)"
        and g = "\<lambda>i vs. rot_first (if lp then vs ! 1 else vs ! 0) [vs ! 0, vs ! 1]"])
    (use assms in \<open>simp_all add: ref_steps(2) window_simps\<close>)

lemma loop_triangles:
  assumes "idx_ok idx n" and "unat n + 3 \<le> 2 ^ 32"
  shows "appends (\<lambda>r. rewrite_triangles r idx base n lp)
    (concat (ref_triangles lp (vertices idx base n)))"
  unfolding rewrite_triangles_def
  by (rule appends_windows [where f = "\<lambda>i vs. concat (ref_triangles lp vs)"
        and g = "\<lambda>i vs. rot_first (if lp then vs ! 2 else vs ! 0) [vs ! 0, vs ! 1, vs ! 2]"])
    (use assms in \<open>simp_all add: ref_steps(3) window_simps\<close>)

lemma odd_of_nat_u32: "(of_nat i :: u32) AND 1 \<noteq> 0 \<longleftrightarrow> odd i"
  by (simp add: and_one_eq flip: even_iff_mod_2_eq_zero)

lemma loop_triangle_strip:
  assumes "idx_ok idx n" and "unat n + 1 \<le> 2 ^ 32"
  shows "appends (\<lambda>r. rewrite_triangle_strip r idx base n lp)
    (concat (ref_triangle_strip lp False (vertices idx base n)))"
proof -
  let ?f = "\<lambda>(i :: nat) vs :: u32 list. concat (ref_triangle_strip lp (odd i) vs)"
  have "appends (\<lambda>r. rewrite_triangle_strip r idx base n lp) (?f 0 (vertices idx base n))"
    unfolding rewrite_triangle_strip_def
    by (rule appends_windows [where f = ?f
          and g = "\<lambda>i vs. rot_first (if lp then vs ! 2 else vs ! 0)
            (if odd i then [vs ! 1, vs ! 0, vs ! 2] else [vs ! 0, vs ! 1, vs ! 2])"])
      (use assms in \<open>simp_all add: ref_steps(4) window_simps odd_of_nat_u32\<close>)
  then show ?thesis by simp
qed

lemma appends_emit_pairs:
  "appends (\<lambda>r. Some (res_bind (emit_tri r a b c) (\<lambda>r. emit_tri r d e f))) [a, b, c, d, e, f]"
  "appends (\<lambda>r. Some (res_bind (emit_line r a b) (\<lambda>r. res_bind (emit_line r c d) (\<lambda>r.
      res_bind (emit_line r e f) (\<lambda>r. emit_line r g h))))) [a, b, c, d, e, f, g, h]"
  using appends_res_bind [OF appends_emit(2) appends_emit(2)]
    appends_res_bind [OF appends_emit(1) appends_res_bind [OF appends_emit(1)
      appends_res_bind [OF appends_emit(1) appends_emit(1)]]]
  by simp_all

lemma loop_quads:
  assumes "idx_ok idx n" and "unat n + 4 \<le> 2 ^ 32"
  shows "appends (\<lambda>r. rewrite_quads r idx base n flat)
    (concat (ref_quads flat (vertices idx base n)))"
  unfolding rewrite_quads_def
  by (rule appends_windows [where f = "\<lambda>i vs. concat (ref_quads flat vs)"
        and g = "\<lambda>i vs. if flat then [vs ! 3, vs ! 0, vs ! 1, vs ! 3, vs ! 1, vs ! 2]
          else [vs ! 0, vs ! 1, vs ! 2, vs ! 0, vs ! 2, vs ! 3]"])
    (use assms in \<open>simp_all add: ref_steps(6) window_simps appends_emit_pairs\<close>)

lemma loop_quads_line:
  assumes "idx_ok idx n" and "unat n + 4 \<le> 2 ^ 32"
  shows "appends (\<lambda>r. rewrite_quads_line r idx base n)
    (concat (ref_quads_line (vertices idx base n)))"
  unfolding rewrite_quads_line_def
  by (rule appends_windows [where f = "\<lambda>i vs. concat (ref_quads_line vs)"
        and g = "\<lambda>i vs. [vs ! 0, vs ! 1, vs ! 1, vs ! 2, vs ! 2, vs ! 3, vs ! 3, vs ! 0]"])
    (use assms in \<open>simp_all add: ref_steps(7) window_simps appends_emit_pairs\<close>)

lemma loop_quad_strip:
  assumes "idx_ok idx n" and "unat n + 2 \<le> 2 ^ 32"
  shows "appends (\<lambda>r. rewrite_quad_strip r idx base n flat)
    (concat (ref_quad_strip flat (vertices idx base n)))"
proof (cases "n < 4")
  case True
  then have "unat n \<le> 3" by (simp add: word_less_nat_alt)
  then show ?thesis using True assms
    by (simp add: rewrite_quad_strip_def ref_steps(8) appends_return)
next
  case False
  then show ?thesis unfolding rewrite_quad_strip_def if_not_P [OF False]
    by (intro appends_windows [where f = "\<lambda>i vs. concat (ref_quad_strip flat vs)"
          and g = "\<lambda>i vs. if flat then [vs ! 3, vs ! 2, vs ! 0, vs ! 3, vs ! 0, vs ! 1]
            else [vs ! 0, vs ! 1, vs ! 2, vs ! 2, vs ! 1, vs ! 3]"])
      (use assms in \<open>simp_all add: ref_steps(8) window_simps appends_emit_pairs\<close>)
qed

lemma loop_quad_strip_line:
  assumes "idx_ok idx n" and "unat n + 2 \<le> 2 ^ 32"
  shows "appends (\<lambda>r. rewrite_quad_strip_line r idx base n)
    (concat (ref_quad_strip_line (vertices idx base n)))"
proof (cases "n < 4")
  case True
  then have "unat n \<le> 3" by (simp add: word_less_nat_alt)
  then show ?thesis using True assms
    by (simp add: rewrite_quad_strip_line_def ref_steps(9) appends_return)
next
  case False
  then show ?thesis unfolding rewrite_quad_strip_line_def if_not_P [OF False]
    by (intro appends_windows [where f = "\<lambda>i vs. concat (ref_quad_strip_line vs)"
          and g = "\<lambda>i vs. [vs ! 0, vs ! 1, vs ! 1, vs ! 3, vs ! 3, vs ! 2, vs ! 2, vs ! 0]"])
      (use assms in \<open>simp_all add: ref_steps(9) window_simps appends_emit_pairs\<close>)
qed

lemma idx_at2_ok_next:
  assumes "idx_ok idx n" and "i + 2 < unat n"
  shows "idx_at2 idx base (of_nat i + 1) f =
    f (vertices idx base n ! (i + 1)) (vertices idx base n ! (i + 2))"
  using idx_at2_ok [OF assms(1), of "Suc i" base f] assms(2) by (simp add: add.commute)

lemma idx_at_hub: "idx_ok idx n \<Longrightarrow> 0 < unat n \<Longrightarrow> idx_at idx 0 base = Inr (hd (vertices idx base n))"
  using idx_at_vertices [of idx n 0 base] by (simp add: hd_conv_nth length_greater_0_conv [symmetric]
    del: length_greater_0_conv)

lemma ref_hub_steps:
  "ref_fan lp hub (tl vs) = (if length vs \<le> 2 then []
    else rot_first (if lp then vs ! 2 else vs ! 1) [hub, vs ! 1, vs ! 2] # ref_fan lp hub (tl (drop 1 vs)))"
  "ref_polygon hub (tl vs) = (if length vs \<le> 2 then []
    else [hub, vs ! 1, vs ! 2] # ref_polygon hub (tl (drop 1 vs)))"
  subgoal by (cases vs rule: ref_quads_line.cases) simp_all
  subgoal by (cases vs rule: ref_quads_line.cases) simp_all
  done

lemma loop_triangle_fan:
  assumes "idx_ok idx n" and "unat n + 1 \<le> 2 ^ 32"
  shows "appends (\<lambda>r. rewrite_triangle_fan r idx base n lp)
    (concat (ref_fan lp (hd (vertices idx base n)) (tl (vertices idx base n))))"
proof (cases "n < 3")
  case True
  then have "unat n - Suc 0 \<le> Suc 0" by (simp add: word_less_nat_alt)
  then show ?thesis using True assms
    by (simp add: rewrite_triangle_fan_def ref_steps(5) appends_return)
next
  case False
  let ?hub = "hd (vertices idx base n)"
  have "3 \<le> unat n" using False by (simp add: word_less_nat_alt)
  then have hub: "idx_at idx 0 base = Inr ?hub" using assms(1) by (intro idx_at_hub) simp_all
  show ?thesis unfolding rewrite_triangle_fan_def if_not_P [OF False] hub run_bind_simps
    by (intro appends_windows [where f = "\<lambda>i vs. concat (ref_fan lp ?hub (tl vs))"
          and g = "\<lambda>i vs. rot_first (if lp then vs ! 2 else vs ! 1) [?hub, vs ! 1, vs ! 2]"])
      (use assms in \<open>simp_all add: ref_hub_steps window_simps idx_at2_ok_next\<close>)
qed

lemma loop_polygon:
  assumes "idx_ok idx n" and "unat n + 1 \<le> 2 ^ 32"
  shows "appends (\<lambda>r. rewrite_polygon r idx base n)
    (concat (ref_polygon (hd (vertices idx base n)) (tl (vertices idx base n))))"
proof (cases "n < 3")
  case True
  then have "unat n - Suc 0 \<le> Suc 0" by (simp add: word_less_nat_alt)
  then show ?thesis using True assms
    by (simp add: rewrite_polygon_def ref_steps(10) appends_return)
next
  case False
  let ?hub = "hd (vertices idx base n)"
  have "3 \<le> unat n" using False by (simp add: word_less_nat_alt)
  then have hub: "idx_at idx 0 base = Inr ?hub" using assms(1) by (intro idx_at_hub) simp_all
  show ?thesis unfolding rewrite_polygon_def if_not_P [OF False] hub run_bind_simps
    by (intro appends_windows [where f = "\<lambda>i vs. concat (ref_polygon ?hub (tl vs))"
          and g = "\<lambda>i vs. [?hub, vs ! 1, vs ! 2]"])
      (use assms in \<open>simp_all add: ref_hub_steps window_simps idx_at2_ok_next\<close>)
qed

lemma idx_at_last:
  assumes "idx_ok idx n" and "0 < unat n"
  shows "idx_at idx (n - 1) base = Inr (last (vertices idx base n))"
proof -
  have "n - 1 = of_nat (unat n - 1)" using assms(2) by (simp add: of_nat_diff)
  then show ?thesis
    using idx_at_vertices [OF assms(1), of "unat n - 1" base] assms
    by (simp add: last_conv_nth length_greater_0_conv [symmetric] del: length_greater_0_conv)
qed

lemma ref_line_strip_snoc:
  "vs \<noteq> [] \<Longrightarrow> ref_line_strip lp (vs @ [v]) =
    ref_line_strip lp vs @ [rot_first (if lp then v else last vs) [last vs, v]]"
  by (induction lp vs rule: ref_line_strip.induct) simp_all

lemma loop_line_loop:
  assumes "idx_ok idx n" and "unat n + 1 \<le> 2 ^ 32"
  shows "appends (\<lambda>r. rewrite_line_loop r idx base n lp)
    (concat (ref_line_loop lp (vertices idx base n)))"
proof (cases "n < 2")
  case True
  then have "unat n < 2" by (simp add: word_less_nat_alt)
  then show ?thesis using True assms
    by (simp add: rewrite_line_loop_def ref_line_loop_def appends_return)
next
  case False
  let ?vs = "vertices idx base n"
  have n: "2 \<le> unat n" using False by (simp add: word_less_nat_alt)
  then have ne: "?vs \<noteq> []" using assms(1) length_vertices [of idx n base] by (metis list.size(3) not_numeral_le_zero)
  have ends: "idx_at idx 0 base = Inr (hd ?vs)" "idx_at idx (n - 1) base = Inr (last ?vs)"
    using idx_at_hub idx_at_last assms(1) n by simp_all
  have "appends (\<lambda>r. rewrite_line_strip r idx base n lp) (concat (ref_line_strip lp ?vs))"
    by (rule loop_line_strip [OF assms])
  moreover have "appends (\<lambda>r. Some (emit_line_pv r (last ?vs) (hd ?vs) (if lp then hd ?vs else last ?vs)))
      (rot_first (if lp then hd ?vs else last ?vs) [last ?vs, hd ?vs])"
    by (rule appends_emit_line_pv) simp
  ultimately show ?thesis
    using appends_bind False n assms(1)
    by (simp add: rewrite_line_loop_def rewrite_line_strip_def ends ref_line_loop_def
        ref_line_strip_snoc [OF ne])
qed

lemma emit_line_emit_line_pv: "emit_line = (\<lambda>r a b. emit_line_pv r a b a)"
  by (simp add: emit_line_pv_def fun_eq_iff)

lemma loop_polygon_line:
  assumes "idx_ok idx n" and "unat n + 1 \<le> 2 ^ 32"
  shows "appends (\<lambda>r. rewrite_polygon_line r idx base n)
    (concat (ref_polygon_line (vertices idx base n)))"
proof -
  have "rewrite_polygon_line r idx base n = rewrite_line_loop r idx base n False" for r
    by (simp add: rewrite_polygon_line_def rewrite_line_loop_def emit_line_emit_line_pv)
  then show ?thesis using loop_line_loop [OF assms] by (simp add: ref_polygon_line_def)
qed

definition rewritable :: "PrimAssemblyState \<Rightarrow> bool" where
  "rewritable mode \<longleftrightarrow> primitive_mode mode \<notin> {PRIM_TYPE_INVALID, PRIM_TYPE_POINTS}"

lemma rewrite_indices_appends:
  assumes "idx_ok idx n" and "unat n + 4 \<le> 2 ^ 32" and "rewritable mode"
  shows "appends (\<lambda>r. rewrite_indices r mode idx base n)
    (concat (ref_prims mode (vertices idx base n)))"
  using assms
  by (cases "primitive_mode mode")
    (simp_all add: rewrite_indices_def ref_prims_def rewritable_def loop_lines loop_line_strip
      loop_line_loop loop_triangles loop_triangle_strip loop_triangle_fan loop_quads loop_quads_line
      loop_quad_strip loop_quad_strip_line loop_polygon loop_polygon_line)

section \<open>Sizing of the output buffer\<close>

lemma length_rot_first [simp]: "length (rot_first p vs) = length vs"
  by (simp add: rot_first_def flip: length_append) (metis add.commute length_append takeWhile_dropWhile_id)

lemma length_ref:
  "length (concat (ref_lines lp vs)) = 2 * (length vs div 2)"
  "length (concat (ref_line_strip lp vs)) = 2 * (length vs - 1)"
  "length (concat (ref_triangles lp vs)) = 3 * (length vs div 3)"
  "length (concat (ref_triangle_strip lp flip vs)) = 3 * (length vs - 2)"
  "length (concat (ref_fan lp hub vs)) = 3 * (length vs - 1)"
  "length (concat (ref_quads flat vs)) = 6 * (length vs div 4)"
  "length (concat (ref_quads_line vs)) = 8 * (length vs div 4)"
  "length (concat (ref_quad_strip flat vs)) = 6 * ((length vs - 2) div 2)"
  "length (concat (ref_quad_strip_line vs)) = 8 * ((length vs - 2) div 2)"
  "length (concat (ref_polygon hub vs)) = 3 * (length vs - 1)"
  subgoal by (induction lp vs rule: ref_lines.induct) simp_all
  subgoal by (induction lp vs rule: ref_line_strip.induct) simp_all
  subgoal by (induction lp vs rule: ref_triangles.induct) (simp_all add: div_if)
  subgoal by (induction lp flip vs rule: ref_triangle_strip.induct) simp_all
  subgoal by (induction lp hub vs rule: ref_fan.induct) simp_all
  subgoal by (induction flat vs rule: ref_quads.induct) (simp_all add: div_if)
  subgoal by (induction vs rule: ref_quads_line.induct) (simp_all add: div_if)
  subgoal by (induction flat vs rule: ref_quad_strip.induct) simp_all
  subgoal by (induction vs rule: ref_quad_strip_line.induct) simp_all
  subgoal by (induction hub vs rule: ref_polygon.induct) simp_all
  done

lemma length_ref_line_loop:
  "length (concat (ref_line_loop lp vs)) = (if length vs < 2 then 0 else 2 * length vs)"
  by (simp add: ref_line_loop_def length_ref(2) del: length_concat)

lemma max_output_indices_covers:
  assumes "unat n < 2 ^ 30" and "length vs = unat n"
  shows "length (concat (ref_prims mode vs)) \<le>
    unat (max_output_indices (primitive_mode mode) (polygon_mode mode) n)"
proof -
  note len = length_ref length_ref_line_loop
  have two: "2 \<le> n \<longleftrightarrow> 2 \<le> unat n" "3 \<le> n \<longleftrightarrow> 3 \<le> unat n" "4 \<le> n \<longleftrightarrow> 4 \<le> unat n"
    by (simp_all add: word_le_nat_alt)
  have sub: "1 \<le> unat n \<Longrightarrow> unat (n - 1) = unat n - 1" "2 \<le> unat n \<Longrightarrow> unat (n - 2) = unat n - 2"
    by (simp_all add: unat_sub word_le_nat_alt)
  show ?thesis
    using assms
    by (cases "primitive_mode mode")
      (auto simp: ref_prims_def max_output_indices_def len two sub unat_mult_small unat_div
        ref_polygon_line_def simp del: length_concat left_diff_distrib_numeral)
qed

section \<open>The entry points\<close>

definition buf_ok :: "PrimRewriteBuf \<Rightarrow> bool" where
  "buf_ok buf \<longleftrightarrow> length (buf_data buf) = unat (buf_capacity buf)"

definition rw_output :: "PrimRewrite \<Rightarrow> u32 list" where
  "rw_output r = (case rw_indices r of None \<Rightarrow> [] | Some d \<Rightarrow> take (unat (rw_num_indices r)) d)"

lemma rw_output_null [simp]: "rw_output null_rewrite = []"
  by (simp add: rw_output_def null_rewrite_def)

lemma ensure_capacity_ok:
  assumes "buf_ok buf"
  shows "buf_ok (ensure_capacity fresh buf needed)"
    and "unat needed \<le> length (buf_data (ensure_capacity fresh buf needed))"
    and "prefix (buf_data buf) (buf_data (ensure_capacity fresh buf needed))"
proof -
  have "\<not> needed \<le> buf_capacity buf \<Longrightarrow>
      unat (buf_capacity buf) \<le> unat (max needed (buf_capacity buf * 2))"
    by (simp add: max_def word_le_nat_alt)
  then show "buf_ok (ensure_capacity fresh buf needed)"
    and "unat needed \<le> length (buf_data (ensure_capacity fresh buf needed))"
    and "prefix (buf_data buf) (buf_data (ensure_capacity fresh buf needed))"
    using assms by (auto simp: ensure_capacity_def buf_ok_def Let_def word_le_nat_alt max_def)
qed

lemma appends_run:
  assumes "appends m vs" and "buf_ok buf" and "length vs \<le> length (buf_data buf)"
  obtains r where "m (null_rewrite\<lparr>rw_indices := Some (buf_data buf)\<rparr>) = Some (Inr r)"
    and "rw_output r = vs" and "buf_ok (write_back buf r)"
    and "rw_output r = take (unat (rw_num_indices r)) (buf_data (write_back buf r))"
    and "unat (rw_num_indices r) = length vs"
proof -
  let ?r = "null_rewrite\<lparr>rw_indices := Some (buf_data buf)\<rparr>"
  have "rw_room ?r (length vs)"
    using assms(2,3) unat_u32_less [of "buf_capacity buf"]
    by (simp add: rw_room_def null_rewrite_def buf_ok_def)
  then obtain r where r: "m ?r = Some (Inr r)" "appended ?r vs r"
    using assms(1) by (auto simp: appends_def)
  then obtain d where "rw_indices r = Some d" "length d = length (buf_data buf)"
    by (auto simp: appended_def)
  then show thesis using r assms(2)
    by (intro that [of r])
      (auto simp: appended_def emitted_def rw_output_def write_back_def buf_ok_def null_rewrite_def)
qed

lemma rewritable_if_needs: "needs_rewrite mode \<Longrightarrow> primitive_mode mode \<noteq> PRIM_TYPE_INVALID \<Longrightarrow> rewritable mode"
  by (auto simp: needs_rewrite_def rewritable_def)

lemma ref_prims_empty:
  "unat n < 2 ^ 30 \<Longrightarrow> length vs = unat n \<Longrightarrow>
    max_output_indices (primitive_mode mode) (polygon_mode mode) n = 0 \<Longrightarrow>
    concat (ref_prims mode vs) = []"
  using max_output_indices_covers [of n vs mode] by simp

definition mode_ok :: "PrimAssemblyState \<Rightarrow> bool" where
  "mode_ok mode \<longleftrightarrow> primitive_mode mode \<noteq> PRIM_TYPE_INVALID \<and>
    (polygon_mode mode \<noteq> POLY_MODE_POINT \<or> primitive_mode mode \<noteq> PRIM_TYPE_POLYGON)"

lemma indexed_run:
  assumes "mode_ok mode" and "needs_rewrite mode" and "unat n < 2 ^ 30"
    and "unat n \<le> length idx" and "buf_ok buf"
  shows "\<exists>buf' r. pgraph_prim_rewrite_indexed fresh buf mode idx n = Some (Inr (buf', r)) \<and>
    buf_ok buf' \<and> rw_output r = concat (ref_prims mode (take (unat n) idx))"
proof (cases "max_output_indices (primitive_mode mode) (polygon_mode mode) n = 0")
  case True
  then show ?thesis using assms ref_prims_empty [of n "take (unat n) idx" mode]
    by (auto simp del: concat_eq_Nil_conv simp: pgraph_prim_rewrite_indexed_def mode_ok_def)
next
  case False
  let ?max = "max_output_indices (primitive_mode mode) (polygon_mode mode) n"
  let ?buf = "ensure_capacity fresh buf ?max"
  let ?vs = "vertices (Some idx) 0 n"
  have idx: "idx_ok (Some idx) n" using assms(4) by (simp add: idx_ok_def)
  have "appends (\<lambda>r. rewrite_indices r mode (Some idx) 0 n) (concat (ref_prims mode ?vs))"
    using assms(1-3) rewritable_if_needs
    by (intro rewrite_indices_appends [OF idx]) (auto simp: mode_ok_def)
  moreover have "length (concat (ref_prims mode ?vs)) \<le> length (buf_data ?buf)"
    using max_output_indices_covers [OF assms(3) length_vertices [OF idx]] ensure_capacity_ok(2) [OF assms(5)]
    by (rule order_trans)
  ultimately obtain r where "rewrite_indices (null_rewrite\<lparr>rw_indices := Some (buf_data ?buf)\<rparr>) mode (Some idx) 0 n
      = Some (Inr r)" "rw_output r = concat (ref_prims mode ?vs)" "buf_ok (write_back ?buf r)"
    by (elim appends_run [OF _ ensure_capacity_ok(1) [OF assms(5)]])
  then show ?thesis using assms(1,2) False
    by (simp add: pgraph_prim_rewrite_indexed_def mode_ok_def Let_def vertices_def)
qed

text \<open>
  C1.  Rewriting an indexed draw returns, never writes outside the (grown) output
  buffer, and leaves there exactly the vertices the reference assembly gives for
  the first \<open>n\<close> indices.
\<close>

theorem prim_rewrite_indexed_correct:
  assumes "mode_ok mode" and "needs_rewrite mode" and "unat n < 2 ^ 30"
    and "unat n \<le> length idx" and "buf_ok buf"
  shows "\<exists>buf' r. pgraph_prim_rewrite_indexed fresh buf mode idx n = Some (Inr (buf', r)) \<and>
    buf_ok buf' \<and> rw_output r = concat (ref_prims mode (take (unat n) idx))"
  using assms by (rule indexed_run)

theorem prim_rewrite_indexed_correct_witness:
  "\<exists>buf' r. pgraph_prim_rewrite_indexed (\<lambda>_. 0) pgraph_prim_rewrite_init
      \<lparr>primitive_mode = PRIM_TYPE_TRIANGLE_STRIP, polygon_mode = POLY_MODE_FILL,
       last_provoking = True, flat_shading = True\<rparr> [10, 11, 12, 13] 4 = Some (Inr (buf', r)) \<and>
    buf_ok buf' \<and> rw_output r = [12, 10, 11, 13, 12, 11]"
  using prim_rewrite_indexed_correct [of "\<lparr>primitive_mode = PRIM_TYPE_TRIANGLE_STRIP,
      polygon_mode = POLY_MODE_FILL, last_provoking = True, flat_shading = True\<rparr>" 4 "[10, 11, 12, 13]"
      pgraph_prim_rewrite_init "\<lambda>_. 0"]
  by (simp add: mode_ok_def needs_rewrite_def buf_ok_def pgraph_prim_rewrite_init_def ref_prims_def
      rot_first_def)

lemma total_max_output_eq:
  assumes "unat n \<le> length counts"
  shows "total_max_output mode counts n = Some (Inr (sum_list (map
    (max_output_indices (primitive_mode mode) (polygon_mode mode)) (take (unat n) counts))))"
proof -
  let ?mo = "max_output_indices (primitive_mode mode) (polygon_mode mode)"
  have "fold_run (\<lambda>j tot. Some (res_bind (get_at counts (unat (of_nat j :: u32))) (\<lambda>c. Inr (tot + ?mo c))))
      [0..<m] tot = Some (Inr (tot + sum_list (map ?mo (take m counts))))" if "m \<le> unat n" for m tot
    using that
  proof (induction m)
    case (Suc m)
    then have "unat (of_nat m :: u32) = m" using unat_u32_less [of n] by (intro unat_of_nat_small) simp
    then show ?case using Suc assms by (simp add: fold_run_append take_Suc_conv_app_nth add.assoc)
  qed simp
  then show ?thesis by (simp add: total_max_output_def for_u32_all)
qed

lemma max_output_indices_le:
  "unat c < 2 ^ 30 \<Longrightarrow> unat (max_output_indices pm poly c) \<le> 4 * unat c"
  by (cases pm)
    (auto simp: max_output_indices_def word_le_nat_alt unat_sub unat_mult_small unat_div
      simp del: left_diff_distrib_numeral)

lemma unat_sum_list:
  "(\<Sum>x\<leftarrow>xs. unat (f x)) < 2 ^ 32 \<Longrightarrow> unat (\<Sum>x\<leftarrow>xs. f x :: u32) = (\<Sum>x\<leftarrow>xs. unat (f x))"
  by (induction xs) (simp_all add: unat_word_ariths(1))

lemma ref_prims_Nil: "ref_prims mode [] = []"
  by (simp add: ref_prims_def ref_line_loop_def ref_polygon_line_def split: ShaderPrimitiveMode.split)

definition ref_ranges :: "PrimAssemblyState \<Rightarrow> u32 list \<Rightarrow> u32 list \<Rightarrow> nat \<Rightarrow> u32 list" where
  "ref_ranges mode starts counts n =
    concat (map (\<lambda>j. concat (ref_prims mode (vertices None (starts ! j) (counts ! j)))) [0..<n])"

lemma range_appends:
  assumes "rewritable mode" and "j < length starts" and "j < length counts" and "j < 2 ^ 32"
    and "unat (counts ! j) < 2 ^ 30"
  shows "appends (\<lambda>r. run_bind (Some (get_at counts (unat (of_nat j :: u32)))) (\<lambda>c.
      if c = 0 then Some (Inr r)
      else run_bind (Some (get_at starts (unat (of_nat j :: u32)))) (\<lambda>st.
        rewrite_indices r mode None st c)))
    (concat (ref_prims mode (vertices None (starts ! j) (counts ! j))))"
proof (cases "counts ! j = 0")
  case True
  then show ?thesis using assms unat_of_nat_small [OF assms(4)]
    by (simp add: vertices_def ref_prims_Nil appends_return)
next
  case False
  then show ?thesis using assms unat_of_nat_small [OF assms(4)]
    by (simp add: rewrite_indices_appends idx_ok_def)
qed

lemma ref_ranges_size:
  assumes "n \<le> length counts" and "\<And>j. j < n \<Longrightarrow> unat (counts ! j) < 2 ^ 30"
  shows "length (ref_ranges mode starts counts n) \<le>
    (\<Sum>c\<leftarrow>take n counts. unat (max_output_indices (primitive_mode mode) (polygon_mode mode) c))"
  using assms
proof (induction n)
  case (Suc n)
  have "length (concat (ref_prims mode (vertices None (starts ! n) (counts ! n)))) \<le>
      unat (max_output_indices (primitive_mode mode) (polygon_mode mode) (counts ! n))"
    using Suc.prems by (intro max_output_indices_covers) (simp_all add: idx_ok_def)
  then show ?case using Suc by (simp add: ref_ranges_def take_Suc_conv_app_nth del: length_concat)
qed (simp add: ref_ranges_def)

text \<open>
  C2.  Rewriting a list of vertex ranges (the draw-arrays case, and with one range
  the sequential case) returns, stays inside the buffer although the sizes are
  summed in 32 bits, and writes the primitives of every range in order.
\<close>

theorem prim_rewrite_ranges_correct:
  assumes "mode_ok mode" and "needs_rewrite mode" and "buf_ok buf"
    and "unat n \<le> length starts" and "unat n \<le> length counts"
    and "(\<Sum>c\<leftarrow>take (unat n) counts. 4 * unat c) < 2 ^ 32"
  shows "\<exists>buf' r. pgraph_prim_rewrite_ranges fresh buf mode starts counts n = Some (Inr (buf', r)) \<and>
    buf_ok buf' \<and> rw_output r = ref_ranges mode starts counts (unat n)"
proof -
  let ?mo = "max_output_indices (primitive_mode mode) (polygon_mode mode)"
  let ?total = "\<Sum>c\<leftarrow>take (unat n) counts. ?mo c"
  let ?buf = "ensure_capacity fresh buf ?total"
  have small: "unat c < 2 ^ 30" if "c \<in> set (take (unat n) counts)" for c
    using member_le_sum_list [of "4 * unat c" "map (\<lambda>c. 4 * unat c) (take (unat n) counts)"] that assms(6)
    by auto
  then have small': "unat (counts ! j) < 2 ^ 30" if "j < unat n" for j
    using that assms(5) by (metis in_set_conv_nth length_take min.absorb2 nth_take)
  have "(\<Sum>c\<leftarrow>take (unat n) counts. unat (?mo c)) \<le> (\<Sum>c\<leftarrow>take (unat n) counts. 4 * unat c)"
    using small by (intro sum_list_mono max_output_indices_le) auto
  then have total: "unat ?total = (\<Sum>c\<leftarrow>take (unat n) counts. unat (?mo c))"
    using assms(6) by (intro unat_sum_list) simp
  have size: "length (ref_ranges mode starts counts (unat n)) \<le> unat ?total"
    using ref_ranges_size [OF assms(5) small'] total by simp
  show ?thesis
  proof (cases "?total = 0")
    case True
    then show ?thesis using assms(1-3,5) size
      by (simp add: pgraph_prim_rewrite_ranges_def total_max_output_eq mode_ok_def)
  next
    case False
    let ?body = "\<lambda>j r. run_bind (Some (get_at counts (unat (of_nat j :: u32)))) (\<lambda>c.
        if c = 0 then Some (Inr r)
        else run_bind (Some (get_at starts (unat (of_nat j :: u32)))) (\<lambda>st.
          rewrite_indices r mode None st c))"
    have "appends (fold_run ?body [0..<unat n]) (ref_ranges mode starts counts (unat n))"
      unfolding ref_ranges_def using assms(1,2,4,5) small' unat_u32_less [of n] rewritable_if_needs
      by (intro appends_fold range_appends) (auto simp: mode_ok_def)
    then obtain r where
      "fold_run ?body [0..<unat n] (null_rewrite\<lparr>rw_indices := Some (buf_data ?buf)\<rparr>) = Some (Inr r)"
      "rw_output r = ref_ranges mode starts counts (unat n)" "buf_ok (write_back ?buf r)"
      by (rule appends_run [OF _ ensure_capacity_ok(1) [OF assms(3)]
            order_trans [OF size ensure_capacity_ok(2) [OF assms(3)]]])
    then show ?thesis using assms(1,2,5) False
      by (simp add: pgraph_prim_rewrite_ranges_def total_max_output_eq mode_ok_def Let_def for_u32_all)
  qed
qed

theorem prim_rewrite_ranges_correct_witness:
  "\<exists>buf' r. pgraph_prim_rewrite_ranges (\<lambda>_. 7) pgraph_prim_rewrite_init
      \<lparr>primitive_mode = PRIM_TYPE_QUADS, polygon_mode = POLY_MODE_FILL,
       last_provoking = False, flat_shading = True\<rparr> [0, 100, 8] [4, 0, 5] 3 = Some (Inr (buf', r)) \<and>
    buf_ok buf' \<and> rw_output r = [3, 0, 1, 3, 1, 2, 11, 8, 9, 11, 9, 10]"
  using prim_rewrite_ranges_correct [of "\<lparr>primitive_mode = PRIM_TYPE_QUADS,
      polygon_mode = POLY_MODE_FILL, last_provoking = False, flat_shading = True\<rparr>"
      pgraph_prim_rewrite_init 3 "[0, 100, 8]" "[4, 0, 5]" "\<lambda>_. 7"]
  by (simp add: mode_ok_def needs_rewrite_def buf_ok_def pgraph_prim_rewrite_init_def ref_prims_def
      ref_ranges_def vertices_def upt_rec)

section \<open>Provoking vertices\<close>

lemma rot_first_rotate:
  assumes "p \<in> set vs"
  shows "rot_first p vs = rotate (length (takeWhile (\<lambda>v. v \<noteq> p) vs)) vs" and "hd (rot_first p vs) = p"
proof -
  have "rotate (length (takeWhile (\<lambda>v. v \<noteq> p) vs))
      (takeWhile (\<lambda>v. v \<noteq> p) vs @ dropWhile (\<lambda>v. v \<noteq> p) vs) = rot_first p vs"
    unfolding rot_first_def by (rule rotate_append)
  then show "rot_first p vs = rotate (length (takeWhile (\<lambda>v. v \<noteq> p) vs)) vs" by simp
  have ne: "dropWhile (\<lambda>v. v \<noteq> p) vs \<noteq> []" using assms by auto
  then show "hd (rot_first p vs) = p" using hd_dropWhile [OF ne] by (simp add: rot_first_def)
qed

text \<open>
  C3.  A line or triangle with a designated provoking vertex is emitted with that
  vertex first and as a rotation of the given vertices, so its winding is kept.
\<close>

theorem emit_tri_pv_rotates:
  assumes "p \<in> {a, b, c}" and "rw_room r 3"
  shows "\<exists>r' k. emit_tri_pv r a b c p = Inr r' \<and>
    emitted r' = emitted r @ rotate k [a, b, c] \<and> hd (rotate k [a, b, c]) = p"
proof -
  have "length (rot_first p [a, b, c]) = 3" by simp
  then obtain r' where "emit_tri_pv r a b c p = Inr r'" "emitted r' = emitted r @ rot_first p [a, b, c]"
    using appends_emit_tri_pv [OF assms(1)] assms(2) by (auto simp: appends_def appended_def numeral_3_eq_3)
  moreover obtain k where "rot_first p [a, b, c] = rotate k [a, b, c]"
    using rot_first_rotate(1) [of p "[a, b, c]"] assms(1) by simp
  moreover have "hd (rot_first p [a, b, c]) = p"
    using rot_first_rotate(2) [of p "[a, b, c]"] assms(1) by simp
  ultimately show ?thesis by (metis)
qed

theorem emit_tri_pv_rotates_witness:
  "\<exists>r' k. emit_tri_pv \<lparr>rw_indices = Some [0, 0, 0], rw_num_indices = 0\<rparr> 4 5 6 5 = Inr r' \<and>
    emitted r' = emitted \<lparr>rw_indices = Some [0, 0, 0], rw_num_indices = 0\<rparr> @ rotate k [4, 5, 6] \<and>
    hd (rotate k [4, 5, 6]) = (5 :: u32)"
  using emit_tri_pv_rotates [of 5 4 5 6 "\<lparr>rw_indices = Some [0, 0, 0], rw_num_indices = 0\<rparr>"]
  by (simp add: rw_room_def)

definition prim_size :: "PrimAssemblyState \<Rightarrow> nat" where
  "prim_size mode = (if primitive_mode mode \<in> {PRIM_TYPE_LINES, PRIM_TYPE_LINE_STRIP} then 2 else 3)"

definition provoking :: "PrimAssemblyState \<Rightarrow> nat \<Rightarrow> nat" where
  "provoking mode k = (case primitive_mode mode of
      PRIM_TYPE_LINES \<Rightarrow> 2 * k + (if last_provoking mode then 1 else 0)
    | PRIM_TYPE_LINE_STRIP \<Rightarrow> k + (if last_provoking mode then 1 else 0)
    | PRIM_TYPE_TRIANGLES \<Rightarrow> 3 * k + (if last_provoking mode then 2 else 0)
    | PRIM_TYPE_TRIANGLE_STRIP \<Rightarrow> k + (if last_provoking mode then 2 else 0)
    | _ \<Rightarrow> k + (if last_provoking mode then 2 else 1))"

lemma hd_rot_first [simp]: "p \<in> set vs \<Longrightarrow> hd (rot_first p vs) = p"
  by (rule rot_first_rotate(2))

lemma ref_hd:
  "k < length (ref_lines lp vs) \<Longrightarrow> hd (ref_lines lp vs ! k) = vs ! (2 * k + (if lp then 1 else 0))"
  "k < length (ref_line_strip lp vs) \<Longrightarrow> hd (ref_line_strip lp vs ! k) = vs ! (k + (if lp then 1 else 0))"
  "k < length (ref_triangles lp vs) \<Longrightarrow> hd (ref_triangles lp vs ! k) = vs ! (3 * k + (if lp then 2 else 0))"
  "k < length (ref_triangle_strip lp flip vs) \<Longrightarrow>
    hd (ref_triangle_strip lp flip vs ! k) = vs ! (k + (if lp then 2 else 0))"
  "k < length (ref_fan lp hub vs) \<Longrightarrow> hd (ref_fan lp hub vs ! k) = vs ! (k + (if lp then 1 else 0))"
  subgoal by (induction lp vs arbitrary: k rule: ref_lines.induct) (auto simp: nth_Cons split: nat.splits)
  subgoal by (induction lp vs arbitrary: k rule: ref_line_strip.induct) (auto simp: nth_Cons split: nat.splits)
  subgoal by (induction lp vs arbitrary: k rule: ref_triangles.induct)
      (auto simp: nth_Cons eval_nat_numeral split: nat.splits)
  subgoal by (induction lp flip vs arbitrary: k rule: ref_triangle_strip.induct)
      (auto simp: nth_Cons eval_nat_numeral split: nat.splits)
  subgoal by (induction lp hub vs arbitrary: k rule: ref_fan.induct) (auto simp: nth_Cons split: nat.splits)
  done

lemma ref_uniform:
  "p \<in> set (ref_lines lp vs) \<Longrightarrow> length p = 2"
  "p \<in> set (ref_line_strip lp vs) \<Longrightarrow> length p = 2"
  "p \<in> set (ref_triangles lp vs) \<Longrightarrow> length p = 3"
  "p \<in> set (ref_triangle_strip lp flip vs) \<Longrightarrow> length p = 3"
  "p \<in> set (ref_fan lp hub vs) \<Longrightarrow> length p = 3"
  subgoal by (induction lp vs rule: ref_lines.induct) auto
  subgoal by (induction lp vs rule: ref_line_strip.induct) auto
  subgoal by (induction lp vs rule: ref_triangles.induct) auto
  subgoal by (induction lp flip vs rule: ref_triangle_strip.induct) auto
  subgoal by (induction lp hub vs rule: ref_fan.induct) auto
  done

lemma concat_uniform_nth:
  "\<lbrakk>\<And>p. p \<in> set ps \<Longrightarrow> length p = w; 0 < w; w * k < length (concat ps)\<rbrakk> \<Longrightarrow>
    k < length ps \<and> concat ps ! (w * k) = hd (ps ! k)"
proof (induction ps arbitrary: k)
  case (Cons p ps)
  have p: "length p = w" using Cons.prems(1) by simp
  show ?case
  proof (cases k)
    case 0
    then show ?thesis using p Cons.prems(2) by (cases p) simp_all
  next
    case (Suc j)
    then have "j < length ps \<and> concat ps ! (w * j) = hd (ps ! j)"
      using Cons.prems p by (intro Cons.IH) auto
    then show ?thesis using Suc p by (simp add: nth_append)
  qed
qed simp

lemma ref_prims_provoking:
  assumes "primitive_mode mode \<in> {PRIM_TYPE_LINES, PRIM_TYPE_LINE_STRIP, PRIM_TYPE_TRIANGLES,
      PRIM_TYPE_TRIANGLE_STRIP, PRIM_TYPE_TRIANGLE_FAN}"
    and "prim_size mode * k < length (concat (ref_prims mode vs))"
  shows "concat (ref_prims mode vs) ! (prim_size mode * k) = vs ! provoking mode k \<and>
    provoking mode k < length vs"
proof -
  have "length p = prim_size mode" if "p \<in> set (ref_prims mode vs)" for p
    using that assms(1) ref_uniform by (auto simp: ref_prims_def prim_size_def)
  then have nth: "k < length (ref_prims mode vs)"
    "concat (ref_prims mode vs) ! (prim_size mode * k) = hd (ref_prims mode vs ! k)"
    using concat_uniform_nth [of "ref_prims mode vs" "prim_size mode" k] assms(2)
    by (auto simp: prim_size_def)
  moreover have "hd (ref_prims mode vs ! k) = vs ! provoking mode k \<and> provoking mode k < length vs"
    using assms nth(1)
    by (auto simp: ref_prims_def provoking_def prim_size_def ref_hd length_ref nth_tl simp del: length_concat)
  ultimately show ?thesis by simp
qed



end
