(* ===== verification/Swizzle.thy ===== *)
theory Swizzle
  imports Prelude
begin

text \<open>
  Conversion between linear and swizzled (Z-ordered) textures
  (\<open>hw/xbox/nv2a/pgraph/swizzle.c\<close>, \<open>swizzle.h\<close>).

  Buffers are byte lists and a copy outside one is an \<^const>\<open>Out_of_bounds\<close> fault.
  Pixel offsets inside a row or a swizzled box are 32-bit products, as in the
  source; the sums that form a pointer are not reduced.

  \<open>dep m x\<close> deposits the bits of \<open>x\<close> at the set positions of \<open>m\<close>; the lemmas show that
  the masks are disjoint and dense, that stepping an offset by
  \<open>(off - mask) & mask\<close> walks through \<open>dep mask 0, dep mask 1, \<dots>\<close>, and that
  swizzling followed by unswizzling gives the texture back.
\<close>

section \<open>Operations\<close>

partial_function (option) swizzle_mask_loop ::
  "u32 \<Rightarrow> u32 \<Rightarrow> u32 \<Rightarrow> u32 \<Rightarrow> u32 \<Rightarrow> u32 \<Rightarrow> u32 \<Rightarrow> u32 \<Rightarrow> (u32 \<times> u32 \<times> u32 \<times> u32) option" where
  [code]: "swizzle_mask_loop width height depth x y z b mask_bit =
    (let (x, m1) = (if b < width then (x OR mask_bit, push_bit 1 mask_bit) else (x, mask_bit));
         (y, m2) = (if b < height then (y OR m1, push_bit 1 m1) else (y, m1));
         (z, m3) = (if b < depth then (z OR m2, push_bit 1 m2) else (z, m2))
     in if b < width \<or> b < height \<or> b < depth
        then swizzle_mask_loop width height depth x y z (push_bit 1 b) m3
        else Some (x, y, z, m3))"

definition generate_swizzle_masks :: "u32 \<Rightarrow> u32 \<Rightarrow> u32 \<Rightarrow> (u32 \<times> u32 \<times> u32) run" where
  "generate_swizzle_masks width height depth =
    (case swizzle_mask_loop width height depth 0 0 0 1 1 of
       None \<Rightarrow> None
     | Some (x, y, z, mask_bit) \<Rightarrow>
         Some (if x XOR y XOR z = mask_bit - 1 then Inr (x, y, z) else Inl Assertion))"

definition memcpy_at :: "nat \<Rightarrow> u8 list \<Rightarrow> nat \<Rightarrow> nat \<Rightarrow> u8 list \<Rightarrow> u8 list res" where
  "memcpy_at n src soff doff dst =
    (if soff + n \<le> length src \<and> doff + n \<le> length dst
     then Inr (take doff dst @ take n (drop soff src) @ drop (doff + n) dst)
     else Inl Out_of_bounds)"

definition swizzle_box_internal ::
  "u8 list \<Rightarrow> u32 \<Rightarrow> u32 \<Rightarrow> u32 \<Rightarrow> u8 list \<Rightarrow> u32 \<Rightarrow> u32 \<Rightarrow> u32 \<Rightarrow> u8 list run" where
  "swizzle_box_internal src width height depth dst row_pitch slice_pitch bpp =
    run_bind (generate_swizzle_masks width height depth) (\<lambda>(mask_x, mask_y, mask_z).
      run_bind
        (for_u32 0 1 depth (\<lambda>z (src_base, off_z, dst).
           run_bind
             (for_u32 0 1 height (\<lambda>y (off_y, dst).
                let src_tmp = src_base + unat (y * row_pitch);
                    dst_tmp = unat ((off_y + off_z) * bpp)
                in run_bind
                     (for_u32 0 1 width (\<lambda>x (off_x, dst).
                        run_bind
                          (Some (memcpy_at (unat bpp) src (src_tmp + unat (x * bpp))
                             (dst_tmp + unat (off_x * bpp)) dst))
                          (\<lambda>dst. Some (Inr ((off_x - mask_x) AND mask_x, dst)))) 0 (0, dst))
                     (\<lambda>(off_x, dst). Some (Inr ((off_y - mask_y) AND mask_y, dst)))) 0 (0, dst))
             (\<lambda>(off_y, dst).
                Some (Inr (src_base + unat slice_pitch, (off_z - mask_z) AND mask_z, dst))))
           0 (0, 0, dst))
        (\<lambda>(src_base, off_z, dst). Some (Inr dst)))"

definition unswizzle_box_internal ::
  "u8 list \<Rightarrow> u32 \<Rightarrow> u32 \<Rightarrow> u32 \<Rightarrow> u8 list \<Rightarrow> u32 \<Rightarrow> u32 \<Rightarrow> u32 \<Rightarrow> u8 list run" where
  "unswizzle_box_internal src width height depth dst row_pitch slice_pitch bpp =
    run_bind (generate_swizzle_masks width height depth) (\<lambda>(mask_x, mask_y, mask_z).
      run_bind
        (for_u32 0 1 depth (\<lambda>z (dst_base, off_z, dst).
           run_bind
             (for_u32 0 1 height (\<lambda>y (off_y, dst).
                let src_tmp = unat ((off_y + off_z) * bpp);
                    dst_tmp = dst_base + unat (y * row_pitch)
                in run_bind
                     (for_u32 0 1 width (\<lambda>x (off_x, dst).
                        run_bind
                          (Some (memcpy_at (unat bpp) src (src_tmp + unat (off_x * bpp))
                             (dst_tmp + unat (x * bpp)) dst))
                          (\<lambda>dst. Some (Inr ((off_x - mask_x) AND mask_x, dst)))) 0 (0, dst))
                     (\<lambda>(off_x, dst). Some (Inr ((off_y - mask_y) AND mask_y, dst)))) 0 (0, dst))
             (\<lambda>(off_y, dst).
                Some (Inr (dst_base + unat slice_pitch, (off_z - mask_z) AND mask_z, dst))))
           0 (0, 0, dst))
        (\<lambda>(dst_base, off_z, dst). Some (Inr dst)))"

text \<open>
  \<open>MULTIVERSION\<close> dispatches on the common pixel sizes, each case calling the
  internal routine with the constant.
\<close>

definition swizzle_box ::
  "u8 list \<Rightarrow> u32 \<Rightarrow> u32 \<Rightarrow> u32 \<Rightarrow> u8 list \<Rightarrow> u32 \<Rightarrow> u32 \<Rightarrow> u32 \<Rightarrow> u8 list run" where
  "swizzle_box src width height depth dst row_pitch slice_pitch bpp =
    (let m = swizzle_box_internal src width height depth dst row_pitch slice_pitch in
     if bpp = 1 then m 1 else if bpp = 2 then m 2 else if bpp = 3 then m 3
     else if bpp = 4 then m 4 else m bpp)"

definition unswizzle_box ::
  "u8 list \<Rightarrow> u32 \<Rightarrow> u32 \<Rightarrow> u32 \<Rightarrow> u8 list \<Rightarrow> u32 \<Rightarrow> u32 \<Rightarrow> u32 \<Rightarrow> u8 list run" where
  "unswizzle_box src width height depth dst row_pitch slice_pitch bpp =
    (let m = unswizzle_box_internal src width height depth dst row_pitch slice_pitch in
     if bpp = 1 then m 1 else if bpp = 2 then m 2 else if bpp = 3 then m 3
     else if bpp = 4 then m 4 else m bpp)"

definition swizzle_rect :: "u8 list \<Rightarrow> u32 \<Rightarrow> u32 \<Rightarrow> u8 list \<Rightarrow> u32 \<Rightarrow> u32 \<Rightarrow> u8 list run" where
  "swizzle_rect src width height dst pitch bpp = swizzle_box src width height 1 dst pitch 0 bpp"

definition unswizzle_rect :: "u8 list \<Rightarrow> u32 \<Rightarrow> u32 \<Rightarrow> u8 list \<Rightarrow> u32 \<Rightarrow> u32 \<Rightarrow> u8 list run" where
  "unswizzle_rect src width height dst pitch bpp = unswizzle_box src width height 1 dst pitch 0 bpp"

section \<open>Depositing bits\<close>

fun dep :: "nat \<Rightarrow> nat \<Rightarrow> nat" where
  "dep m x = (if m = 0 then 0
    else if odd m then x mod 2 + 2 * dep (m div 2) (x div 2)
    else 2 * dep (m div 2) x)"

fun popcount :: "nat \<Rightarrow> nat" where
  "popcount m = (if m = 0 then 0 else m mod 2 + popcount (m div 2))"

declare dep.simps [simp del] popcount.simps [simp del]

lemma dep_0_mask [simp]: "dep 0 x = 0"
  by (simp add: dep.simps)

lemma dep_zero [simp]: "dep m 0 = 0"
  by (induction m rule: less_induct) (subst dep.simps, auto)

lemma dep_double [simp]:
  "dep (2 * m) x = 2 * dep m x"
  "dep (Suc (2 * m)) x = x mod 2 + 2 * dep m (x div 2)"
  by (cases "m = 0"; subst dep.simps; simp) (subst dep.simps; simp)

lemma popcount_double [simp]:
  "popcount 0 = 0"
  "popcount (2 * m) = popcount m"
  "popcount (Suc (2 * m)) = Suc (popcount m)"
  subgoal by (simp add: popcount.simps)
  subgoal by (subst popcount.simps) (simp add: popcount.simps)
  subgoal by (subst popcount.simps) simp
  done

lemma and_int_double:
  fixes a b :: int
  shows "(2 * a) AND (2 * b) = 2 * (a AND b)"
    and "(2 * a + 1) AND (2 * b) = 2 * (a AND b)"
    and "(2 * a) AND (2 * b + 1) = 2 * (a AND b)"
    and "(2 * a + 1) AND (2 * b + 1) = 2 * (a AND b) + 1"
  by (simp_all add: and_rec [of "2 * a"] and_rec [of "2 * a + 1"])

lemma dep_pred_and: "(int (dep m x) - int m - 1) AND int m = int (dep m x)"
proof (induction m arbitrary: x rule: nat_bit_induct)
  case (even m)
  have "int (dep (2 * m) x) - int (2 * m) - 1 = 2 * (int (dep m x) - int m - 1) + 1" by simp
  then show ?case using even.IH [of x] by (simp only: of_nat_mult of_nat_numeral and_int_double) simp
next
  case (odd m)
  let ?d = "int (dep m (x div 2))"
  have m: "int (Suc (2 * m)) = 2 * int m + 1" by simp
  show ?case
  proof (cases "odd x")
    case True
    then have "int (dep (Suc (2 * m)) x) - int (Suc (2 * m)) - 1 = 2 * (?d - int m - 1) + 1"
      by (simp add: mod_2_eq_odd)
    then show ?thesis using odd.IH [of "x div 2"] True unfolding m
      by (simp only: and_int_double) (simp add: mod_2_eq_odd)
  next
    case False
    then have "int (dep (Suc (2 * m)) x) - int (Suc (2 * m)) - 1 = 2 * (?d - int m - 1)"
      by (simp add: mod_2_eq_odd)
    then show ?thesis using odd.IH [of "x div 2"] False unfolding m
      by (simp only: and_int_double) (simp add: mod_2_eq_odd)
  qed
qed simp

lemma dep_step_int: "(int (dep m x) - int m) AND int m = int (dep m (Suc x))"
proof (induction m arbitrary: x rule: nat_bit_induct)
  case (even m)
  have "int (dep (2 * m) x) - int (2 * m) = 2 * (int (dep m x) - int m)" by simp
  then show ?case using even.IH [of x] by (simp only: of_nat_mult of_nat_numeral and_int_double) simp
next
  case (odd m)
  let ?d = "int (dep m (x div 2))"
  have m: "int (Suc (2 * m)) = 2 * int m + 1" by simp
  show ?case
  proof (cases "odd x")
    case True
    then have "int (dep (Suc (2 * m)) x) - int (Suc (2 * m)) = 2 * (?d - int m)"
      by (simp add: odd_iff_mod_2_eq_one)
    then show ?thesis using odd.IH [of "x div 2"] True unfolding m
      by (simp only: and_int_double) (simp add: odd_iff_mod_2_eq_one)
  next
    case False
    then have "int (dep (Suc (2 * m)) x) - int (Suc (2 * m)) = 2 * (?d - int m - 1) + 1" by simp
    then show ?thesis using dep_pred_and [of m "x div 2"] False unfolding m
      by (simp only: and_int_double) (simp add: mod_2_eq_odd)
  qed
qed simp

lemma dep_step:
  fixes m :: u32
  shows "(of_nat (dep (unat m) x) - m) AND m = of_nat (dep (unat m) (Suc x))"
proof -
  have m: "m = of_int (int (unat m))" by simp
  have "(of_nat (dep (unat m) x) - m) AND m =
      of_int ((int (dep (unat m) x) - int (unat m)) AND int (unat m))"
    by (simp add: of_int_and_eq)
  also have "\<dots> = of_nat (dep (unat m) (Suc x))" unfolding dep_step_int by simp
  finally show ?thesis .
qed

lemma bit_dep: "bit (dep m x) n \<Longrightarrow> bit m n"
proof (induction m arbitrary: x n rule: nat_bit_induct)
  case (even m)
  then show ?case by (cases n) (auto simp: bit_0 bit_Suc)
next
  case (odd m)
  then show ?case by (cases n) (auto simp: bit_0 bit_Suc)
qed simp

lemma parity_split:
  fixes A B x y :: nat
  assumes "x mod 2 + 2 * A = y mod 2 + 2 * B" shows "x mod 2 = y mod 2 \<and> A = B"
  using assms by presburger

lemma dep_inj: "x < 2 ^ popcount m \<Longrightarrow> y < 2 ^ popcount m \<Longrightarrow> dep m x = dep m y \<Longrightarrow> x = y"
proof (induction m arbitrary: x y rule: nat_bit_induct)
  case (odd m)
  have eq: "x mod 2 = y mod 2 \<and> dep m (x div 2) = dep m (y div 2)"
    using odd.prems(3) by (intro parity_split) simp
  have "x div 2 < 2 ^ popcount m" "y div 2 < 2 ^ popcount m"
    using odd.prems(1,2) by (simp_all add: div_less_iff_less_mult)
  then have "x div 2 = y div 2" using odd.IH eq by blast
  then show ?case using eq by (metis div_mult_mod_eq)
qed simp_all

lemma bit_nat_less: "bit (m :: nat) n \<Longrightarrow> n < m"
proof -
  assume "bit m n"
  then have "m div 2 ^ n \<noteq> 0" by (metis bit_iff_odd even_zero)
  then have "2 ^ n \<le> m" by (simp add: div_eq_0_iff)
  then show "n < m" using less_exp [of n] by linarith
qed

lemma popcount_card: "popcount m = card {n. bit m n}"
proof (induction m rule: nat_bit_induct)
  case (even m)
  have "{n. bit (2 * m) n} = Suc ` {n. bit m n}"
    by (auto simp: image_iff bit_double_iff) (metis Suc_pred)
  then show ?case using even by (simp add: card_image)
next
  case (odd m)
  have "{n. bit (Suc (2 * m)) n} = insert 0 (Suc ` {n. bit m n})"
  proof (intro set_eqI)
    fix n show "n \<in> {n. bit (Suc (2 * m)) n} \<longleftrightarrow> n \<in> insert 0 (Suc ` {n. bit m n})"
      by (cases n) (auto simp: bit_0 bit_Suc)
  qed
  moreover have "finite {n. bit m n}"
    by (rule finite_subset [of _ "{..<m}"]) (auto dest: bit_nat_less)
  ultimately show ?case using odd by (simp add: card_image)
qed simp

section \<open>The masks\<close>

definition masks_inv :: "nat \<Rightarrow> u32 \<Rightarrow> u32 \<Rightarrow> u32 \<Rightarrow> nat \<Rightarrow> nat \<Rightarrow> nat \<Rightarrow> bool" where
  "masks_inv p x y z a b c \<longleftrightarrow>
    (\<forall>n. bit x n \<or> bit y n \<or> bit z n \<longleftrightarrow> n < p) \<and>
    (\<forall>n. \<not> (bit x n \<and> bit y n) \<and> \<not> (bit x n \<and> bit z n) \<and> \<not> (bit y n \<and> bit z n)) \<and>
    card {n. bit x n} = a \<and> card {n. bit y n} = b \<and> card {n. bit z n} = c"

lemma finite_bits_word [simp]: "finite {n. bit (w :: 'a :: len word) n}"
  by (rule finite_subset [of _ "{..<LENGTH('a)}"]) (auto dest: bit_imp_le_length)

lemma bit_exp_u32: "p < 32 \<Longrightarrow> bit (2 ^ p :: u32) n \<longleftrightarrow> n = p"
  by (auto simp: bit_exp_iff)

lemma card_bits_or:
  assumes "p < 32" and "\<not> bit x p"
  shows "card {n. bit (x OR 2 ^ p :: u32) n} = Suc (card {n. bit x n})"
proof -
  have "{n. bit (x OR 2 ^ p) n} = insert p {n. bit x n}"
    using assms(1) by (auto simp: bit_or_iff bit_exp_u32)
  then show ?thesis using assms(2) by simp
qed

lemma masks_inv_step:
  assumes "masks_inv p x y z a b c" and "p < 32"
  shows "masks_inv (Suc p) (x OR 2 ^ p) y z (Suc a) b c"
    and "masks_inv (Suc p) x (y OR 2 ^ p) z a (Suc b) c"
    and "masks_inv (Suc p) x y (z OR 2 ^ p) a b (Suc c)"
proof -
  have "\<not> bit x p" "\<not> bit y p" "\<not> bit z p" using assms(1) by (auto simp: masks_inv_def)
  then have "card {n. bit (x OR 2 ^ p) n} = Suc a" "card {n. bit (y OR 2 ^ p) n} = Suc b"
    "card {n. bit (z OR 2 ^ p) n} = Suc c"
    using assms by (simp_all add: card_bits_or masks_inv_def)
  moreover have "bit (w OR 2 ^ p) n \<longleftrightarrow> bit w n \<or> n = p" for w :: u32 and n
    using assms(2) by (simp add: bit_or_iff bit_exp_u32)
  ultimately show "masks_inv (Suc p) (x OR 2 ^ p) y z (Suc a) b c"
    "masks_inv (Suc p) x (y OR 2 ^ p) z a (Suc b) c"
    "masks_inv (Suc p) x y (z OR 2 ^ p) a b (Suc c)"
    using assms(1) unfolding masks_inv_def by (metis less_Suc_eq less_irrefl)+
qed

lemma exp_less_u32: "i < 32 \<Longrightarrow> a < 32 \<Longrightarrow> (2 ^ i :: u32) < 2 ^ a \<longleftrightarrow> i < a"
  by (simp add: word_less_nat_alt unat_exp_u32)

definition low_bits :: "nat \<Rightarrow> nat \<Rightarrow> nat \<Rightarrow> nat \<Rightarrow> nat" where
  "low_bits a b c i = min a i + min b i + min c i"

lemma mask_round:
  assumes inv: "masks_inv (low_bits a b c i) x y z (min a i) (min b i) (min c i)"
    and le: "a + b + c \<le> 32" and "i < a \<or> i < b \<or> i < c"
    and r1: "(x1, m1) = (if i < a then (x OR 2 ^ low_bits a b c i, push_bit 1 (2 ^ low_bits a b c i))
      else (x, 2 ^ low_bits a b c i))"
    and r2: "(y1, m2) = (if i < b then (y OR m1, push_bit 1 m1) else (y, m1))"
    and r3: "(z1, m3) = (if i < c then (z OR m2, push_bit 1 m2) else (z, m2))"
  shows "masks_inv (low_bits a b c (Suc i)) x1 y1 z1 (min a (Suc i)) (min b (Suc i)) (min c (Suc i))"
    and "m3 = 2 ^ low_bits a b c (Suc i)"
proof -
  let ?p1 = "if i < a then Suc (low_bits a b c i) else low_bits a b c i"
  let ?p2 = "if i < b then Suc ?p1 else ?p1"
  have p3: "(if i < c then Suc ?p2 else ?p2) = low_bits a b c (Suc i)" by (simp add: low_bits_def min_def)
  have s1: "masks_inv ?p1 x1 y z (min a (Suc i)) (min b i) (min c i) \<and> m1 = 2 ^ ?p1"
  proof (cases "i < a")
    case True
    then have "low_bits a b c i < 32" using le by (simp add: low_bits_def)
    from masks_inv_step(1) [OF inv this] True r1 show ?thesis by simp
  qed (use inv r1 in simp)
  have s2: "masks_inv ?p2 x1 y1 z (min a (Suc i)) (min b (Suc i)) (min c i) \<and> m2 = 2 ^ ?p2"
  proof (cases "i < b")
    case True
    then have "?p1 < 32" using le by (simp add: low_bits_def min_def)
    from masks_inv_step(2) [OF conjunct1 [OF s1] this] True s1 r2 show ?thesis by simp
  qed (use s1 r2 in \<open>simp del: if_split add: min_def\<close>)
  have "masks_inv (if i < c then Suc ?p2 else ?p2) x1 y1 z1 (min a (Suc i)) (min b (Suc i)) (min c (Suc i)) \<and>
      m3 = 2 ^ (if i < c then Suc ?p2 else ?p2)"
  proof (cases "i < c")
    case True
    then have "?p2 < 32" using le by (simp add: low_bits_def min_def)
    from masks_inv_step(3) [OF conjunct1 [OF s2] this] True s2 r3 show ?thesis by simp
  qed (use s2 r3 in \<open>simp del: if_split\<close>)
  then show "masks_inv (low_bits a b c (Suc i)) x1 y1 z1 (min a (Suc i)) (min b (Suc i)) (min c (Suc i))"
    and "m3 = 2 ^ low_bits a b c (Suc i)"
    unfolding p3 by simp_all
qed

lemma swizzle_mask_loop_correct:
  assumes "a < 32" "b < 32" "c < 32" and "a + b + c \<le> 32" and "i \<le> max a (max b c)"
    and "masks_inv (low_bits a b c i) x y z (min a i) (min b i) (min c i)"
  shows "\<exists>x' y' z'. swizzle_mask_loop (2 ^ a) (2 ^ b) (2 ^ c) x y z (2 ^ i) (2 ^ low_bits a b c i)
      = Some (x', y', z', 2 ^ (a + b + c)) \<and> masks_inv (a + b + c) x' y' z' a b c"
  using assms(5,6)
proof (induction "max a (max b c) - i" arbitrary: i x y z)
  case 0
  then have "low_bits a b c i = a + b + c" "min a i = a" "min b i = b" "min c i = c" "i < 32"
    "\<not> i < a" "\<not> i < b" "\<not> i < c"
    using assms(1-3) by (auto simp: low_bits_def)
  then show ?case using 0(3) assms(1-3)
    by (subst swizzle_mask_loop.simps) (simp add: exp_less_u32)
next
  case (Suc m)
  then have more: "i < a \<or> i < b \<or> i < c" and i: "i < 32" using assms(1-3) by auto
  obtain x1 m1 :: u32 where r1: "(x1, m1) = (if i < a then (x OR 2 ^ low_bits a b c i, push_bit 1 (2 ^ low_bits a b c i))
      else (x, 2 ^ low_bits a b c i))" by (metis surj_pair)
  obtain y1 m2 :: u32 where r2: "(y1, m2) = (if i < b then (y OR m1, push_bit 1 m1) else (y, m1))"
    by (metis surj_pair)
  obtain z1 m3 :: u32 where r3: "(z1, m3) = (if i < c then (z OR m2, push_bit 1 m2) else (z, m2))"
    by (metis surj_pair)
  note round = mask_round [OF Suc.prems(2) assms(4) more r1 r2 r3]
  have step: "swizzle_mask_loop (2 ^ a) (2 ^ b) (2 ^ c) x y z (2 ^ i) (2 ^ low_bits a b c i) =
      swizzle_mask_loop (2 ^ a) (2 ^ b) (2 ^ c) x1 y1 z1 (2 ^ Suc i) m3"
    using more assms(1-3) i
    by (subst swizzle_mask_loop.simps)
      (simp add: exp_less_u32 power_Suc2 del: push_bit_of_1 power_Suc flip: r1 r2 r3)
  show ?case unfolding step round(2)
    using Suc.hyps Suc.prems(1) by (intro Suc.hyps(1) [OF _ _ round(1)]) auto
qed

lemma masks_bits:
  assumes "masks_inv n x y z a b c"
  shows "bit x m \<Longrightarrow> m < n" "bit y m \<Longrightarrow> m < n" "bit z m \<Longrightarrow> m < n"
    "bit x m \<Longrightarrow> \<not> bit y m" "bit x m \<Longrightarrow> \<not> bit z m" "bit y m \<Longrightarrow> \<not> bit z m"
    "m < n \<Longrightarrow> bit x m \<or> bit y m \<or> bit z m"
  using assms unfolding masks_inv_def by blast+

lemma masks_inv_or:
  assumes "masks_inv n x y z a b c"
  shows "x OR y OR z = mask n" and "x XOR y XOR z = mask n"
proof -
  have le: "n \<le> 32"
  proof (rule ccontr)
    assume "\<not> n \<le> 32"
    then have "bit x 32 \<or> bit y 32 \<or> bit z 32" using masks_bits(7) [OF assms, of 32] by simp
    then show False using bit_imp_le_length by fastforce
  qed
  then have mask: "bit (mask n :: u32) m \<longleftrightarrow> m < n" for m by (auto simp: bit_mask_iff)
  note bits = masks_bits [OF assms]
  show "x OR y OR z = mask n"
    by (rule bit_eqI, unfold bit_or_iff mask, use bits in blast)
  show "x XOR y XOR z = mask n"
    by (rule bit_eqI, unfold bit_xor_iff mask, use bits in blast)
qed

lemma generate_masks:
  assumes "a < 32" "b < 32" "c < 32" and "a + b + c \<le> 32"
  obtains x y z where "generate_swizzle_masks (2 ^ a) (2 ^ b) (2 ^ c) = Some (Inr (x, y, z))"
    and "masks_inv (a + b + c) x y z a b c"
proof -
  have init: "masks_inv (low_bits a b c 0) 0 0 0 (min a 0) (min b 0) (min c 0)"
    by (simp add: masks_inv_def low_bits_def)
  obtain x y z where "swizzle_mask_loop (2 ^ a) (2 ^ b) (2 ^ c) 0 0 0 1 1
      = Some (x, y, z, 2 ^ (a + b + c))" and inv: "masks_inv (a + b + c) x y z a b c"
    using swizzle_mask_loop_correct [OF assms _ init] by (auto simp: low_bits_def)
  moreover have "x XOR y XOR z = 2 ^ (a + b + c) - 1"
    using masks_inv_or(2) [OF inv] by (simp add: mask_eq_exp_minus_1)
  ultimately show thesis using that by (simp add: generate_swizzle_masks_def)
qed

lemma masks_inv_and:
  assumes "masks_inv n x y z a b c" shows "x AND y = 0" "x AND z = 0" "y AND z = 0"
  by - (rule bit_eqI, simp add: bit_and_iff, use masks_bits [OF assms] in blast)+

lemma masks_inv_popcount:
  assumes "masks_inv n x y z a b c"
  shows "popcount (unat x) = a" "popcount (unat y) = b" "popcount (unat z) = c"
  using assms by (simp_all add: popcount_card masks_inv_def bit_unsigned_iff possible_bit_def)

text \<open>
  C5.  For a box whose sides are powers of two and whose offsets fit 32 bits, mask
  generation terminates and its assertion holds: the three masks are disjoint,
  together cover the low \<open>a + b + c\<close> bits, and have \<open>a\<close>, \<open>b\<close> and \<open>c\<close> bits.
\<close>

theorem swizzle_masks_correct:
  assumes "a < 32" "b < 32" "c < 32" and "a + b + c \<le> 32"
  shows "\<exists>x y z. generate_swizzle_masks (2 ^ a) (2 ^ b) (2 ^ c) = Some (Inr (x, y, z)) \<and>
    x OR y OR z = mask (a + b + c) \<and> x AND y = 0 \<and> x AND z = 0 \<and> y AND z = 0 \<and>
    popcount (unat x) = a \<and> popcount (unat y) = b \<and> popcount (unat z) = c"
proof -
  obtain x y z where "generate_swizzle_masks (2 ^ a) (2 ^ b) (2 ^ c) = Some (Inr (x, y, z))"
    "masks_inv (a + b + c) x y z a b c"
    using generate_masks [OF assms] .
  then show ?thesis by (auto dest: masks_inv_or masks_inv_and masks_inv_popcount)
qed

theorem swizzle_masks_correct_witness:
  "\<exists>x y z. generate_swizzle_masks 8 32 1 = Some (Inr (x, y, z)) \<and>
    x OR y OR z = 255 \<and> x AND y = 0 \<and> x AND z = 0 \<and> y AND z = 0 \<and>
    popcount (unat x) = 3 \<and> popcount (unat y) = 5 \<and> popcount (unat z) = 0"
  using swizzle_masks_correct [of 3 5 0] by (simp add: mask_eq_exp_minus_1)

section \<open>Swizzled offsets\<close>

definition zoff :: "u32 \<times> u32 \<times> u32 \<Rightarrow> nat \<Rightarrow> nat \<Rightarrow> nat \<Rightarrow> nat" where
  "zoff = (\<lambda>(mx, my, mz) x y z. dep (unat mx) x + dep (unat my) y + dep (unat mz) z)"

lemma bit_dep_unat: "bit (dep (unat m) x) n \<Longrightarrow> bit (m :: u32) n"
  using bit_dep [of "unat m" x n] by (simp add: bit_unsigned_iff)

lemma zoff_or:
  assumes "masks_inv n mx my mz a b c"
  shows "zoff (mx, my, mz) x y z = dep (unat mx) x OR dep (unat my) y OR dep (unat mz) z"
proof -
  note bits = masks_bits [OF assms]
  have "dep (unat mx) x AND dep (unat my) y = 0"
    by (rule bit_eqI, simp add: bit_and_iff, use bits bit_dep_unat in blast)
  then have xy: "dep (unat mx) x + dep (unat my) y = dep (unat mx) x OR dep (unat my) y"
    by (rule disjunctive_add_eq_or)
  have "(dep (unat mx) x OR dep (unat my) y) AND dep (unat mz) z = 0"
    by (rule bit_eqI, simp add: bit_and_iff bit_or_iff, use bits bit_dep_unat in blast)
  then show ?thesis by (simp add: zoff_def xy disjunctive_add_eq_or or.assoc)
qed

lemma zoff_less:
  assumes "masks_inv n mx my mz a b c" shows "zoff (mx, my, mz) x y z < 2 ^ n"
proof -
  have "take_bit n (zoff (mx, my, mz) x y z) = zoff (mx, my, mz) x y z"
    unfolding zoff_or [OF assms]
    by (rule bit_eqI, unfold bit_take_bit_iff bit_or_iff, use masks_bits(1-3) [OF assms] bit_dep_unat in blast)
  then show ?thesis by (metis take_bit_nat_less_exp)
qed

lemma zoff_and:
  assumes "masks_inv n mx my mz a b c"
  shows "zoff (mx, my, mz) x y z AND unat mx = dep (unat mx) x"
    and "zoff (mx, my, mz) x y z AND unat my = dep (unat my) y"
    and "zoff (mx, my, mz) x y z AND unat mz = dep (unat mz) z"
  unfolding zoff_or [OF assms]
  by - (rule bit_eqI, simp add: bit_and_iff bit_or_iff bit_unsigned_iff,
      use masks_bits(4-6) [OF assms] bit_dep_unat in blast)+

lemma zoff_inj:
  assumes inv: "masks_inv n mx my mz a b c"
    and "x < 2 ^ a" "y < 2 ^ b" "z < 2 ^ c" "x' < 2 ^ a" "y' < 2 ^ b" "z' < 2 ^ c"
    and eq: "zoff (mx, my, mz) x y z = zoff (mx, my, mz) x' y' z'"
  shows "x = x' \<and> y = y' \<and> z = z'"
proof -
  have "dep (unat mx) x = dep (unat mx) x'" "dep (unat my) y = dep (unat my) y'"
    "dep (unat mz) z = dep (unat mz) z'"
    using zoff_and [OF inv] eq by metis+
  then show ?thesis using dep_inj masks_inv_popcount [OF inv] assms(2-7) by metis
qed

section \<open>The loops as one sequence of copies\<close>

lemma offset_loop:
  fixes m :: u32
  shows "fold_run (\<lambda>j (off, st). run_bind (Some (F j off st)) (\<lambda>st. Some (Inr ((off - m) AND m, st))))
     [0..<n] (0, st) =
   run_bind (Some (fold_res (\<lambda>j st. F j (of_nat (dep (unat m) j)) st) [0..<n] st))
     (\<lambda>st. Some (Inr (of_nat (dep (unat m) n), st)))"
proof (induction n)
  case (Suc n)
  then show ?case
    by (auto simp: fold_run_append fold_res_append run_bind_Some dep_step split: sum.splits)
qed simp

lemma offset_base_loop:
  fixes m :: u32
  shows "fold_run (\<lambda>j (base, off, st). run_bind (Some (F base off st))
       (\<lambda>st. Some (Inr (base + sl, (off - m) AND m, st)))) [0..<n] (0, 0, st) =
   run_bind (Some (fold_res (\<lambda>j st. F (j * sl) (of_nat (dep (unat m) j)) st) [0..<n] st))
     (\<lambda>st. Some (Inr (n * sl, of_nat (dep (unat m) n), st)))"
proof (induction n)
  case (Suc n)
  then show ?case
    by (auto simp: fold_run_append fold_res_append run_bind_Some dep_step add.commute split: sum.splits)
qed simp

lemma offset_for:
  fixes m :: u32
  shows "for_u32 0 1 n (\<lambda>j (off, st). run_bind (Some (F j off st))
        (\<lambda>st. Some (Inr ((off - m) AND m, st)))) 0 (0, st) =
    run_bind (Some (fold_res (\<lambda>j. F (of_nat j) (of_nat (dep (unat m) j))) [0..<unat n] st))
      (\<lambda>st. Some (Inr (of_nat (dep (unat m) (unat n)), st)))"
  unfolding for_u32_all using offset_loop [of "\<lambda>j. F (of_nat j)"] by simp

lemma offset_base_for:
  fixes m :: u32
  shows "for_u32 0 1 n (\<lambda>j (base, off, st). run_bind (Some (F base off st))
        (\<lambda>st. Some (Inr (base + sl, (off - m) AND m, st)))) 0 (0, 0, st) =
    run_bind (Some (fold_res (\<lambda>j. F (j * sl) (of_nat (dep (unat m) j))) [0..<unat n] st))
      (\<lambda>st. Some (Inr (unat n * sl, of_nat (dep (unat m) (unat n)), st)))"
  unfolding for_u32_all using offset_base_loop [of F] by simp

definition box_pixels :: "nat \<Rightarrow> nat \<Rightarrow> nat \<Rightarrow> (nat \<times> nat \<times> nat) list" where
  "box_pixels w h d = List.product [0..<d] (List.product [0..<h] [0..<w])"

lemma set_box_pixels: "set (box_pixels w h d) = {(z, y, x). z < d \<and> y < h \<and> x < w}"
  by (auto simp: box_pixels_def)

lemma distinct_box_pixels: "distinct (box_pixels w h d)"
  by (simp add: box_pixels_def distinct_product)

lemma fold_res_product:
  "fold_res f (List.product xs ys) = fold_res (\<lambda>x. fold_res (\<lambda>y. f (x, y)) ys) xs"
  unfolding product_concat_map fun_eq_iff fold_res_concat [symmetric]
  by (intro allI fold_res_cong) (simp add: fold_res_map)

lemmas loop_folds = offset_for offset_base_for run_bind_assoc run_bind_simps split_conv Let_def

lemma swizzle_box_internal_fold:
  assumes "generate_swizzle_masks w h d = Some (Inr (mx, my, mz))"
  shows "swizzle_box_internal src w h d dst rp sp bpp =
    Some (fold_res (\<lambda>(z, y, x) dst. memcpy_at (unat bpp) src
        (z * unat sp + unat (of_nat y * rp) + unat (of_nat x * bpp))
        (unat ((of_nat (dep (unat my) y) + of_nat (dep (unat mz) z)) * bpp) +
          unat (of_nat (dep (unat mx) x) * bpp)) dst)
      (box_pixels (unat w) (unat h) (unat d)) dst)"
  unfolding swizzle_box_internal_def assms
  by (simp only: loop_folds box_pixels_def fold_res_product) (simp add: run_bind_Some sum.case_eq_if)

lemma unswizzle_box_internal_fold:
  assumes "generate_swizzle_masks w h d = Some (Inr (mx, my, mz))"
  shows "unswizzle_box_internal src w h d dst rp sp bpp =
    Some (fold_res (\<lambda>(z, y, x) dst. memcpy_at (unat bpp) src
        (unat ((of_nat (dep (unat my) y) + of_nat (dep (unat mz) z)) * bpp) +
          unat (of_nat (dep (unat mx) x) * bpp))
        (z * unat sp + unat (of_nat y * rp) + unat (of_nat x * bpp)) dst)
      (box_pixels (unat w) (unat h) (unat d)) dst)"
  unfolding unswizzle_box_internal_def assms
  by (simp only: loop_folds box_pixels_def fold_res_product) (simp add: run_bind_Some sum.case_eq_if)

section \<open>Sequences of copies\<close>

lemma memcpy_at_ok:
  assumes "soff + n \<le> length src" and "doff + n \<le> length dst"
  shows "\<exists>dst'. memcpy_at n src soff doff dst = Inr dst' \<and> length dst' = length dst \<and>
    (\<forall>i < n. dst' ! (doff + i) = src ! (soff + i)) \<and>
    (\<forall>p i. p + n \<le> doff \<or> doff + n \<le> p \<longrightarrow> i < n \<longrightarrow> dst' ! (p + i) = dst ! (p + i))"
proof -
  let ?d = "take doff dst @ take n (drop soff src) @ drop (doff + n) dst"
  have "memcpy_at n src soff doff dst = Inr ?d" using assms by (simp add: memcpy_at_def)
  moreover have "length ?d = length dst" using assms by simp
  moreover have "?d ! (doff + i) = src ! (soff + i)" if "i < n" for i
    using assms that by (simp add: nth_append)
  moreover have "?d ! (p + i) = dst ! (p + i)" if "p + n \<le> doff \<or> doff + n \<le> p" "i < n" for p i
    using assms that by (auto simp: nth_append)
  ultimately show ?thesis by blast
qed

definition disjoint_at :: "nat \<Rightarrow> nat \<Rightarrow> nat \<Rightarrow> bool" where
  "disjoint_at n d d' \<longleftrightarrow> d + n \<le> d' \<or> d' + n \<le> d"

lemma copies_ok:
  assumes "\<And>p. p \<in> set ps \<Longrightarrow> s p + n \<le> length src \<and> t p + n \<le> length dst"
    and "sorted_wrt (\<lambda>p q. disjoint_at n (t p) (t q)) ps"
  shows "\<exists>dst'. fold_res (\<lambda>p. memcpy_at n src (s p) (t p)) ps dst = Inr dst' \<and>
    length dst' = length dst \<and> (\<forall>p \<in> set ps. \<forall>i < n. dst' ! (t p + i) = src ! (s p + i))"
  using assms
proof (induction ps rule: rev_induct)
  case (snoc q ps)
  then obtain d1 where d1: "fold_res (\<lambda>p. memcpy_at n src (s p) (t p)) ps dst = Inr d1"
    "length d1 = length dst" "\<forall>p \<in> set ps. \<forall>i < n. d1 ! (t p + i) = src ! (s p + i)"
    by (auto simp: sorted_wrt_append)
  have "s q + n \<le> length src" "t q + n \<le> length d1" using snoc.prems(1) [of q] d1(2) by simp_all
  then obtain d2 where d2: "memcpy_at n src (s q) (t q) d1 = Inr d2" "length d2 = length d1"
    "\<forall>i < n. d2 ! (t q + i) = src ! (s q + i)"
    "\<forall>p i. p + n \<le> t q \<or> t q + n \<le> p \<longrightarrow> i < n \<longrightarrow> d2 ! (p + i) = d1 ! (p + i)"
    using memcpy_at_ok by blast
  have "\<forall>p \<in> set ps. disjoint_at n (t p) (t q)" using snoc.prems(2) by (simp add: sorted_wrt_append)
  then have "d2 ! (t p + i) = src ! (s p + i)" if "p \<in> set ps" "i < n" for p i
    using that d1(3) d2(4) unfolding disjoint_at_def by metis
  then show ?case using d1 d2 by (auto simp: fold_res_append)
qed simp

lemma sorted_wrt_distinct:
  "distinct xs \<Longrightarrow> (\<And>x y. x \<in> set xs \<Longrightarrow> y \<in> set xs \<Longrightarrow> x \<noteq> y \<Longrightarrow> R x y) \<Longrightarrow> sorted_wrt R xs"
  by (induction xs) auto

section \<open>Swizzling and unswizzling a box\<close>

definition box_fits :: "nat \<Rightarrow> nat \<Rightarrow> nat \<Rightarrow> u32 \<Rightarrow> u32 \<Rightarrow> bool" where
  "box_fits a b c rp bpp \<longleftrightarrow>
    a + b + c < 32 \<and> 2 ^ (a + b + c) * unat bpp < 2 ^ 32 \<and> 2 ^ b * unat rp < 2 ^ 32"

definition linear_at :: "u32 \<Rightarrow> u32 \<Rightarrow> u32 \<Rightarrow> nat \<times> nat \<times> nat \<Rightarrow> nat" where
  "linear_at rp sp bpp = (\<lambda>(z, y, x). z * unat sp + y * unat rp + x * unat bpp)"

definition swizzled_at :: "u32 \<times> u32 \<times> u32 \<Rightarrow> u32 \<Rightarrow> nat \<times> nat \<times> nat \<Rightarrow> nat" where
  "swizzled_at m bpp = (\<lambda>(z, y, x). zoff m x y z * unat bpp)"

lemma unat_of_nat_mult:
  fixes k :: u32
  assumes "n < 2 ^ 32" "n * unat k < 2 ^ 32" shows "unat (of_nat n * k) = n * unat k"
  using assms unat_mult_small [of "of_nat n" k] unat_of_nat_small [OF assms(1)] by simp

lemma box_addresses:
  assumes fits: "box_fits a b c rp bpp" and inv: "masks_inv (a + b + c) mx my mz a b c"
    and x: "x < 2 ^ a" and y: "y < 2 ^ b"
  shows "z * unat sp + unat (of_nat y * rp) + unat (of_nat x * bpp) = linear_at rp sp bpp (z, y, x)"
    and "unat ((of_nat (dep (unat my) y) + of_nat (dep (unat mz) z)) * bpp) +
      unat (of_nat (dep (unat mx) x) * bpp) = swizzled_at (mx, my, mz) bpp (z, y, x)"
proof -
  let ?N = "2 ^ (a + b + c) :: nat"
  have N: "?N < 2 ^ 32" using fits by (intro power_strict_increasing) (auto simp: box_fits_def)
  have small: "n < 2 ^ 32 \<and> n * unat bpp < 2 ^ 32" if "n < ?N" for n
  proof -
    have "n * unat bpp \<le> ?N * unat bpp" using that by (intro mult_le_mono1) simp
    moreover have "?N * unat bpp < 2 ^ 32" using fits by (simp add: box_fits_def)
    ultimately show ?thesis using that N by linarith
  qed
  have le: "(2 :: nat) ^ a \<le> ?N" "(2 :: nat) ^ b \<le> ?N" by (simp_all add: power_increasing)
  have "y * unat rp \<le> 2 ^ b * unat rp" using y by (intro mult_le_mono1) simp
  moreover have "2 ^ b * unat rp < 2 ^ 32" using fits by (simp add: box_fits_def)
  ultimately have "y * unat rp < 2 ^ 32" by linarith
  moreover have "y < 2 ^ 32" "x < ?N" using x y le N by linarith+
  ultimately have "unat (of_nat y * rp) = y * unat rp" "unat (of_nat x * bpp) = x * unat bpp"
    using small [of x] by (simp_all add: unat_of_nat_mult)
  then show "z * unat sp + unat (of_nat y * rp) + unat (of_nat x * bpp) = linear_at rp sp bpp (z, y, x)"
    by (simp add: linear_at_def)
  let ?dx = "dep (unat mx) x" and ?dyz = "dep (unat my) y + dep (unat mz) z"
  have "?dx + ?dyz < ?N" using zoff_less [OF inv, of x y z] by (simp add: zoff_def)
  then have d: "?dx < ?N" "?dyz < ?N" by simp_all
  have "unat ((of_nat (dep (unat my) y) + of_nat (dep (unat mz) z)) * bpp) = ?dyz * unat bpp"
    using unat_of_nat_mult [of ?dyz bpp] small [OF d(2)] by simp
  moreover have "unat (of_nat ?dx * bpp) = ?dx * unat bpp"
    using small [OF d(1)] by (intro unat_of_nat_mult) auto
  ultimately show "unat ((of_nat (dep (unat my) y) + of_nat (dep (unat mz) z)) * bpp) +
      unat (of_nat ?dx * bpp) = swizzled_at (mx, my, mz) bpp (z, y, x)"
    by (simp add: swizzled_at_def zoff_def algebra_simps)
qed

lemma swizzle_box_simp:
  "swizzle_box src w h d dst rp sp bpp = swizzle_box_internal src w h d dst rp sp bpp"
  "unswizzle_box src w h d dst rp sp bpp = unswizzle_box_internal src w h d dst rp sp bpp"
  by (simp_all add: swizzle_box_def unswizzle_box_def Let_def)

lemma box_pixels_fold_cong:
  assumes "\<And>z y x. z < d \<Longrightarrow> y < h \<Longrightarrow> x < w \<Longrightarrow> f (z, y, x) = g (z, y, x)"
  shows "fold_res f (box_pixels w h d) st = fold_res g (box_pixels w h d) st"
  using assms by (intro fold_res_cong) (auto simp: set_box_pixels)

lemma swizzle_as_copies:
  assumes fits: "box_fits a b c rp bpp"
    and gen: "generate_swizzle_masks (2 ^ a) (2 ^ b) (2 ^ c) = Some (Inr (mx, my, mz))"
    and inv: "masks_inv (a + b + c) mx my mz a b c"
  shows "swizzle_box src (2 ^ a) (2 ^ b) (2 ^ c) dst rp sp bpp =
      Some (fold_res (\<lambda>p. memcpy_at (unat bpp) src (linear_at rp sp bpp p) (swizzled_at (mx, my, mz) bpp p))
        (box_pixels (2 ^ a) (2 ^ b) (2 ^ c)) dst)"
    and "unswizzle_box src (2 ^ a) (2 ^ b) (2 ^ c) dst rp sp bpp =
      Some (fold_res (\<lambda>p. memcpy_at (unat bpp) src (swizzled_at (mx, my, mz) bpp p) (linear_at rp sp bpp p))
        (box_pixels (2 ^ a) (2 ^ b) (2 ^ c)) dst)"
proof -
  have dims: "unat (2 ^ a :: u32) = 2 ^ a" "unat (2 ^ b :: u32) = 2 ^ b" "unat (2 ^ c :: u32) = 2 ^ c"
    using fits by (simp_all add: box_fits_def unat_exp_u32)
  note addr = box_addresses [OF fits inv]
  show "swizzle_box src (2 ^ a) (2 ^ b) (2 ^ c) dst rp sp bpp =
      Some (fold_res (\<lambda>p. memcpy_at (unat bpp) src (linear_at rp sp bpp p) (swizzled_at (mx, my, mz) bpp p))
        (box_pixels (2 ^ a) (2 ^ b) (2 ^ c)) dst)"
    unfolding swizzle_box_simp swizzle_box_internal_fold [OF gen] dims option.inject
    by (rule box_pixels_fold_cong) (simp only: split_conv addr)
  show "unswizzle_box src (2 ^ a) (2 ^ b) (2 ^ c) dst rp sp bpp =
      Some (fold_res (\<lambda>p. memcpy_at (unat bpp) src (swizzled_at (mx, my, mz) bpp p) (linear_at rp sp bpp p))
        (box_pixels (2 ^ a) (2 ^ b) (2 ^ c)) dst)"
    unfolding swizzle_box_simp unswizzle_box_internal_fold [OF gen] dims option.inject
    by (rule box_pixels_fold_cong) (simp only: split_conv addr)
qed

lemma mult_disjoint: "m \<noteq> n \<Longrightarrow> disjoint_at k (m * k) (n * k)" for m n k :: nat
proof (cases "m < n")
  case True
  then have "Suc m * k \<le> n * k" by (intro mult_le_mono1) simp
  then show ?thesis by (simp add: disjoint_at_def)
next
  case False
  assume "m \<noteq> n"
  with False have "Suc n * k \<le> m * k" by (intro mult_le_mono1) simp
  then show ?thesis by (simp add: disjoint_at_def)
qed

lemma swizzled_disjoint:
  assumes inv: "masks_inv (a + b + c) mx my mz a b c"
  shows "sorted_wrt (\<lambda>p q. disjoint_at (unat bpp) (swizzled_at (mx, my, mz) bpp p) (swizzled_at (mx, my, mz) bpp q))
    (box_pixels (2 ^ a) (2 ^ b) (2 ^ c))"
proof (rule sorted_wrt_distinct [OF distinct_box_pixels])
  fix p q assume "p \<in> set (box_pixels (2 ^ a) (2 ^ b) (2 ^ c))" "q \<in> set (box_pixels (2 ^ a) (2 ^ b) (2 ^ c))" "p \<noteq> q"
  moreover obtain z y x z' y' x' where pq: "p = (z, y, x)" "q = (z', y', x')" by (metis prod_cases3)
  ultimately have "zoff (mx, my, mz) x y z \<noteq> zoff (mx, my, mz) x' y' z'"
    using zoff_inj [OF inv, of x y z x' y' z'] by (auto simp: set_box_pixels)
  then show "disjoint_at (unat bpp) (swizzled_at (mx, my, mz) bpp p) (swizzled_at (mx, my, mz) bpp q)"
    unfolding pq swizzled_at_def split_conv by (rule mult_disjoint)
qed

lemma linear_less:
  assumes row: "w * k \<le> r" and slice: "z < z' \<Longrightarrow> h * r \<le> s"
    and "x < w" "x' < w" "y < h" "y' < h"
    and less: "z < z' \<or> z = z' \<and> (y < y' \<or> y = y' \<and> x < x')"
  shows "(z * s + y * r + x * k) + k \<le> z' * s + y' * r + x' * (k :: nat)"
proof -
  have "Suc x * k \<le> w * k" using assms(3) by (intro mult_le_mono1) simp
  then have in_row: "x * k + k \<le> r" using row by simp
  consider "z < z'" | "z = z'" "y < y'" | "z = z'" "y = y'" "x < x'" using less by blast
  then show ?thesis
  proof cases
    case 1
    have "Suc y * r \<le> h * r" using assms(5) by (intro mult_le_mono1) simp
    moreover have "Suc z * s \<le> z' * s" using 1 by (intro mult_le_mono1) simp
    ultimately show ?thesis using in_row slice [OF 1] by simp
  next
    case 2
    have "Suc y * r \<le> y' * r" using 2 by (intro mult_le_mono1) simp
    then show ?thesis using in_row 2 by simp
  next
    case 3
    have "Suc x * k \<le> x' * k" using 3 by (intro mult_le_mono1) simp
    then show ?thesis using 3 by simp
  qed
qed

lemma linear_disjoint:
  assumes row: "2 ^ a * unat bpp \<le> unat rp" and slice: "c = 0 \<or> 2 ^ b * unat rp \<le> unat sp"
  shows "sorted_wrt (\<lambda>p q. disjoint_at (unat bpp) (linear_at rp sp bpp p) (linear_at rp sp bpp q))
    (box_pixels (2 ^ a) (2 ^ b) (2 ^ c))"
proof (rule sorted_wrt_distinct [OF distinct_box_pixels])
  fix p q assume *: "p \<in> set (box_pixels (2 ^ a) (2 ^ b) (2 ^ c))" "q \<in> set (box_pixels (2 ^ a) (2 ^ b) (2 ^ c))" "p \<noteq> q"
  obtain z y x z' y' x' where pq: "p = (z, y, x)" "q = (z', y', x')" by (metis prod_cases3)
  have b: "x < 2 ^ a" "y < 2 ^ b" "z < 2 ^ c" "x' < 2 ^ a" "y' < 2 ^ b" "z' < 2 ^ c"
    using * by (auto simp: pq set_box_pixels)
  have sl: "2 ^ b * unat rp \<le> unat sp" if "z < z' \<or> z' < z" using that slice b(3,6) by auto
  consider "z < z' \<or> z = z' \<and> (y < y' \<or> y = y' \<and> x < x')" | "z' < z \<or> z' = z \<and> (y' < y \<or> y' = y \<and> x' < x)"
    using *(3) pq by fastforce
  then show "disjoint_at (unat bpp) (linear_at rp sp bpp p) (linear_at rp sp bpp q)"
  proof cases
    case 1
    show ?thesis unfolding disjoint_at_def linear_at_def pq split_conv
      using linear_less [OF row _ b(1,4,2,5) 1] sl by blast
  next
    case 2
    show ?thesis unfolding disjoint_at_def linear_at_def pq split_conv
      using linear_less [OF row _ b(4,1,5,2) 2] sl by blast
  qed
qed

definition box_in :: "nat \<Rightarrow> nat \<Rightarrow> nat \<Rightarrow> (nat \<times> nat \<times> nat \<Rightarrow> nat) \<Rightarrow> nat \<Rightarrow> nat \<Rightarrow> bool" where
  "box_in a b c addr n len \<longleftrightarrow>
    (\<forall>z < 2 ^ c. \<forall>y < 2 ^ b. \<forall>x < 2 ^ a. addr (z, y, x) + n \<le> len)"

lemma box_inD: "box_in a b c addr n len \<Longrightarrow> p \<in> set (box_pixels (2 ^ a) (2 ^ b) (2 ^ c)) \<Longrightarrow> addr p + n \<le> len"
  by (auto simp: box_in_def set_box_pixels)

lemma swizzled_in:
  assumes inv: "masks_inv (a + b + c) mx my mz a b c" and "2 ^ (a + b + c) * unat bpp \<le> len"
  shows "box_in a b c (swizzled_at (mx, my, mz) bpp) (unat bpp) len"
proof -
  have "swizzled_at (mx, my, mz) bpp (z, y, x) + unat bpp \<le> len" for z y x
  proof -
    have "Suc (zoff (mx, my, mz) x y z) * unat bpp \<le> 2 ^ (a + b + c) * unat bpp"
      using zoff_less [OF inv, of x y z] by (intro mult_le_mono1) simp
    then show ?thesis using assms(2) by (simp add: swizzled_at_def)
  qed
  then show ?thesis by (simp add: box_in_def)
qed

lemma ball_box_pixels:
  "(\<forall>p \<in> set (box_pixels (2 ^ a) (2 ^ b) (2 ^ c)). P p) \<longleftrightarrow>
    (\<forall>z < 2 ^ c. \<forall>y < 2 ^ b. \<forall>x < 2 ^ a. P (z, y, x))"
  by (auto simp: set_box_pixels)



text \<open>
  C7.  Unswizzling what was swizzled gives back every byte of every pixel, also when
  the two linear images have different pitches, provided the rows and slices of the
  output do not overlap.
\<close>

theorem unswizzle_swizzle_roundtrip:
  assumes "box_fits a b c rp bpp" and "box_fits a b c rp' bpp"
    and "box_in a b c (linear_at rp sp bpp) (unat bpp) (length src)"
    and "2 ^ (a + b + c) * unat bpp \<le> length tmp"
    and "box_in a b c (linear_at rp' sp' bpp) (unat bpp) (length dst)"
    and "2 ^ a * unat bpp \<le> unat rp'" and "c = 0 \<or> 2 ^ b * unat rp' \<le> unat sp'"
  shows "\<exists>swz out. swizzle_box src (2 ^ a) (2 ^ b) (2 ^ c) tmp rp sp bpp = Some (Inr swz) \<and>
    unswizzle_box swz (2 ^ a) (2 ^ b) (2 ^ c) dst rp' sp' bpp = Some (Inr out) \<and>
    (\<forall>z < 2 ^ c. \<forall>y < 2 ^ b. \<forall>x < 2 ^ a. \<forall>i < unat bpp.
      out ! (linear_at rp' sp' bpp (z, y, x) + i) = src ! (linear_at rp sp bpp (z, y, x) + i))"
proof -
  have "a < 32" "b < 32" "c < 32" "a + b + c \<le> 32" using assms(1) by (auto simp: box_fits_def)
  then obtain mx my mz where gen: "generate_swizzle_masks (2 ^ a) (2 ^ b) (2 ^ c) = Some (Inr (mx, my, mz))"
    and inv: "masks_inv (a + b + c) mx my mz a b c" by (rule generate_masks)
  let ?ps = "box_pixels (2 ^ a) (2 ^ b) (2 ^ c)" and ?sw = "swizzled_at (mx, my, mz) bpp"
  have "linear_at rp sp bpp p + unat bpp \<le> length src \<and> ?sw p + unat bpp \<le> length tmp" if "p \<in> set ?ps" for p
    using that box_inD assms(3) swizzled_in [OF inv assms(4)] by blast
  from copies_ok [OF this swizzled_disjoint [OF inv]] obtain swz where
    swz: "swizzle_box src (2 ^ a) (2 ^ b) (2 ^ c) tmp rp sp bpp = Some (Inr swz)" "length swz = length tmp"
      "\<forall>p \<in> set ?ps. \<forall>i < unat bpp. swz ! (?sw p + i) = src ! (linear_at rp sp bpp p + i)"
    unfolding swizzle_as_copies(1) [OF assms(1) gen inv] by auto
  have "?sw p + unat bpp \<le> length swz \<and> linear_at rp' sp' bpp p + unat bpp \<le> length dst" if "p \<in> set ?ps" for p
    using that box_inD assms(5) swizzled_in [OF inv assms(4)] swz(2) by metis
  from copies_ok [OF this linear_disjoint [OF assms(6,7)]] obtain out where
    "unswizzle_box swz (2 ^ a) (2 ^ b) (2 ^ c) dst rp' sp' bpp = Some (Inr out)"
      "\<forall>p \<in> set ?ps. \<forall>i < unat bpp. out ! (linear_at rp' sp' bpp p + i) = swz ! (?sw p + i)"
    unfolding swizzle_as_copies(2) [OF assms(2) gen inv] by auto
  then show ?thesis using swz by (auto simp: set_box_pixels)
qed

theorem unswizzle_swizzle_roundtrip_witness:
  "\<exists>swz out. swizzle_box [1, 2, 0, 3, 4] 2 2 1 [0, 0, 0, 0] 3 0 1 = Some (Inr swz) \<and>
    unswizzle_box swz 2 2 1 [9, 9, 9, 9] 2 0 1 = Some (Inr out) \<and> out ! 2 = 3"
proof -
  have "(\<forall>y < 2. \<forall>x < 2. y * 3 + x < (5 :: nat))" "(\<forall>y < 2. \<forall>x < 2. y * 2 + x < (4 :: nat))" by auto
  then have "\<exists>swz out. swizzle_box [1, 2, 0, 3, 4] 2 2 1 [0, 0, 0, 0] 3 0 1 = Some (Inr swz) \<and>
      unswizzle_box swz 2 2 1 [9, 9, 9, 9] 2 0 1 = Some (Inr out) \<and>
      (\<forall>y < 2. \<forall>x < 2. out ! (y * 2 + x) = [1, 2, 0, 3, 4] ! (y * 3 + x))"
    using unswizzle_swizzle_roundtrip [of 1 1 0 3 1 2 0 "[1, 2, 0, 3, 4]" "[0, 0, 0, 0]" 0 "[9, 9, 9, 9]"]
    by (auto simp: box_fits_def box_in_def linear_at_def)
  then obtain swz out where "swizzle_box [1, 2, 0, 3, 4] 2 2 1 [0, 0, 0, 0] 3 0 1 = Some (Inr swz)"
    "unswizzle_box swz 2 2 1 [9, 9, 9, 9] 2 0 1 = Some (Inr out)"
    "\<forall>y < 2. \<forall>x < 2. out ! (y * 2 + x) = [1, 2, 0, 3, 4] ! (y * 3 + x)" by blast
  moreover from this(3) [rule_format, of 1 0] have "out ! 2 = 3" by simp
  ultimately show ?thesis by blast
qed

end
