(* ===== verification/I2C.thy ===== *)
theory I2C
  imports Prelude
begin

text \<open>
  The two-wire bus below the Xbox SMBus controller: the I2C core
  (\<open>hw/i2c/core.c\<close>), the SMBus slave protocol (\<open>hw/i2c/smbus_slave.c\<close>) and the
  SMBus master transactions (\<open>hw/i2c/smbus_master.c\<close>).

  A device class is a record of callbacks, as \<open>SMBusDeviceClass\<close> is; a bus holds its
  children in a list and the current transfer as indices into it.  The locale
  \<open>smbus_class\<close> states what a class promises about its devices, and its lemmas
  carry that promise through every slave event and master transaction.
\<close>

section \<open>Slave protocol\<close>

datatype i2c_event = I2C_START_RECV | I2C_START_SEND | I2C_START_SEND_ASYNC | I2C_FINISH | I2C_NACK

datatype smbus_mode = SMBUS_IDLE | SMBUS_WRITE_DATA | SMBUS_READ_DATA | SMBUS_DONE | SMBUS_CONFUSED

abbreviation SMBUS_DATA_MAX_LEN :: nat where "SMBUS_DATA_MAX_LEN \<equiv> 34"

record 'd SMBusDeviceClass =
  quick_cmd :: "('d \<Rightarrow> u8 \<Rightarrow> 'd) option"
  write_data :: "('d \<Rightarrow> u8 list \<Rightarrow> u8 \<Rightarrow> 'd res) option"
  receive_byte :: "('d \<Rightarrow> (u8 \<times> 'd) res) option"

record 'd SMBusDevice =
  i2c_address :: u8
  dev_mode :: smbus_mode
  data_len :: nat
  data_buf :: "u8 list"
  dev_state :: 'd

definition smbus_do_quick_cmd :: "'d SMBusDeviceClass \<Rightarrow> 'd SMBusDevice \<Rightarrow> bool \<Rightarrow> 'd SMBusDevice" where
  "smbus_do_quick_cmd sc dev recv = (case quick_cmd sc of None \<Rightarrow> dev
    | Some f \<Rightarrow> dev\<lparr>dev_state := f (dev_state dev) (if recv then 1 else 0)\<rparr>)"

definition smbus_do_write :: "'d SMBusDeviceClass \<Rightarrow> 'd SMBusDevice \<Rightarrow> 'd SMBusDevice res" where
  "smbus_do_write sc dev = (case write_data sc of None \<Rightarrow> Inr dev
    | Some f \<Rightarrow> res_bind (f (dev_state dev) (data_buf dev) (of_nat (data_len dev)))
        (\<lambda>d. Inr (dev\<lparr>dev_state := d\<rparr>)))"

fun smbus_i2c_event ::
  "'d SMBusDeviceClass \<Rightarrow> 'd SMBusDevice \<Rightarrow> i2c_event \<Rightarrow> (int \<times> 'd SMBusDevice) res" where
  "smbus_i2c_event sc dev I2C_START_SEND =
    (case dev_mode dev of
       SMBUS_IDLE \<Rightarrow> Inr (0, dev\<lparr>dev_mode := SMBUS_WRITE_DATA\<rparr>)
     | _ \<Rightarrow> Inr (0, dev\<lparr>dev_mode := SMBUS_CONFUSED\<rparr>))"
| "smbus_i2c_event sc dev I2C_START_RECV =
    (case dev_mode dev of
       SMBUS_IDLE \<Rightarrow> Inr (0, dev\<lparr>dev_mode := SMBUS_READ_DATA\<rparr>)
     | SMBUS_WRITE_DATA \<Rightarrow>
         if data_len dev = 0 then Inr (0, dev\<lparr>dev_mode := SMBUS_CONFUSED\<rparr>)
         else res_bind (smbus_do_write sc dev) (\<lambda>dev. Inr (0, dev\<lparr>dev_mode := SMBUS_READ_DATA\<rparr>))
     | _ \<Rightarrow> Inr (0, dev\<lparr>dev_mode := SMBUS_CONFUSED\<rparr>))"
| "smbus_i2c_event sc dev I2C_FINISH =
    res_bind
      (if data_len dev = 0
       then Inr (if dev_mode dev = SMBUS_WRITE_DATA \<or> dev_mode dev = SMBUS_READ_DATA
                 then smbus_do_quick_cmd sc dev (dev_mode dev = SMBUS_READ_DATA) else dev)
       else (case dev_mode dev of SMBUS_WRITE_DATA \<Rightarrow> smbus_do_write sc dev | _ \<Rightarrow> Inr dev))
      (\<lambda>dev. Inr (0, dev\<lparr>dev_mode := SMBUS_IDLE, data_len := 0\<rparr>))"
| "smbus_i2c_event sc dev I2C_NACK =
    (case dev_mode dev of
       SMBUS_DONE \<Rightarrow> Inr (0, dev)
     | SMBUS_READ_DATA \<Rightarrow> Inr (0, dev\<lparr>dev_mode := SMBUS_DONE\<rparr>)
     | _ \<Rightarrow> Inr (0, dev\<lparr>dev_mode := SMBUS_CONFUSED\<rparr>))"
| "smbus_i2c_event sc dev I2C_START_SEND_ASYNC = Inr (-1, dev)"

definition smbus_i2c_recv :: "'d SMBusDeviceClass \<Rightarrow> 'd SMBusDevice \<Rightarrow> (u8 \<times> 'd SMBusDevice) res" where
  "smbus_i2c_recv sc dev = (case dev_mode dev of
      SMBUS_READ_DATA \<Rightarrow> (case receive_byte sc of None \<Rightarrow> Inr (0xff, dev)
        | Some f \<Rightarrow> res_bind (f (dev_state dev)) (\<lambda>(b, d). Inr (b, dev\<lparr>dev_state := d\<rparr>)))
    | _ \<Rightarrow> Inr (0xff, dev\<lparr>dev_mode := SMBUS_CONFUSED\<rparr>))"

definition smbus_i2c_send :: "'d SMBusDevice \<Rightarrow> u8 \<Rightarrow> (int \<times> 'd SMBusDevice) res" where
  "smbus_i2c_send dev b = (case dev_mode dev of
      SMBUS_WRITE_DATA \<Rightarrow>
        if data_len dev \<ge> SMBUS_DATA_MAX_LEN then Inr (0, dev)
        else res_bind (put_at (data_buf dev) (data_len dev) b)
          (\<lambda>buf. Inr (0, dev\<lparr>data_buf := buf, data_len := data_len dev + 1\<rparr>))
    | _ \<Rightarrow> Inr (0, dev))"

section \<open>The bus\<close>

record 'd I2CBus =
  bus_children :: "'d SMBusDevice list"
  current_devs :: "nat list"
  bus_broadcast :: bool

definition I2C_BROADCAST :: u8 where "I2C_BROADCAST = 0"

definition i2c_slave_match :: "'d SMBusDevice \<Rightarrow> u8 \<Rightarrow> bool \<Rightarrow> bool" where
  "i2c_slave_match candidate address broadcast \<longleftrightarrow> i2c_address candidate = address \<or> broadcast"

fun i2c_scan_from :: "nat \<Rightarrow> 'd SMBusDevice list \<Rightarrow> u8 \<Rightarrow> bool \<Rightarrow> nat list \<Rightarrow> nat list" where
  "i2c_scan_from i [] address broadcast cur = cur"
| "i2c_scan_from i (kid # kids) address broadcast cur =
    (if i2c_slave_match kid address broadcast
     then (if \<not> broadcast then i # cur else i2c_scan_from (Suc i) kids address broadcast (i # cur))
     else i2c_scan_from (Suc i) kids address broadcast cur)"

definition i2c_scan_bus :: "'d I2CBus \<Rightarrow> u8 \<Rightarrow> bool \<Rightarrow> nat list \<Rightarrow> nat list" where
  "i2c_scan_bus bus address broadcast cur = i2c_scan_from 0 (bus_children bus) address broadcast cur"

definition on_child ::
  "nat \<Rightarrow> ('d SMBusDevice \<Rightarrow> ('r \<times> 'd SMBusDevice) res) \<Rightarrow> 'd I2CBus \<Rightarrow> ('r \<times> 'd I2CBus) res" where
  "on_child i f bus =
    res_bind (get_at (bus_children bus) i) (\<lambda>dev. res_bind (f dev) (\<lambda>(r, dev).
      Inr (r, bus\<lparr>bus_children := (bus_children bus)[i := dev]\<rparr>)))"

definition i2c_end_transfer :: "'d SMBusDeviceClass \<Rightarrow> 'd I2CBus \<Rightarrow> 'd I2CBus res" where
  "i2c_end_transfer sc bus =
    res_bind
      (fold_res (\<lambda>i bus. res_bind (on_child i (\<lambda>dev. smbus_i2c_event sc dev I2C_FINISH) bus)
         (\<lambda>(r, bus). Inr bus)) (current_devs bus) bus)
      (\<lambda>bus. Inr (bus\<lparr>current_devs := [], bus_broadcast := False\<rparr>))"

fun start_devs ::
  "'d SMBusDeviceClass \<Rightarrow> bool \<Rightarrow> i2c_event \<Rightarrow> nat list \<Rightarrow> 'd I2CBus \<Rightarrow> (int \<times> 'd I2CBus) res" where
  "start_devs sc bus_scanned ev [] bus = Inr (0, bus)"
| "start_devs sc bus_scanned ev (i # is) bus =
    res_bind (on_child i (\<lambda>dev. smbus_i2c_event sc dev ev) bus) (\<lambda>(rv, bus).
      if rv \<noteq> 0 \<and> \<not> bus_broadcast bus
      then (if bus_scanned then res_bind (i2c_end_transfer sc bus) (\<lambda>bus. Inr (rv, bus)) else Inr (rv, bus))
      else start_devs sc bus_scanned ev is bus)"

definition i2c_do_start_transfer ::
  "'d SMBusDeviceClass \<Rightarrow> 'd I2CBus \<Rightarrow> u8 \<Rightarrow> i2c_event \<Rightarrow> (int \<times> 'd I2CBus) res" where
  "i2c_do_start_transfer sc bus address ev =
    (let bus = (if address = I2C_BROADCAST then bus\<lparr>bus_broadcast := True\<rparr> else bus);
         bus_scanned = (current_devs bus = []);
         bus = (if bus_scanned
                then bus\<lparr>current_devs := i2c_scan_bus bus address (bus_broadcast bus) (current_devs bus)\<rparr>
                else bus)
     in if current_devs bus = [] then Inr (1, bus)
        else start_devs sc bus_scanned ev (current_devs bus) bus)"

definition i2c_start_transfer ::
  "'d SMBusDeviceClass \<Rightarrow> 'd I2CBus \<Rightarrow> u8 \<Rightarrow> bool \<Rightarrow> (int \<times> 'd I2CBus) res" where
  "i2c_start_transfer sc bus address is_recv =
    i2c_do_start_transfer sc bus address (if is_recv then I2C_START_RECV else I2C_START_SEND)"

definition i2c_start_recv :: "'d SMBusDeviceClass \<Rightarrow> 'd I2CBus \<Rightarrow> u8 \<Rightarrow> (int \<times> 'd I2CBus) res" where
  "i2c_start_recv sc bus address = i2c_do_start_transfer sc bus address I2C_START_RECV"

definition i2c_start_send :: "'d SMBusDeviceClass \<Rightarrow> 'd I2CBus \<Rightarrow> u8 \<Rightarrow> (int \<times> 'd I2CBus) res" where
  "i2c_start_send sc bus address = i2c_do_start_transfer sc bus address I2C_START_SEND"

text \<open>The return code of \<open>i2c_send\<close> is not used by the callers modelled here.\<close>

definition i2c_send :: "'d I2CBus \<Rightarrow> u8 \<Rightarrow> 'd I2CBus res" where
  "i2c_send bus b =
    res_bind
      (fold_res (\<lambda>i (ret, bus).
         if ret then Inr (ret, bus)
         else res_bind (on_child i (\<lambda>dev. smbus_i2c_send dev b) bus) (\<lambda>(r, bus). Inr (r \<noteq> 0, bus)))
         (current_devs bus) (False, bus))
      (\<lambda>(ret, bus). Inr bus)"

definition i2c_recv :: "'d SMBusDeviceClass \<Rightarrow> 'd I2CBus \<Rightarrow> (u8 \<times> 'd I2CBus) res" where
  "i2c_recv sc bus = (case current_devs bus of
      [] \<Rightarrow> Inr (0xff, bus)
    | i # _ \<Rightarrow> if bus_broadcast bus then Inr (0xff, bus)
        else on_child i (\<lambda>dev. smbus_i2c_recv sc dev) bus)"

definition i2c_nack :: "'d SMBusDeviceClass \<Rightarrow> 'd I2CBus \<Rightarrow> 'd I2CBus res" where
  "i2c_nack sc bus =
    fold_res (\<lambda>i bus. res_bind (on_child i (\<lambda>dev. smbus_i2c_event sc dev I2C_NACK) bus)
      (\<lambda>(r, bus). Inr bus)) (current_devs bus) bus"

section \<open>Master transactions\<close>

definition smbus_quick_command ::
  "'d SMBusDeviceClass \<Rightarrow> 'd I2CBus \<Rightarrow> u8 \<Rightarrow> bool \<Rightarrow> (int \<times> 'd I2CBus) res" where
  "smbus_quick_command sc bus addr rd =
    res_bind (i2c_start_transfer sc bus addr rd) (\<lambda>(r, bus).
      if r \<noteq> 0 then Inr (-1, bus)
      else res_bind (i2c_end_transfer sc bus) (\<lambda>bus. Inr (0, bus)))"

definition recv_tail :: "'d SMBusDeviceClass \<Rightarrow> 'd I2CBus \<Rightarrow> (u8 \<times> 'd I2CBus) res" where
  "recv_tail sc bus =
    res_bind (i2c_recv sc bus) (\<lambda>(b, bus). res_bind (i2c_nack sc bus) (\<lambda>bus.
      res_bind (i2c_end_transfer sc bus) (\<lambda>bus. Inr (b, bus))))"

definition smbus_receive_byte ::
  "'d SMBusDeviceClass \<Rightarrow> 'd I2CBus \<Rightarrow> u8 \<Rightarrow> (int \<times> 'd I2CBus) res" where
  "smbus_receive_byte sc bus addr =
    res_bind (i2c_start_recv sc bus addr) (\<lambda>(r, bus).
      if r \<noteq> 0 then Inr (-1, bus)
      else res_bind (recv_tail sc bus) (\<lambda>(b, bus). Inr (uint b, bus)))"

definition smbus_send_byte ::
  "'d SMBusDeviceClass \<Rightarrow> 'd I2CBus \<Rightarrow> u8 \<Rightarrow> u8 \<Rightarrow> (int \<times> 'd I2CBus) res" where
  "smbus_send_byte sc bus addr b =
    res_bind (i2c_start_send sc bus addr) (\<lambda>(r, bus).
      if r \<noteq> 0 then Inr (-1, bus)
      else res_bind (i2c_send bus b) (\<lambda>bus.
        res_bind (i2c_end_transfer sc bus) (\<lambda>bus. Inr (0, bus))))"

definition smbus_read_byte ::
  "'d SMBusDeviceClass \<Rightarrow> 'd I2CBus \<Rightarrow> u8 \<Rightarrow> u8 \<Rightarrow> (int \<times> 'd I2CBus) res" where
  "smbus_read_byte sc bus addr command =
    res_bind (i2c_start_send sc bus addr) (\<lambda>(r, bus).
      if r \<noteq> 0 then Inr (-1, bus)
      else res_bind (i2c_send bus command) (\<lambda>bus.
        res_bind (i2c_start_recv sc bus addr) (\<lambda>(r, bus).
          if r \<noteq> 0 then res_bind (i2c_end_transfer sc bus) (\<lambda>bus. Inr (-1, bus))
          else res_bind (recv_tail sc bus) (\<lambda>(b, bus). Inr (uint b, bus)))))"

definition smbus_write_byte ::
  "'d SMBusDeviceClass \<Rightarrow> 'd I2CBus \<Rightarrow> u8 \<Rightarrow> u8 \<Rightarrow> u8 \<Rightarrow> (int \<times> 'd I2CBus) res" where
  "smbus_write_byte sc bus addr command b =
    res_bind (i2c_start_send sc bus addr) (\<lambda>(r, bus).
      if r \<noteq> 0 then Inr (-1, bus)
      else res_bind (i2c_send bus command) (\<lambda>bus. res_bind (i2c_send bus b) (\<lambda>bus.
        res_bind (i2c_end_transfer sc bus) (\<lambda>bus. Inr (0, bus)))))"

definition smbus_read_word ::
  "'d SMBusDeviceClass \<Rightarrow> 'd I2CBus \<Rightarrow> u8 \<Rightarrow> u8 \<Rightarrow> (int \<times> 'd I2CBus) res" where
  "smbus_read_word sc bus addr command =
    res_bind (i2c_start_send sc bus addr) (\<lambda>(r, bus).
      if r \<noteq> 0 then Inr (-1, bus)
      else res_bind (i2c_send bus command) (\<lambda>bus.
        res_bind (i2c_start_recv sc bus addr) (\<lambda>(r, bus).
          if r \<noteq> 0 then res_bind (i2c_end_transfer sc bus) (\<lambda>bus. Inr (-1, bus))
          else res_bind (i2c_recv sc bus) (\<lambda>(lo, bus). res_bind (recv_tail sc bus) (\<lambda>(hi, bus).
            Inr (uint ((ucast lo :: u16) OR push_bit 8 (ucast hi)), bus))))))"

definition smbus_write_word ::
  "'d SMBusDeviceClass \<Rightarrow> 'd I2CBus \<Rightarrow> u8 \<Rightarrow> u8 \<Rightarrow> u16 \<Rightarrow> (int \<times> 'd I2CBus) res" where
  "smbus_write_word sc bus addr command w =
    res_bind (i2c_start_send sc bus addr) (\<lambda>(r, bus).
      if r \<noteq> 0 then Inr (-1, bus)
      else res_bind (i2c_send bus command) (\<lambda>bus.
        res_bind (i2c_send bus (ucast (w AND 0xff))) (\<lambda>bus.
          res_bind (i2c_send bus (ucast (drop_bit 8 w))) (\<lambda>bus.
            res_bind (i2c_end_transfer sc bus) (\<lambda>bus. Inr (0, bus))))))"

definition smbus_read_block ::
  "'d SMBusDeviceClass \<Rightarrow> 'd I2CBus \<Rightarrow> u8 \<Rightarrow> u8 \<Rightarrow> u8 list \<Rightarrow> int \<Rightarrow> bool \<Rightarrow> bool \<Rightarrow>
    (int \<times> u8 list \<times> 'd I2CBus) res" where
  "smbus_read_block sc bus addr command buf len recv_len send_cmd =
    res_bind
      (if send_cmd
       then res_bind (i2c_start_send sc bus addr) (\<lambda>(r, bus).
         if r \<noteq> 0 then Inr (r, bus)
         else res_bind (i2c_send bus command) (\<lambda>bus. Inr (0, bus)))
       else Inr (0, bus))
      (\<lambda>(r, bus). if r \<noteq> 0 then Inr (-1, buf, bus)
       else res_bind (i2c_start_recv sc bus addr) (\<lambda>(r, bus).
         if r \<noteq> 0 then res_bind (if send_cmd then i2c_end_transfer sc bus else Inr bus)
           (\<lambda>bus. Inr (-1, buf, bus))
         else res_bind (if recv_len then res_bind (i2c_recv sc bus) (\<lambda>(b, bus). Inr (uint b, bus))
                        else Inr (len, bus)) (\<lambda>(rlen, bus).
           let rlen = (if rlen > len then 0 else rlen) in
           res_bind (fold_res (\<lambda>i (buf, bus). res_bind (i2c_recv sc bus) (\<lambda>(b, bus).
               res_bind (put_at buf i b) (\<lambda>buf. Inr (buf, bus)))) [0..<nat rlen] (buf, bus))
             (\<lambda>(buf, bus). res_bind (i2c_nack sc bus) (\<lambda>bus.
               res_bind (i2c_end_transfer sc bus) (\<lambda>bus. Inr (rlen, buf, bus)))))))"

definition smbus_write_block ::
  "'d SMBusDeviceClass \<Rightarrow> 'd I2CBus \<Rightarrow> u8 \<Rightarrow> u8 \<Rightarrow> u8 list \<Rightarrow> int \<Rightarrow> bool \<Rightarrow> (int \<times> 'd I2CBus) res" where
  "smbus_write_block sc bus addr command buf len send_len =
    (let len = (if len > 32 then 32 else len) in
     res_bind (i2c_start_send sc bus addr) (\<lambda>(r, bus).
       if r \<noteq> 0 then Inr (-1, bus)
       else res_bind (i2c_send bus command) (\<lambda>bus.
         res_bind (if send_len then i2c_send bus (of_int len) else Inr bus) (\<lambda>bus.
           res_bind (fold_res (\<lambda>i bus. res_bind (get_at buf i) (\<lambda>b. i2c_send bus b)) [0..<nat len] bus)
             (\<lambda>bus. res_bind (i2c_end_transfer sc bus) (\<lambda>bus. Inr (0, bus)))))))"

section \<open>What a device class promises\<close>

locale smbus_class =
  fixes sc :: "'d SMBusDeviceClass" and dinv :: "'d \<Rightarrow> bool" and strict :: bool
  assumes quick_inv: "quick_cmd sc = Some q \<Longrightarrow> dinv d \<Longrightarrow> dinv (q d r)"
    and write_inv: "write_data sc = Some w \<Longrightarrow> dinv d \<Longrightarrow> length buf = SMBUS_DATA_MAX_LEN \<Longrightarrow>
      0 < len \<Longrightarrow> unat len \<le> SMBUS_DATA_MAX_LEN \<Longrightarrow> safe strict dinv (w d buf len)"
    and recv_inv: "receive_byte sc = Some f \<Longrightarrow> dinv d \<Longrightarrow> safe strict (\<lambda>(b, d'). dinv d') (f d)"
begin

definition dev_inv :: "'d SMBusDevice \<Rightarrow> bool" where
  "dev_inv dev \<longleftrightarrow> length (data_buf dev) = SMBUS_DATA_MAX_LEN \<and>
    data_len dev \<le> SMBUS_DATA_MAX_LEN \<and> dinv (dev_state dev)"

definition bus_inv :: "'d I2CBus \<Rightarrow> bool" where
  "bus_inv bus \<longleftrightarrow> (\<forall>dev \<in> set (bus_children bus). dev_inv dev) \<and>
    (\<forall>i \<in> set (current_devs bus). i < length (bus_children bus))"

lemma do_quick_inv: "dev_inv dev \<Longrightarrow> dev_inv (smbus_do_quick_cmd sc dev r)"
  by (auto simp: smbus_do_quick_cmd_def dev_inv_def quick_inv split: option.splits)

lemma do_write_inv:
  assumes "dev_inv dev" and "0 < data_len dev"
  shows "safe strict dev_inv (smbus_do_write sc dev)"
proof (cases "write_data sc")
  case None
  then show ?thesis using assms by (simp add: smbus_do_write_def)
next
  case (Some w)
  have len: "unat (of_nat (data_len dev) :: u8) = data_len dev"
    using assms by (simp add: dev_inv_def unat_of_nat take_bit_nat_eq_self)
  then have "0 < (of_nat (data_len dev) :: u8)" using assms(2) by (metis neq0_conv unat_gt_0 word_neq_0_conv)
  then have "safe strict dinv (w (dev_state dev) (data_buf dev) (of_nat (data_len dev)))"
    using assms Some len by (intro write_inv) (simp_all add: dev_inv_def)
  then show ?thesis using assms Some
    by (auto simp: smbus_do_write_def dev_inv_def intro: safe_bind)
qed

lemma event_inv:
  assumes "dev_inv dev" shows "safe strict (\<lambda>(r, dev'). dev_inv dev') (smbus_i2c_event sc dev ev)"
proof -
  have wr: "safe strict (\<lambda>(r, dev'). dev_inv dev')
      (res_bind (smbus_do_write sc dev) (\<lambda>dev. Inr (0, f dev)))"
    if "data_len dev \<noteq> 0" "\<And>d. dev_inv d \<Longrightarrow> dev_inv (f d)" for f
    by (rule safe_bind [OF do_write_inv [OF assms]]) (use that in auto)
  have quick: "dev_inv (smbus_do_quick_cmd sc dev r)" for r using do_quick_inv [OF assms] .
  have upd: "dev_inv (d\<lparr>dev_mode := m\<rparr>)" "dev_inv (d\<lparr>dev_mode := m, data_len := 0\<rparr>)" if "dev_inv d" for d m
    using that by (simp_all add: dev_inv_def)
  show ?thesis
    by (cases ev; cases "dev_mode dev") (use assms in \<open>auto intro!: wr quick upd\<close>)
qed

lemma slave_recv_inv:
  assumes "dev_inv dev" shows "safe strict (\<lambda>(b, dev'). dev_inv dev') (smbus_i2c_recv sc dev)"
proof (cases "receive_byte sc")
  case (Some f)
  then have "safe strict (\<lambda>(b, d'). dinv d') (f (dev_state dev))"
    using assms by (intro recv_inv) (simp_all add: dev_inv_def)
  then have "safe strict (\<lambda>(b, dev'). dev_inv dev')
      (res_bind (f (dev_state dev)) (\<lambda>(b, d). Inr (b, dev\<lparr>dev_state := d\<rparr>)))"
    by (rule safe_bind) (use assms in \<open>auto simp: dev_inv_def\<close>)
  then show ?thesis using assms Some
    by (cases "dev_mode dev") (auto simp: smbus_i2c_recv_def dev_inv_def)
qed (use assms in \<open>cases "dev_mode dev"; simp add: smbus_i2c_recv_def dev_inv_def\<close>)

lemma slave_send_inv:
  assumes "dev_inv dev" shows "safe strict (\<lambda>(r, dev'). dev_inv dev') (smbus_i2c_send dev b)"
  using assms by (cases "dev_mode dev") (auto simp: smbus_i2c_send_def dev_inv_def)

lemma on_child_inv:
  assumes "bus_inv bus" and "i < length (bus_children bus)"
    and "\<And>dev. dev_inv dev \<Longrightarrow> safe strict (\<lambda>(r, dev'). dev_inv dev') (f dev)"
  shows "safe strict (\<lambda>(r, bus'). bus_inv bus' \<and> length (bus_children bus') = length (bus_children bus) \<and>
    current_devs bus' = current_devs bus) (on_child i f bus)"
proof -
  have "safe strict (\<lambda>(r, dev'). dev_inv dev') (f (bus_children bus ! i))"
    using assms by (intro assms(3)) (simp add: bus_inv_def)
  then show ?thesis unfolding on_child_def get_at_in [OF assms(2)] res_bind_simps
    by (rule safe_bind) (use assms(1,2) in \<open>auto simp: bus_inv_def dest!: set_update_subset_insert [THEN subsetD]\<close>)
qed

definition bus_keep :: "nat \<Rightarrow> 'd I2CBus \<Rightarrow> bool" where
  "bus_keep n bus \<longleftrightarrow> bus_inv bus \<and> length (bus_children bus) = n"

lemma on_child_keep:
  assumes "bus_keep n bus" and "i < n"
    and "\<And>dev. dev_inv dev \<Longrightarrow> safe strict (\<lambda>(r, dev'). dev_inv dev') (f dev)"
  shows "safe strict (\<lambda>(r, bus'). bus_keep n bus') (on_child i f bus)"
  using assms by (auto intro!: safe_mono [OF on_child_inv] simp: bus_keep_def)

lemma current_less: "bus_keep n bus \<Longrightarrow> i \<in> set (current_devs bus) \<Longrightarrow> i < n"
  by (auto simp: bus_keep_def bus_inv_def)

lemma fold_children_keep:
  assumes "bus_keep n bus"
    and "\<And>dev. dev_inv dev \<Longrightarrow> safe strict (\<lambda>(r, dev'). dev_inv dev') (f dev)"
  shows "safe strict (bus_keep n)
    (fold_res (\<lambda>i bus. res_bind (on_child i f bus) (\<lambda>(r, bus). Inr bus)) (current_devs bus) bus)"
proof (rule safe_fold)
  show "bus_keep n bus" by (rule assms(1))
  fix i s assume i: "i \<in> set (current_devs bus)" and s: "bus_keep n s"
  show "safe strict (bus_keep n) (res_bind (on_child i f s) (\<lambda>(r, bus). Inr bus))"
    by (rule safe_bind [OF on_child_keep [OF s current_less [OF assms(1) i] assms(2)]]) auto
qed

lemma end_transfer_keep:
  assumes "bus_keep n bus" shows "safe strict (bus_keep n) (i2c_end_transfer sc bus)"
  unfolding i2c_end_transfer_def
  by (rule safe_bind [OF fold_children_keep [OF assms event_inv]]) (auto simp: bus_keep_def bus_inv_def)

lemma nack_keep:
  assumes "bus_keep n bus" shows "safe strict (bus_keep n) (i2c_nack sc bus)"
  unfolding i2c_nack_def by (rule fold_children_keep [OF assms event_inv])

lemma start_devs_keep:
  assumes "bus_keep n bus" and "\<forall>i \<in> set is. i < n"
  shows "safe strict (\<lambda>(r, bus'). bus_keep n bus') (start_devs sc scanned ev is bus)"
  using assms
proof (induction "is" arbitrary: bus)
  case (Cons i "is")
  have i: "i < n" and rest: "\<forall>i \<in> set is. i < n" using Cons.prems(2) by simp_all
  show ?case unfolding start_devs.simps
  proof (rule safe_bind [OF on_child_keep [OF Cons.prems(1) i event_inv]])
    fix x :: "int \<times> 'd I2CBus" assume "case x of (r, bus') \<Rightarrow> bus_keep n bus'"
    then show "safe strict (\<lambda>(r, bus'). bus_keep n bus') (case x of (rv, bus) \<Rightarrow>
        if rv \<noteq> 0 \<and> \<not> bus_broadcast bus
        then if scanned then res_bind (i2c_end_transfer sc bus) (\<lambda>bus. Inr (rv, bus)) else Inr (rv, bus)
        else start_devs sc scanned ev is bus)"
      using Cons.IH [OF _ rest] by (auto intro!: safe_bind [OF end_transfer_keep])
  qed
qed simp

lemma scan_from_less:
  "\<forall>j \<in> set cur. j < i + length kids \<Longrightarrow> \<forall>j \<in> set (i2c_scan_from i kids a b cur). j < i + length kids"
  by (induction i kids a b cur rule: i2c_scan_from.induct) auto

lemma do_start_keep:
  assumes "bus_keep n bus"
  shows "safe strict (\<lambda>(r, bus'). bus_keep n bus') (i2c_do_start_transfer sc bus a ev)"
proof -
  define b1 where "b1 = (if a = I2C_BROADCAST then bus\<lparr>bus_broadcast := True\<rparr> else bus)"
  define b2 where "b2 = (if current_devs b1 = []
    then b1\<lparr>current_devs := i2c_scan_bus b1 a (bus_broadcast b1) (current_devs b1)\<rparr> else b1)"
  have b1: "bus_keep n b1" using assms by (auto simp: b1_def bus_keep_def bus_inv_def)
  have "bus_keep n (b1\<lparr>current_devs := i2c_scan_from 0 (bus_children b1) a (bus_broadcast b1) []\<rparr>)"
    using b1 scan_from_less [of "[]" 0 "bus_children b1" a "bus_broadcast b1"]
    by (simp add: bus_keep_def bus_inv_def)
  then have b2: "bus_keep n b2" using b1 by (simp add: b2_def i2c_scan_bus_def)
  then have "safe strict (\<lambda>(r, bus'). bus_keep n bus')
      (start_devs sc (current_devs b1 = []) ev (current_devs b2) b2)"
    by (intro start_devs_keep) (auto dest: current_less)
  moreover have "i2c_do_start_transfer sc bus a ev =
      (if current_devs b2 = [] then Inr (1, b2)
       else start_devs sc (current_devs b1 = []) ev (current_devs b2) b2)"
    unfolding i2c_do_start_transfer_def Let_def b2_def b1_def ..
  ultimately show ?thesis using b2 by simp
qed

lemma send_keep:
  assumes "bus_keep n bus" shows "safe strict (bus_keep n) (i2c_send bus b)"
  unfolding i2c_send_def
proof (rule safe_bind [where Q = "\<lambda>(ret, bus). bus_keep n bus"])
  show "safe strict (\<lambda>(ret, bus). bus_keep n bus)
    (fold_res (\<lambda>i (ret, bus). if ret then Inr (ret, bus)
       else res_bind (on_child i (\<lambda>dev. smbus_i2c_send dev b) bus) (\<lambda>(r, bus). Inr (r \<noteq> 0, bus)))
       (current_devs bus) (False, bus))"
    using assms
    by (intro safe_fold)
      (auto intro!: safe_bind [OF on_child_keep [OF _ current_less [OF assms] slave_send_inv]])
qed auto

lemma recv_keep:
  assumes "bus_keep n bus" shows "safe strict (\<lambda>(b, bus'). bus_keep n bus') (i2c_recv sc bus)"
  using assms
  by (auto simp: i2c_recv_def intro!: on_child_keep slave_recv_inv dest: current_less split: list.split)

lemmas bind_keep = safe_bind [OF do_start_keep] safe_bind [OF end_transfer_keep]
  safe_bind [OF nack_keep] safe_bind [OF send_keep] safe_bind [OF recv_keep]

lemma recv_tail_keep:
  assumes "bus_keep n bus" shows "safe strict (\<lambda>(b, bus'). bus_keep n bus') (recv_tail sc bus)"
  unfolding recv_tail_def using assms by (auto intro!: bind_keep)

lemmas start_defs = i2c_start_send_def i2c_start_recv_def i2c_start_transfer_def

lemma master_keep:
  assumes "bus_keep n bus"
  shows "safe strict (\<lambda>(r, bus'). bus_keep n bus') (smbus_quick_command sc bus addr rd)"
    and "safe strict (\<lambda>(r, bus'). bus_keep n bus') (smbus_receive_byte sc bus addr)"
    and "safe strict (\<lambda>(r, bus'). bus_keep n bus') (smbus_send_byte sc bus addr c)"
    and "safe strict (\<lambda>(r, bus'). bus_keep n bus') (smbus_read_byte sc bus addr c)"
    and "safe strict (\<lambda>(r, bus'). bus_keep n bus') (smbus_write_byte sc bus addr c b)"
    and "safe strict (\<lambda>(r, bus'). bus_keep n bus') (smbus_read_word sc bus addr c)"
    and "safe strict (\<lambda>(r, bus'). bus_keep n bus') (smbus_write_word sc bus addr c w)"
  using assms
  by (auto simp: smbus_quick_command_def smbus_receive_byte_def smbus_send_byte_def smbus_read_byte_def
      smbus_write_byte_def smbus_read_word_def smbus_write_word_def start_defs
      intro!: bind_keep safe_bind [OF recv_tail_keep])

lemma write_block_keep:
  assumes "bus_keep n bus" and "length buf = 32"
  shows "safe strict (\<lambda>(r, bus'). bus_keep n bus') (smbus_write_block sc bus addr c buf len send_len)"
proof -
  define l where "l = (if len > 32 then 32 else len)"
  have l: "l \<le> 32" by (simp add: l_def)
  have loop: "safe strict (bus_keep n)
      (fold_res (\<lambda>i bus. res_bind (get_at buf i) (\<lambda>b. i2c_send bus b)) [0..<nat l] bus)"
    if "bus_keep n bus" for bus
    using that assms(2) l by (intro safe_fold) (auto intro!: send_keep)
  have opt: "safe strict (bus_keep n) (if send_len then i2c_send bus (of_int l) else Inr bus)"
    if "bus_keep n bus" for bus
    using that by (simp add: send_keep)
  show ?thesis
    unfolding smbus_write_block_def start_defs Let_def l_def [symmetric] using assms(1)
    by (auto intro!: safe_if bind_keep safe_bind [OF loop] safe_bind [OF opt] split del: if_split)
qed

lemma read_block_keep:
  assumes "bus_keep n bus" and "length buf = 32"
  shows "safe strict (\<lambda>x. fst x \<le> 32 \<and> length (fst (snd x)) = 32 \<and> bus_keep n (snd (snd x)))
    (smbus_read_block sc bus addr c buf 32 True True)"
proof -
  have loop: "safe strict (\<lambda>(buf', bus'). length buf' = 32 \<and> bus_keep n bus')
      (fold_res (\<lambda>i (buf, bus). res_bind (i2c_recv sc bus) (\<lambda>(b, bus).
               res_bind (put_at buf i b) (\<lambda>buf. Inr (buf, bus)))) [0..<nat rlen] (buf, bus))"
    if "bus_keep n bus" "rlen \<le> 32" for bus rlen
    using that assms(2) by (intro safe_fold) (auto intro!: safe_bind [OF recv_keep])
  have finish: "safe strict (\<lambda>x. fst x \<le> 32 \<and> length (fst (snd x)) = 32 \<and> bus_keep n (snd (snd x)))
      (let rlen = if rlen > 32 then 0 else rlen in
       res_bind (fold_res (\<lambda>i (buf, bus). res_bind (i2c_recv sc bus) (\<lambda>(b, bus).
               res_bind (put_at buf i b) (\<lambda>buf. Inr (buf, bus)))) [0..<nat rlen] (buf, bus))
         (\<lambda>(buf, bus). res_bind (i2c_nack sc bus) (\<lambda>bus.
            res_bind (i2c_end_transfer sc bus) (\<lambda>bus. Inr (rlen, buf, bus)))))"
    if "bus_keep n bus" for bus rlen
  proof -
    define l where "l = (if rlen > 32 then 0 else rlen)"
    have "l \<le> 32" by (simp add: l_def)
    then show ?thesis unfolding Let_def l_def [symmetric] using that
      by (auto intro!: safe_bind [OF loop] bind_keep)
  qed
  have cmd: "safe strict (\<lambda>(r, bus'). bus_keep n bus')
      (res_bind (i2c_do_start_transfer sc bus addr I2C_START_SEND) (\<lambda>(r, bus).
         if r \<noteq> 0 then Inr (r, bus) else res_bind (i2c_send bus c) (\<lambda>bus. Inr (0, bus))))"
    using assms(1) by (auto intro!: bind_keep safe_if split del: if_split)
  have len: "safe strict (\<lambda>(l, bus'). bus_keep n bus')
      (res_bind (i2c_recv sc bus) (\<lambda>(b, bus). Inr (uint b, bus)))" if "bus_keep n bus" for bus
    using that by (auto intro!: bind_keep)
  show ?thesis
    unfolding smbus_read_block_def start_defs if_True using assms
    by (auto intro!: safe_bind [OF cmd] safe_bind [OF len] safe_if bind_keep finish split del: if_split)
qed

end

section \<open>Transactions on an idle bus\<close>

text \<open>
  On an idle bus a transaction is a sequence of callbacks of the addressed device:
  the bus and the slave state machine add nothing and are idle again afterwards.
\<close>

definition dev_idle :: "'d SMBusDevice \<Rightarrow> bool" where
  "dev_idle dev \<longleftrightarrow> dev_mode dev = SMBUS_IDLE \<and> data_len dev = 0 \<and>
    length (data_buf dev) = SMBUS_DATA_MAX_LEN"

definition bus_idle :: "'d I2CBus \<Rightarrow> bool" where
  "bus_idle bus \<longleftrightarrow> current_devs bus = [] \<and> \<not> bus_broadcast bus \<and>
    (\<forall>dev \<in> set (bus_children bus). dev_idle dev)"

definition dev_at :: "'d I2CBus \<Rightarrow> u8 \<Rightarrow> nat \<Rightarrow> bool" where
  "dev_at bus a i \<longleftrightarrow> a \<noteq> I2C_BROADCAST \<and> i < length (bus_children bus) \<and>
    i2c_address (bus_children bus ! i) = a \<and> (\<forall>j < i. i2c_address (bus_children bus ! j) \<noteq> a)"

definition focus :: "'d I2CBus \<Rightarrow> nat \<Rightarrow> 'd SMBusDevice \<Rightarrow> 'd I2CBus" where
  "focus bus i dev = bus\<lparr>bus_children := (bus_children bus)[i := dev], current_devs := [i],
    bus_broadcast := False\<rparr>"

definition put_dev :: "'d I2CBus \<Rightarrow> nat \<Rightarrow> 'd SMBusDevice \<Rightarrow> 'd I2CBus" where
  "put_dev bus i dev = bus\<lparr>bus_children := (bus_children bus)[i := dev], current_devs := [],
    bus_broadcast := False\<rparr>"

lemma scan_from_first:
  "i < length kids \<Longrightarrow> i2c_address (kids ! i) = a \<Longrightarrow> (\<forall>j < i. i2c_address (kids ! j) \<noteq> a) \<Longrightarrow>
    i2c_scan_from n kids a False [] = [n + i]"
proof (induction kids arbitrary: i n)
  case (Cons kid kids)
  then show ?case
  proof (cases i)
    case (Suc k)
    have "i2c_address kid \<noteq> a" using Cons.prems(3) Suc by (metis nth_Cons_0 zero_less_Suc)
    moreover have "i2c_scan_from (Suc n) kids a False [] = [Suc n + k]"
      using Cons.prems Suc by (intro Cons.IH) auto
    ultimately show ?thesis using Suc by (simp add: i2c_slave_match_def)
  qed (simp add: i2c_slave_match_def)
qed simp

lemma focus_simps:
  assumes "i < length (bus_children bus)"
  shows "on_child i f (focus bus i dev) = res_bind (f dev) (\<lambda>(r, d). Inr (r, focus bus i d))"
    and "current_devs (focus bus i dev) = [i]" and "bus_broadcast (focus bus i dev) = False"
    and "i2c_send (focus bus i dev) b = res_bind (smbus_i2c_send dev b) (\<lambda>(r, d). Inr (focus bus i d))"
    and "i2c_recv sc (focus bus i dev) = res_bind (smbus_i2c_recv sc dev) (\<lambda>(b, d). Inr (b, focus bus i d))"
    and "i2c_nack sc (focus bus i dev) =
      res_bind (smbus_i2c_event sc dev I2C_NACK) (\<lambda>(r, d). Inr (focus bus i d))"
    and "i2c_end_transfer sc (focus bus i dev) =
      res_bind (smbus_i2c_event sc dev I2C_FINISH) (\<lambda>(r, d). Inr (put_dev bus i d))"
proof -
  show on: "on_child i f (focus bus i dev) = res_bind (f dev) (\<lambda>(r, d). Inr (r, focus bus i d))" for f :: "_ \<Rightarrow> ('r \<times> _) res"
    using assms by (cases bus) (simp add: on_child_def focus_def)
  have on': "on_child i f (focus bus i dev) = res_bind (f dev) (\<lambda>(r, d). Inr (r, focus bus i d))" for f :: "_ \<Rightarrow> ('s \<times> _) res"
    using assms by (cases bus) (simp add: on_child_def focus_def)
  show cur: "current_devs (focus bus i dev) = [i]" "bus_broadcast (focus bus i dev) = False"
    by (simp_all add: focus_def)
  have fin: "(focus bus i d)\<lparr>current_devs := [], bus_broadcast := False\<rparr> = put_dev bus i d" for d
    by (cases bus) (simp add: focus_def put_dev_def)
  show "i2c_send (focus bus i dev) b = res_bind (smbus_i2c_send dev b) (\<lambda>(r, d). Inr (focus bus i d))"
    by (cases "smbus_i2c_send dev b") (auto simp: i2c_send_def cur on')
  show "i2c_recv sc (focus bus i dev) = res_bind (smbus_i2c_recv sc dev) (\<lambda>(b, d). Inr (b, focus bus i d))"
    by (simp add: i2c_recv_def cur on')
  show "i2c_nack sc (focus bus i dev) =
      res_bind (smbus_i2c_event sc dev I2C_NACK) (\<lambda>(r, d). Inr (focus bus i d))"
    by (cases "smbus_i2c_event sc dev I2C_NACK") (auto simp: i2c_nack_def cur on')
  show "i2c_end_transfer sc (focus bus i dev) =
      res_bind (smbus_i2c_event sc dev I2C_FINISH) (\<lambda>(r, d). Inr (put_dev bus i d))"
    by (cases "smbus_i2c_event sc dev I2C_FINISH")
      (auto simp: i2c_end_transfer_def cur on' fin)
qed

lemma start_focus:
  assumes "i < length (bus_children bus)" and "a \<noteq> I2C_BROADCAST" and "ev = I2C_START_RECV \<or> ev = I2C_START_SEND"
  shows "i2c_do_start_transfer sc (focus bus i dev) a ev =
    res_bind (smbus_i2c_event sc dev ev) (\<lambda>(r, d). Inr (0, focus bus i d))"
proof -
  have "r = 0" if "smbus_i2c_event sc dev ev = Inr (r, d)" for r d
    using that assms(3) by (auto simp: res_bind_eq_Inr split: smbus_mode.splits if_splits)
  then show ?thesis using assms
    by (cases "smbus_i2c_event sc dev ev") (auto simp: i2c_do_start_transfer_def focus_simps)
qed

lemma start_idle:
  assumes "bus_idle bus" and "dev_at bus a i" and "ev = I2C_START_RECV \<or> ev = I2C_START_SEND"
  shows "i2c_do_start_transfer sc bus a ev =
    res_bind (smbus_i2c_event sc (bus_children bus ! i) ev) (\<lambda>(r, d). Inr (0, focus bus i d))"
proof -
  let ?dev = "bus_children bus ! i"
  have i: "i < length (bus_children bus)" and a: "a \<noteq> I2C_BROADCAST" using assms(2) by (simp_all add: dev_at_def)
  have "i2c_scan_bus bus a False [] = [i]"
    using assms(2) scan_from_first [of i "bus_children bus" a 0] by (simp add: i2c_scan_bus_def dev_at_def)
  moreover have "bus\<lparr>current_devs := [i]\<rparr> = focus bus i ?dev"
    using assms(1) i by (simp add: focus_def bus_idle_def)
  moreover have "r = 0" if "smbus_i2c_event sc ?dev ev = Inr (r, d)" for r d
    using that assms(3) by (auto simp: res_bind_eq_Inr split: smbus_mode.splits if_splits)
  ultimately show ?thesis using assms(1) a i
    by (cases "smbus_i2c_event sc ?dev ev")
      (auto simp: i2c_do_start_transfer_def bus_idle_def focus_simps)
qed

lemma dev_idleD:
  assumes "bus_idle bus" and "dev_at bus a i"
  shows "dev_idle (bus_children bus ! i)" and "i < length (bus_children bus)" and "a \<noteq> I2C_BROADCAST"
  using assms by (simp_all add: bus_idle_def dev_at_def)

lemma dev_update_idle:
  "dev_idle dev \<Longrightarrow> dev\<lparr>dev_mode := SMBUS_IDLE, data_len := 0\<rparr> = dev"
  by (cases dev) (simp add: dev_idle_def)

lemmas txn_simps = start_idle start_focus focus_simps i2c_start_send_def i2c_start_recv_def
  i2c_start_transfer_def smbus_i2c_send_def smbus_i2c_recv_def smbus_do_write_def dev_idle_def recv_tail_def

lemma write_byte_txn:
  assumes "bus_idle bus" and "dev_at bus a i" and "write_data sc = Some w"
    and "w (dev_state (bus_children bus ! i)) ((data_buf (bus_children bus ! i))[0 := c, 1 := b]) 2 = Inr d"
  shows "smbus_write_byte sc bus a c b = Inr (0, put_dev bus i ((bus_children bus ! i)
    \<lparr>data_buf := (data_buf (bus_children bus ! i))[0 := c, 1 := b], dev_state := d\<rparr>))"
proof -
  obtain dev where dev: "bus_children bus ! i = dev" by simp
  note idle = dev_idleD [OF assms(1,2), unfolded dev]
  show ?thesis using assms idle unfolding smbus_write_byte_def dev
    by (cases dev) (simp add: txn_simps dev)
qed

lemma read_byte_txn:
  assumes "bus_idle bus" and "dev_at bus a i" and "write_data sc = Some w" and "receive_byte sc = Some f"
    and "w (dev_state (bus_children bus ! i)) ((data_buf (bus_children bus ! i))[0 := c]) 1 = Inr d"
    and "f d = Inr (v, d')"
  shows "smbus_read_byte sc bus a c = Inr (uint v, put_dev bus i ((bus_children bus ! i)
    \<lparr>data_buf := (data_buf (bus_children bus ! i))[0 := c], dev_state := d'\<rparr>))"
proof -
  obtain dev where dev: "bus_children bus ! i = dev" by simp
  note idle = dev_idleD [OF assms(1,2), unfolded dev]
  show ?thesis using assms idle unfolding smbus_read_byte_def dev
    by (cases dev) (simp add: txn_simps dev)
qed

lemma put_dev_idle:
  assumes "bus_idle bus" and "dev_idle dev" shows "bus_idle (put_dev bus i dev)"
  using assms by (auto simp: bus_idle_def put_dev_def dest!: set_update_subset_insert [THEN subsetD])

lemma put_dev_at:
  assumes "dev_at bus a i" and "i2c_address dev = a" shows "dev_at (put_dev bus i dev) a i"
  using assms by (auto simp: dev_at_def put_dev_def nth_list_update)

lemma put_dev_nth [simp]: "i < length (bus_children bus) \<Longrightarrow> bus_children (put_dev bus i dev) ! i = dev"
  by (simp add: put_dev_def)

lemma no_device_txn:
  assumes "bus_idle bus" and "a \<noteq> I2C_BROADCAST" and "\<forall>dev \<in> set (bus_children bus). i2c_address dev \<noteq> a"
  shows "i2c_do_start_transfer sc bus a ev = Inr (1, bus)"
proof -
  have "i2c_scan_from n kids a False [] = []" if "\<forall>dev \<in> set kids. i2c_address dev \<noteq> a" for n and kids :: "'a SMBusDevice list"
    using that by (induction kids arbitrary: n) (simp_all add: i2c_slave_match_def)
  then show ?thesis using assms
    by (cases bus) (simp add: i2c_do_start_transfer_def i2c_scan_bus_def bus_idle_def)
qed

end
