(* ===== verification/SMBus_Devices.thy ===== *)
theory SMBus_Devices
  imports I2C
begin

text \<open>
  The devices on the Xbox SMBus: the system management controller
  (\<open>hw/xbox/smbus_xbox_smc.c\<close>), the EEPROM (\<open>smbus_storage.c\<close>), the temperature
  monitor (\<open>smbus_adm1032.c\<close>) and the three video encoders (\<open>smbus_cx25871.c\<close>,
  \<open>smbus_fs454.c\<close>, \<open>smbus_xcalibur.c\<close>).

  Requests to the rest of the emulator (reset, shutdown, the ACPI event) are
  recorded in the device state.  The tray of the drive, the machine properties and
  the host file behind the EEPROM are arguments.  Every class is an interpretation
  of the interface \<open>smbus_class\<close> of theory \<open>I2C\<close>.
\<close>

section \<open>System management controller\<close>

definition SMC_REG_VER :: u8 where "SMC_REG_VER = 0x01"
definition SMC_REG_POWER :: u8 where "SMC_REG_POWER = 0x02"
definition SMC_REG_POWER_RESET :: u8 where "SMC_REG_POWER_RESET = 0x01"
definition SMC_REG_POWER_CYCLE :: u8 where "SMC_REG_POWER_CYCLE = 0x40"
definition SMC_REG_POWER_SHUTDOWN :: u8 where "SMC_REG_POWER_SHUTDOWN = 0x80"
definition SMC_REG_TRAYSTATE :: u8 where "SMC_REG_TRAYSTATE = 0x03"
definition SMC_REG_TRAYSTATE_OPEN :: u8 where "SMC_REG_TRAYSTATE_OPEN = 0x10"
definition SMC_REG_TRAYSTATE_NO_MEDIA_DETECTED :: u8 where "SMC_REG_TRAYSTATE_NO_MEDIA_DETECTED = 0x40"
definition SMC_REG_TRAYSTATE_MEDIA_DETECTED :: u8 where "SMC_REG_TRAYSTATE_MEDIA_DETECTED = 0x60"
definition SMC_REG_AVPACK :: u8 where "SMC_REG_AVPACK = 0x04"
definition SMC_REG_ERROR_WRITE :: u8 where "SMC_REG_ERROR_WRITE = 0x0e"
definition SMC_REG_ERROR_READ :: u8 where "SMC_REG_ERROR_READ = 0x0f"
definition SMC_REG_INTSTATUS :: u8 where "SMC_REG_INTSTATUS = 0x11"
definition SMC_REG_INTSTATUS_POWER :: u8 where "SMC_REG_INTSTATUS_POWER = 0x01"
definition SMC_REG_INTSTATUS_TRAYCLOSED :: u8 where "SMC_REG_INTSTATUS_TRAYCLOSED = 0x02"
definition SMC_REG_INTSTATUS_TRAYOPENING :: u8 where "SMC_REG_INTSTATUS_TRAYOPENING = 0x04"
definition SMC_REG_INTSTATUS_EJECT_BUTTON :: u8 where "SMC_REG_INTSTATUS_EJECT_BUTTON = 0x20"
definition SMC_REG_SCRATCH :: u8 where "SMC_REG_SCRATCH = 0x1b"
definition SMC_REG_SCRATCH_SHORT_ANIMATION :: u8 where "SMC_REG_SCRATCH_SHORT_ANIMATION = 0x04"
definition SMC_VERSION_LENGTH :: int where "SMC_VERSION_LENGTH = 3"

lemmas smc_consts = SMC_REG_VER_def SMC_REG_POWER_def SMC_REG_POWER_RESET_def SMC_REG_POWER_CYCLE_def
  SMC_REG_POWER_SHUTDOWN_def SMC_REG_TRAYSTATE_def SMC_REG_TRAYSTATE_OPEN_def
  SMC_REG_TRAYSTATE_NO_MEDIA_DETECTED_def SMC_REG_TRAYSTATE_MEDIA_DETECTED_def SMC_REG_AVPACK_def
  SMC_REG_ERROR_WRITE_def SMC_REG_ERROR_READ_def SMC_REG_INTSTATUS_def SMC_REG_INTSTATUS_POWER_def
  SMC_REG_INTSTATUS_TRAYCLOSED_def SMC_REG_INTSTATUS_TRAYOPENING_def
  SMC_REG_INTSTATUS_EJECT_BUTTON_def SMC_REG_SCRATCH_def SMC_REG_SCRATCH_SHORT_ANIMATION_def
  SMC_VERSION_LENGTH_def

datatype system_request = SHUTDOWN_CAUSE_GUEST_RESET | SHUTDOWN_CAUSE_GUEST_SHUTDOWN | ACPI_EXTSMI

text \<open>
  The version string is held with its terminating zero byte; its index is a C
  \<open>int\<close>, so a 32-bit word read as a signed number.
\<close>

record SMBusSMCDevice =
  smc_version_string :: "u8 list option"
  smc_version_string_index :: u32
  smc_cmd :: u8
  smc_traystate_reg :: u8
  smc_avpack_reg :: u8
  smc_intstatus_reg :: u8
  smc_scratch_reg :: u8
  smc_error_reg :: u8
  smc_requests :: "system_request list"

definition smc_quick_cmd :: "SMBusSMCDevice \<Rightarrow> u8 \<Rightarrow> SMBusSMCDevice" where
  "smc_quick_cmd smc r = smc"

definition smc_write_data :: "SMBusSMCDevice \<Rightarrow> u8 list \<Rightarrow> u8 \<Rightarrow> SMBusSMCDevice res" where
  "smc_write_data smc buf len =
    res_bind (get_at buf 0) (\<lambda>cmd.
      let smc = smc\<lparr>smc_cmd := cmd\<rparr>; len = len - 1 in
      if len < 1 then Inr smc
      else res_bind (get_at buf 1) (\<lambda>b.
        if cmd = SMC_REG_VER then Inr (smc\<lparr>smc_version_string_index := ucast b\<rparr>)
        else if cmd = SMC_REG_POWER then
          if b AND (SMC_REG_POWER_RESET OR SMC_REG_POWER_CYCLE) \<noteq> 0
          then Inr (smc\<lparr>smc_requests := smc_requests smc @ [SHUTDOWN_CAUSE_GUEST_RESET]\<rparr>)
          else if b AND SMC_REG_POWER_SHUTDOWN \<noteq> 0
          then Inr (smc\<lparr>smc_requests := smc_requests smc @ [SHUTDOWN_CAUSE_GUEST_SHUTDOWN]\<rparr>)
          else Inr smc
        else if cmd = SMC_REG_ERROR_WRITE then Inr (smc\<lparr>smc_error_reg := b\<rparr>)
        else if cmd = SMC_REG_SCRATCH then Inr (smc\<lparr>smc_scratch_reg := b\<rparr>)
        else Inr smc))"

definition c_rem :: "int \<Rightarrow> int \<Rightarrow> int" where
  "c_rem a b = sgn a * (\<bar>a\<bar> mod \<bar>b\<bar>)"

definition get_int :: "'a list \<Rightarrow> int \<Rightarrow> 'a res" where
  "get_int xs i = (if i < 0 then Inl Out_of_bounds else get_at xs (nat i))"

definition smc_receive_byte :: "SMBusSMCDevice \<Rightarrow> (u8 \<times> SMBusSMCDevice) res" where
  "smc_receive_byte smc =
    (let cmd = smc_cmd smc; smc = smc\<lparr>smc_cmd := smc_cmd smc + 1\<rparr> in
     if cmd = SMC_REG_VER then
       let i = smc_version_string_index smc; smc = smc\<lparr>smc_version_string_index := i + 1\<rparr> in
       (case smc_version_string smc of None \<Rightarrow> Inl Null_pointer
        | Some vs \<Rightarrow> res_bind (get_int vs (c_rem (sint i) SMC_VERSION_LENGTH)) (\<lambda>b. Inr (b, smc)))
     else if cmd = SMC_REG_TRAYSTATE then Inr (smc_traystate_reg smc, smc)
     else if cmd = SMC_REG_SCRATCH then Inr (smc_scratch_reg smc, smc)
     else if cmd = SMC_REG_AVPACK then Inr (smc_avpack_reg smc, smc)
     else if cmd = SMC_REG_ERROR_READ then Inr (smc_error_reg smc, smc)
     else if cmd = SMC_REG_INTSTATUS then Inr (smc_intstatus_reg smc, smc\<lparr>smc_intstatus_reg := 0\<rparr>)
     else if cmd = 0x1c then Inr (0x52, smc)
     else if cmd = 0x1d then Inr (0x72, smc)
     else if cmd = 0x1e then Inr (0xea, smc)
     else if cmd = 0x1f then Inr (0x46, smc)
     else Inr (0, smc))"

definition xbox_smc_avpack_to_reg :: "string \<Rightarrow> u8 option" where
  "xbox_smc_avpack_to_reg avpack =
    (if avpack = ''composite'' then Some 0x06
     else if avpack = ''scart'' then Some 0x00
     else if avpack = ''svideo'' then Some 0x04
     else if avpack = ''vga'' then Some 0x02
     else if avpack = ''rfu'' then Some 0x03
     else if avpack = ''hdtv'' then Some 0x01
     else if avpack = ''none'' then Some 0x07
     else None)"

definition xbox_assert_extsmi :: "SMBusSMCDevice \<Rightarrow> SMBusSMCDevice" where
  "xbox_assert_extsmi smc = smc\<lparr>smc_requests := smc_requests smc @ [ACPI_EXTSMI]\<rparr>"

definition xbox_smc_power_button :: "SMBusSMCDevice \<Rightarrow> SMBusSMCDevice" where
  "xbox_smc_power_button smc = xbox_assert_extsmi
    (smc\<lparr>smc_intstatus_reg := smc_intstatus_reg smc OR SMC_REG_INTSTATUS_POWER\<rparr>)"

definition xbox_smc_eject_button :: "SMBusSMCDevice \<Rightarrow> SMBusSMCDevice" where
  "xbox_smc_eject_button smc = xbox_assert_extsmi
    (smc\<lparr>smc_intstatus_reg := smc_intstatus_reg smc OR SMC_REG_INTSTATUS_EJECT_BUTTON\<rparr>)"

text \<open>The block backend of the drive: no backend, or (tray open, medium present).\<close>

definition xbox_smc_update_tray_state :: "(bool \<times> bool) option \<Rightarrow> SMBusSMCDevice \<Rightarrow> SMBusSMCDevice res" where
  "xbox_smc_update_tray_state blk smc = (case blk of
      None \<Rightarrow> Inl Assertion
    | Some (tray_open, medium) \<Rightarrow> Inr (xbox_assert_extsmi
        (if tray_open
         then smc\<lparr>smc_traystate_reg := SMC_REG_TRAYSTATE_OPEN,
                  smc_intstatus_reg := smc_intstatus_reg smc OR SMC_REG_INTSTATUS_TRAYOPENING\<rparr>
         else smc\<lparr>smc_traystate_reg := (if medium then SMC_REG_TRAYSTATE_MEDIA_DETECTED
                                       else SMC_REG_TRAYSTATE_NO_MEDIA_DETECTED),
                  smc_intstatus_reg := smc_intstatus_reg smc OR SMC_REG_INTSTATUS_TRAYCLOSED\<rparr>)))"

text \<open>
  \<open>error_setg\<close> asserts that no error is set yet; the flag says whether one is.
\<close>

definition error_setg :: "bool \<Rightarrow> bool res" where
  "error_setg err = (if err then Inl Assertion else Inr True)"

definition smbus_smc_realize ::
  "bool \<Rightarrow> string option \<Rightarrow> u8 list option \<Rightarrow> (bool \<times> bool) option \<Rightarrow> SMBusSMCDevice \<Rightarrow>
    (bool \<times> SMBusSMCDevice) res" where
  "smbus_smc_realize short_animation avpack smc_version blk smc =
    (let smc = smc\<lparr>smc_version_string := None, smc_version_string_index := 0, smc_traystate_reg := 0,
                   smc_avpack_reg := 0, smc_intstatus_reg := 0, smc_scratch_reg := 0, smc_cmd := 0,
                   smc_error_reg := 0\<rparr>;
         smc = (if short_animation then smc\<lparr>smc_scratch_reg := SMC_REG_SCRATCH_SHORT_ANIMATION\<rparr> else smc)
     in res_bind
       (case avpack of None \<Rightarrow> Inr (False, smc)
        | Some s \<Rightarrow> (case xbox_smc_avpack_to_reg s of
            None \<Rightarrow> res_bind (error_setg False) (\<lambda>err. Inr (err, smc))
          | Some r \<Rightarrow> Inr (False, smc\<lparr>smc_avpack_reg := r\<rparr>)))
       (\<lambda>(err, smc). res_bind
         (case smc_version of None \<Rightarrow> Inr (err, smc)
          | Some v \<Rightarrow> res_bind (if int (length v) \<noteq> SMC_VERSION_LENGTH then error_setg err else Inr err)
              (\<lambda>err. Inr (err, smc\<lparr>smc_version_string := Some (v @ [0])\<rparr>)))
         (\<lambda>(err, smc). res_bind (xbox_smc_update_tray_state blk smc) (\<lambda>smc. Inr (err, smc)))))"

section \<open>EEPROM\<close>

record SMBusStorageDevice =
  st_file :: "string option"
  st_data :: "u8 list"
  st_size :: u32
  st_addr :: u8
  st_offset :: u32
  st_persist :: bool
  st_disk :: "u8 list"

text \<open>
  The host file: whether it can be opened, and how many bytes a write of \<open>n\<close> bytes
  stores.
\<close>

record host_file =
  hf_open :: bool
  hf_write :: "nat \<Rightarrow> int"

definition smbus_storage_realize ::
  "int \<Rightarrow> bool \<Rightarrow> u8 list \<Rightarrow> SMBusStorageDevice \<Rightarrow> bool \<times> SMBusStorageDevice" where
  "smbus_storage_realize image_size can_open contents s =
    (let s = s\<lparr>st_data := replicate (unat (st_size s)) 0, st_offset := 0\<rparr> in
     if st_file s \<noteq> None then
       if of_int image_size \<noteq> st_size s then (True, s)
       else if \<not> can_open then (True, s)
       else let got = take (unat (st_size s)) contents;
                s = s\<lparr>st_data := got @ drop (length got) (st_data s)\<rparr>
            in (length got \<noteq> unat (st_size s), s)
     else (True, s))"

fun storage_store :: "u8 list \<Rightarrow> SMBusStorageDevice \<Rightarrow> SMBusStorageDevice res" where
  "storage_store [] s = Inr s"
| "storage_store (b # bs) s =
    res_bind (put_at (st_data s) (unat (st_offset s)) b) (\<lambda>d.
      if st_size s = 0 then Inl Div_by_zero
      else storage_store bs (s\<lparr>st_data := d, st_offset := (st_offset s + 1) mod st_size s\<rparr>))"

definition smbus_storage_write_data ::
  "host_file \<Rightarrow> SMBusStorageDevice \<Rightarrow> u8 list \<Rightarrow> u8 \<Rightarrow> (int \<times> SMBusStorageDevice) res" where
  "smbus_storage_write_data hf s buf len =
    res_bind (get_at buf 0) (\<lambda>off.
      let s = s\<lparr>st_offset := ucast off\<rparr>; len = len - 1 in
      if unat len + 1 > length buf then Inl Out_of_bounds
      else res_bind (storage_store (take (unat len) (drop 1 buf)) s) (\<lambda>s.
        if len > 0 \<and> st_file s \<noteq> None \<and> st_persist s then
          if \<not> hf_open hf then Inr (-1, s)
          else let wc = hf_write hf (unat (st_size s));
                   s = s\<lparr>st_disk := take (nat wc) (st_data s) @ drop (nat wc) (st_disk s)\<rparr>
               in if wc \<noteq> uint (st_size s) then Inr (-1, s) else Inr (0, s)
        else Inr (0, s)))"

definition smbus_storage_receive_byte :: "SMBusStorageDevice \<Rightarrow> (u8 \<times> SMBusStorageDevice) res" where
  "smbus_storage_receive_byte s =
    res_bind (get_at (st_data s) (unat (st_offset s))) (\<lambda>v.
      if st_size s = 0 then Inl Div_by_zero
      else Inr (v, s\<lparr>st_offset := (st_offset s + 1) mod st_size s\<rparr>))"

section \<open>Temperature monitor and video encoders\<close>

record SMBusADM1032Device =
  adm_cmd :: u8

definition smbus_adm1032_quick_cmd :: "SMBusADM1032Device \<Rightarrow> u8 \<Rightarrow> SMBusADM1032Device" where
  "smbus_adm1032_quick_cmd cx r = cx"

definition smbus_adm1032_write_data :: "SMBusADM1032Device \<Rightarrow> u8 list \<Rightarrow> u8 \<Rightarrow> SMBusADM1032Device res" where
  "smbus_adm1032_write_data cx buf len = res_bind (get_at buf 0) (\<lambda>c. Inr (cx\<lparr>adm_cmd := c\<rparr>))"

definition smbus_adm1032_receive_byte :: "SMBusADM1032Device \<Rightarrow> (u8 \<times> SMBusADM1032Device) res" where
  "smbus_adm1032_receive_byte cx =
    (let cmd = adm_cmd cx; cx = cx\<lparr>adm_cmd := adm_cmd cx + 1\<rparr> in
     if cmd = 0x0 \<or> cmd = 0x1 then Inr (50, cx) else Inr (0, cx))"

definition smbus_adm1032_realize :: "SMBusADM1032Device \<Rightarrow> SMBusADM1032Device" where
  "smbus_adm1032_realize cx = cx\<lparr>adm_cmd := 0\<rparr>"

definition memcpy_regs :: "u8 list \<Rightarrow> nat \<Rightarrow> u8 list \<Rightarrow> nat \<Rightarrow> u8 list res" where
  "memcpy_regs regs off src n =
    (if n \<le> length src \<and> off + n \<le> length regs
     then Inr (take off regs @ take n src @ drop (off + n) regs) else Inl Out_of_bounds)"

record SMBusCX25871Device =
  cx_registers :: "u8 list"
  cx_cmd :: u8

definition smbus_cx25871_quick_cmd :: "SMBusCX25871Device \<Rightarrow> u8 \<Rightarrow> SMBusCX25871Device" where
  "smbus_cx25871_quick_cmd cx r = cx"

definition smbus_cx25871_write_data :: "SMBusCX25871Device \<Rightarrow> u8 list \<Rightarrow> u8 \<Rightarrow> SMBusCX25871Device res" where
  "smbus_cx25871_write_data cx buf len =
    res_bind (get_at buf 0) (\<lambda>cmd.
      let cx = cx\<lparr>cx_cmd := cmd\<rparr>; len = len - 1 in
      if len < 1 then Inr cx
      else res_bind (memcpy_regs (cx_registers cx) (unat cmd) (drop 1 buf) (min (unat len) (256 - unat cmd)))
        (\<lambda>regs. Inr (cx\<lparr>cx_registers := regs\<rparr>)))"

definition smbus_cx25871_receive_byte :: "SMBusCX25871Device \<Rightarrow> (u8 \<times> SMBusCX25871Device) res" where
  "smbus_cx25871_receive_byte cx =
    res_bind (get_at (cx_registers cx) (unat (cx_cmd cx))) (\<lambda>b. Inr (b, cx\<lparr>cx_cmd := cx_cmd cx + 1\<rparr>))"

definition smbus_cx25871_realize :: "SMBusCX25871Device \<Rightarrow> SMBusCX25871Device" where
  "smbus_cx25871_realize cx = cx\<lparr>cx_registers := replicate 256 0, cx_cmd := 0\<rparr>"

record SMBusfs454Device =
  fs_registers :: "u8 list"
  fs_cmd :: u8

definition smbus_fs454_quick_cmd :: "SMBusfs454Device \<Rightarrow> u8 \<Rightarrow> SMBusfs454Device" where
  "smbus_fs454_quick_cmd cx r = cx"

definition smbus_fs454_write_data :: "SMBusfs454Device \<Rightarrow> u8 list \<Rightarrow> u8 \<Rightarrow> SMBusfs454Device res" where
  "smbus_fs454_write_data cx buf len =
    res_bind (get_at buf 0) (\<lambda>cmd.
      let cx = cx\<lparr>fs_cmd := cmd\<rparr>; len = len - 1 in
      if len < 1 then Inr cx
      else res_bind (memcpy_regs (fs_registers cx) (unat cmd) (drop 1 buf) (min (unat len) (256 - unat cmd)))
        (\<lambda>regs. Inr (cx\<lparr>fs_registers := regs\<rparr>)))"

definition smbus_fs454_receive_byte :: "SMBusfs454Device \<Rightarrow> (u8 \<times> SMBusfs454Device) res" where
  "smbus_fs454_receive_byte cx =
    res_bind (get_at (fs_registers cx) (unat (fs_cmd cx))) (\<lambda>b. Inr (b, cx\<lparr>fs_cmd := fs_cmd cx + 1\<rparr>))"

definition smbus_fs454_realize :: "SMBusfs454Device \<Rightarrow> SMBusfs454Device" where
  "smbus_fs454_realize cx = cx\<lparr>fs_registers := replicate 256 0, fs_cmd := 0\<rparr>"

record SMBusxcaliburDevice =
  xc_registers :: "u8 list"
  xc_cmd :: u8

definition smbus_xcalibur_quick_cmd :: "SMBusxcaliburDevice \<Rightarrow> u8 \<Rightarrow> SMBusxcaliburDevice" where
  "smbus_xcalibur_quick_cmd cx r = cx"

definition smbus_xcalibur_write_data :: "SMBusxcaliburDevice \<Rightarrow> u8 list \<Rightarrow> u8 \<Rightarrow> SMBusxcaliburDevice res" where
  "smbus_xcalibur_write_data cx buf len =
    res_bind (get_at buf 0) (\<lambda>cmd.
      let cx = cx\<lparr>xc_cmd := cmd\<rparr>; len = len - 1 in
      if len < 1 then Inr cx
      else res_bind (memcpy_regs (xc_registers cx) (unat cmd) (drop 1 buf) (min (unat len) (256 - unat cmd)))
        (\<lambda>regs. Inr (cx\<lparr>xc_registers := regs\<rparr>)))"

definition smbus_xcalibur_receive_byte :: "SMBusxcaliburDevice \<Rightarrow> (u8 \<times> SMBusxcaliburDevice) res" where
  "smbus_xcalibur_receive_byte cx =
    res_bind (get_at (xc_registers cx) (unat (xc_cmd cx))) (\<lambda>b. Inr (b, cx\<lparr>xc_cmd := xc_cmd cx + 1\<rparr>))"

definition smbus_xcalibur_realize :: "SMBusxcaliburDevice \<Rightarrow> SMBusxcaliburDevice" where
  "smbus_xcalibur_realize cx = cx\<lparr>xc_registers := replicate 256 0, xc_cmd := 0\<rparr>"

section \<open>Device classes and the devices of the Xbox bus\<close>

definition smc_class :: "SMBusSMCDevice SMBusDeviceClass" where
  "smc_class = \<lparr>quick_cmd = Some smc_quick_cmd, write_data = Some smc_write_data,
    receive_byte = Some smc_receive_byte\<rparr>"

definition drop_rc :: "(int \<times> 'a) res \<Rightarrow> 'a res" where
  "drop_rc m = res_bind m (\<lambda>(rc, d). Inr d)"

definition storage_class :: "host_file \<Rightarrow> SMBusStorageDevice SMBusDeviceClass" where
  "storage_class hf = \<lparr>quick_cmd = None,
    write_data = Some (\<lambda>d buf len. drop_rc (smbus_storage_write_data hf d buf len)),
    receive_byte = Some smbus_storage_receive_byte\<rparr>"

definition adm1032_class :: "SMBusADM1032Device SMBusDeviceClass" where
  "adm1032_class = \<lparr>quick_cmd = Some smbus_adm1032_quick_cmd, write_data = Some smbus_adm1032_write_data,
    receive_byte = Some smbus_adm1032_receive_byte\<rparr>"

definition cx25871_class :: "SMBusCX25871Device SMBusDeviceClass" where
  "cx25871_class = \<lparr>quick_cmd = Some smbus_cx25871_quick_cmd, write_data = Some smbus_cx25871_write_data,
    receive_byte = Some smbus_cx25871_receive_byte\<rparr>"

definition fs454_class :: "SMBusfs454Device SMBusDeviceClass" where
  "fs454_class = \<lparr>quick_cmd = Some smbus_fs454_quick_cmd, write_data = Some smbus_fs454_write_data,
    receive_byte = Some smbus_fs454_receive_byte\<rparr>"

definition xcalibur_class :: "SMBusxcaliburDevice SMBusDeviceClass" where
  "xcalibur_class = \<lparr>quick_cmd = Some smbus_xcalibur_quick_cmd, write_data = Some smbus_xcalibur_write_data,
    receive_byte = Some smbus_xcalibur_receive_byte\<rparr>"

datatype xbox_dev =
    Dev_SMC SMBusSMCDevice
  | Dev_Storage SMBusStorageDevice
  | Dev_ADM1032 SMBusADM1032Device
  | Dev_CX25871 SMBusCX25871Device
  | Dev_FS454 SMBusfs454Device
  | Dev_Xcalibur SMBusxcaliburDevice

definition lift_quick :: "('d SMBusDeviceClass) \<Rightarrow> ('d \<Rightarrow> 'e) \<Rightarrow> 'd \<Rightarrow> u8 \<Rightarrow> 'e" where
  "lift_quick sc C d r = (case quick_cmd sc of None \<Rightarrow> C d | Some q \<Rightarrow> C (q d r))"

definition lift_write :: "('d SMBusDeviceClass) \<Rightarrow> ('d \<Rightarrow> 'e) \<Rightarrow> 'd \<Rightarrow> u8 list \<Rightarrow> u8 \<Rightarrow> 'e res" where
  "lift_write sc C d buf len = (case write_data sc of None \<Rightarrow> Inr (C d)
    | Some w \<Rightarrow> res_bind (w d buf len) (\<lambda>d. Inr (C d)))"

definition lift_recv :: "('d SMBusDeviceClass) \<Rightarrow> ('d \<Rightarrow> 'e) \<Rightarrow> 'd \<Rightarrow> (u8 \<times> 'e) res" where
  "lift_recv sc C d = (case receive_byte sc of None \<Rightarrow> Inr (0xff, C d)
    | Some f \<Rightarrow> res_bind (f d) (\<lambda>(b, d). Inr (b, C d)))"

text \<open>The virtual dispatch of \<open>SMBUS_DEVICE_GET_CLASS\<close>: a device answers with its own class.\<close>

definition xbox_class :: "host_file \<Rightarrow> xbox_dev SMBusDeviceClass" where
  "xbox_class hf = \<lparr>
    quick_cmd = Some (\<lambda>dev r. case dev of
        Dev_SMC d \<Rightarrow> lift_quick smc_class Dev_SMC d r
      | Dev_Storage d \<Rightarrow> lift_quick (storage_class hf) Dev_Storage d r
      | Dev_ADM1032 d \<Rightarrow> lift_quick adm1032_class Dev_ADM1032 d r
      | Dev_CX25871 d \<Rightarrow> lift_quick cx25871_class Dev_CX25871 d r
      | Dev_FS454 d \<Rightarrow> lift_quick fs454_class Dev_FS454 d r
      | Dev_Xcalibur d \<Rightarrow> lift_quick xcalibur_class Dev_Xcalibur d r),
    write_data = Some (\<lambda>dev buf len. case dev of
        Dev_SMC d \<Rightarrow> lift_write smc_class Dev_SMC d buf len
      | Dev_Storage d \<Rightarrow> lift_write (storage_class hf) Dev_Storage d buf len
      | Dev_ADM1032 d \<Rightarrow> lift_write adm1032_class Dev_ADM1032 d buf len
      | Dev_CX25871 d \<Rightarrow> lift_write cx25871_class Dev_CX25871 d buf len
      | Dev_FS454 d \<Rightarrow> lift_write fs454_class Dev_FS454 d buf len
      | Dev_Xcalibur d \<Rightarrow> lift_write xcalibur_class Dev_Xcalibur d buf len),
    receive_byte = Some (\<lambda>dev. case dev of
        Dev_SMC d \<Rightarrow> lift_recv smc_class Dev_SMC d
      | Dev_Storage d \<Rightarrow> lift_recv (storage_class hf) Dev_Storage d
      | Dev_ADM1032 d \<Rightarrow> lift_recv adm1032_class Dev_ADM1032 d
      | Dev_CX25871 d \<Rightarrow> lift_recv cx25871_class Dev_CX25871 d
      | Dev_FS454 d \<Rightarrow> lift_recv fs454_class Dev_FS454 d
      | Dev_Xcalibur d \<Rightarrow> lift_recv xcalibur_class Dev_Xcalibur d)\<rparr>"

section \<open>Invariants and the classes as interpretations\<close>

definition smc_inv :: "SMBusSMCDevice \<Rightarrow> bool" where
  "smc_inv smc \<longleftrightarrow> (case smc_version_string smc of None \<Rightarrow> False | Some vs \<Rightarrow> length vs = 4)"

definition storage_inv :: "SMBusStorageDevice \<Rightarrow> bool" where
  "storage_inv s \<longleftrightarrow> length (st_data s) = unat (st_size s) \<and> 256 \<le> unat (st_size s) \<and> st_offset s < st_size s"

definition cx25871_inv :: "SMBusCX25871Device \<Rightarrow> bool" where
  "cx25871_inv cx \<longleftrightarrow> length (cx_registers cx) = 256"

definition fs454_inv :: "SMBusfs454Device \<Rightarrow> bool" where
  "fs454_inv cx \<longleftrightarrow> length (fs_registers cx) = 256"

definition xcalibur_inv :: "SMBusxcaliburDevice \<Rightarrow> bool" where
  "xcalibur_inv cx \<longleftrightarrow> length (xc_registers cx) = 256"

fun xbox_dev_inv :: "xbox_dev \<Rightarrow> bool" where
  "xbox_dev_inv (Dev_SMC d) = smc_inv d"
| "xbox_dev_inv (Dev_Storage d) = storage_inv d"
| "xbox_dev_inv (Dev_ADM1032 d) = True"
| "xbox_dev_inv (Dev_CX25871 d) = cx25871_inv d"
| "xbox_dev_inv (Dev_FS454 d) = fs454_inv d"
| "xbox_dev_inv (Dev_Xcalibur d) = xcalibur_inv d"

lemma safe_Inl [simp]: "safe t P (Inl e) \<longleftrightarrow> \<not> t"
  by (simp add: safe_def)

lemma unat_u8_less: "unat (b :: u8) < 256"
  using unsigned_less [of b] by simp

lemma unat_ucast_u8 [simp]: "unat (ucast (b :: u8) :: u32) = unat b"
  using unat_u8_less [of b] by (simp add: unsigned_ucast_eq take_bit_nat_eq_self)

lemma ring_step:
  fixes off size :: u32
  assumes "off < size" shows "unat ((off + 1) mod size) = (unat off + 1) mod unat size"
    and "(off + 1) mod size < size"
proof -
  have lt: "unat off < unat size" using assms by (simp add: word_less_nat_alt)
  then have "unat (off + 1) = unat off + 1"
    using unat_u32_less [of size] by (simp add: unat_Suc_u32)
  then show eq: "unat ((off + 1) mod size) = (unat off + 1) mod unat size"
    by (simp add: unat_mod_distrib)
  show "(off + 1) mod size < size" unfolding word_less_nat_alt eq using lt by simp
qed

text \<open>Storing \<open>bs\<close> from the current offset writes a ring: offset \<open>(off + k) mod size\<close> gets byte \<open>k\<close>.\<close>

lemma storage_store_ring:
  assumes "storage_inv s" and "length bs \<le> unat (st_size s)"
  shows "\<exists>s'. storage_store bs s = Inr s' \<and> storage_inv s' \<and> st_size s' = st_size s \<and> st_file s' = st_file s \<and>
    st_persist s' = st_persist s \<and> st_disk s' = st_disk s \<and>
    unat (st_offset s') = (unat (st_offset s) + length bs) mod unat (st_size s) \<and>
    (\<forall>k < length bs. st_data s' ! ((unat (st_offset s) + k) mod unat (st_size s)) = bs ! k) \<and>
    (\<forall>j < unat (st_size s). (\<forall>k < length bs. j \<noteq> (unat (st_offset s) + k) mod unat (st_size s)) \<longrightarrow>
      st_data s' ! j = st_data s ! j)"
  using assms
proof (induction bs arbitrary: s)
  case Nil
  then show ?case by (auto simp: storage_inv_def word_less_nat_alt)
next
  case (Cons b bs)
  define n o1 where "n = unat (st_size s)" and "o1 = unat (st_offset s)"
  have off: "st_offset s < st_size s" and on: "o1 < n" and len: "length (st_data s) = n" and n: "256 \<le> n"
    using Cons.prems(1) by (simp_all add: storage_inv_def n_def o1_def word_less_nat_alt)
  have sz: "st_size s \<noteq> 0" using n by (auto simp: n_def)
  define s1 where "s1 = s\<lparr>st_data := (st_data s)[o1 := b], st_offset := (st_offset s + 1) mod st_size s\<rparr>"
  have s1: "st_size s1 = st_size s" "st_file s1 = st_file s" "st_persist s1 = st_persist s" "st_disk s1 = st_disk s"
    "unat (st_offset s1) = (o1 + 1) mod n" "st_data s1 = (st_data s)[o1 := b]"
    using ring_step [OF off] by (simp_all add: s1_def n_def o1_def)
  have inv: "storage_inv s1"
    using n len ring_step(2) [OF off] by (simp add: storage_inv_def s1_def n_def)
  have le: "length bs \<le> unat (st_size s1)" using Cons.prems(2) by (simp add: s1)
  obtain s' where s': "storage_store bs s1 = Inr s'" "storage_inv s'" "st_size s' = st_size s" "st_file s' = st_file s"
    "st_persist s' = st_persist s" "st_disk s' = st_disk s"
    and off': "unat (st_offset s') = ((o1 + 1) mod n + length bs) mod n"
    and hit: "\<And>k. k < length bs \<Longrightarrow> st_data s' ! (((o1 + 1) mod n + k) mod n) = bs ! k"
    and miss: "\<And>j. j < n \<Longrightarrow> (\<forall>k < length bs. j \<noteq> ((o1 + 1) mod n + k) mod n) \<Longrightarrow>
      st_data s' ! j = (st_data s)[o1 := b] ! j"
    using Cons.IH [OF inv le] unfolding s1 n_def [symmetric] by auto
  have shift: "((o1 + 1) mod n + k) mod n = (o1 + Suc k) mod n" for k by (simp add: mod_add_left_eq)
  note off' = off' [unfolded shift] and hit = hit [unfolded shift] and miss = miss [unfolded shift]
  have store: "storage_store (b # bs) s = Inr s'"
    using on len sz s'(1) by (simp add: put_at_def o1_def s1_def)
  have fresh: "o1 \<noteq> (o1 + Suc k) mod n" if "k < length bs" for k
  proof
    assume "o1 = (o1 + Suc k) mod n"
    moreover have "Suc k < n" using that Cons.prems(2) by (simp add: n_def)
    ultimately show False using on
      by (cases "o1 + Suc k < n") (simp_all add: mod_if le_mod_geq split: if_splits)
  qed
  have first: "st_data s' ! o1 = b" using miss [of o1] fresh on len by simp
  have hit': "st_data s' ! ((o1 + k) mod n) = (b # bs) ! k" if "k < length (b # bs)" for k
    using that hit first on by (cases k) simp_all
  have miss': "st_data s' ! j = st_data s ! j"
    if j: "j < n" "\<forall>k < length (b # bs). j \<noteq> (o1 + k) mod n" for j
  proof -
    have "j \<noteq> o1" using j(2) on by (metis add.right_neutral length_greater_0_conv list.distinct(1) mod_less)
    moreover have "j \<noteq> (o1 + Suc k) mod n" if "k < length bs" for k
      using j(2) [rule_format, of "Suc k"] that by simp
    ultimately show ?thesis using miss [of j] j(1) by simp
  qed
  show ?case
    using store s' off' hit' miss' by (auto simp: n_def [symmetric] o1_def [symmetric])
qed

lemma storage_write_keep:
  assumes "storage_inv s" and "length buf = SMBUS_DATA_MAX_LEN" and "0 < len" and "unat len \<le> SMBUS_DATA_MAX_LEN"
  shows "safe True storage_inv (drop_rc (smbus_storage_write_data hf s buf len))"
proof -
  obtain c where c: "get_at buf 0 = Inr c" using assms(2) by (simp add: get_at_def)
  define bs where "bs = take (unat (len - 1)) (drop 1 buf)"
  have l: "unat (len - 1) = unat len - 1" using assms(3) by (simp add: unat_minus_one word_gt_0)
  have inv: "storage_inv (s\<lparr>st_offset := ucast c\<rparr>)"
    using assms(1) unat_u8_less [of c] by (simp add: storage_inv_def word_less_nat_alt)
  have "length bs \<le> unat (st_size (s\<lparr>st_offset := ucast c\<rparr>))"
    using assms(1,2) l by (auto simp: bs_def storage_inv_def min_le_iff_disj)
  from storage_store_ring [OF inv this] obtain s'
    where s': "storage_store bs (s\<lparr>st_offset := ucast c\<rparr>) = Inr s'" "storage_inv s'" by blast
  have nolen: "\<not> length buf < Suc (unat (len - 1))" using assms(2,4) l by linarith
  have upd: "storage_inv (s'\<lparr>st_disk := d\<rparr>)" for d using s'(2) by (simp add: storage_inv_def)
  show ?thesis
    unfolding drop_rc_def smbus_storage_write_data_def c res_bind_simps Let_def bs_def [symmetric]
    by (simp add: nolen s' upd)
qed

lemma storage_recv_keep:
  assumes "storage_inv s" shows "safe True (\<lambda>(b, d). storage_inv d) (smbus_storage_receive_byte s)"
proof -
  have "st_size s \<noteq> 0" "unat (st_offset s) < length (st_data s)" "(st_offset s + 1) mod st_size s < st_size s"
    using assms ring_step(2) by (auto simp: storage_inv_def word_less_nat_alt)
  then show ?thesis using assms by (simp add: smbus_storage_receive_byte_def storage_inv_def)
qed

lemma memcpy_regs_keep:
  assumes "length regs = 256" and "length buf = SMBUS_DATA_MAX_LEN" and "unat len < SMBUS_DATA_MAX_LEN"
  shows "safe t (\<lambda>r. length r = 256)
    (memcpy_regs regs (unat (c :: u8)) (drop (Suc 0) buf) (min (unat (len :: u8)) (256 - unat c)))"
  using assms unat_u8_less [of c] by (auto simp: memcpy_regs_def)

lemma len_pred:
  assumes "0 < len" and "unat (len :: u8) \<le> n" shows "unat (len - 1) < n"
proof -
  have "unat (len - 1) = unat len - 1" using assms(1) by (simp add: unat_minus_one word_gt_0)
  moreover have "0 < unat len" using assms(1) by (simp add: word_less_nat_alt)
  ultimately show ?thesis using assms(2) by linarith
qed

interpretation adm: smbus_class adm1032_class "\<lambda>_. True" True
  by unfold_locales
    (auto simp: adm1032_class_def smbus_adm1032_write_data_def smbus_adm1032_receive_byte_def Let_def)

interpretation sto: smbus_class "storage_class hf" storage_inv True for hf
  by unfold_locales (auto simp: storage_class_def storage_write_keep storage_recv_keep)

interpretation cx: smbus_class cx25871_class cx25871_inv True
  by unfold_locales
    (auto simp: cx25871_class_def cx25871_inv_def smbus_cx25871_quick_cmd_def smbus_cx25871_write_data_def
      smbus_cx25871_receive_byte_def Let_def unat_u8_less len_pred intro!: safe_bind [OF memcpy_regs_keep])

interpretation fs: smbus_class fs454_class fs454_inv True
  by unfold_locales
    (auto simp: fs454_class_def fs454_inv_def smbus_fs454_quick_cmd_def smbus_fs454_write_data_def
      smbus_fs454_receive_byte_def Let_def unat_u8_less len_pred intro!: safe_bind [OF memcpy_regs_keep])

interpretation xc: smbus_class xcalibur_class xcalibur_inv True
  by unfold_locales
    (auto simp: xcalibur_class_def xcalibur_inv_def smbus_xcalibur_quick_cmd_def smbus_xcalibur_write_data_def
      smbus_xcalibur_receive_byte_def Let_def unat_u8_less len_pred intro!: safe_bind [OF memcpy_regs_keep])

lemma smc_inv_upd:
  "smc_inv (smc\<lparr>smc_cmd := c\<rparr>) = smc_inv smc" "smc_inv (smc\<lparr>smc_version_string_index := i\<rparr>) = smc_inv smc"
  "smc_inv (smc\<lparr>smc_requests := q\<rparr>) = smc_inv smc" "smc_inv (smc\<lparr>smc_error_reg := b\<rparr>) = smc_inv smc"
  "smc_inv (smc\<lparr>smc_scratch_reg := b\<rparr>) = smc_inv smc" "smc_inv (smc\<lparr>smc_intstatus_reg := b\<rparr>) = smc_inv smc"
  by (simp_all add: smc_inv_def)

lemma smc_version_keep:
  "smc_inv d \<Longrightarrow> safe False (\<lambda>(b, d). smc_inv d) (case v of None \<Rightarrow> Inl Null_pointer
    | Some vs \<Rightarrow> res_bind (get_int vs i) (\<lambda>b. Inr (b, d)))"
  by (auto simp: safe_def res_bind_def split: option.split sum.split)

interpretation smc: smbus_class smc_class smc_inv False
proof unfold_locales
  show "smc_inv (q d r)" if "quick_cmd smc_class = Some q" "smc_inv d" for q d r
    using that by (auto simp: smc_class_def smc_quick_cmd_def)
  show "safe False smc_inv (w d buf len)" if "write_data smc_class = Some w" "smc_inv d"
    "length buf = SMBUS_DATA_MAX_LEN" for w d buf len
    using that by (auto simp: smc_class_def smc_write_data_def smc_inv_upd Let_def intro!: safe_if split del: if_split)
  show "safe False (\<lambda>(b, d'). smc_inv d') (f d)" if "receive_byte smc_class = Some f" "smc_inv d" for f d
    using that by (auto simp: smc_class_def smc_receive_byte_def Let_def smc_inv_upd
        intro!: safe_if smc_version_keep split del: if_split)
qed

text \<open>A class of the sum promises what the class of each summand promises.\<close>

lemma lift_keep:
  assumes "smbus_class sc P t" and "\<And>d. P d \<Longrightarrow> Q (C d)" and "P d"
  shows "Q (lift_quick sc C d r)"
    and "length buf = SMBUS_DATA_MAX_LEN \<Longrightarrow> 0 < len \<Longrightarrow> unat len \<le> SMBUS_DATA_MAX_LEN \<Longrightarrow>
      safe False Q (lift_write sc C d buf len)"
    and "safe False (\<lambda>(b, d). Q d) (lift_recv sc C d)"
proof -
  show "Q (lift_quick sc C d r)"
    using assms smbus_class.quick_inv [OF assms(1)] by (auto simp: lift_quick_def split: option.split)
  show "safe False Q (lift_write sc C d buf len)"
    if "length buf = SMBUS_DATA_MAX_LEN" "0 < len" "unat len \<le> SMBUS_DATA_MAX_LEN"
    using smbus_class.write_inv [OF assms(1) _ assms(3) that] assms(2,3)
    by (auto simp: lift_write_def safe_def res_bind_def split: option.split sum.splits)
  show "safe False (\<lambda>(b, d). Q d) (lift_recv sc C d)"
    using smbus_class.recv_inv [OF assms(1) _ assms(3)] assms(2,3)
    by (auto simp: lift_recv_def safe_def res_bind_def split: option.split sum.splits)
qed

lemmas lift_all =
  lift_keep [OF smc.smbus_class_axioms, where Q = xbox_dev_inv and C = Dev_SMC, simplified]
  lift_keep [OF sto.smbus_class_axioms, where Q = xbox_dev_inv and C = Dev_Storage, simplified]
  lift_keep [OF adm.smbus_class_axioms, where Q = xbox_dev_inv and C = Dev_ADM1032, simplified]
  lift_keep [OF cx.smbus_class_axioms, where Q = xbox_dev_inv and C = Dev_CX25871, simplified]
  lift_keep [OF fs.smbus_class_axioms, where Q = xbox_dev_inv and C = Dev_FS454, simplified]
  lift_keep [OF xc.smbus_class_axioms, where Q = xbox_dev_inv and C = Dev_Xcalibur, simplified]

interpretation xbus: smbus_class "xbox_class hf" xbox_dev_inv False for hf
proof unfold_locales
  show "xbox_dev_inv (q d r)" if "quick_cmd (xbox_class hf) = Some q" "xbox_dev_inv d" for q d r
    using that by (cases d) (auto simp: xbox_class_def intro: lift_all)
  show "safe False xbox_dev_inv (w d buf len)" if "write_data (xbox_class hf) = Some w" "xbox_dev_inv d"
    "length buf = SMBUS_DATA_MAX_LEN" "0 < len" "unat len \<le> SMBUS_DATA_MAX_LEN" for w d buf len
    using that by (cases d) (auto simp: xbox_class_def intro: lift_all)
  show "safe False (\<lambda>(b, d'). xbox_dev_inv d') (f d)" if "receive_byte (xbox_class hf) = Some f" "xbox_dev_inv d" for f d
    using that by (cases d) (auto simp: xbox_class_def intro: lift_all)
qed

end
