(* ===== verification/AMD_SMBus.thy ===== *)
theory AMD_SMBus
  imports SMBus_Devices
begin

text \<open>
  The AMD756 SMBus controller (\<open>hw/xbox/amd_smbus.c\<close>) as the guest sees it through
  its I/O ports, on top of the bus of theory \<open>I2C\<close> and the devices of theory
  \<open>SMBus_Devices\<close>.  The interrupt line is \<open>None\<close> when none is connected, otherwise
  its level.
\<close>

section \<open>Controller\<close>

definition GS_ABRT_STS :: u8 where "GS_ABRT_STS = 0x01"
definition GS_PRERR_STS :: u8 where "GS_PRERR_STS = 0x04"
definition GS_HCYC_STS :: u8 where "GS_HCYC_STS = 0x10"
definition GS_CLEAR_STS :: u8 where "GS_CLEAR_STS = 0x37"
definition GE_CYC_TYPE_MASK :: u8 where "GE_CYC_TYPE_MASK = 7"
definition GE_HOST_STC :: u32 where "GE_HOST_STC = 0x08"
definition GE_HCYC_EN :: u8 where "GE_HCYC_EN = 0x10"
definition GE_ABORT :: u32 where "GE_ABORT = 0x20"

lemmas amd_consts = GS_ABRT_STS_def GS_PRERR_STS_def GS_HCYC_STS_def GS_CLEAR_STS_def
  GE_CYC_TYPE_MASK_def GE_HOST_STC_def GE_HCYC_EN_def GE_ABORT_def

record 'd AMD756SMBus =
  smbus :: "'d I2CBus"
  smb_stat :: u8
  smb_ctl :: u8
  smb_cmd :: u8
  smb_addr :: u8
  smb_data0 :: u8
  smb_data1 :: u8
  smb_data :: "u8 list"
  smb_index :: u8
  smb_irq :: "bool option"

text \<open>The labels \<open>done\<close>, \<open>data8\<close> and \<open>data16\<close> of the transaction, each falling through to the next.\<close>

definition smb_done :: "int \<Rightarrow> 'd AMD756SMBus \<Rightarrow> 'd AMD756SMBus" where
  "smb_done ret s = (if ret < 0 then s\<lparr>smb_stat := smb_stat s OR GS_PRERR_STS\<rparr>
    else s\<lparr>smb_stat := smb_stat s OR GS_HCYC_STS\<rparr>)"

definition smb_data8 :: "int \<Rightarrow> 'd AMD756SMBus \<Rightarrow> 'd AMD756SMBus" where
  "smb_data8 ret s = (if ret < 0 then s\<lparr>smb_stat := smb_stat s OR GS_PRERR_STS\<rparr>
    else smb_done ret (s\<lparr>smb_data0 := of_int ret\<rparr>))"

definition smb_data16 :: "int \<Rightarrow> 'd AMD756SMBus \<Rightarrow> 'd AMD756SMBus" where
  "smb_data16 ret s = (if ret < 0 then s\<lparr>smb_stat := smb_stat s OR GS_PRERR_STS\<rparr>
    else smb_data8 ret (s\<lparr>smb_data1 := of_int (drop_bit 8 ret)\<rparr>))"

definition amd756_smb_transaction :: "'d SMBusDeviceClass \<Rightarrow> 'd AMD756SMBus \<Rightarrow> 'd AMD756SMBus res" where
  "amd756_smb_transaction sc s =
    (let prot = smb_ctl s AND GE_CYC_TYPE_MASK;
         rd = (smb_addr s AND 0x01 \<noteq> 0);
         cmd = smb_cmd s;
         addr = drop_bit 1 (smb_addr s) AND 0x7f;
         bus = smbus s
     in if prot = 0 then
          res_bind (smbus_quick_command sc bus addr rd) (\<lambda>(ret, bus). Inr (smb_done ret (s\<lparr>smbus := bus\<rparr>)))
        else if prot = 1 then
          if rd then res_bind (smbus_receive_byte sc bus addr)
            (\<lambda>(ret, bus). Inr (smb_data8 ret (s\<lparr>smbus := bus\<rparr>)))
          else res_bind (smbus_send_byte sc bus addr cmd)
            (\<lambda>(ret, bus). Inr (smb_done ret (s\<lparr>smbus := bus\<rparr>)))
        else if prot = 2 then
          if rd then res_bind (smbus_read_byte sc bus addr cmd)
            (\<lambda>(ret, bus). Inr (smb_data8 ret (s\<lparr>smbus := bus\<rparr>)))
          else res_bind (smbus_write_byte sc bus addr cmd (smb_data0 s))
            (\<lambda>(ret, bus). Inr (smb_done ret (s\<lparr>smbus := bus\<rparr>)))
        else if prot = 3 then
          if rd then res_bind (smbus_read_word sc bus addr cmd)
            (\<lambda>(ret, bus). Inr (smb_data16 ret (s\<lparr>smbus := bus\<rparr>)))
          else res_bind (smbus_write_word sc bus addr cmd
              (push_bit 8 (ucast (smb_data1 s)) OR ucast (smb_data0 s)))
            (\<lambda>(ret, bus). Inr (smb_done ret (s\<lparr>smbus := bus\<rparr>)))
        else if prot = 5 then
          if rd then res_bind (smbus_read_block sc bus addr cmd (smb_data s) 32 True True)
            (\<lambda>(ret, buf, bus). Inr (smb_data8 ret (s\<lparr>smbus := bus, smb_data := buf\<rparr>)))
          else res_bind (smbus_write_block sc bus addr cmd (smb_data s) (uint (smb_data0 s)) True)
            (\<lambda>(ret, bus). Inr (smb_done ret (s\<lparr>smbus := bus\<rparr>)))
        else Inr (s\<lparr>smb_stat := smb_stat s OR GS_PRERR_STS\<rparr>))"

definition set_smb_irq :: "bool \<Rightarrow> 'd AMD756SMBus \<Rightarrow> 'd AMD756SMBus" where
  "set_smb_irq level s = (case smb_irq s of None \<Rightarrow> s | Some _ \<Rightarrow> s\<lparr>smb_irq := Some level\<rparr>)"

definition amd756_smb_ioport_writeb ::
  "'d SMBusDeviceClass \<Rightarrow> 'd AMD756SMBus \<Rightarrow> u32 \<Rightarrow> u32 \<Rightarrow> 'd AMD756SMBus res" where
  "amd756_smb_ioport_writeb sc s addr val =
    (let addr = addr AND 0x3f in
     if addr = 0x0 then
       let s = set_smb_irq (smb_ctl s AND GE_HCYC_EN \<noteq> 0 \<and>
             (val AND ucast GS_CLEAR_STS) AND NOT (ucast (smb_stat s AND GS_CLEAR_STS)) \<noteq> 0) s
       in if val AND ucast GS_CLEAR_STS \<noteq> 0 then Inr (s\<lparr>smb_stat := 0, smb_index := 0\<rparr>)
          else Inr (s\<lparr>smb_stat := GS_HCYC_STS, smb_index := 0\<rparr>)
     else if addr = 0x2 then
       let s = s\<lparr>smb_ctl := ucast val\<rparr>;
           s = (if val AND GE_ABORT \<noteq> 0 then s\<lparr>smb_stat := smb_stat s OR GS_ABRT_STS\<rparr> else s)
       in if val AND GE_HOST_STC \<noteq> 0 then
            res_bind (amd756_smb_transaction sc s) (\<lambda>s.
              Inr (if val AND ucast GE_HCYC_EN \<noteq> 0 \<and> smb_stat s AND GS_CLEAR_STS \<noteq> 0
                   then set_smb_irq True s else s))
          else Inr s
     else if addr = 0x8 then Inr (s\<lparr>smb_cmd := ucast val\<rparr>)
     else if addr = 0x4 then Inr (s\<lparr>smb_addr := ucast val\<rparr>)
     else if addr = 0x6 then Inr (s\<lparr>smb_data0 := ucast val\<rparr>)
     else if addr = 0x7 then Inr (s\<lparr>smb_data1 := ucast val\<rparr>)
     else if addr = 0x9 then
       res_bind (put_at (smb_data s) (unat (smb_index s)) (ucast val)) (\<lambda>d.
         let i = smb_index s + 1 in
         Inr (s\<lparr>smb_data := d, smb_index := (if i > 31 then 0 else i)\<rparr>))
     else Inr s)"

definition amd756_smb_ioport_readb :: "'d AMD756SMBus \<Rightarrow> u32 \<Rightarrow> (u32 \<times> 'd AMD756SMBus) res" where
  "amd756_smb_ioport_readb s addr =
    (let addr = addr AND 0x3f in
     if addr = 0x0 then Inr (ucast (smb_stat s), s)
     else if addr = 0x2 then Inr (ucast (smb_ctl s AND 0x1f), s)
     else if addr = 0x8 then Inr (ucast (smb_cmd s), s)
     else if addr = 0x4 then Inr (ucast (smb_addr s), s)
     else if addr = 0x6 then Inr (ucast (smb_data0 s), s)
     else if addr = 0x7 then Inr (ucast (smb_data1 s), s)
     else if addr = 0x9 then
       res_bind (get_at (smb_data s) (unat (smb_index s))) (\<lambda>v.
         let i = smb_index s + 1 in Inr (ucast v, s\<lparr>smb_index := (if i > 31 then 0 else i)\<rparr>))
     else Inr (0, s))"

definition amd756_smbus_init :: "'d AMD756SMBus \<Rightarrow> bool option \<Rightarrow> 'd AMD756SMBus" where
  "amd756_smbus_init smb irq = smb\<lparr>smbus := \<lparr>bus_children = [], current_devs = [], bus_broadcast = False\<rparr>,
    smb_stat := 0, smb_irq := irq\<rparr>"

text \<open>A guest program as the sequence of its port accesses.\<close>

datatype port_op = Port_Write u32 u32 | Port_Read u32

fun port_step :: "'d SMBusDeviceClass \<Rightarrow> port_op \<Rightarrow> 'd AMD756SMBus \<Rightarrow> 'd AMD756SMBus res" where
  "port_step sc (Port_Write a v) s = amd756_smb_ioport_writeb sc s a v"
| "port_step sc (Port_Read a) s = res_bind (amd756_smb_ioport_readb s a) (\<lambda>(v, s). Inr s)"

definition port_run :: "'d SMBusDeviceClass \<Rightarrow> port_op list \<Rightarrow> 'd AMD756SMBus \<Rightarrow> 'd AMD756SMBus res" where
  "port_run sc ops s = fold_res (port_step sc) ops s"

section \<open>The controller over a class of devices\<close>

context smbus_class
begin

definition smb_inv :: "nat \<Rightarrow> 'd AMD756SMBus \<Rightarrow> bool" where
  "smb_inv n s \<longleftrightarrow> length (smb_data s) = 32 \<and> smb_index s \<le> 31 \<and> bus_keep n (smbus s)"

lemma smb_inv_upd:
  "smb_inv n (smb_done r s) = smb_inv n s" "smb_inv n (smb_data8 r s) = smb_inv n s"
  "smb_inv n (smb_data16 r s) = smb_inv n s" "smb_inv n (set_smb_irq l s) = smb_inv n s"
  "smb_inv n (s\<lparr>smb_stat := b\<rparr>) = smb_inv n s" "smb_inv n (s\<lparr>smb_ctl := b\<rparr>) = smb_inv n s"
  "smb_inv n (s\<lparr>smb_cmd := b\<rparr>) = smb_inv n s" "smb_inv n (s\<lparr>smb_addr := b\<rparr>) = smb_inv n s"
  "smb_inv n (s\<lparr>smb_data0 := b\<rparr>) = smb_inv n s" "smb_inv n (s\<lparr>smb_data1 := b\<rparr>) = smb_inv n s"
  by (auto simp: smb_inv_def smb_done_def smb_data8_def smb_data16_def set_smb_irq_def split: option.split)

lemma smb_inv_bus:
  "smb_inv n s \<Longrightarrow> bus_keep n bus \<Longrightarrow> smb_inv n (s\<lparr>smbus := bus\<rparr>)"
  "smb_inv n s \<Longrightarrow> bus_keep n bus \<Longrightarrow> length buf = 32 \<Longrightarrow> smb_inv n (s\<lparr>smbus := bus, smb_data := buf\<rparr>)"
  by (simp_all add: smb_inv_def)

lemma transaction_inv:
  assumes "smb_inv n s" shows "safe strict (smb_inv n) (amd756_smb_transaction sc s)"
proof -
  have b: "bus_keep n (smbus s)" "length (smb_data s) = 32" using assms by (simp_all add: smb_inv_def)
  show ?thesis unfolding amd756_smb_transaction_def Let_def
    by (intro safe_if safe_bind [OF master_keep(1) [OF b(1)]] safe_bind [OF master_keep(2) [OF b(1)]]
        safe_bind [OF master_keep(3) [OF b(1)]] safe_bind [OF master_keep(4) [OF b(1)]]
        safe_bind [OF master_keep(5) [OF b(1)]] safe_bind [OF master_keep(6) [OF b(1)]]
        safe_bind [OF master_keep(7) [OF b(1)]] safe_bind [OF read_block_keep [OF b]]
        safe_bind [OF write_block_keep [OF b]])
      (auto simp: smb_inv_upd smb_inv_bus assms)
qed

lemma index_step: "i \<le> 31 \<Longrightarrow> (if (i :: u8) + 1 > 31 then 0 else i + 1) \<le> 31"
  by (simp add: not_less)

lemma port_step_inv:
  assumes "smb_inv n s" shows "safe strict (smb_inv n) (port_step sc op s)"
proof (cases op)
  case (Port_Write a v)
  have ix: "unat (smb_index s) < length (smb_data s)" using assms by (simp add: smb_inv_def word_le_nat_alt)
  have en: "smb_inv n (if c then s\<lparr>smb_ctl := x, smb_stat := y\<rparr> else s\<lparr>smb_ctl := x\<rparr>)" for c x y
    using assms by (simp add: smb_inv_def)
  have idx: "smb_inv n (set_smb_irq l s\<lparr>smb_stat := x, smb_index := 0\<rparr>)" for l x
    using assms by (auto simp: smb_inv_def set_smb_irq_def split: option.split)
  have blk: "smb_inv n (s\<lparr>smb_data := (smb_data s)[k := w],
      smb_index := if 31 < smb_index s + 1 then 0 else smb_index s + 1\<rparr>)" for k w
    using assms index_step [of "smb_index s"] by (simp add: smb_inv_def)
  show ?thesis unfolding Port_Write port_step.simps amd756_smb_ioport_writeb_def Let_def
    by (intro safe_if safe_bind [OF transaction_inv])
      (use assms in \<open>auto simp: smb_inv_upd put_at_def ix idx blk intro: en\<close>)
next
  case (Port_Read a)
  have ix: "unat (smb_index s) < length (smb_data s)" using assms by (simp add: smb_inv_def word_le_nat_alt)
  have blk: "smb_inv n (s\<lparr>smb_index := if 31 < smb_index s + 1 then 0 else smb_index s + 1\<rparr>)"
    using assms index_step [of "smb_index s"] by (simp add: smb_inv_def)
  have "safe strict (\<lambda>(v, s). smb_inv n s) (amd756_smb_ioport_readb s a)"
    unfolding amd756_smb_ioport_readb_def Let_def
    by (intro safe_if) (use assms ix blk in auto)
  then show ?thesis unfolding Port_Read port_step.simps by (rule safe_bind) auto
qed

lemma port_run_inv:
  assumes "smb_inv n s" shows "safe strict (smb_inv n) (port_run sc ops s)"
  unfolding port_run_def by (rule safe_fold) (use assms port_step_inv in auto)

end

section \<open>The EEPROM through the ports\<close>

text \<open>The driver's sequences: address, command, data, then start a byte-data cycle.\<close>

definition eeprom_poke :: "u8 \<Rightarrow> u8 \<Rightarrow> port_op list" where
  "eeprom_poke off v = [Port_Write 4 0xA8, Port_Write 8 (ucast off), Port_Write 6 (ucast v), Port_Write 2 0x0A]"

definition eeprom_peek :: "u8 \<Rightarrow> port_op list" where
  "eeprom_peek off = [Port_Write 4 0xA9, Port_Write 8 (ucast off), Port_Write 2 0x0A]"

definition eeprom_on :: "xbox_dev AMD756SMBus \<Rightarrow> nat \<Rightarrow> SMBusStorageDevice \<Rightarrow> bool" where
  "eeprom_on s i st \<longleftrightarrow> bus_idle (smbus s) \<and> dev_at (smbus s) 0x54 i \<and>
    dev_state (bus_children (smbus s) ! i) = Dev_Storage st \<and> storage_inv st"

lemma storage_write_byte:
  assumes "storage_inv st" and "length buf = SMBUS_DATA_MAX_LEN"
  shows "\<exists>st'. drop_rc (smbus_storage_write_data hf st (buf[0 := off, 1 := v]) 2) = Inr st' \<and>
    storage_inv st' \<and> st_data st' = (st_data st)[unat off := v] \<and> st_size st' = st_size st \<and>
    (st_file st \<noteq> None \<and> st_persist st \<and> hf_open hf \<and> hf_write hf (unat (st_size st)) = uint (st_size st) \<and>
      length (st_disk st) \<le> unat (st_size st) \<longrightarrow> st_disk st' = st_data st')"
proof -
  have bs: "take (unat (2 - 1 :: u8)) (drop 1 (buf[0 := off, 1 := v])) = [v]"
    using assms(2) by (cases buf; cases "tl buf") simp_all
  have n: "unat off < unat (st_size st)" "length (st_data st) = unat (st_size st)" "st_size st \<noteq> 0"
    using assms(1) unat_u8_less [of off] by (auto simp: storage_inv_def)
  let ?o = "ucast off :: u32"
  define st1 where "st1 = st\<lparr>st_data := (st_data st)[unat off := v], st_offset := (?o + 1) mod st_size st\<rparr>"
  have store: "storage_store [v] (st\<lparr>st_offset := ?o\<rparr>) = Inr st1" using n by (simp add: put_at_def st1_def)
  have "?o < st_size st" using n(1) by (simp add: word_less_nat_alt)
  then have inv: "storage_inv st1"
    using assms(1) ring_step(2) by (simp add: storage_inv_def st1_def)
  then have inv': "storage_inv (st1\<lparr>st_disk := d\<rparr>)" for d by (simp add: storage_inv_def)
  have g: "get_at (buf[0 := off, 1 := v]) 0 = Inr off" using assms(2) by (simp add: get_at_def)
  have d: "take (nat (uint (st_size st))) (st_data st1) = st_data st1"
    "st_file st1 = st_file st" "st_persist st1 = st_persist st" "st_size st1 = st_size st" "st_disk st1 = st_disk st"
    "st_data st1 = (st_data st)[unat off := v]"
    using n by (simp_all add: st1_def)
  show ?thesis
    unfolding drop_rc_def smbus_storage_write_data_def g res_bind_simps Let_def bs store
    using assms(2) inv inv' by (auto simp: d n)
qed

lemma storage_read_byte:
  assumes "storage_inv st" and "length buf = SMBUS_DATA_MAX_LEN"
  shows "\<exists>st1 st'. drop_rc (smbus_storage_write_data hf st (buf[0 := off]) 1) = Inr st1 \<and>
    smbus_storage_receive_byte st1 = Inr (st_data st ! unat off, st') \<and>
    storage_inv st' \<and> st_data st' = st_data st \<and> st_disk st' = st_disk st \<and> st' = st\<lparr>st_offset := st_offset st'\<rparr>"
proof -
  have n: "unat off < length (st_data st)" "st_size st \<noteq> 0"
    using assms(1) unat_u8_less [of off] by (auto simp: storage_inv_def)
  let ?o = "ucast off :: u32"
  have "?o < st_size st" using n(1) assms(1) by (simp add: word_less_nat_alt storage_inv_def)
  then have inv: "storage_inv (st\<lparr>st_offset := (?o + 1) mod st_size st\<rparr>)"
    using assms(1) ring_step(2) by (simp add: storage_inv_def)
  have "drop_rc (smbus_storage_write_data hf st (buf[0 := off]) 1) = Inr (st\<lparr>st_offset := ?o\<rparr>)"
    using assms(2) by (simp add: drop_rc_def smbus_storage_write_data_def Let_def)
  moreover have "smbus_storage_receive_byte (st\<lparr>st_offset := ?o\<rparr>) =
      Inr (st_data st ! unat off, st\<lparr>st_offset := (?o + 1) mod st_size st\<rparr>)"
    using n by (simp add: smbus_storage_receive_byte_def)
  ultimately show ?thesis using inv by auto
qed

lemmas port_simps = port_run_def amd756_smb_ioport_writeb_def amd756_smb_ioport_readb_def
  amd756_smb_transaction_def amd_consts

lemma ucast_u8_back [simp]: "ucast (ucast (b :: u8) :: u32) = b"
  by (rule bit_word_eqI) (auto simp: bit_simps)

lemma poke_run:
  "port_run sc (eeprom_poke off v) s = res_bind (smbus_write_byte sc (smbus s) 0x54 off v) (\<lambda>(ret, bus).
    Inr (smb_done ret (s\<lparr>smb_addr := 0xA8, smb_cmd := off, smb_data0 := v, smb_ctl := 0x0A, smbus := bus\<rparr>)))"
  by (cases s; cases "smbus_write_byte sc (smbus s) 0x54 off v") (auto simp: eeprom_poke_def port_simps Let_def)

lemma peek_run:
  "port_run sc (eeprom_peek off) s = res_bind (smbus_read_byte sc (smbus s) 0x54 off) (\<lambda>(ret, bus).
    Inr (smb_data8 ret (s\<lparr>smb_addr := 0xA9, smb_cmd := off, smb_ctl := 0x0A, smbus := bus\<rparr>)))"
  by (cases s; cases "smbus_read_byte sc (smbus s) 0x54 off") (auto simp: eeprom_peek_def port_simps Let_def)

lemma xbox_class_storage:
  "write_data (xbox_class hf) = Some w \<Longrightarrow> w (Dev_Storage st) buf len =
    res_bind (drop_rc (smbus_storage_write_data hf st buf len)) (\<lambda>d. Inr (Dev_Storage d))"
  "receive_byte (xbox_class hf) = Some f \<Longrightarrow> f (Dev_Storage st) =
    res_bind (smbus_storage_receive_byte st) (\<lambda>(b, d). Inr (b, Dev_Storage d))"
  by (auto simp: xbox_class_def lift_write_def lift_recv_def storage_class_def)

definition same_others :: "nat \<Rightarrow> 'd I2CBus \<Rightarrow> 'd I2CBus \<Rightarrow> bool" where
  "same_others i bus bus' \<longleftrightarrow> length (bus_children bus') = length (bus_children bus) \<and>
    (\<forall>j < length (bus_children bus). j \<noteq> i \<longrightarrow> bus_children bus' ! j = bus_children bus ! j)"

lemma put_dev_eeprom:
  assumes "eeprom_on s i st" and "storage_inv st'" and "smbus s' = put_dev (smbus s) i
    ((bus_children (smbus s) ! i)\<lparr>data_buf := buf, dev_state := Dev_Storage st'\<rparr>)"
    and "length buf = SMBUS_DATA_MAX_LEN"
  shows "eeprom_on s' i st' \<and> same_others i (smbus s) (smbus s')"
proof -
  let ?dev = "(bus_children (smbus s) ! i)\<lparr>data_buf := buf, dev_state := Dev_Storage st'\<rparr>"
  have at: "dev_at (smbus s) 0x54 i" and idle: "bus_idle (smbus s)" using assms(1) by (simp_all add: eeprom_on_def)
  have i: "i < length (bus_children (smbus s))" using at by (simp add: dev_at_def)
  have "dev_idle ?dev" using dev_idleD(1) [OF idle at] assms(4) by (simp add: dev_idle_def)
  moreover have "i2c_address ?dev = 0x54" using at by (simp add: dev_at_def)
  ultimately show ?thesis
    using put_dev_idle [OF idle] put_dev_at [OF at] i assms(2,3)
    by (simp add: eeprom_on_def same_others_def) (simp add: put_dev_def)
qed

lemma eeprom_poke_run:
  assumes "eeprom_on s i st"
  shows "\<exists>s' st'. port_run (xbox_class hf) (eeprom_poke off v) s = Inr s' \<and> eeprom_on s' i st' \<and>
    same_others i (smbus s) (smbus s') \<and> st_data st' = (st_data st)[unat off := v] \<and>
    smb_stat s' = smb_stat s OR GS_HCYC_STS \<and>
    (st_file st \<noteq> None \<and> st_persist st \<and> hf_open hf \<and> hf_write hf (unat (st_size st)) = uint (st_size st) \<and>
      length (st_disk st) \<le> unat (st_size st) \<longrightarrow> st_disk st' = st_data st')"
proof -
  let ?dev = "bus_children (smbus s) ! i"
  have on: "bus_idle (smbus s)" "dev_at (smbus s) 0x54 i" "dev_state ?dev = Dev_Storage st" "storage_inv st"
    using assms by (simp_all add: eeprom_on_def)
  have len: "length (data_buf ?dev) = SMBUS_DATA_MAX_LEN" using dev_idleD(1) [OF on(1,2)] by (simp add: dev_idle_def)
  from storage_write_byte [OF on(4) len, of hf off v] obtain st' where
    st': "drop_rc (smbus_storage_write_data hf st ((data_buf ?dev)[0 := off, 1 := v]) 2) = Inr st'"
    "storage_inv st'" "st_data st' = (st_data st)[unat off := v]"
    "st_file st \<noteq> None \<and> st_persist st \<and> hf_open hf \<and> hf_write hf (unat (st_size st)) = uint (st_size st) \<and>
      length (st_disk st) \<le> unat (st_size st) \<longrightarrow> st_disk st' = st_data st'" by blast
  obtain w where w: "write_data (xbox_class hf) = Some w" by (simp add: xbox_class_def)
  have "w (dev_state ?dev) ((data_buf ?dev)[0 := off, 1 := v]) 2 = Inr (Dev_Storage st')"
    by (simp add: on xbox_class_storage(1) [OF w] st'(1) [simplified])
  note txn = write_byte_txn [OF on(1,2) w this]
  define s' where "s' = smb_done 0 (s\<lparr>smb_addr := 0xA8, smb_cmd := off, smb_data0 := v, smb_ctl := 0x0A,
    smbus := put_dev (smbus s) i (?dev\<lparr>data_buf := (data_buf ?dev)[0 := off, 1 := v], dev_state := Dev_Storage st'\<rparr>)\<rparr>)"
  have "port_run (xbox_class hf) (eeprom_poke off v) s = Inr s'" by (simp add: poke_run txn s'_def)
  moreover have "eeprom_on s' i st' \<and> same_others i (smbus s) (smbus s')"
    by (rule put_dev_eeprom [OF assms st'(2), of _ "(data_buf ?dev)[0 := off, 1 := v]"]) (simp_all add: s'_def smb_done_def len)
  moreover have "smb_stat s' = smb_stat s OR GS_HCYC_STS" by (simp add: s'_def smb_done_def)
  ultimately show ?thesis using st'(3,4) by blast
qed

lemma eeprom_peek_run:
  assumes "eeprom_on s i st"
  shows "\<exists>s' st'. port_run (xbox_class hf) (eeprom_peek off) s = Inr s' \<and> eeprom_on s' i st' \<and>
    same_others i (smbus s) (smbus s') \<and> st_data st' = st_data st \<and> st_disk st' = st_disk st \<and>
    smb_data0 s' = st_data st ! unat off \<and> smb_stat s' = smb_stat s OR GS_HCYC_STS \<and> st' = st\<lparr>st_offset := st_offset st'\<rparr>"
proof -
  let ?dev = "bus_children (smbus s) ! i"
  have on: "bus_idle (smbus s)" "dev_at (smbus s) 0x54 i" "dev_state ?dev = Dev_Storage st" "storage_inv st"
    using assms by (simp_all add: eeprom_on_def)
  have len: "length (data_buf ?dev) = SMBUS_DATA_MAX_LEN" using dev_idleD(1) [OF on(1,2)] by (simp add: dev_idle_def)
  from storage_read_byte [OF on(4) len, of hf off] obtain st1 st' where
    st': "drop_rc (smbus_storage_write_data hf st ((data_buf ?dev)[0 := off]) 1) = Inr st1"
    "smbus_storage_receive_byte st1 = Inr (st_data st ! unat off, st')"
    "storage_inv st'" "st_data st' = st_data st" "st_disk st' = st_disk st" "st' = st\<lparr>st_offset := st_offset st'\<rparr>" by blast
  obtain w f where w: "write_data (xbox_class hf) = Some w" and f: "receive_byte (xbox_class hf) = Some f"
    by (simp add: xbox_class_def)
  have "w (dev_state ?dev) ((data_buf ?dev)[0 := off]) 1 = Inr (Dev_Storage st1)"
    by (simp add: on xbox_class_storage(1) [OF w] st'(1) [simplified])
  moreover have "f (Dev_Storage st1) = Inr (st_data st ! unat off, Dev_Storage st')"
    by (simp add: xbox_class_storage(2) [OF f] st'(2))
  ultimately have txn: "smbus_read_byte (xbox_class hf) (smbus s) 0x54 off = Inr (uint (st_data st ! unat off),
      put_dev (smbus s) i (?dev\<lparr>data_buf := (data_buf ?dev)[0 := off], dev_state := Dev_Storage st'\<rparr>))"
    by (rule read_byte_txn [OF on(1,2) w f])
  define s' where "s' = smb_data8 (uint (st_data st ! unat off))
    (s\<lparr>smb_addr := 0xA9, smb_cmd := off, smb_ctl := 0x0A, smbus := put_dev (smbus s) i
      (?dev\<lparr>data_buf := (data_buf ?dev)[0 := off], dev_state := Dev_Storage st'\<rparr>)\<rparr>)"
  have "port_run (xbox_class hf) (eeprom_peek off) s = Inr s'" by (simp add: peek_run txn s'_def)
  moreover have "eeprom_on s' i st' \<and> same_others i (smbus s) (smbus s')"
    by (rule put_dev_eeprom [OF assms st'(3), of _ "(data_buf ?dev)[0 := off]"]) (simp_all add: s'_def smb_data8_def smb_done_def len)
  moreover have "smb_stat s' = smb_stat s OR GS_HCYC_STS" "smb_data0 s' = st_data st ! unat off"
    by (simp_all add: s'_def smb_data8_def smb_done_def)
  ultimately show ?thesis using st'(4-6) by blast
qed

section \<open>Properties\<close>

definition smbus_ok :: "xbox_dev AMD756SMBus \<Rightarrow> bool" where
  "smbus_ok s \<longleftrightarrow> length (smb_data s) = 32 \<and> smb_index s \<le> 31 \<and>
    (\<forall>dev \<in> set (bus_children (smbus s)). length (data_buf dev) = SMBUS_DATA_MAX_LEN \<and>
       data_len dev \<le> SMBUS_DATA_MAX_LEN \<and> xbox_dev_inv (dev_state dev)) \<and>
    (\<forall>i \<in> set (current_devs (smbus s)). i < length (bus_children (smbus s)))"

lemma smbus_ok_inv: "smbus_ok s \<longleftrightarrow> xbus.smb_inv (length (bus_children (smbus s))) s"
  by (auto simp: smbus_ok_def xbus.smb_inv_def xbus.bus_keep_def xbus.bus_inv_def xbus.dev_inv_def)


text \<open>
  C9. The EEPROM through the controller: the driver's byte-write sequence followed by its
  byte-read sequence succeeds on an idle bus, reads back the byte written, changes that
  byte of the EEPROM alone and no other device, leaves the bus idle and reports a
  completed cycle; if the host file accepts the data the file holds the EEPROM's contents.
\<close>

theorem eeprom_ports_roundtrip:
  assumes "eeprom_on s i st"
  shows "\<exists>s1 s2 st2. port_run (xbox_class hf) (eeprom_poke off v) s = Inr s1 \<and>
    port_run (xbox_class hf) (eeprom_peek off) s1 = Inr s2 \<and>
    amd756_smb_ioport_readb s2 6 = Inr (ucast v, s2) \<and>
    eeprom_on s2 i st2 \<and> st_data st2 = (st_data st)[unat off := v] \<and> same_others i (smbus s) (smbus s2) \<and>
    smb_stat s2 = smb_stat s OR GS_HCYC_STS \<and>
    (st_file st \<noteq> None \<and> st_persist st \<and> hf_open hf \<and> hf_write hf (unat (st_size st)) = uint (st_size st) \<and>
      length (st_disk st) \<le> unat (st_size st) \<longrightarrow> st_disk st2 = st_data st2)"
proof -
  from eeprom_poke_run [OF assms, of hf off v] obtain s1 st1 where
    1: "port_run (xbox_class hf) (eeprom_poke off v) s = Inr s1" "eeprom_on s1 i st1"
      "same_others i (smbus s) (smbus s1)" "st_data st1 = (st_data st)[unat off := v]"
      "smb_stat s1 = smb_stat s OR GS_HCYC_STS"
      "st_file st \<noteq> None \<and> st_persist st \<and> hf_open hf \<and> hf_write hf (unat (st_size st)) = uint (st_size st) \<and>
      length (st_disk st) \<le> unat (st_size st) \<longrightarrow> st_disk st1 = st_data st1" by blast
  from eeprom_peek_run [OF 1(2), of hf off] obtain s2 st2 where
    2: "port_run (xbox_class hf) (eeprom_peek off) s1 = Inr s2" "eeprom_on s2 i st2"
      "same_others i (smbus s1) (smbus s2)" "st_data st2 = st_data st1" "st_disk st2 = st_disk st1"
      "smb_data0 s2 = st_data st1 ! unat off" "smb_stat s2 = smb_stat s1 OR GS_HCYC_STS" by blast
  have "unat off < length (st_data st)"
    using assms unat_u8_less [of off] by (auto simp: eeprom_on_def storage_inv_def)
  then have "amd756_smb_ioport_readb s2 6 = Inr (ucast v, s2)"
    by (simp add: amd756_smb_ioport_readb_def 2(6) 1(4))
  moreover have "same_others i (smbus s) (smbus s2)" using 1(3) 2(3) by (simp add: same_others_def)
  moreover have "smb_stat s2 = smb_stat s OR GS_HCYC_STS" by (simp add: 1(5) 2(7) or.assoc)
  moreover have "st_data st2 = (st_data st)[unat off := v]" using 1(4) 2(4) by simp
  ultimately show ?thesis using 1(1,6) 2(1,2,4,5)
    by (intro exI [of _ s1] exI [of _ s2] exI [of _ st2]) simp
qed

text \<open>A machine with the system management controller and an EEPROM on the bus.\<close>

definition slave_dev :: "u8 \<Rightarrow> 'd \<Rightarrow> 'd SMBusDevice" where
  "slave_dev a d = \<lparr>i2c_address = a, dev_mode = SMBUS_IDLE, data_len = 0,
    data_buf = replicate SMBUS_DATA_MAX_LEN 0, dev_state = d\<rparr>"

definition demo_smc :: SMBusSMCDevice where
  "demo_smc = \<lparr>smc_version_string = Some [0x50, 0x30, 0x31, 0], smc_version_string_index = 0, smc_cmd = 0,
    smc_traystate_reg = 0, smc_avpack_reg = 1, smc_intstatus_reg = 0, smc_scratch_reg = 0, smc_error_reg = 0,
    smc_requests = []\<rparr>"

definition demo_eeprom :: SMBusStorageDevice where
  "demo_eeprom = \<lparr>st_file = None, st_data = replicate 256 0, st_size = 256, st_addr = 0x54, st_offset = 0,
    st_persist = False, st_disk = []\<rparr>"

definition demo_smbus :: "xbox_dev AMD756SMBus" where
  "demo_smbus = \<lparr>smbus = \<lparr>bus_children = [slave_dev 0x10 (Dev_SMC demo_smc), slave_dev 0x54 (Dev_Storage demo_eeprom)],
      current_devs = [], bus_broadcast = False\<rparr>,
    smb_stat = 0, smb_ctl = 0, smb_cmd = 0, smb_addr = 0, smb_data0 = 0, smb_data1 = 0,
    smb_data = replicate 32 0, smb_index = 31, smb_irq = Some False\<rparr>"

lemma demo_eeprom_on: "eeprom_on demo_smbus 1 demo_eeprom"
  by (auto simp: eeprom_on_def demo_smbus_def slave_dev_def bus_idle_def dev_idle_def dev_at_def
      I2C_BROADCAST_def demo_eeprom_def storage_inv_def)

lemma demo_smbus_ok: "smbus_ok demo_smbus"
  by (simp add: smbus_ok_def demo_smbus_def slave_dev_def smc_inv_def demo_smc_def demo_eeprom_def storage_inv_def)


theorem eeprom_ports_roundtrip_witness:
  "\<exists>s1 s2. port_run (xbox_class \<lparr>hf_open = False, hf_write = (\<lambda>n. 0)\<rparr>) (eeprom_poke 0xff 0x2a) demo_smbus = Inr s1 \<and>
    port_run (xbox_class \<lparr>hf_open = False, hf_write = (\<lambda>n. 0)\<rparr>) (eeprom_peek 0xff) s1 = Inr s2 \<and>
    amd756_smb_ioport_readb s2 6 = Inr (0x2a, s2)"
  using eeprom_ports_roundtrip [OF demo_eeprom_on, where hf = "\<lparr>hf_open = False, hf_write = (\<lambda>n. 0)\<rparr>" and off = "0xff" and v = "0x2a"] by auto

datatype button = Power_Button | Eject_Button

fun press :: "button \<Rightarrow> SMBusSMCDevice \<Rightarrow> SMBusSMCDevice" where
  "press Power_Button smc = xbox_smc_power_button smc"
| "press Eject_Button smc = xbox_smc_eject_button smc"

fun button_bit :: "button \<Rightarrow> u8" where
  "button_bit Power_Button = SMC_REG_INTSTATUS_POWER"
| "button_bit Eject_Button = SMC_REG_INTSTATUS_EJECT_BUTTON"

definition smc_read_reg :: "u8 \<Rightarrow> SMBusSMCDevice \<Rightarrow> (u8 \<times> SMBusSMCDevice) res" where
  "smc_read_reg r smc = res_bind (smc_write_data smc [r] 1) smc_receive_byte"

lemma press_fold:
  "fold press bs smc = smc\<lparr>smc_intstatus_reg := smc_intstatus_reg smc OR fold (\<lambda>b m. m OR button_bit b) bs 0,
    smc_requests := smc_requests smc @ replicate (length bs) ACPI_EXTSMI\<rparr>"
proof (induction bs arbitrary: smc)
  case (Cons b bs)
  have acc: "fold (\<lambda>b m. m OR button_bit b) bs m = m OR fold (\<lambda>b m. m OR button_bit b) bs 0" for m :: u8
    by (induction bs arbitrary: m) (simp, metis (no_types, lifting) fold_simps(2) or.assoc or.left_neutral)
  have "press b smc = smc\<lparr>smc_intstatus_reg := smc_intstatus_reg smc OR button_bit b,
      smc_requests := smc_requests smc @ [ACPI_EXTSMI]\<rparr>"
    by (cases b) (simp_all add: xbox_smc_power_button_def xbox_smc_eject_button_def xbox_assert_extsmi_def)
  then show ?case using acc [of "button_bit b"] by (simp add: Cons.IH or.assoc)
qed simp

text \<open>
  C10. Interrupt causes of the system management controller are neither lost nor repeated: whatever
  buttons are pressed after the register was last read, the next read of the interrupt
  status register returns the bit of every one of them with what was pending before, a
  second read returns zero, and each press has raised one external SMI.
\<close>

theorem smc_button_status:
  "smc_read_reg SMC_REG_INTSTATUS (fold press bs smc) =
     Inr (smc_intstatus_reg smc OR fold (\<lambda>b m. m OR button_bit b) bs 0,
       smc\<lparr>smc_intstatus_reg := 0, smc_cmd := SMC_REG_INTSTATUS + 1,
           smc_requests := smc_requests smc @ replicate (length bs) ACPI_EXTSMI\<rparr>) \<and>
   smc_read_reg SMC_REG_INTSTATUS (smc\<lparr>smc_intstatus_reg := 0\<rparr>) =
     Inr (0, smc\<lparr>smc_intstatus_reg := 0, smc_cmd := SMC_REG_INTSTATUS + 1\<rparr>)"
  by (simp add: press_fold smc_read_reg_def smc_write_data_def smc_receive_byte_def smc_consts)

fun nth_version_read :: "nat \<Rightarrow> SMBusSMCDevice \<Rightarrow> (u8 \<times> SMBusSMCDevice) res" where
  "nth_version_read 0 smc = smc_read_reg SMC_REG_VER smc"
| "nth_version_read (Suc n) smc = res_bind (smc_read_reg SMC_REG_VER smc) (\<lambda>(b, smc). nth_version_read n smc)"

lemma version_read:
  assumes "smc_version_string smc = Some vs" and "length vs = 4" and "unat (smc_version_string_index smc) < 2 ^ 31"
  shows "smc_read_reg SMC_REG_VER smc = Inr (vs ! (unat (smc_version_string_index smc) mod 3),
    smc\<lparr>smc_cmd := 2, smc_version_string_index := smc_version_string_index smc + 1\<rparr>)"
proof -
  define i where "i = smc_version_string_index smc"
  have "int (unat i) < int (2 ^ 31)" using assms(3) unfolding i_def of_nat_less_iff .
  then have u: "uint i < 2 ^ 31" by simp
  have "- (2 ^ 31) \<le> uint i" by (rule order_trans [of _ 0]) simp_all
  then have "sint i = uint i" using u by (simp add: sint_uint signed_take_bit_int_eq_self)
  moreover have "sgn (uint i) * (uint i mod 3) = uint i mod 3"
    by (cases "i = 0") (simp_all add: word_neq_0_conv word_less_def)
  moreover have "int (unat i mod 3) = uint i mod 3" by (simp add: of_nat_mod)
  ultimately have "c_rem (sint i) SMC_VERSION_LENGTH = int (unat i mod 3)"
    by (simp add: c_rem_def SMC_VERSION_LENGTH_def)
  moreover have "unat i mod 3 < length vs" using assms(2) by (simp add: less_trans [OF mod_less_divisor])
  ultimately show ?thesis
    using assms(1) by (simp add: smc_read_reg_def smc_write_data_def smc_receive_byte_def Let_def get_int_def i_def
        SMC_REG_VER_def)
qed

lemma version_read_wrapped:
  assumes "smc_version_string smc = Some vs" and "smc_version_string_index smc = 2 ^ 31"
  shows "smc_read_reg SMC_REG_VER smc = Inl Out_of_bounds"
proof -
  have "c_rem (sint (2 ^ 31 :: u32)) SMC_VERSION_LENGTH < 0" by (simp add: c_rem_def SMC_VERSION_LENGTH_def)
  then show ?thesis
    using assms by (simp add: smc_read_reg_def smc_write_data_def smc_receive_byte_def Let_def get_int_def SMC_REG_VER_def)
qed

lemma nth_version_read_from:
  assumes "smc_version_string smc = Some vs" and "length vs = 4" and "unat (smc_version_string_index smc) + n \<le> 2 ^ 31"
  shows "nth_version_read n smc =
    (if unat (smc_version_string_index smc) + n < 2 ^ 31
     then Inr (vs ! ((unat (smc_version_string_index smc) + n) mod 3),
       smc\<lparr>smc_cmd := 2, smc_version_string_index := smc_version_string_index smc + of_nat n + 1\<rparr>)
     else Inl Out_of_bounds)"
  using assms
proof (induction n arbitrary: smc)
  case 0
  then show ?case
    using version_read version_read_wrapped [of smc vs]
    by (cases "unat (smc_version_string_index smc) < 2 ^ 31") (auto simp: word_unat_eq_iff)
next
  case (Suc n)
  let ?i = "smc_version_string_index smc"
  let ?s = "smc\<lparr>smc_cmd := 2, smc_version_string_index := ?i + 1\<rparr>"
  have u: "unat (?i + 1) = unat ?i + 1" using Suc.prems(3) by (intro unat_Suc_u32) simp
  have "nth_version_read (Suc n) smc = nth_version_read n ?s"
    using version_read [OF Suc.prems(1,2)] Suc.prems(3) by simp
  also have "\<dots> = (if unat (?i + 1) + n < 2 ^ 31
      then Inr (vs ! ((unat (?i + 1) + n) mod 3), ?s\<lparr>smc_cmd := 2, smc_version_string_index := ?i + 1 + of_nat n + 1\<rparr>)
      else Inl Out_of_bounds)"
    using Suc.IH [of ?s] Suc.prems by (simp add: u)
  finally have step: "nth_version_read (Suc n) smc = \<dots>" .
  have idx: "?i + 1 + of_nat n + 1 = ?i + of_nat (Suc n) + 1" by (simp add: algebra_simps)
  have nat: "unat ?i + 1 + n = unat ?i + Suc n" by simp
  show ?case unfolding step u idx nat by simp
qed

text \<open>
  C11. The version string of the system management controller is read cyclically: after the index is
  reset to zero, read \<open>n\<close> returns character \<open>n mod 3\<close> for every \<open>n\<close> below two to the 31.
  The index is never reduced, so at read two to the 31 it is negative and the read is outside
  the string.
\<close>

theorem smc_version_reads:
  assumes "smc_version_string smc = Some vs" and "length vs = 4" and "smc_version_string_index smc = 0"
    and "n \<le> 2 ^ 31"
  shows "nth_version_read n smc =
    (if n < 2 ^ 31 then Inr (vs ! (n mod 3), smc\<lparr>smc_cmd := 2, smc_version_string_index := of_nat n + 1\<rparr>)
     else Inl Out_of_bounds)"
  using nth_version_read_from [OF assms(1,2)] assms(3,4) by simp

lemma demo_smc_version:
  "smc_version_string demo_smc = Some [0x50, 0x30, 0x31, 0]" "length [0x50, 0x30, 0x31, 0 :: u8] = 4"
  "smc_version_string_index demo_smc = 0"
  by (simp_all add: demo_smc_def)

theorem smc_version_reads_witness:
  "nth_version_read (2 ^ 31) demo_smc = Inl Out_of_bounds \<and>
   nth_version_read 4 demo_smc = Inr (0x30, demo_smc\<lparr>smc_cmd := 2, smc_version_string_index := 5\<rparr>)"
proof
  show "nth_version_read (2 ^ 31) demo_smc = Inl Out_of_bounds"
    unfolding smc_version_reads [OF demo_smc_version order_refl] by (rule if_not_P) (rule less_irrefl)
  have "(4 :: nat) \<le> 2 ^ 31" "(4 :: nat) < 2 ^ 31" by simp_all
  then show "nth_version_read 4 demo_smc = Inr (0x30, demo_smc\<lparr>smc_cmd := 2, smc_version_string_index := 5\<rparr>)"
    unfolding smc_version_reads [OF demo_smc_version \<open>4 \<le> 2 ^ 31\<close>] by simp
qed

end
