(* ===== verification/Registers.thy ===== *)
theory Registers
  imports Prelude
begin

text \<open>
  Hardware registers: the bit-field macros \<open>GET_MASK\<close> and \<open>SET_MASK\<close> of
  \<open>hw/xbox/nv2a/nv2a_regs.h\<close>, fixed-size arrays, and little-endian byte memory.

  A C array of \<open>n\<close> elements is a function on indices, and every access goes through
  \<open>arr_get n\<close> or \<open>arr_set n\<close>, which fail outside \<open>n\<close>.  A memory region is a
  function from byte addresses together with its size.
\<close>

named_theorems mask_simps \<open>rewrite rules for register bit fields\<close>
named_theorems guarded_intros \<open>introduction rules for \<open>guarded\<close>\<close>

section \<open>Bit fields\<close>

definition ctz32 :: "u32 \<Rightarrow> nat" where
  "ctz32 m = length (takeWhile (\<lambda>i. \<not> bit m i) [0..<32])"

definition GET_MASK :: "u32 \<Rightarrow> u32 \<Rightarrow> u32" where
  "GET_MASK v m = drop_bit (ctz32 m) (v AND m)"

definition SET_MASK :: "u32 \<Rightarrow> u32 \<Rightarrow> u32 \<Rightarrow> u32" where
  "SET_MASK v m val = (v AND NOT m) OR (push_bit (ctz32 m) val AND m)"

lemma ctz32_below: "i < ctz32 m \<Longrightarrow> \<not> bit m i"
proof -
  assume i: "i < ctz32 m"
  let ?tw = "takeWhile (\<lambda>i. \<not> bit m i) [0..<32]"
  have "length ?tw \<le> 32" using length_takeWhile_le [of "\<lambda>i. \<not> bit m i" "[0..<32]"] by simp
  then have "?tw ! i = i" using i by (simp add: ctz32_def takeWhile_nth)
  moreover have "?tw ! i \<in> set ?tw" using i by (intro nth_mem) (simp add: ctz32_def)
  ultimately show ?thesis by (auto dest: set_takeWhileD)
qed

lemma GET_SET_same [mask_simps]: "GET_MASK (SET_MASK v m x) m = x AND GET_MASK m m"
  by (rule bit_word_eqI) (use bit_imp_le_length in \<open>fastforce simp: GET_MASK_def SET_MASK_def bit_simps\<close>)

lemma GET_SET_other [mask_simps]:
  assumes "m AND m' = 0" shows "GET_MASK (SET_MASK v m x) m' = GET_MASK v m'"
proof -
  have "\<not> (bit m n \<and> bit m' n)" for n
    using arg_cong [where f = "\<lambda>w. bit w n", OF assms] by (simp add: bit_and_iff)
  then have "SET_MASK v m x AND m' = v AND m'"
    by (intro bit_word_eqI) (auto simp: SET_MASK_def bit_simps)
  then show ?thesis by (simp add: GET_MASK_def)
qed

lemma SET_GET_same [mask_simps]: "SET_MASK v m (GET_MASK v m) = v"
proof (rule bit_word_eqI)
  fix n assume n: "n < LENGTH(32)"
  show "bit (SET_MASK v m (GET_MASK v m)) n \<longleftrightarrow> bit v n"
  proof (cases "bit m n")
    case True
    then have "ctz32 m \<le> n" using ctz32_below [of n m] by (meson not_le)
    then show ?thesis using True n by (simp add: GET_MASK_def SET_MASK_def bit_simps)
  qed (use n in \<open>simp add: GET_MASK_def SET_MASK_def bit_simps\<close>)
qed

lemma SET_SET_same [mask_simps]: "SET_MASK (SET_MASK v m x) m y = SET_MASK v m y"
  by (rule bit_word_eqI) (auto simp: SET_MASK_def bit_simps)

lemma GET_MASK_le: "GET_MASK v m \<le> GET_MASK m m"
proof -
  have "GET_MASK v m AND GET_MASK m m = GET_MASK v m"
    by (rule bit_word_eqI) (auto simp: GET_MASK_def bit_simps)
  then show ?thesis by (metis and.commute word_and_le1)
qed

section \<open>Arrays\<close>

definition arr_get :: "nat \<Rightarrow> (nat \<Rightarrow> 'a) \<Rightarrow> nat \<Rightarrow> 'a res" where
  "arr_get n a i = (if i < n then Inr (a i) else Inl Out_of_bounds)"

definition arr_set :: "nat \<Rightarrow> (nat \<Rightarrow> 'a) \<Rightarrow> nat \<Rightarrow> 'a \<Rightarrow> (nat \<Rightarrow> 'a) res" where
  "arr_set n a i v = (if i < n then Inr (a(i := v)) else Inl Out_of_bounds)"

lemma arr_in [simp]:
  "i < n \<Longrightarrow> arr_get n a i = Inr (a i)" "i < n \<Longrightarrow> arr_set n a i v = Inr (a(i := v))"
  by (simp_all add: arr_get_def arr_set_def)

section \<open>Byte memory\<close>

record mem_region =
  mem_size :: nat
  mem_byte :: "nat \<Rightarrow> u8"

definition ldl_le :: "mem_region \<Rightarrow> nat \<Rightarrow> u32 res" where
  "ldl_le m a = (if a + 4 \<le> mem_size m
    then Inr (ucast (mem_byte m a) OR push_bit 8 (ucast (mem_byte m (a + 1))) OR
      push_bit 16 (ucast (mem_byte m (a + 2))) OR push_bit 24 (ucast (mem_byte m (a + 3))))
    else Inl Out_of_bounds)"

definition stl_le :: "mem_region \<Rightarrow> nat \<Rightarrow> u32 \<Rightarrow> mem_region res" where
  "stl_le m a v = (if a + 4 \<le> mem_size m
    then Inr (m\<lparr>mem_byte := (mem_byte m)(a := ucast v, a + 1 := ucast (drop_bit 8 v),
      a + 2 := ucast (drop_bit 16 v), a + 3 := ucast (drop_bit 24 v))\<rparr>)
    else Inl Out_of_bounds)"

lemma ldl_stl_same:
  assumes "stl_le m a v = Inr m'" shows "ldl_le m' a = Inr v"
proof -
  have "(ucast (ucast v :: u8) :: u32) OR push_bit 8 (ucast (ucast (drop_bit 8 v) :: u8)) OR
      push_bit 16 (ucast (ucast (drop_bit 16 v) :: u8)) OR push_bit 24 (ucast (ucast (drop_bit 24 v) :: u8)) = v"
    (is "?w = v")
  proof (rule bit_word_eqI)
    fix n assume "n < LENGTH(32)"
    then consider "n < 8" | "8 \<le> n" "n < 16" | "16 \<le> n" "n < 24" | "24 \<le> n" "n < 32" by force
    then show "bit ?w n \<longleftrightarrow> bit v n" by cases (auto simp: bit_simps)
  qed
  then show ?thesis using assms by (auto simp: stl_le_def ldl_le_def split: if_splits)
qed

lemma ldl_stl_other:
  assumes "stl_le m a v = Inr m'" and "b + 4 \<le> a \<or> a + 4 \<le> b" shows "ldl_le m' b = ldl_le m b"
  using assms by (auto simp: stl_le_def ldl_le_def split: if_splits)

lemma stl_size: "stl_le m a v = Inr m' \<Longrightarrow> mem_size m' = mem_size m"
  by (auto simp: stl_le_def split: if_splits)

section \<open>Failing only by an assertion\<close>

text \<open>
  \<open>guarded P m\<close>: \<open>m\<close> either returns a value with \<open>P\<close> or stops at an \<open>assert\<close> of the
  program; it never accesses memory out of range or divides by zero.
\<close>

definition guarded :: "('a \<Rightarrow> bool) \<Rightarrow> 'a res \<Rightarrow> bool" where
  "guarded P m = (case m of Inl e \<Rightarrow> e = Assertion | Inr x \<Rightarrow> P x)"

lemma guarded_simps [simp]:
  "guarded P (Inr x) \<longleftrightarrow> P x" "guarded P (Inl e) \<longleftrightarrow> e = Assertion"
  by (simp_all add: guarded_def)

lemma guarded_bind [guarded_intros]:
  "guarded Q m \<Longrightarrow> (\<And>x. Q x \<Longrightarrow> guarded P (f x)) \<Longrightarrow> guarded P (res_bind m f)"
  by (cases m) simp_all

lemma guarded_assert [guarded_intros]:
  "(b \<Longrightarrow> guarded P (f ())) \<Longrightarrow> guarded P (res_bind (assert_res b) f)"
  by (cases b) simp_all

lemma guarded_if [guarded_intros]:
  "(c \<Longrightarrow> guarded P x) \<Longrightarrow> (\<not> c \<Longrightarrow> guarded P y) \<Longrightarrow> guarded P (if c then x else y)"
  by simp

lemma guarded_mono: "guarded Q m \<Longrightarrow> (\<And>x. Q x \<Longrightarrow> P x) \<Longrightarrow> guarded P m"
  by (cases m) simp_all

lemma guarded_fold:
  "P st \<Longrightarrow> (\<And>x s. x \<in> set xs \<Longrightarrow> P s \<Longrightarrow> guarded P (body x s)) \<Longrightarrow> guarded P (fold_res body xs st)"
proof (induction xs arbitrary: st)
  case (Cons x xs)
  then show ?case by (auto intro: guarded_bind)
qed simp

lemma guardedD: "guarded P m \<Longrightarrow> m = Inr x \<Longrightarrow> P x"
  by simp

end
