(* ===== verification/NV2A_State.thy ===== *)
theory NV2A_State
  imports NV2A_Regs
begin

text \<open>
  The state of the NV2A graphics processor (\<open>hw/xbox/nv2a/nv2a_int.h\<close>,
  \<open>pgraph/pgraph.h\<close>), and its register accessors.

  The field names are those of the C structures, prefixed by the structure they are in.
  Floating-point values are held as their 32-bit patterns.  Mutexes, condition variables,
  host textures and the fields only a host renderer reads are left out.  The scan-line
  invalidations sent to the display are logged in \<open>nv_vga_invalidated\<close>.
\<close>

section \<open>PGRAPH\<close>

abbreviation (input) NV2A_MAX_BATCH_LENGTH :: nat where "NV2A_MAX_BATCH_LENGTH \<equiv> 0x07FFFF"
abbreviation (input) NV2A_VERTEXSHADER_ATTRIBUTES :: nat where "NV2A_VERTEXSHADER_ATTRIBUTES \<equiv> 16"
abbreviation (input) NV2A_MAX_TEXTURES :: nat where "NV2A_MAX_TEXTURES \<equiv> 4"
abbreviation (input) NV2A_MAX_TRANSFORM_PROGRAM_LENGTH :: nat where "NV2A_MAX_TRANSFORM_PROGRAM_LENGTH \<equiv> 136"
abbreviation (input) NV2A_VERTEXSHADER_CONSTANTS :: nat where "NV2A_VERTEXSHADER_CONSTANTS \<equiv> 192"
abbreviation (input) NV2A_LTCTXA_COUNT :: nat where "NV2A_LTCTXA_COUNT \<equiv> 26"
abbreviation (input) NV2A_LTCTXB_COUNT :: nat where "NV2A_LTCTXB_COUNT \<equiv> 52"
abbreviation (input) NV2A_LTC1_COUNT :: nat where "NV2A_LTC1_COUNT \<equiv> 20"
abbreviation (input) NV2A_MAX_LIGHTS :: nat where "NV2A_MAX_LIGHTS \<equiv> 8"
abbreviation (input) NV2A_MAX_DRAW_ARRAYS :: nat where "NV2A_MAX_DRAW_ARRAYS \<equiv> 1250"
abbreviation (input) PGRAPH_REGS :: nat where "PGRAPH_REGS \<equiv> 0x2000"

abbreviation (input) PRIM_TYPE_INVALID :: u32 where "PRIM_TYPE_INVALID \<equiv> 0"

record VertexAttribute =
  va_dma_select :: bool
  va_offset :: u64
  va_inline_value :: "nat \<Rightarrow> u32"
  va_format :: u32
  va_size :: u32
  va_count :: u32
  va_stride :: u32
  va_inline_buffer :: "nat \<Rightarrow> u32"
  va_inline_buffer_populated :: bool

record Surface =
  sf_draw_dirty :: bool
  sf_buffer_dirty :: bool
  sf_write_enabled_cache :: bool
  sf_pitch :: u32
  sf_offset :: u64

record SurfaceShape =
  ss_z_format :: u32
  ss_color_format :: u32
  ss_zeta_format :: u32
  ss_log_width :: u32
  ss_log_height :: u32
  ss_clip_x :: u32
  ss_clip_y :: u32
  ss_clip_width :: u32
  ss_clip_height :: u32
  ss_anti_aliasing :: u32

record ContextSurfaces2DState =
  cs_object_instance :: u64
  cs_dma_image_source :: u64
  cs_dma_image_dest :: u64
  cs_color_format :: u32
  cs_source_pitch :: u32
  cs_dest_pitch :: u32
  cs_source_offset :: u64
  cs_dest_offset :: u64

record ImageBlitState =
  ib_object_instance :: u64
  ib_context_surfaces :: u64
  ib_operation :: u32
  ib_in_x :: u32
  ib_in_y :: u32
  ib_out_x :: u32
  ib_out_y :: u32
  ib_width :: u32
  ib_height :: u32

record BetaState =
  be_object_instance :: u64
  be_beta :: u32

record PGRAPHState =
  pg_pending_interrupts :: u32
  pg_enabled_interrupts :: u32
  pg_frame_time :: u32
  pg_context_surfaces_2d :: ContextSurfaces2DState
  pg_image_blit :: ImageBlitState
  pg_kelvin_object_instance :: u64
  pg_beta :: BetaState
  pg_dma_color :: u64
  pg_dma_zeta :: u64
  pg_surface_color :: Surface
  pg_surface_zeta :: Surface
  pg_surface_type :: u32
  pg_surface_shape :: SurfaceShape
  pg_dma_a :: u64
  pg_dma_b :: u64
  pg_texture_dirty :: "nat \<Rightarrow> bool"
  pg_texture_matrix_enable :: "nat \<Rightarrow> bool"
  pg_dma_state :: u64
  pg_dma_notifies :: u64
  pg_dma_semaphore :: u64
  pg_dma_report :: u64
  pg_zpass_pixel_count_enable :: bool
  pg_dma_vertex_a :: u64
  pg_dma_vertex_b :: u64
  pg_primitive_mode :: u32
  pg_enable_vertex_program_write :: bool
  pg_vertex_state_shader_v0 :: "nat \<Rightarrow> u32"
  pg_program_data :: "nat \<Rightarrow> nat \<Rightarrow> u32"
  pg_program_data_dirty :: bool
  pg_vsh_constants :: "nat \<Rightarrow> nat \<Rightarrow> u32"
  pg_vsh_constants_dirty :: "nat \<Rightarrow> bool"
  pg_ltctxa :: "nat \<Rightarrow> nat \<Rightarrow> u32"
  pg_ltctxa_dirty :: "nat \<Rightarrow> bool"
  pg_ltctxb :: "nat \<Rightarrow> nat \<Rightarrow> u32"
  pg_ltctxb_dirty :: "nat \<Rightarrow> bool"
  pg_ltc1 :: "nat \<Rightarrow> nat \<Rightarrow> u32"
  pg_ltc1_dirty :: "nat \<Rightarrow> bool"
  pg_material_alpha :: u32
  pg_light_infinite_half_vector :: "nat \<Rightarrow> nat \<Rightarrow> u32"
  pg_light_infinite_direction :: "nat \<Rightarrow> nat \<Rightarrow> u32"
  pg_light_local_position :: "nat \<Rightarrow> nat \<Rightarrow> u32"
  pg_light_local_attenuation :: "nat \<Rightarrow> nat \<Rightarrow> u32"
  pg_specular_params :: "nat \<Rightarrow> u32"
  pg_specular_power :: u32
  pg_specular_params_back :: "nat \<Rightarrow> u32"
  pg_specular_power_back :: u32
  pg_point_params :: "nat \<Rightarrow> u32"
  pg_vertex_attributes :: "nat \<Rightarrow> VertexAttribute"
  pg_compressed_attrs :: u16
  pg_inline_array_length :: u32
  pg_inline_array :: "nat \<Rightarrow> u32"
  pg_inline_elements_length :: u32
  pg_inline_elements :: "nat \<Rightarrow> u32"
  pg_inline_buffer_length :: u32
  pg_draw_arrays_length :: u32
  pg_draw_arrays_min_start :: u32
  pg_draw_arrays_max_count :: u32
  pg_draw_arrays_start :: "nat \<Rightarrow> u32"
  pg_draw_arrays_count :: "nat \<Rightarrow> u32"
  pg_draw_arrays_prevent_connect :: bool
  pg_regs :: "nat \<Rightarrow> u32"
  pg_regs_dirty :: "nat \<Rightarrow> bool"
  pg_waiting_for_nop :: bool
  pg_waiting_for_flip :: bool
  pg_waiting_for_context_switch :: bool
  pg_flush_pending :: bool
  pg_sync_pending :: bool

definition arr2_set :: "nat \<Rightarrow> nat \<Rightarrow> (nat \<Rightarrow> nat \<Rightarrow> 'a) \<Rightarrow> nat \<Rightarrow> nat \<Rightarrow> 'a \<Rightarrow> (nat \<Rightarrow> nat \<Rightarrow> 'a) res" where
  "arr2_set n k a i j v = (if i < n \<and> j < k then Inr (a(i := (a i)(j := v))) else Inl Out_of_bounds)"

definition pgraph_reg_r :: "PGRAPHState \<Rightarrow> nat \<Rightarrow> u32 res" where
  "pgraph_reg_r pg r = res_bind (assert_res (r mod 4 = 0)) (\<lambda>_. arr_get PGRAPH_REGS (pg_regs pg) r)"

definition pgraph_reg_w :: "nat \<Rightarrow> u32 \<Rightarrow> PGRAPHState \<Rightarrow> PGRAPHState res" where
  "pgraph_reg_w r v pg =
    res_bind (assert_res (r mod 4 = 0)) (\<lambda>_.
    res_bind (arr_get PGRAPH_REGS (pg_regs pg) r) (\<lambda>old.
      let pg = (if old \<noteq> v then pg\<lparr>pg_regs_dirty := (pg_regs_dirty pg)(r div 4 := True)\<rparr> else pg) in
      res_bind (arr_set PGRAPH_REGS (pg_regs pg) r v) (\<lambda>regs. Inr (pg\<lparr>pg_regs := regs\<rparr>))))"

definition PG_GET_MASK :: "PGRAPHState \<Rightarrow> nat \<Rightarrow> u32 \<Rightarrow> u32 res" where
  "PG_GET_MASK pg r m = res_bind (pgraph_reg_r pg r) (\<lambda>v. Inr (GET_MASK v m))"

definition PG_SET_MASK :: "nat \<Rightarrow> u32 \<Rightarrow> u32 \<Rightarrow> PGRAPHState \<Rightarrow> PGRAPHState res" where
  "PG_SET_MASK r m val pg = res_bind (pgraph_reg_r pg r) (\<lambda>v. pgraph_reg_w r (SET_MASK v m val) pg)"

definition pgraph_is_reg_dirty :: "PGRAPHState \<Rightarrow> nat \<Rightarrow> bool" where
  "pgraph_is_reg_dirty pg r = pg_regs_dirty pg (r div 4)"

definition pgraph_clear_dirty_reg_map :: "PGRAPHState \<Rightarrow> PGRAPHState" where
  "pgraph_clear_dirty_reg_map pg = pg\<lparr>pg_regs_dirty := (\<lambda>_. False)\<rparr>"

section \<open>The device\<close>

record NV2AState =
  nv_irq_level :: bool
  nv_vblank_timer :: "u64 option"
  nv_vram :: mem_region
  nv_ramin :: mem_region
  pmc_pending_interrupts :: u32
  pmc_enabled_interrupts :: u32
  pfifo_pending_interrupts :: u32
  pfifo_enabled_interrupts :: u32
  pfifo_regs :: "nat \<Rightarrow> u32"
  pfifo_fifo_kick :: bool
  pfifo_halt :: bool
  pvideo_regs :: "nat \<Rightarrow> u32"
  ptimer_pending_interrupts :: u32
  ptimer_enabled_interrupts :: u32
  ptimer_numerator :: u32
  ptimer_denominator :: u32
  ptimer_alarm_time :: u32
  pfb_regs :: "nat \<Rightarrow> u32"
  pgraph :: PGRAPHState
  pcrtc_pending_interrupts :: u32
  pcrtc_enabled_interrupts :: u32
  pcrtc_start :: u64
  pcrtc_raster :: u32
  pramdac_core_clock_coeff :: u32
  pramdac_core_clock_freq :: u64
  pramdac_memory_clock_coeff :: u32
  pramdac_video_clock_coeff :: u32
  pramdac_general_control :: u32
  pramdac_fp_vdisplay_end :: u32
  pramdac_fp_vcrtc :: u32
  pramdac_fp_vsync_end :: u32
  pramdac_fp_vvalid_end :: u32
  pramdac_fp_hdisplay_end :: u32
  pramdac_fp_hcrtc :: u32
  pramdac_fp_hvalid_end :: u32
  puserdac_write_mode_address :: u16
  puserdac_palette :: "nat \<Rightarrow> u8"
  nv_pci_config :: "nat \<Rightarrow> u8"
  nv_vga_invalidated :: "(u32 \<times> u32) list"

section \<open>The zeroed device\<close>

text \<open>The device as allocated, every field zero, with memories of the given sizes.\<close>

definition zero_VertexAttribute :: "VertexAttribute" where
  "zero_VertexAttribute =
    \<lparr>va_dma_select = False, va_offset = 0, va_inline_value = \<lambda>_. 0, va_format = 0,
     va_size = 0, va_count = 0, va_stride = 0, va_inline_buffer = \<lambda>_. 0,
     va_inline_buffer_populated = False\<rparr>"

definition zero_Surface :: "Surface" where
  "zero_Surface =
    \<lparr>sf_draw_dirty = False, sf_buffer_dirty = False, sf_write_enabled_cache = False, sf_pitch = 0,
     sf_offset = 0\<rparr>"

definition zero_SurfaceShape :: "SurfaceShape" where
  "zero_SurfaceShape =
    \<lparr>ss_z_format = 0, ss_color_format = 0, ss_zeta_format = 0, ss_log_width = 0, ss_log_height = 0,
     ss_clip_x = 0, ss_clip_y = 0, ss_clip_width = 0, ss_clip_height = 0, ss_anti_aliasing = 0\<rparr>"

definition zero_ContextSurfaces2DState :: "ContextSurfaces2DState" where
  "zero_ContextSurfaces2DState =
    \<lparr>cs_object_instance = 0, cs_dma_image_source = 0, cs_dma_image_dest = 0, cs_color_format = 0,
     cs_source_pitch = 0, cs_dest_pitch = 0, cs_source_offset = 0, cs_dest_offset = 0\<rparr>"

definition zero_ImageBlitState :: "ImageBlitState" where
  "zero_ImageBlitState =
    \<lparr>ib_object_instance = 0, ib_context_surfaces = 0, ib_operation = 0, ib_in_x = 0, ib_in_y = 0,
     ib_out_x = 0, ib_out_y = 0, ib_width = 0, ib_height = 0\<rparr>"

definition zero_BetaState :: "BetaState" where
  "zero_BetaState =
    \<lparr>be_object_instance = 0, be_beta = 0\<rparr>"

definition zero_PGRAPHState :: "PGRAPHState" where
  "zero_PGRAPHState =
    \<lparr>pg_pending_interrupts = 0, pg_enabled_interrupts = 0, pg_frame_time = 0,
     pg_context_surfaces_2d = zero_ContextSurfaces2DState, pg_image_blit = zero_ImageBlitState,
     pg_kelvin_object_instance = 0, pg_beta = zero_BetaState, pg_dma_color = 0, pg_dma_zeta = 0,
     pg_surface_color = zero_Surface, pg_surface_zeta = zero_Surface, pg_surface_type = 0,
     pg_surface_shape = zero_SurfaceShape, pg_dma_a = 0, pg_dma_b = 0,
     pg_texture_dirty = \<lambda>_. False, pg_texture_matrix_enable = \<lambda>_. False, pg_dma_state = 0,
     pg_dma_notifies = 0, pg_dma_semaphore = 0, pg_dma_report = 0, pg_zpass_pixel_count_enable = False,
     pg_dma_vertex_a = 0, pg_dma_vertex_b = 0, pg_primitive_mode = 0,
     pg_enable_vertex_program_write = False, pg_vertex_state_shader_v0 = \<lambda>_. 0,
     pg_program_data = \<lambda>_. \<lambda>_. 0, pg_program_data_dirty = False,
     pg_vsh_constants = \<lambda>_. \<lambda>_. 0, pg_vsh_constants_dirty = \<lambda>_. False,
     pg_ltctxa = \<lambda>_. \<lambda>_. 0, pg_ltctxa_dirty = \<lambda>_. False,
     pg_ltctxb = \<lambda>_. \<lambda>_. 0, pg_ltctxb_dirty = \<lambda>_. False,
     pg_ltc1 = \<lambda>_. \<lambda>_. 0, pg_ltc1_dirty = \<lambda>_. False, pg_material_alpha = 0,
     pg_light_infinite_half_vector = \<lambda>_. \<lambda>_. 0,
     pg_light_infinite_direction = \<lambda>_. \<lambda>_. 0,
     pg_light_local_position = \<lambda>_. \<lambda>_. 0,
     pg_light_local_attenuation = \<lambda>_. \<lambda>_. 0, pg_specular_params = \<lambda>_. 0, pg_specular_power = 0,
     pg_specular_params_back = \<lambda>_. 0, pg_specular_power_back = 0, pg_point_params = \<lambda>_. 0,
     pg_vertex_attributes = \<lambda>_. zero_VertexAttribute, pg_compressed_attrs = 0,
     pg_inline_array_length = 0, pg_inline_array = \<lambda>_. 0, pg_inline_elements_length = 0,
     pg_inline_elements = \<lambda>_. 0, pg_inline_buffer_length = 0, pg_draw_arrays_length = 0,
     pg_draw_arrays_min_start = 0, pg_draw_arrays_max_count = 0, pg_draw_arrays_start = \<lambda>_. 0,
     pg_draw_arrays_count = \<lambda>_. 0, pg_draw_arrays_prevent_connect = False,
     pg_regs = \<lambda>_. 0, pg_regs_dirty = \<lambda>_. False, pg_waiting_for_nop = False,
     pg_waiting_for_flip = False, pg_waiting_for_context_switch = False, pg_flush_pending = False,
     pg_sync_pending = False\<rparr>"

definition nv2a_blank :: "nat \<Rightarrow> nat \<Rightarrow> NV2AState" where
  "nv2a_blank vram ramin =
    \<lparr>nv_irq_level = False, nv_vblank_timer = None,
     nv_vram = \<lparr>mem_size = vram, mem_byte = \<lambda>_. 0\<rparr>,
     nv_ramin = \<lparr>mem_size = ramin, mem_byte = \<lambda>_. 0\<rparr>, pmc_pending_interrupts = 0,
     pmc_enabled_interrupts = 0, pfifo_pending_interrupts = 0, pfifo_enabled_interrupts = 0,
     pfifo_regs = \<lambda>_. 0, pfifo_fifo_kick = False, pfifo_halt = False, pvideo_regs = \<lambda>_. 0,
     ptimer_pending_interrupts = 0, ptimer_enabled_interrupts = 0, ptimer_numerator = 0,
     ptimer_denominator = 0, ptimer_alarm_time = 0, pfb_regs = \<lambda>_. 0, pgraph = zero_PGRAPHState,
     pcrtc_pending_interrupts = 0, pcrtc_enabled_interrupts = 0, pcrtc_start = 0, pcrtc_raster = 0,
     pramdac_core_clock_coeff = 0, pramdac_core_clock_freq = 0, pramdac_memory_clock_coeff = 0,
     pramdac_video_clock_coeff = 0, pramdac_general_control = 0, pramdac_fp_vdisplay_end = 0,
     pramdac_fp_vcrtc = 0, pramdac_fp_vsync_end = 0, pramdac_fp_vvalid_end = 0,
     pramdac_fp_hdisplay_end = 0, pramdac_fp_hcrtc = 0, pramdac_fp_hvalid_end = 0,
     puserdac_write_mode_address = 0, puserdac_palette = \<lambda>_. 0, nv_pci_config = \<lambda>_. 0,
     nv_vga_invalidated = []\<rparr>"

lemmas nv2a_blank_defs = nv2a_blank_def zero_VertexAttribute_def zero_Surface_def zero_SurfaceShape_def
  zero_ContextSurfaces2DState_def zero_ImageBlitState_def zero_BetaState_def zero_PGRAPHState_def

end
