(* ===== verification/NV2A_Blocks.thy ===== *)
theory NV2A_Blocks
  imports NV2A_State
begin

text \<open>
  Interrupt aggregation, DMA objects and the vertical blank of \<open>hw/xbox/nv2a/nv2a.c\<close>, and the register
  blocks in \<open>pmc.c\<close>, \<open>ptimer.c\<close>, \<open>pcrtc.c\<close>, \<open>pbus.c\<close>, \<open>pfb.c\<close>, \<open>pramdac.c\<close>,
  \<open>pvideo.c\<close>, \<open>prmdio.c\<close>, \<open>user.c\<close> and \<open>stubs.c\<close>.  The host clocks are arguments.
\<close>

section \<open>Interrupts\<close>

definition nv2a_update_irq :: "NV2AState \<Rightarrow> NV2AState" where
  "nv2a_update_irq d =
    (let p = pmc_pending_interrupts d;
         p = (if pfifo_pending_interrupts d AND pfifo_enabled_interrupts d \<noteq> 0
              then p OR NV_PMC_INTR_0_PFIFO else p AND NOT NV_PMC_INTR_0_PFIFO);
         p = (if pcrtc_pending_interrupts d AND pcrtc_enabled_interrupts d \<noteq> 0
              then p OR NV_PMC_INTR_0_PCRTC else p AND NOT NV_PMC_INTR_0_PCRTC);
         p = (if pg_pending_interrupts (pgraph d) AND pg_enabled_interrupts (pgraph d) \<noteq> 0
              then p OR NV_PMC_INTR_0_PGRAPH else p AND NOT NV_PMC_INTR_0_PGRAPH)
     in d\<lparr>pmc_pending_interrupts := p, nv_irq_level := (p \<noteq> 0 \<and> pmc_enabled_interrupts d \<noteq> 0)\<rparr>)"

section \<open>DMA objects\<close>

record DMAObject =
  dma_class :: u32
  dma_target :: u32
  dma_address :: u64
  dma_limit :: u64

definition nv_dma_load :: "NV2AState \<Rightarrow> u64 \<Rightarrow> DMAObject res" where
  "nv_dma_load d a =
    res_bind (assert_res (unat a < mem_size (nv_ramin d))) (\<lambda>_.
    res_bind (ldl_le (nv_ramin d) (unat a)) (\<lambda>flags.
    res_bind (ldl_le (nv_ramin d) (unat a + 4)) (\<lambda>limit.
    res_bind (ldl_le (nv_ramin d) (unat a + 8)) (\<lambda>frame.
      Inr \<lparr>dma_class = GET_MASK flags NV_DMA_CLASS, dma_target = GET_MASK flags NV_DMA_TARGET,
           dma_address = ucast ((frame AND NV_DMA_ADDRESS) OR GET_MASK flags NV_DMA_ADJUST),
           dma_limit = ucast limit\<rparr>))))"

text \<open>The mapped pointer as an offset into video memory, and the length.\<close>

definition nv_dma_map :: "NV2AState \<Rightarrow> u64 \<Rightarrow> (nat \<times> u64) res" where
  "nv_dma_map d a =
    res_bind (nv_dma_load d a) (\<lambda>dma.
      let address = dma_address dma AND 0x07FFFFFF in
      res_bind (assert_res (unat address < mem_size (nv_vram d))) (\<lambda>_. Inr (unat address, dma_limit dma)))"

abbreviation (input) NV_PFB_TILE_BASE_ADDRESS_AND_FLAGS :: "nat \<Rightarrow> nat" where
  "NV_PFB_TILE_BASE_ADDRESS_AND_FLAGS i \<equiv> NV_PFB_TILE + i * 16"
abbreviation (input) NV_PFB_TILE_LIMIT :: "nat \<Rightarrow> nat" where
  "NV_PFB_TILE_LIMIT i \<equiv> NV_PFB_TILE + i * 16 + 4"

fun clip_tiles :: "(nat \<Rightarrow> u32) \<Rightarrow> u64 \<Rightarrow> u64 \<Rightarrow> nat list \<Rightarrow> u64" where
  "clip_tiles regs base len [] = len"
| "clip_tiles regs base len (i # is) =
    (if regs (NV_PFB_TILE_BASE_ADDRESS_AND_FLAGS i) AND NV_PFB_TILE_FLAGS_VALID = 0
     then clip_tiles regs base len is
     else let limit = regs (NV_PFB_TILE_LIMIT i) in
       if base < ucast limit \<and> base + len > ucast limit then ucast (limit + 1) - base
       else clip_tiles regs base len is)"

definition nv_clip_gpu_tile_blit :: "NV2AState \<Rightarrow> u64 \<Rightarrow> u64 \<Rightarrow> u64" where
  "nv_clip_gpu_tile_blit d base len = clip_tiles (pfb_regs d) base len [0..<NV_NUM_GPU_TILES]"

section \<open>Vertical blank\<close>

definition nv2a_calc_vblank_period_ns :: "NV2AState \<Rightarrow> u64" where
  "nv2a_calc_vblank_period_ns d = (if pramdac_fp_vdisplay_end d > 480 then 1000000000 div 50 else 16683750)"

definition nv2a_vblank_recalc :: "u64 \<Rightarrow> NV2AState \<Rightarrow> NV2AState" where
  "nv2a_vblank_recalc now d = (case nv_vblank_timer d of None \<Rightarrow> d
    | Some _ \<Rightarrow> d\<lparr>nv_vblank_timer := Some (now + nv2a_calc_vblank_period_ns d)\<rparr>)"

definition nv2a_vblank_timer_cb :: "u64 \<Rightarrow> NV2AState \<Rightarrow> NV2AState" where
  "nv2a_vblank_timer_cb now d =
    (let d = nv2a_update_irq (d\<lparr>pcrtc_pending_interrupts := pcrtc_pending_interrupts d OR NV_PCRTC_INTR_0_VBLANK,
           pcrtc_raster := 0\<rparr>)
     in d\<lparr>nv_vblank_timer := Some (now + nv2a_calc_vblank_period_ns d)\<rparr>)"

section \<open>Register blocks\<close>

definition pmc_read :: "NV2AState \<Rightarrow> nat \<Rightarrow> u64" where
  "pmc_read d addr =
    (if addr = NV_PMC_BOOT_0 then 0x02A000A3
     else if addr = NV_PMC_INTR_0 then ucast (pmc_pending_interrupts d)
     else if addr = NV_PMC_INTR_EN_0 then ucast (pmc_enabled_interrupts d)
     else 0)"

definition pmc_write :: "NV2AState \<Rightarrow> nat \<Rightarrow> u64 \<Rightarrow> NV2AState" where
  "pmc_write d addr val =
    (if addr = NV_PMC_INTR_0
     then nv2a_update_irq (d\<lparr>pmc_pending_interrupts := pmc_pending_interrupts d AND NOT (ucast val)\<rparr>)
     else if addr = NV_PMC_INTR_EN_0 then nv2a_update_irq (d\<lparr>pmc_enabled_interrupts := ucast val\<rparr>)
     else d)"

definition muldiv64 :: "u64 \<Rightarrow> u32 \<Rightarrow> u32 \<Rightarrow> u64 res" where
  "muldiv64 a b c = (if c = 0 then Inl Div_by_zero else Inr (of_nat (unat a * unat b div unat c)))"

definition ptimer_get_clock :: "u64 \<Rightarrow> NV2AState \<Rightarrow> u64 res" where
  "ptimer_get_clock now d =
    res_bind (muldiv64 now (ucast (pramdac_core_clock_freq d)) 1000000000) (\<lambda>t.
      muldiv64 t (ptimer_denominator d) (ptimer_numerator d))"

definition ptimer_read :: "u64 \<Rightarrow> NV2AState \<Rightarrow> nat \<Rightarrow> u64 res" where
  "ptimer_read now d addr =
    (if addr = NV_PTIMER_INTR_0 then Inr (ucast (ptimer_pending_interrupts d))
     else if addr = NV_PTIMER_INTR_EN_0 then Inr (ucast (ptimer_enabled_interrupts d))
     else if addr = NV_PTIMER_NUMERATOR then Inr (ucast (ptimer_numerator d))
     else if addr = NV_PTIMER_DENOMINATOR then Inr (ucast (ptimer_denominator d))
     else if addr = NV_PTIMER_TIME_0 then
       res_bind (ptimer_get_clock now d) (\<lambda>c. Inr (push_bit 5 (c AND 0x7ffffff)))
     else if addr = NV_PTIMER_TIME_1 then
       res_bind (ptimer_get_clock now d) (\<lambda>c. Inr (drop_bit 27 c AND 0x1fffffff))
     else Inr 0)"

definition ptimer_write :: "NV2AState \<Rightarrow> nat \<Rightarrow> u64 \<Rightarrow> NV2AState" where
  "ptimer_write d addr val =
    (if addr = NV_PTIMER_INTR_0
     then nv2a_update_irq (d\<lparr>ptimer_pending_interrupts := ptimer_pending_interrupts d AND NOT (ucast val)\<rparr>)
     else if addr = NV_PTIMER_INTR_EN_0 then nv2a_update_irq (d\<lparr>ptimer_enabled_interrupts := ucast val\<rparr>)
     else if addr = NV_PTIMER_DENOMINATOR then d\<lparr>ptimer_denominator := ucast val\<rparr>
     else if addr = NV_PTIMER_NUMERATOR then d\<lparr>ptimer_numerator := ucast val\<rparr>
     else if addr = NV_PTIMER_ALARM_0 then d\<lparr>ptimer_alarm_time := ucast val\<rparr>
     else d)"

definition pcrtc_read :: "NV2AState \<Rightarrow> nat \<Rightarrow> u64 \<times> NV2AState" where
  "pcrtc_read d addr =
    (if addr = NV_PCRTC_INTR_0 then (ucast (pcrtc_pending_interrupts d), d)
     else if addr = NV_PCRTC_INTR_EN_0 then (ucast (pcrtc_enabled_interrupts d), d)
     else if addr = NV_PCRTC_START then (pcrtc_start d, d)
     else if addr = NV_PCRTC_RASTER then (ucast (pcrtc_raster d), d\<lparr>pcrtc_raster := pcrtc_raster d + 1\<rparr>)
     else (0, d))"

definition pcrtc_write :: "NV2AState \<Rightarrow> nat \<Rightarrow> u64 \<Rightarrow> NV2AState" where
  "pcrtc_write d addr val =
    (if addr = NV_PCRTC_INTR_0
     then nv2a_update_irq (d\<lparr>pcrtc_pending_interrupts := pcrtc_pending_interrupts d AND NOT (ucast val)\<rparr>)
     else if addr = NV_PCRTC_INTR_EN_0 then nv2a_update_irq (d\<lparr>pcrtc_enabled_interrupts := ucast val\<rparr>)
     else if addr = NV_PCRTC_START then d\<lparr>pcrtc_start := val AND 0x07FFFFFF\<rparr>
     else d)"

definition pci_get_long :: "(nat \<Rightarrow> u8) \<Rightarrow> nat \<Rightarrow> u32" where
  "pci_get_long config a = ucast (config a) OR push_bit 8 (ucast (config (a + 1))) OR
    push_bit 16 (ucast (config (a + 2))) OR push_bit 24 (ucast (config (a + 3)))"

definition pci_set_long :: "(nat \<Rightarrow> u8) \<Rightarrow> nat \<Rightarrow> u32 \<Rightarrow> nat \<Rightarrow> u8" where
  "pci_set_long config a v = config(a := ucast v, a + 1 := ucast (drop_bit 8 v),
    a + 2 := ucast (drop_bit 16 v), a + 3 := ucast (drop_bit 24 v))"

abbreviation (input) PCI_VENDOR_ID :: nat where "PCI_VENDOR_ID \<equiv> 0"
abbreviation (input) PCI_COMMAND :: nat where "PCI_COMMAND \<equiv> 4"
abbreviation (input) PCI_CLASS_REVISION :: nat where "PCI_CLASS_REVISION \<equiv> 8"

definition pbus_read :: "NV2AState \<Rightarrow> nat \<Rightarrow> u64" where
  "pbus_read s addr =
    (if addr = NV_PBUS_PCI_NV_0 then ucast (pci_get_long (nv_pci_config s) PCI_VENDOR_ID)
     else if addr = NV_PBUS_PCI_NV_1 then ucast (pci_get_long (nv_pci_config s) PCI_COMMAND)
     else if addr = NV_PBUS_PCI_NV_2 then ucast (pci_get_long (nv_pci_config s) PCI_CLASS_REVISION)
     else 0)"

definition pbus_write :: "NV2AState \<Rightarrow> nat \<Rightarrow> u64 \<Rightarrow> NV2AState" where
  "pbus_write s addr val =
    (if addr = NV_PBUS_PCI_NV_1
     then s\<lparr>nv_pci_config := pci_set_long (nv_pci_config s) PCI_COMMAND (ucast val)\<rparr> else s)"

abbreviation (input) PFB_REGS :: nat where "PFB_REGS \<equiv> 0x1000"

definition pfb_read :: "NV2AState \<Rightarrow> nat \<Rightarrow> u64 res" where
  "pfb_read d addr =
    (if addr = NV_PFB_CSTATUS then Inr (of_nat (mem_size (nv_vram d)))
     else if addr = NV_PFB_WBC then Inr 0
     else res_bind (arr_get PFB_REGS (pfb_regs d) addr) (\<lambda>r. Inr (ucast r)))"

definition pfb_write :: "NV2AState \<Rightarrow> nat \<Rightarrow> u64 \<Rightarrow> NV2AState res" where
  "pfb_write d addr val =
    res_bind (arr_set PFB_REGS (pfb_regs d) addr (ucast val)) (\<lambda>regs. Inr (d\<lparr>pfb_regs := regs\<rparr>))"

definition pramdac_word :: "NV2AState \<Rightarrow> nat \<Rightarrow> u32" where
  "pramdac_word d addr =
    (if addr = NV_PRAMDAC_NVPLL_COEFF then pramdac_core_clock_coeff d
     else if addr = NV_PRAMDAC_MPLL_COEFF then pramdac_memory_clock_coeff d
     else if addr = NV_PRAMDAC_VPLL_COEFF then pramdac_video_clock_coeff d
     else if addr = NV_PRAMDAC_PLL_TEST_COUNTER then
       NV_PRAMDAC_PLL_TEST_COUNTER_VPLL2_LOCK OR NV_PRAMDAC_PLL_TEST_COUNTER_NVPLL_LOCK OR
       NV_PRAMDAC_PLL_TEST_COUNTER_MPLL_LOCK OR NV_PRAMDAC_PLL_TEST_COUNTER_VPLL_LOCK
     else if addr = NV_PRAMDAC_GENERAL_CONTROL then pramdac_general_control d
     else if addr = NV_PRAMDAC_FP_VDISPLAY_END then pramdac_fp_vdisplay_end d
     else if addr = NV_PRAMDAC_FP_VCRTC then pramdac_fp_vcrtc d
     else if addr = NV_PRAMDAC_FP_VSYNC_END then pramdac_fp_vsync_end d
     else if addr = NV_PRAMDAC_FP_VVALID_END then pramdac_fp_vvalid_end d
     else if addr = NV_PRAMDAC_FP_HDISPLAY_END then pramdac_fp_hdisplay_end d
     else if addr = NV_PRAMDAC_FP_HCRTC then pramdac_fp_hcrtc d
     else if addr = NV_PRAMDAC_FP_HVALID_END then pramdac_fp_hvalid_end d
     else 0)"

definition pramdac_read :: "NV2AState \<Rightarrow> nat \<Rightarrow> nat \<Rightarrow> u64 res" where
  "pramdac_read d addr sz =
    (let r = ucast (pramdac_word d (addr - addr mod 4)) :: u64 in
     if 8 * sz + 8 * (addr mod 4) \<le> 32 then Inr (drop_bit (32 - 8 * sz - 8 * (addr mod 4)) r)
     else Inl Bad_shift)"

abbreviation (input) NV2A_CRYSTAL_FREQ :: u32 where "NV2A_CRYSTAL_FREQ \<equiv> 16666666"

definition pramdac_write :: "u64 \<Rightarrow> NV2AState \<Rightarrow> nat \<Rightarrow> u64 \<Rightarrow> NV2AState" where
  "pramdac_write now d addr val =
    (if addr = NV_PRAMDAC_NVPLL_COEFF then
       let v = ucast val :: u32;
           m = v AND NV_PRAMDAC_NVPLL_COEFF_MDIV;
           n = drop_bit 8 (v AND NV_PRAMDAC_NVPLL_COEFF_NDIV);
           p = drop_bit 16 (v AND NV_PRAMDAC_NVPLL_COEFF_PDIV)
       in d\<lparr>pramdac_core_clock_coeff := v,
            pramdac_core_clock_freq :=
              (if m = 0 then 0 else ucast (NV2A_CRYSTAL_FREQ * n div push_bit (unat p) 1 div m))\<rparr>
     else if addr = NV_PRAMDAC_MPLL_COEFF then d\<lparr>pramdac_memory_clock_coeff := ucast val\<rparr>
     else if addr = NV_PRAMDAC_VPLL_COEFF then d\<lparr>pramdac_video_clock_coeff := ucast val\<rparr>
     else if addr = NV_PRAMDAC_GENERAL_CONTROL then d\<lparr>pramdac_general_control := ucast val\<rparr>
     else if addr = NV_PRAMDAC_FP_VDISPLAY_END then nv2a_vblank_recalc now (d\<lparr>pramdac_fp_vdisplay_end := ucast val\<rparr>)
     else if addr = NV_PRAMDAC_FP_VCRTC then d\<lparr>pramdac_fp_vcrtc := ucast val\<rparr>
     else if addr = NV_PRAMDAC_FP_VSYNC_END then d\<lparr>pramdac_fp_vsync_end := ucast val\<rparr>
     else if addr = NV_PRAMDAC_FP_VVALID_END then d\<lparr>pramdac_fp_vvalid_end := ucast val\<rparr>
     else if addr = NV_PRAMDAC_FP_HDISPLAY_END then d\<lparr>pramdac_fp_hdisplay_end := ucast val\<rparr>
     else if addr = NV_PRAMDAC_FP_HCRTC then d\<lparr>pramdac_fp_hcrtc := ucast val\<rparr>
     else if addr = NV_PRAMDAC_FP_HVALID_END then d\<lparr>pramdac_fp_hvalid_end := ucast val\<rparr>
     else d)"

abbreviation (input) PVIDEO_REGS :: nat where "PVIDEO_REGS \<equiv> 0x1000"

definition pvideo_vga_invalidate :: "NV2AState \<Rightarrow> NV2AState" where
  "pvideo_vga_invalidate d =
    (let y1 = GET_MASK (pvideo_regs d NV_PVIDEO_POINT_OUT) NV_PVIDEO_POINT_OUT_Y;
         y2 = y1 + GET_MASK (pvideo_regs d NV_PVIDEO_SIZE_OUT) NV_PVIDEO_SIZE_OUT_HEIGHT
     in d\<lparr>nv_vga_invalidated := nv_vga_invalidated d @ [(y1, y2)]\<rparr>)"

definition pvideo_read :: "NV2AState \<Rightarrow> nat \<Rightarrow> u64 res" where
  "pvideo_read d addr = (if addr = NV_PVIDEO_STOP then Inr 0
    else res_bind (arr_get PVIDEO_REGS (pvideo_regs d) addr) (\<lambda>r. Inr (ucast r)))"

definition pvideo_write :: "NV2AState \<Rightarrow> nat \<Rightarrow> u64 \<Rightarrow> NV2AState res" where
  "pvideo_write d addr val =
    (if addr = NV_PVIDEO_BUFFER then
       res_bind (arr_set PVIDEO_REGS (pvideo_regs d) addr (ucast val)) (\<lambda>regs.
         Inr (pvideo_vga_invalidate (d\<lparr>pvideo_regs := regs\<rparr>)))
     else if addr = NV_PVIDEO_STOP then
       Inr (pvideo_vga_invalidate
         (if val AND 1 \<noteq> 0 then d\<lparr>pvideo_regs := (pvideo_regs d)(NV_PVIDEO_BUFFER := 0)\<rparr> else d))
     else res_bind (arr_set PVIDEO_REGS (pvideo_regs d) addr (ucast val)) (\<lambda>regs. Inr (d\<lparr>pvideo_regs := regs\<rparr>)))"

definition prmdio_read :: "NV2AState \<Rightarrow> nat \<Rightarrow> u64" where
  "prmdio_read d addr = (if addr = NV_USER_DAC_WRITE_MODE_ADDRESS
    then ucast (puserdac_write_mode_address d div 3) else 0)"

definition prmdio_write :: "NV2AState \<Rightarrow> nat \<Rightarrow> u64 \<Rightarrow> NV2AState" where
  "prmdio_write d addr val =
    (if addr = NV_USER_DAC_WRITE_MODE_ADDRESS then d\<lparr>puserdac_write_mode_address := ucast (val AND 0xff) * 3\<rparr>
     else if addr = NV_USER_DAC_PALETTE_DATA then
       let a = puserdac_write_mode_address d in
       d\<lparr>puserdac_write_mode_address := a + 1,
         puserdac_palette := (puserdac_palette d)(unat a mod (256 * 3) := ucast val)\<rparr>
     else d)"

text \<open>The stub blocks (PRMA, PCOUNTER, PVPE, PTV, PRMFB, PSTRAPS).\<close>

definition stub_read :: "NV2AState \<Rightarrow> nat \<Rightarrow> u64" where
  "stub_read d addr = 0"

definition stub_write :: "NV2AState \<Rightarrow> nat \<Rightarrow> u64 \<Rightarrow> NV2AState" where
  "stub_write d addr val = d"

definition pfifo_kick :: "NV2AState \<Rightarrow> NV2AState" where
  "pfifo_kick d = d\<lparr>pfifo_fifo_kick := True\<rparr>"

abbreviation (input) NV2A_NUM_CHANNELS :: nat where "NV2A_NUM_CHANNELS \<equiv> 32"

definition user_channel :: "NV2AState \<Rightarrow> nat \<Rightarrow> unit res" where
  "user_channel d addr =
    (let channel_id = addr div 0x10000 in
     res_bind (assert_res (channel_id < NV2A_NUM_CHANNELS)) (\<lambda>_.
     res_bind (assert_res (bit (pfifo_regs d NV_PFIFO_MODE) channel_id)) (\<lambda>_.
       assert_res (channel_id = unat (GET_MASK (pfifo_regs d NV_PFIFO_CACHE1_PUSH1) NV_PFIFO_CACHE1_PUSH1_CHID)))))"

definition user_read :: "NV2AState \<Rightarrow> nat \<Rightarrow> u64 res" where
  "user_read d addr =
    res_bind (user_channel d addr) (\<lambda>_.
      Inr (if addr mod 0x10000 = NV_USER_DMA_PUT then ucast (pfifo_regs d NV_PFIFO_CACHE1_DMA_PUT)
           else if addr mod 0x10000 = NV_USER_DMA_GET then ucast (pfifo_regs d NV_PFIFO_CACHE1_DMA_GET)
           else if addr mod 0x10000 = NV_USER_REF then ucast (pfifo_regs d NV_PFIFO_CACHE1_REF)
           else 0))"

definition user_write :: "NV2AState \<Rightarrow> nat \<Rightarrow> u64 \<Rightarrow> NV2AState res" where
  "user_write d addr val =
    res_bind (user_channel d addr) (\<lambda>_.
      res_bind
        (if addr mod 0x10000 = NV_USER_DMA_PUT
         then Inr (d\<lparr>pfifo_regs := (pfifo_regs d)(NV_PFIFO_CACHE1_DMA_PUT := ucast val)\<rparr>)
         else if addr mod 0x10000 = NV_USER_DMA_GET
         then Inr (d\<lparr>pfifo_regs := (pfifo_regs d)(NV_PFIFO_CACHE1_DMA_GET := ucast val)\<rparr>)
         else if addr mod 0x10000 = NV_USER_REF
         then Inr (d\<lparr>pfifo_regs := (pfifo_regs d)(NV_PFIFO_CACHE1_REF := ucast val)\<rparr>)
         else Inl Assertion)
        (\<lambda>d. Inr (pfifo_kick d)))"

abbreviation (input) PFIFO_REGS :: nat where "PFIFO_REGS \<equiv> 0x2000"

definition pfifo_read :: "NV2AState \<Rightarrow> nat \<Rightarrow> u64 res" where
  "pfifo_read d addr =
    (if addr = NV_PFIFO_INTR_0 then Inr (ucast (pfifo_pending_interrupts d))
     else if addr = NV_PFIFO_INTR_EN_0 then Inr (ucast (pfifo_enabled_interrupts d))
     else if addr = NV_PFIFO_RUNOUT_STATUS then Inr (ucast NV_PFIFO_RUNOUT_STATUS_LOW_MARK)
     else res_bind (arr_get PFIFO_REGS (pfifo_regs d) addr) (\<lambda>r. Inr (ucast r)))"

definition pfifo_write :: "NV2AState \<Rightarrow> nat \<Rightarrow> u64 \<Rightarrow> NV2AState res" where
  "pfifo_write d addr val =
    res_bind
      (if addr = NV_PFIFO_INTR_0
       then Inr (nv2a_update_irq (d\<lparr>pfifo_pending_interrupts := pfifo_pending_interrupts d AND NOT (ucast val)\<rparr>))
       else if addr = NV_PFIFO_INTR_EN_0
       then Inr (nv2a_update_irq (d\<lparr>pfifo_enabled_interrupts := ucast val\<rparr>))
       else res_bind (arr_set PFIFO_REGS (pfifo_regs d) addr (ucast val)) (\<lambda>regs. Inr (d\<lparr>pfifo_regs := regs\<rparr>)))
      (\<lambda>d. Inr (pfifo_kick d))"

section \<open>Memory map, mode and reset\<close>

definition blocktable :: "(string \<times> nat \<times> nat) list" where
  "blocktable =
    [(''PMC'', 0x000000, 0x001000), (''PBUS'', 0x001000, 0x001000), (''PFIFO'', 0x002000, 0x002000),
     (''PRMA'', 0x007000, 0x001000), (''PVIDEO'', 0x008000, 0x001000), (''PTIMER'', 0x009000, 0x001000),
     (''PCOUNTER'', 0x00a000, 0x001000), (''PVPE'', 0x00b000, 0x001000), (''PTV'', 0x00d000, 0x001000),
     (''PRMFB'', 0x0a0000, 0x020000), (''PRMVIO'', 0x0c0000, 0x001000), (''PFB'', 0x100000, 0x001000),
     (''PSTRAPS'', 0x101000, 0x001000), (''PGRAPH'', 0x400000, 0x002000), (''PCRTC'', 0x600000, 0x001000),
     (''PRMCIO'', 0x601000, 0x001000), (''PRAMDAC'', 0x680000, 0x001000), (''PRMDIO'', 0x681000, 0x001000),
     (''USER'', 0x800000, 0x800000)]"

definition nv2a_get_bpp :: "(nat \<Rightarrow> u8) \<Rightarrow> NV2AState \<Rightarrow> nat res" where
  "nv2a_get_bpp cr d =
    (let depth = unat (cr 0x28 AND 3) in
     if depth = 0 then Inr 0
     else if depth = 2 then
       Inr (if pramdac_general_control d AND NV_PRAMDAC_GENERAL_CONTROL_ALT_MODE_SEL \<noteq> 0 then 16 else 15)
     else if depth = 3 then Inr 32
     else Inl Assertion)"

abbreviation (input) VGA_CRTC_OVERFLOW :: nat where "VGA_CRTC_OVERFLOW \<equiv> 0x07"
abbreviation (input) VGA_CRTC_MAX_SCAN :: nat where "VGA_CRTC_MAX_SCAN \<equiv> 0x09"
abbreviation (input) VGA_CRTC_LINE_COMPARE :: nat where "VGA_CRTC_LINE_COMPARE \<equiv> 0x18"

definition nv2a_get_params :: "(nat \<Rightarrow> u8) \<Rightarrow> NV2AState \<Rightarrow> u32 \<times> u32 \<times> u32" where
  "nv2a_get_params cr d =
    (push_bit 3 (ucast (cr 0x13) OR push_bit 3 (ucast (cr 0x19 AND 0xe0)) OR push_bit 6 (ucast (cr 0x25 AND 0x20))),
     ucast (pcrtc_start d div 4),
     ucast (cr VGA_CRTC_LINE_COMPARE) OR push_bit 4 (ucast (cr VGA_CRTC_OVERFLOW AND 0x10)) OR
       push_bit 3 (ucast (cr VGA_CRTC_MAX_SCAN AND 0x40)))"

text \<open>
  The register effects of \<open>nv2a_reset\<close>; halting and flushing the FIFO thread around
  them and the reset of the VGA core are not part of this state.
\<close>

definition nv2a_reset :: "NV2AState \<Rightarrow> NV2AState" where
  "nv2a_reset d =
    d\<lparr>pfifo_regs := (\<lambda>_. 0)(NV_PFIFO_CACHE1_STATUS := NV_PFIFO_CACHE1_STATUS_LOW_MARK),
      pgraph := (pgraph d)\<lparr>pg_regs := (\<lambda>_. 0), pg_waiting_for_nop := False, pg_waiting_for_flip := False,
        pg_waiting_for_context_switch := False\<rparr>,
      pvideo_regs := (\<lambda>_. 0),
      pcrtc_start := 0,
      pramdac_core_clock_coeff := 0x00011C01,
      pramdac_core_clock_freq := 233333324,
      pramdac_memory_clock_coeff := 0,
      pramdac_video_clock_coeff := 0x0003C20D,
      pmc_pending_interrupts := 0,
      pfifo_pending_interrupts := 0,
      ptimer_pending_interrupts := 0,
      pcrtc_pending_interrupts := 0,
      puserdac_palette := (\<lambda>i. if i < 256 * 3 then of_nat (i div 3) else puserdac_palette d i),
      pfifo_fifo_kick := True\<rparr>"

section \<open>The interrupt line\<close>

text \<open>The line and the summary register agree with the engines.\<close>

definition irq_ok :: "NV2AState \<Rightarrow> bool" where
  "irq_ok d \<longleftrightarrow>
    (pmc_pending_interrupts d AND NV_PMC_INTR_0_PFIFO \<noteq> 0 \<longleftrightarrow>
       pfifo_pending_interrupts d AND pfifo_enabled_interrupts d \<noteq> 0) \<and>
    (pmc_pending_interrupts d AND NV_PMC_INTR_0_PCRTC \<noteq> 0 \<longleftrightarrow>
       pcrtc_pending_interrupts d AND pcrtc_enabled_interrupts d \<noteq> 0) \<and>
    (pmc_pending_interrupts d AND NV_PMC_INTR_0_PGRAPH \<noteq> 0 \<longleftrightarrow>
       pg_pending_interrupts (pgraph d) AND pg_enabled_interrupts (pgraph d) \<noteq> 0) \<and>
    (nv_irq_level d \<longleftrightarrow> pmc_pending_interrupts d \<noteq> 0 \<and> pmc_enabled_interrupts d \<noteq> 0)"

lemma pmc_intr_bits:
  fixes p :: u32
  shows "p AND NV_PMC_INTR_0_PFIFO \<noteq> 0 \<longleftrightarrow> bit p 8" "p AND NV_PMC_INTR_0_PCRTC \<noteq> 0 \<longleftrightarrow> bit p 24"
    "p AND NV_PMC_INTR_0_PGRAPH \<noteq> 0 \<longleftrightarrow> bit p 12"
  using and_exp_eq_0_iff_not_bit [of p 8] and_exp_eq_0_iff_not_bit [of p 24]
    and_exp_eq_0_iff_not_bit [of p 12] by simp_all

lemma pmc_intr_set:
  fixes p :: u32
  shows "p OR NV_PMC_INTR_0_PFIFO = set_bit 8 p" "p AND NOT NV_PMC_INTR_0_PFIFO = unset_bit 8 p"
    "p OR NV_PMC_INTR_0_PCRTC = set_bit 24 p" "p AND NOT NV_PMC_INTR_0_PCRTC = unset_bit 24 p"
    "p OR NV_PMC_INTR_0_PGRAPH = set_bit 12 p" "p AND NOT NV_PMC_INTR_0_PGRAPH = unset_bit 12 p"
  by (simp_all add: set_bit_eq_or unset_bit_eq_and_not)

lemmas assign_bit_iff = bit_set_bit_iff bit_unset_bit_iff possible_bit_word

lemma assign_bit_same: "k < 32 \<Longrightarrow> (if bit p k then set_bit k p else unset_bit k p) = p" for p :: u32
  by (rule bit_word_eqI) (auto simp: assign_bit_iff)

lemma update_irq_ok: "irq_ok (nv2a_update_irq d)"
  unfolding irq_ok_def nv2a_update_irq_def Let_def pmc_intr_bits pmc_intr_set
  by (simp add: assign_bit_iff)

lemma update_irq_id:
  assumes "irq_ok d" shows "nv2a_update_irq d = d"
proof -
  let ?p = "pmc_pending_interrupts d"
  have b: "bit ?p 8 \<longleftrightarrow> pfifo_pending_interrupts d AND pfifo_enabled_interrupts d \<noteq> 0"
    "bit ?p 24 \<longleftrightarrow> pcrtc_pending_interrupts d AND pcrtc_enabled_interrupts d \<noteq> 0"
    "bit ?p 12 \<longleftrightarrow> pg_pending_interrupts (pgraph d) AND pg_enabled_interrupts (pgraph d) \<noteq> 0"
    "nv_irq_level d \<longleftrightarrow> ?p \<noteq> 0 \<and> pmc_enabled_interrupts d \<noteq> 0"
    using assms unfolding irq_ok_def pmc_intr_bits by simp_all
  show ?thesis
    unfolding nv2a_update_irq_def Let_def pmc_intr_set b(1-3) [symmetric]
    using assign_bit_same [of 8 ?p] assign_bit_same [of 24 ?p] assign_bit_same [of 12 ?p]
    by (simp only: b(4) [symmetric]) simp
qed

text \<open>Guest accesses to the register blocks of this theory, and the vertical blank.\<close>

datatype block_op =
    PMC_Write nat u64 | PTIMER_Write nat u64 | PCRTC_Write nat u64 | PCRTC_Read nat | PBUS_Write nat u64
  | PFB_Write nat u64 | PRAMDAC_Write nat u64 | PVIDEO_Write nat u64 | PRMDIO_Write nat u64
  | USER_Write nat u64 | PFIFO_Write nat u64 | VBlank

fun block_step :: "u64 \<Rightarrow> block_op \<Rightarrow> NV2AState \<Rightarrow> NV2AState res" where
  "block_step now (PMC_Write a v) d = Inr (pmc_write d a v)"
| "block_step now (PTIMER_Write a v) d = Inr (ptimer_write d a v)"
| "block_step now (PCRTC_Write a v) d = Inr (pcrtc_write d a v)"
| "block_step now (PCRTC_Read a) d = Inr (snd (pcrtc_read d a))"
| "block_step now (PBUS_Write a v) d = Inr (pbus_write d a v)"
| "block_step now (PFB_Write a v) d = pfb_write d a v"
| "block_step now (PRAMDAC_Write a v) d = Inr (pramdac_write now d a v)"
| "block_step now (PVIDEO_Write a v) d = pvideo_write d a v"
| "block_step now (PRMDIO_Write a v) d = Inr (prmdio_write d a v)"
| "block_step now (USER_Write a v) d = user_write d a v"
| "block_step now (PFIFO_Write a v) d = pfifo_write d a v"
| "block_step now VBlank d = Inr (nv2a_vblank_timer_cb now d)"

lemma irq_ok_upd:
  "irq_ok (d\<lparr>ptimer_denominator := x\<rparr>) = irq_ok d" "irq_ok (d\<lparr>ptimer_numerator := x\<rparr>) = irq_ok d"
  "irq_ok (d\<lparr>ptimer_alarm_time := x\<rparr>) = irq_ok d" "irq_ok (d\<lparr>pcrtc_start := y\<rparr>) = irq_ok d"
  "irq_ok (d\<lparr>pcrtc_raster := x\<rparr>) = irq_ok d" "irq_ok (d\<lparr>nv_pci_config := cfg\<rparr>) = irq_ok d"
  "irq_ok (d\<lparr>pfb_regs := rs\<rparr>) = irq_ok d" "irq_ok (d\<lparr>pvideo_regs := rs\<rparr>) = irq_ok d"
  "irq_ok (d\<lparr>pfifo_regs := rs\<rparr>) = irq_ok d" "irq_ok (d\<lparr>nv_vblank_timer := t\<rparr>) = irq_ok d"
  "irq_ok (d\<lparr>nv_vga_invalidated := l\<rparr>) = irq_ok d" "irq_ok (d\<lparr>pfifo_fifo_kick := k\<rparr>) = irq_ok d"
  "irq_ok (d\<lparr>puserdac_write_mode_address := w\<rparr>) = irq_ok d" "irq_ok (d\<lparr>puserdac_palette := pal\<rparr>) = irq_ok d"
  by (simp_all add: irq_ok_def)

lemma irq_ok_pramdac:
  "irq_ok (d\<lparr>pramdac_core_clock_coeff := x\<rparr>) = irq_ok d" "irq_ok (d\<lparr>pramdac_core_clock_freq := y\<rparr>) = irq_ok d"
  "irq_ok (d\<lparr>pramdac_memory_clock_coeff := x\<rparr>) = irq_ok d" "irq_ok (d\<lparr>pramdac_video_clock_coeff := x\<rparr>) = irq_ok d"
  "irq_ok (d\<lparr>pramdac_general_control := x\<rparr>) = irq_ok d" "irq_ok (d\<lparr>pramdac_fp_vdisplay_end := x\<rparr>) = irq_ok d"
  "irq_ok (d\<lparr>pramdac_fp_vcrtc := x\<rparr>) = irq_ok d" "irq_ok (d\<lparr>pramdac_fp_vsync_end := x\<rparr>) = irq_ok d"
  "irq_ok (d\<lparr>pramdac_fp_vvalid_end := x\<rparr>) = irq_ok d" "irq_ok (d\<lparr>pramdac_fp_hdisplay_end := x\<rparr>) = irq_ok d"
  "irq_ok (d\<lparr>pramdac_fp_hcrtc := x\<rparr>) = irq_ok d" "irq_ok (d\<lparr>pramdac_fp_hvalid_end := x\<rparr>) = irq_ok d"
  by (simp_all add: irq_ok_def)

lemmas block_defs = pmc_write_def ptimer_write_def pcrtc_write_def pcrtc_read_def pbus_write_def pfb_write_def
  pvideo_write_def prmdio_write_def user_write_def pfifo_write_def nv2a_vblank_timer_cb_def
  pvideo_vga_invalidate_def pfifo_kick_def Let_def

lemma block_step_irq:
  assumes "irq_ok d" shows "safe False irq_ok (block_step now op d)"
proof (cases op)
  case (PRAMDAC_Write a v)
  then show ?thesis using assms
    by (simp add: pramdac_write_def nv2a_vblank_recalc_def irq_ok_upd irq_ok_pramdac Let_def split: option.split)
next
  case (USER_Write a v)
  then show ?thesis using assms
    by (auto simp: user_write_def pfifo_kick_def irq_ok_upd safe_def res_bind_def split: sum.split)
qed (use assms in \<open>auto simp: block_defs irq_ok_upd update_irq_ok safe_def arr_set_def\<close>)

lemma block_step_irq_keeps: "irq_ok d \<Longrightarrow> block_step now op d = Inr d' \<Longrightarrow> irq_ok d'"
  using block_step_irq [of d now op] by simp


definition irq_demo :: "block_op list" where
  "irq_demo = [PMC_Write NV_PMC_INTR_EN_0 1, PCRTC_Write NV_PCRTC_INTR_EN_0 1, VBlank, PFIFO_Write NV_PFIFO_MODE 1]"

definition irq_demo_end :: NV2AState where
  "irq_demo_end = (nv2a_blank 64 64)\<lparr>pmc_enabled_interrupts := 1, pcrtc_enabled_interrupts := 1,
     pcrtc_pending_interrupts := 1, pmc_pending_interrupts := 0x1000000, nv_irq_level := True,
     nv_vblank_timer := Some 16683750, pfifo_regs := (\<lambda>_. 0)(NV_PFIFO_MODE := 1), pfifo_fifo_kick := True\<rparr>"

lemma irq_demo_run: "fold_res (block_step 0) irq_demo (nv2a_blank 64 64) = Inr irq_demo_end"
  by (simp add: irq_demo_def irq_demo_end_def pmc_write_def pcrtc_write_def nv2a_update_irq_def
      nv2a_vblank_timer_cb_def nv2a_calc_vblank_period_ns_def pfifo_write_def pfifo_kick_def arr_set_def nv2a_blank_defs)


section \<open>Timer, clocks and tiles\<close>

lemma time_words:
  fixes c :: u64
  shows "push_bit 27 (drop_bit 27 c AND 0x1fffffff) OR drop_bit 5 (push_bit 5 (c AND 0x7ffffff)) = take_bit 56 c"
proof -
  have m: "(0x1fffffff :: u64) = mask 29" "(0x7ffffff :: u64) = mask 27" by (simp_all add: mask_eq_exp_minus_1)
  show ?thesis unfolding m by (rule bit_word_eqI) (auto simp: bit_simps, metis le_add_diff_inverse not_less)
qed

text \<open>
  C13.  While the numerator is not zero the two time registers, read at one instant, together hold
  the low 56 bits of one clock value: the core clock count scaled by denominator over numerator.
  With a zero numerator, the value the device starts with, either read divides by zero.
\<close>

theorem ptimer_time_registers:
  "if ptimer_numerator d = 0
   then ptimer_read now d NV_PTIMER_TIME_0 = Inl Div_by_zero \<and> ptimer_read now d NV_PTIMER_TIME_1 = Inl Div_by_zero
   else (\<exists>lo hi.
     ptimer_read now d NV_PTIMER_TIME_0 = Inr lo \<and> ptimer_read now d NV_PTIMER_TIME_1 = Inr hi \<and>
     push_bit 27 hi OR drop_bit 5 lo =
       take_bit 56 (of_nat (unat (of_nat (unat now * unat (ucast (pramdac_core_clock_freq d) :: u32) div 1000000000) :: u64)
         * unat (ptimer_denominator d) div unat (ptimer_numerator d))))"
  using time_words [of "of_nat (unat (of_nat (unat now * unat (ucast (pramdac_core_clock_freq d) :: u32) div 1000000000) :: u64)
         * unat (ptimer_denominator d) div unat (ptimer_numerator d))"]
  by (simp add: ptimer_read_def ptimer_get_clock_def muldiv64_def)

lemma unat_ucast_64 [simp]: "unat (ucast w :: u64) = unat w" for w :: u32
proof -
  have "unat w < 2 ^ LENGTH(32)" by (rule unsigned_less)
  then show ?thesis by (simp add: unsigned_ucast_eq take_bit_nat_eq_self)
qed

lemma clip_tiles_bounds:
  fixes base len :: u64
  assumes "unat base + unat len < 2 ^ 32"
  shows "let r = clip_tiles regs base len is in r \<le> len \<and> (len > 0 \<longrightarrow> r > 0) \<and>
    (r < len \<longrightarrow> (\<exists>i \<in> set is. regs (NV_PFB_TILE_BASE_ADDRESS_AND_FLAGS i) AND NV_PFB_TILE_FLAGS_VALID \<noteq> 0 \<and>
      base + r = ucast (regs (NV_PFB_TILE_LIMIT i)) + 1))"
proof (induction "is")
  case (Cons i "is")
  let ?l = "ucast (regs (NV_PFB_TILE_LIMIT i)) :: u64"
  show ?case
  proof (cases "regs (NV_PFB_TILE_BASE_ADDRESS_AND_FLAGS i) AND NV_PFB_TILE_FLAGS_VALID \<noteq> 0 \<and> base < ?l \<and> base + len > ?l")
    case True
    have "unat (base + len) = unat base + unat len" using assms by (subst unat_add_lem [THEN iffD1]) simp_all
    with True have l: "unat base < unat ?l" "unat ?l < unat base + unat len" by (simp_all add: word_less_nat_alt)
    then have "unat (regs (NV_PFB_TILE_LIMIT i)) + 1 < 2 ^ 32" using assms by simp
    then have n: "ucast (regs (NV_PFB_TILE_LIMIT i) + 1) = ?l + 1"
      by (intro word_unat_eq_iff [THEN iffD2]) (simp add: unat_word_ariths)
    have "unat (?l + 1) = unat ?l + 1" using l assms by (intro unat_add_lem [THEN iffD1, THEN trans]) simp_all
    then have "unat (?l + 1 - base) = unat ?l + 1 - unat base" using l by (subst unat_sub) (simp_all add: word_le_nat_alt)
    with l True show ?thesis by (auto simp: Let_def n [simplified] word_le_nat_alt word_less_nat_alt)
  next
    case False
    then have "clip_tiles regs base len (i # is) = clip_tiles regs base len is" by (auto simp: Let_def)
    with Cons.IH show ?thesis by (auto simp: Let_def simp del: clip_tiles.simps)
  qed
qed simp


definition tile_demo :: NV2AState where
  "tile_demo = (nv2a_blank 0 0)\<lparr>pfb_regs := (\<lambda>_. 0)(NV_PFB_TILE_BASE_ADDRESS_AND_FLAGS 1 := 1, NV_PFB_TILE_LIMIT 1 := 0xfff)\<rparr>"


section \<open>The palette\<close>

definition palette_data :: "u64 list \<Rightarrow> NV2AState \<Rightarrow> NV2AState" where
  "palette_data vs d = fold (\<lambda>v d. prmdio_write d NV_USER_DAC_PALETTE_DATA v) vs d"

lemma palette_data_simps [simp]:
  "palette_data [] d = d"
  "palette_data (v # vs) d = palette_data vs (prmdio_write d NV_USER_DAC_PALETTE_DATA v)"
  by (simp_all add: palette_data_def)

lemma palette_step:
  "puserdac_write_mode_address (prmdio_write d NV_USER_DAC_PALETTE_DATA v) = puserdac_write_mode_address d + 1"
  "puserdac_palette (prmdio_write d NV_USER_DAC_PALETTE_DATA v) =
    (puserdac_palette d)(unat (puserdac_write_mode_address d) mod 768 := ucast v)"
  by (simp_all add: prmdio_write_def Let_def)

lemma unat_suc: "unat a + Suc n < 2 ^ 16 \<Longrightarrow> unat (a + 1) = Suc (unat a)" for a :: u16
  by (subst unat_add_lem [THEN iffD1]) simp_all

lemma palette_data_keep:
  assumes "unat (puserdac_write_mode_address d) + length vs < 2 ^ 16"
    and "\<forall>i < length vs. (unat (puserdac_write_mode_address d) + i) mod 768 \<noteq> j"
  shows "puserdac_palette (palette_data vs d) j = puserdac_palette d j"
  using assms
proof (induction vs arbitrary: d)
  case (Cons v vs)
  let ?a = "puserdac_write_mode_address d"
  have "unat ?a mod 768 \<noteq> j" using Cons.prems(2) [rule_format, of 0] by simp
  moreover have "(Suc (unat ?a) + i) mod 768 \<noteq> j" if "i < length vs" for i
    using Cons.prems(2) [rule_format, of "Suc i"] that by simp
  ultimately show ?case using Cons.IH Cons.prems(1) unat_suc [of ?a "length vs"] by (simp add: palette_step)
qed simp

lemma mod_ne_ahead: "0 < k \<Longrightarrow> k < n \<Longrightarrow> (a + k) mod n \<noteq> a mod n" for a k n :: nat
  using mod_eq_dvd_iff_nat [of a "a + k" n] by (auto dest: dvd_imp_le)

lemma palette_data_get:
  assumes "unat (puserdac_write_mode_address d) + length vs < 2 ^ 16" and "length vs \<le> 768" and "k < length vs"
  shows "puserdac_palette (palette_data vs d) ((unat (puserdac_write_mode_address d) + k) mod 768) = ucast (vs ! k)"
  using assms
proof (induction vs arbitrary: d k)
  case (Cons v vs)
  let ?a = "puserdac_write_mode_address d" and ?d = "prmdio_write d NV_USER_DAC_PALETTE_DATA v"
  have a1: "unat (?a + 1) = Suc (unat ?a)" using Cons.prems(1) unat_suc [of ?a "length vs"] by simp
  show ?case
  proof (cases k)
    case 0
    have "(unat ?a + Suc i) mod 768 \<noteq> unat ?a mod 768" if "i < length vs" for i
      using mod_ne_ahead [of "Suc i" 768] that Cons.prems(2) by simp
    then have "puserdac_palette (palette_data vs ?d) (unat ?a mod 768) = puserdac_palette ?d (unat ?a mod 768)"
      using Cons.prems(1) a1 by (intro palette_data_keep) (simp_all add: palette_step)
    then show ?thesis using 0 by (simp add: palette_step)
  next
    case (Suc j)
    then show ?thesis using Cons.IH [of ?d j] Cons.prems a1 by (simp add: palette_step)
  qed
qed simp

text \<open>
  C15.  After an entry is selected, up to 768 bytes written to the palette port land one after the
  other from that entry on, three to an entry and wrapping behind entry 255, and no other byte of
  the palette changes.
\<close>

theorem palette_upload:
  assumes "length vs \<le> 768"
  shows "(\<forall>k < length vs. puserdac_palette (palette_data vs (prmdio_write d NV_USER_DAC_WRITE_MODE_ADDRESS i))
      ((3 * (unat i mod 256) + k) mod 768) = ucast (vs ! k)) \<and>
    (\<forall>j. (\<forall>k < length vs. (3 * (unat i mod 256) + k) mod 768 \<noteq> j) \<longrightarrow>
      puserdac_palette (palette_data vs (prmdio_write d NV_USER_DAC_WRITE_MODE_ADDRESS i)) j = puserdac_palette d j)"
proof -
  let ?d = "prmdio_write d NV_USER_DAC_WRITE_MODE_ADDRESS i"
  have "unat (ucast (i AND 0xff) :: u16) = unat i mod 256"
  proof -
    have m: "(0xff :: u64) = mask 8" by (simp add: mask_eq_exp_minus_1)
    show ?thesis unfolding m by (simp add: unsigned_ucast_eq take_bit_eq_mod unat_mod mod_less_divisor [THEN order.strict_trans] flip: take_bit_eq_mask)
  qed
  then have "unat (ucast (i AND 0xff) * 3 :: u16) = 3 * (unat i mod 256)"
    using mod_less_divisor [of 256 "unat i"] by (simp only: unat_word_ariths) simp
  then have a: "unat (puserdac_write_mode_address ?d) = 3 * (unat i mod 256)" by (simp add: prmdio_write_def)
  have p: "puserdac_palette ?d = puserdac_palette d" by (simp add: prmdio_write_def)
  have b: "3 * (unat i mod 256) + length vs < 2 ^ 16"
    using assms mod_less_divisor [of 256 "unat i"] by simp
  show ?thesis
    using palette_data_get [of ?d vs] palette_data_keep [of ?d vs] assms b by (simp add: a p)
qed

theorem palette_upload_witness:
  "puserdac_palette (palette_data [1, 2, 3, 4] (prmdio_write (nv2a_blank 0 0) NV_USER_DAC_WRITE_MODE_ADDRESS 0xff)) 0 = 4 \<and>
   puserdac_palette (palette_data [1, 2, 3, 4] (prmdio_write (nv2a_blank 0 0) NV_USER_DAC_WRITE_MODE_ADDRESS 0xff)) 765 = 1"
  using palette_upload [of "[1, 2, 3, 4]" "nv2a_blank 0 0" "0xff", THEN conjunct1, THEN spec, of 0]
    palette_upload [of "[1, 2, 3, 4]" "nv2a_blank 0 0" "0xff", THEN conjunct1, THEN spec, of 3]
  by (simp del: palette_data_simps)

section \<open>Narrow reads of the clock registers\<close>

text \<open>
  C16.  A byte read at offset \<open>k\<close> of a PRAMDAC register returns byte \<open>3 - k\<close> of it, so the bytes
  come out in the reverse of the order in which the little-endian bus lays them out, while a
  whole-register read returns the register.
\<close>

theorem pramdac_byte_reads:
  assumes "addr mod 4 = 0" and "k < 4"
  shows "pramdac_read d addr 4 = Inr (ucast (pramdac_word d addr)) \<and>
    (\<exists>r. pramdac_read d (addr + k) 1 = Inr r \<and> take_bit 8 r = ucast (take_bit 8 (drop_bit (8 * (3 - k)) (pramdac_word d addr))))"
proof -
  have "(addr + k) mod 4 = k" using assms by (metis add_0 mod_add_left_eq mod_less)
  moreover have "8 + 8 * k \<le> 32" and s: "24 - 8 * k = 8 * (3 - k)" using assms(2) by simp_all
  moreover have "take_bit 8 (drop_bit n (ucast w :: u64)) = ucast (take_bit 8 (drop_bit n w))" for n and w :: u32
    by (rule bit_word_eqI) (auto simp: bit_simps dest: bit_imp_le_length)
  ultimately show ?thesis using assms(1) by (simp add: pramdac_read_def Let_def s)
qed

theorem pramdac_byte_reads_witness:
  "pramdac_read ((nv2a_blank 0 0)\<lparr>pramdac_core_clock_coeff := 0x11223344\<rparr>) NV_PRAMDAC_NVPLL_COEFF 4 = Inr 0x11223344"
  using pramdac_byte_reads [of NV_PRAMDAC_NVPLL_COEFF 0 "(nv2a_blank 0 0)\<lparr>pramdac_core_clock_coeff := 0x11223344\<rparr>"]
  by (simp add: pramdac_word_def)

end
