(* ===== verification/PGRAPH_Regs.thy ===== *)
theory PGRAPH_Regs
  imports NV2A_Blocks
begin

text \<open>
  The graphics engine's register file (\<open>pgraph_read\<close>, \<open>pgraph_write\<close>, \<open>rdi.c\<close>, channel switches) and the
  Kelvin methods of \<open>hw/xbox/nv2a/pgraph/pgraph.c\<close> that set registers and constant tables.  A method handler
  takes the method number, its parameter and the engine state.
\<close>

section \<open>Register access\<close>

definition on_pg :: "(PGRAPHState \<Rightarrow> PGRAPHState res) \<Rightarrow> NV2AState \<Rightarrow> NV2AState res" where
  "on_pg f d = res_bind (f (pgraph d)) (\<lambda>pg. Inr (d\<lparr>pgraph := pg\<rparr>))"

text \<open>The statements of a C block, one after the other.\<close>

definition steps :: "('s \<Rightarrow> 's res) list \<Rightarrow> 's \<Rightarrow> 's res" where
  "steps fs = fold_res (\<lambda>f. f) fs"

lemma steps_simps [simp]: "steps [] s = Inr s" "steps (f # fs) s = res_bind (f s) (steps fs)"
  by (simp_all add: steps_def)

definition pgraph_rdi_read :: "PGRAPHState \<Rightarrow> u32 \<Rightarrow> u32 \<Rightarrow> u32 res" where
  "pgraph_rdi_read pg select address =
    (if select = RDI_INDEX_VTX_CONSTANTS0 \<or> select = RDI_INDEX_VTX_CONSTANTS1
     then res_bind (assert_res (unat address div 4 < NV2A_VERTEXSHADER_CONSTANTS)) (\<lambda>_.
       Inr (pg_vsh_constants pg (unat address div 4) (3 - unat address mod 4)))
     else Inl Assertion)"

definition pgraph_rdi_write :: "PGRAPHState \<Rightarrow> u32 \<Rightarrow> u32 \<Rightarrow> u32 \<Rightarrow> PGRAPHState res" where
  "pgraph_rdi_write pg select address val =
    (if select = RDI_INDEX_VTX_CONSTANTS0 \<or> select = RDI_INDEX_VTX_CONSTANTS1
     then Inl Assertion else Inr pg)"

definition rdi_advance :: "u32 \<Rightarrow> PGRAPHState \<Rightarrow> PGRAPHState res" where
  "rdi_advance address pg =
    res_bind (assert_res (address < GET_MASK NV_PGRAPH_RDI_INDEX_ADDRESS NV_PGRAPH_RDI_INDEX_ADDRESS)) (\<lambda>_.
      PG_SET_MASK NV_PGRAPH_RDI_INDEX NV_PGRAPH_RDI_INDEX_ADDRESS (address + 1) pg)"

definition pgraph_read :: "NV2AState \<Rightarrow> nat \<Rightarrow> (u64 \<times> NV2AState) res" where
  "pgraph_read d addr =
    (let pg = pgraph d in
     if addr = NV_PGRAPH_INTR then Inr (ucast (pg_pending_interrupts pg), d)
     else if addr = NV_PGRAPH_INTR_EN then Inr (ucast (pg_enabled_interrupts pg), d)
     else if addr = NV_PGRAPH_RDI_DATA then
       res_bind (PG_GET_MASK pg NV_PGRAPH_RDI_INDEX NV_PGRAPH_RDI_INDEX_SELECT) (\<lambda>select.
       res_bind (PG_GET_MASK pg NV_PGRAPH_RDI_INDEX NV_PGRAPH_RDI_INDEX_ADDRESS) (\<lambda>address.
       res_bind (pgraph_rdi_read pg select address) (\<lambda>r.
       res_bind (rdi_advance address pg) (\<lambda>pg. Inr (ucast r, d\<lparr>pgraph := pg\<rparr>)))))
     else res_bind (pgraph_reg_r pg addr) (\<lambda>r. Inr (ucast r, d)))"

definition pgraph_write_intr :: "u32 \<Rightarrow> PGRAPHState \<Rightarrow> PGRAPHState" where
  "pgraph_write_intr val pg =
    (let pend = pg_pending_interrupts pg AND NOT val;
         pg = pg\<lparr>pg_pending_interrupts := pend\<rparr>;
         pg = (if pend AND NV_PGRAPH_INTR_ERROR = 0 then pg\<lparr>pg_waiting_for_nop := False\<rparr> else pg)
     in if pend AND NV_PGRAPH_INTR_CONTEXT_SWITCH = 0 then pg\<lparr>pg_waiting_for_context_switch := False\<rparr> else pg)"

definition pgraph_increment_read :: "PGRAPHState \<Rightarrow> PGRAPHState res" where
  "pgraph_increment_read pg =
    res_bind (PG_GET_MASK pg NV_PGRAPH_SURFACE NV_PGRAPH_SURFACE_READ_3D) (\<lambda>read.
    res_bind (PG_GET_MASK pg NV_PGRAPH_SURFACE NV_PGRAPH_SURFACE_MODULO_3D) (\<lambda>modulo.
      if modulo = 0 then Inl Div_by_zero
      else PG_SET_MASK NV_PGRAPH_SURFACE NV_PGRAPH_SURFACE_READ_3D ((read + 1) mod modulo) pg))"

definition pgraph_ctx_trigger :: "u64 \<Rightarrow> NV2AState \<Rightarrow> NV2AState res" where
  "pgraph_ctx_trigger val d =
    res_bind (PG_GET_MASK (pgraph d) NV_PGRAPH_CHANNEL_CTX_POINTER NV_PGRAPH_CHANNEL_CTX_POINTER_INST) (\<lambda>inst.
      if ucast val AND NV_PGRAPH_CHANNEL_CTX_TRIGGER_READ_IN \<noteq> 0 then
        let context_address = push_bit 4 inst in
        res_bind (assert_res (unat context_address < mem_size (nv_ramin d))) (\<lambda>_.
        res_bind (ldl_le (nv_ramin d) (unat context_address)) (\<lambda>context_user.
          on_pg (pgraph_reg_w NV_PGRAPH_CTX_USER context_user) d))
      else Inr d)"

definition pgraph_write :: "NV2AState \<Rightarrow> nat \<Rightarrow> u64 \<Rightarrow> NV2AState res" where
  "pgraph_write d addr val =
    res_bind
      (if addr = NV_PGRAPH_INTR then
         Inr (pfifo_kick (d\<lparr>pgraph := pgraph_write_intr (ucast val) (pgraph d)\<rparr>))
       else if addr = NV_PGRAPH_INTR_EN then
         Inr (d\<lparr>pgraph := (pgraph d)\<lparr>pg_enabled_interrupts := ucast val\<rparr>\<rparr>)
       else if addr = NV_PGRAPH_INCREMENT then
         (if ucast val AND NV_PGRAPH_INCREMENT_READ_3D \<noteq> 0
          then res_bind (on_pg pgraph_increment_read d) (\<lambda>d. Inr (pfifo_kick d)) else Inr d)
       else if addr = NV_PGRAPH_RDI_DATA then
         on_pg (\<lambda>pg.
           res_bind (PG_GET_MASK pg NV_PGRAPH_RDI_INDEX NV_PGRAPH_RDI_INDEX_SELECT) (\<lambda>select.
           res_bind (PG_GET_MASK pg NV_PGRAPH_RDI_INDEX NV_PGRAPH_RDI_INDEX_ADDRESS) (\<lambda>address.
           res_bind (pgraph_rdi_write pg select address (ucast val)) (rdi_advance address)))) d
       else if addr = NV_PGRAPH_CHANNEL_CTX_TRIGGER then pgraph_ctx_trigger val d
       else on_pg (pgraph_reg_w addr (ucast val)) d)
      (\<lambda>d. Inr (if addr = NV_PGRAPH_FIFO then pfifo_kick d else d))"

definition pgraph_context_switch :: "NV2AState \<Rightarrow> u32 \<Rightarrow> NV2AState res" where
  "pgraph_context_switch d channel_id =
    res_bind (pgraph_reg_r (pgraph d) NV_PGRAPH_CTX_CONTROL) (\<lambda>ctl.
    res_bind (PG_GET_MASK (pgraph d) NV_PGRAPH_CTX_USER NV_PGRAPH_CTX_USER_CHID) (\<lambda>pgraph_channel_id.
      if ctl AND NV_PGRAPH_CTX_CONTROL_CHID \<noteq> 0 \<and> pgraph_channel_id = channel_id then Inr d
      else
        res_bind (on_pg (PG_SET_MASK NV_PGRAPH_TRAPPED_ADDR NV_PGRAPH_TRAPPED_ADDR_CHID channel_id) d) (\<lambda>d.
        res_bind (PG_GET_MASK (pgraph d) NV_PGRAPH_DEBUG_3 NV_PGRAPH_DEBUG_3_HW_CONTEXT_SWITCH) (\<lambda>hw.
        res_bind (assert_res (hw = 0)) (\<lambda>_.
          Inr (nv2a_update_irq (d\<lparr>pgraph := (pgraph d)\<lparr>pg_waiting_for_context_switch := True,
            pg_pending_interrupts := pg_pending_interrupts (pgraph d) OR NV_PGRAPH_INTR_CONTEXT_SWITCH\<rparr>\<rparr>)))))))"

definition pgraph_color_write_enabled :: "PGRAPHState \<Rightarrow> bool res" where
  "pgraph_color_write_enabled pg = res_bind (pgraph_reg_r pg NV_PGRAPH_CONTROL_0) (\<lambda>c.
    Inr (c AND (NV_PGRAPH_CONTROL_0_ALPHA_WRITE_ENABLE OR NV_PGRAPH_CONTROL_0_RED_WRITE_ENABLE OR
      NV_PGRAPH_CONTROL_0_GREEN_WRITE_ENABLE OR NV_PGRAPH_CONTROL_0_BLUE_WRITE_ENABLE) \<noteq> 0))"

definition pgraph_zeta_write_enabled :: "PGRAPHState \<Rightarrow> bool res" where
  "pgraph_zeta_write_enabled pg = res_bind (pgraph_reg_r pg NV_PGRAPH_CONTROL_0) (\<lambda>c.
    Inr (c AND (NV_PGRAPH_CONTROL_0_ZWRITEENABLE OR NV_PGRAPH_CONTROL_0_STENCIL_WRITE_ENABLE) \<noteq> 0))"

section \<open>Method handlers: flips, contexts and rasteriser state\<close>

type_synonym handler = "u32 \<Rightarrow> u32 \<Rightarrow> PGRAPHState \<Rightarrow> PGRAPHState res"

definition slot_of :: "u32 \<Rightarrow> nat \<Rightarrow> u32 \<Rightarrow> nat" where
  "slot_of base stride method = unat (method - base) div stride"

text \<open>A \<open>switch\<close> whose default asserts, and one whose default discards the parameter.\<close>

definition switch_assert :: "(u32 \<times> u32) list \<Rightarrow> u32 \<Rightarrow> u32 res" where
  "switch_assert tab x = (case map_of tab x of None \<Rightarrow> Inl Assertion | Some y \<Rightarrow> Inr y)"

definition switch_discard :: "(u32 \<times> u32) list \<Rightarrow> u32 \<Rightarrow> (u32 \<Rightarrow> 's \<Rightarrow> 's res) \<Rightarrow> 's \<Rightarrow> 's res" where
  "switch_discard tab x f s = (case map_of tab x of None \<Rightarrow> Inr s | Some y \<Rightarrow> f y s)"

definition pgraph_NV097_SET_OBJECT_handler :: handler where
  "pgraph_NV097_SET_OBJECT_handler method parameter pg = Inr (pg\<lparr>pg_kelvin_object_instance := ucast parameter\<rparr>)"

definition pgraph_NV097_SET_FLIP_READ_handler :: handler where
  "pgraph_NV097_SET_FLIP_READ_handler method parameter =
    PG_SET_MASK NV_PGRAPH_SURFACE NV_PGRAPH_SURFACE_READ_3D parameter"

definition pgraph_NV097_SET_FLIP_WRITE_handler :: handler where
  "pgraph_NV097_SET_FLIP_WRITE_handler method parameter =
    PG_SET_MASK NV_PGRAPH_SURFACE NV_PGRAPH_SURFACE_WRITE_3D parameter"

definition pgraph_NV097_SET_FLIP_MODULO_handler :: handler where
  "pgraph_NV097_SET_FLIP_MODULO_handler method parameter =
    PG_SET_MASK NV_PGRAPH_SURFACE NV_PGRAPH_SURFACE_MODULO_3D parameter"

definition pgraph_NV097_FLIP_INCREMENT_WRITE_handler :: handler where
  "pgraph_NV097_FLIP_INCREMENT_WRITE_handler method parameter pg =
    res_bind (PG_GET_MASK pg NV_PGRAPH_SURFACE NV_PGRAPH_SURFACE_WRITE_3D) (\<lambda>w.
    res_bind (PG_GET_MASK pg NV_PGRAPH_SURFACE NV_PGRAPH_SURFACE_MODULO_3D) (\<lambda>modulo.
      if modulo = 0 then Inl Div_by_zero
      else res_bind (PG_SET_MASK NV_PGRAPH_SURFACE NV_PGRAPH_SURFACE_WRITE_3D ((w + 1) mod modulo) pg) (\<lambda>pg.
        Inr (pg\<lparr>pg_frame_time := pg_frame_time pg + 1\<rparr>))))"

definition pgraph_NV097_SET_CONTEXT_DMA_NOTIFIES_handler :: handler where
  "pgraph_NV097_SET_CONTEXT_DMA_NOTIFIES_handler method parameter pg = Inr (pg\<lparr>pg_dma_notifies := ucast parameter\<rparr>)"

definition pgraph_NV097_SET_CONTEXT_DMA_A_handler :: handler where
  "pgraph_NV097_SET_CONTEXT_DMA_A_handler method parameter pg = Inr (pg\<lparr>pg_dma_a := ucast parameter\<rparr>)"

definition pgraph_NV097_SET_CONTEXT_DMA_B_handler :: handler where
  "pgraph_NV097_SET_CONTEXT_DMA_B_handler method parameter pg = Inr (pg\<lparr>pg_dma_b := ucast parameter\<rparr>)"

definition pgraph_NV097_SET_CONTEXT_DMA_STATE_handler :: handler where
  "pgraph_NV097_SET_CONTEXT_DMA_STATE_handler method parameter pg = Inr (pg\<lparr>pg_dma_state := ucast parameter\<rparr>)"

definition pgraph_NV097_SET_CONTEXT_DMA_ZETA_handler :: handler where
  "pgraph_NV097_SET_CONTEXT_DMA_ZETA_handler method parameter pg =
    Inr (pg\<lparr>pg_dma_zeta := ucast parameter, pg_surface_zeta := (pg_surface_zeta pg)\<lparr>sf_buffer_dirty := True\<rparr>\<rparr>)"

definition pgraph_NV097_SET_CONTEXT_DMA_VERTEX_A_handler :: handler where
  "pgraph_NV097_SET_CONTEXT_DMA_VERTEX_A_handler method parameter pg = Inr (pg\<lparr>pg_dma_vertex_a := ucast parameter\<rparr>)"

definition pgraph_NV097_SET_CONTEXT_DMA_VERTEX_B_handler :: handler where
  "pgraph_NV097_SET_CONTEXT_DMA_VERTEX_B_handler method parameter pg = Inr (pg\<lparr>pg_dma_vertex_b := ucast parameter\<rparr>)"

definition pgraph_NV097_SET_CONTEXT_DMA_SEMAPHORE_handler :: handler where
  "pgraph_NV097_SET_CONTEXT_DMA_SEMAPHORE_handler method parameter pg = Inr (pg\<lparr>pg_dma_semaphore := ucast parameter\<rparr>)"

definition pgraph_NV097_SET_COMBINER_ALPHA_ICW_handler :: handler where
  "pgraph_NV097_SET_COMBINER_ALPHA_ICW_handler method parameter =
    pgraph_reg_w (NV_PGRAPH_COMBINEALPHAI0 + slot_of NV097_SET_COMBINER_ALPHA_ICW 4 method * 4) parameter"

definition pgraph_NV097_SET_COMBINER_SPECULAR_FOG_CW0_handler :: handler where
  "pgraph_NV097_SET_COMBINER_SPECULAR_FOG_CW0_handler method parameter =
    pgraph_reg_w NV_PGRAPH_COMBINESPECFOG0 parameter"

definition pgraph_NV097_SET_COMBINER_SPECULAR_FOG_CW1_handler :: handler where
  "pgraph_NV097_SET_COMBINER_SPECULAR_FOG_CW1_handler method parameter =
    pgraph_reg_w NV_PGRAPH_COMBINESPECFOG1 parameter"

definition pgraph_NV097_SET_TEXTURE_ADDRESS_handler :: handler where
  "pgraph_NV097_SET_TEXTURE_ADDRESS_handler method parameter =
    pgraph_reg_w (NV_PGRAPH_TEXADDRESS0 + slot_of NV097_SET_TEXTURE_ADDRESS 64 method * 4) parameter"

definition pgraph_NV097_SET_LIGHT_CONTROL_handler :: handler where
  "pgraph_NV097_SET_LIGHT_CONTROL_handler method parameter =
    steps
      [PG_SET_MASK NV_PGRAPH_CSV0_C NV_PGRAPH_CSV0_C_SEPARATE_SPECULAR (of_bool (parameter AND NV097_SET_LIGHT_CONTROL_SEPARATE_SPECULAR \<noteq> 0)),
       PG_SET_MASK NV_PGRAPH_CSV0_C NV_PGRAPH_CSV0_C_LOCALEYE (of_bool (parameter AND NV097_SET_LIGHT_CONTROL_LOCALEYE \<noteq> 0)),
       PG_SET_MASK NV_PGRAPH_CSV0_C NV_PGRAPH_CSV0_C_ALPHA_FROM_MATERIAL_SPECULAR (of_bool (parameter AND NV097_SET_LIGHT_CONTROL_ALPHA_FROM_MATERIAL_SPECULAR \<noteq> 0))]"

definition pgraph_NV097_SET_COLOR_MATERIAL_handler :: handler where
  "pgraph_NV097_SET_COLOR_MATERIAL_handler method parameter =
    steps
      [PG_SET_MASK NV_PGRAPH_CSV0_C NV_PGRAPH_CSV0_C_EMISSION (drop_bit 0 parameter AND 3),
       PG_SET_MASK NV_PGRAPH_CSV0_C NV_PGRAPH_CSV0_C_AMBIENT (drop_bit 2 parameter AND 3),
       PG_SET_MASK NV_PGRAPH_CSV0_C NV_PGRAPH_CSV0_C_DIFFUSE (drop_bit 4 parameter AND 3),
       PG_SET_MASK NV_PGRAPH_CSV0_C NV_PGRAPH_CSV0_C_SPECULAR (drop_bit 6 parameter AND 3)]"

definition pgraph_NV097_SET_FOG_MODE_handler :: handler where
  "pgraph_NV097_SET_FOG_MODE_handler method parameter pg =
    res_bind (switch_assert
        [(NV097_SET_FOG_MODE_V_LINEAR, NV_PGRAPH_CONTROL_3_FOG_MODE_LINEAR),
         (NV097_SET_FOG_MODE_V_EXP, NV_PGRAPH_CONTROL_3_FOG_MODE_EXP),
         (NV097_SET_FOG_MODE_V_EXP2, NV_PGRAPH_CONTROL_3_FOG_MODE_EXP2),
         (NV097_SET_FOG_MODE_V_EXP_ABS, NV_PGRAPH_CONTROL_3_FOG_MODE_EXP_ABS),
         (NV097_SET_FOG_MODE_V_EXP2_ABS, NV_PGRAPH_CONTROL_3_FOG_MODE_EXP2_ABS),
         (NV097_SET_FOG_MODE_V_LINEAR_ABS, NV_PGRAPH_CONTROL_3_FOG_MODE_LINEAR_ABS)] parameter)
      (\<lambda>mode. PG_SET_MASK NV_PGRAPH_CONTROL_3 NV_PGRAPH_CONTROL_3_FOG_MODE mode pg)"

definition pgraph_NV097_SET_FOG_GEN_MODE_handler :: handler where
  "pgraph_NV097_SET_FOG_GEN_MODE_handler method parameter pg =
    res_bind (switch_assert
        [(NV097_SET_FOG_GEN_MODE_V_SPEC_ALPHA, NV_PGRAPH_CSV0_D_FOGGENMODE_SPEC_ALPHA),
         (NV097_SET_FOG_GEN_MODE_V_RADIAL, NV_PGRAPH_CSV0_D_FOGGENMODE_RADIAL),
         (NV097_SET_FOG_GEN_MODE_V_PLANAR, NV_PGRAPH_CSV0_D_FOGGENMODE_PLANAR),
         (NV097_SET_FOG_GEN_MODE_V_ABS_PLANAR, NV_PGRAPH_CSV0_D_FOGGENMODE_ABS_PLANAR),
         (NV097_SET_FOG_GEN_MODE_V_FOG_X, NV_PGRAPH_CSV0_D_FOGGENMODE_FOG_X)] parameter)
      (\<lambda>mode. PG_SET_MASK NV_PGRAPH_CSV0_D NV_PGRAPH_CSV0_D_FOGGENMODE mode pg)"

definition pgraph_NV097_SET_FOG_ENABLE_handler :: handler where
  "pgraph_NV097_SET_FOG_ENABLE_handler method parameter =
    PG_SET_MASK NV_PGRAPH_CONTROL_3 NV_PGRAPH_CONTROL_3_FOGENABLE parameter"

definition pgraph_NV097_SET_FOG_COLOR_handler :: handler where
  "pgraph_NV097_SET_FOG_COLOR_handler method parameter =
    steps
      [PG_SET_MASK NV_PGRAPH_FOGCOLOR NV_PGRAPH_FOGCOLOR_RED (take_bit 8 (GET_MASK parameter NV097_SET_FOG_COLOR_RED)),
       PG_SET_MASK NV_PGRAPH_FOGCOLOR NV_PGRAPH_FOGCOLOR_GREEN (take_bit 8 (GET_MASK parameter NV097_SET_FOG_COLOR_GREEN)),
       PG_SET_MASK NV_PGRAPH_FOGCOLOR NV_PGRAPH_FOGCOLOR_BLUE (take_bit 8 (GET_MASK parameter NV097_SET_FOG_COLOR_BLUE)),
       PG_SET_MASK NV_PGRAPH_FOGCOLOR NV_PGRAPH_FOGCOLOR_ALPHA (take_bit 8 (GET_MASK parameter NV097_SET_FOG_COLOR_ALPHA))]"

definition pgraph_NV097_SET_WINDOW_CLIP_TYPE_handler :: handler where
  "pgraph_NV097_SET_WINDOW_CLIP_TYPE_handler method parameter =
    PG_SET_MASK NV_PGRAPH_SETUPRASTER NV_PGRAPH_SETUPRASTER_WINDOWCLIPTYPE parameter"

definition pgraph_NV097_SET_WINDOW_CLIP_HORIZONTAL_handler :: handler where
  "pgraph_NV097_SET_WINDOW_CLIP_HORIZONTAL_handler method parameter =
    fold_res (\<lambda>slot. pgraph_reg_w (NV_PGRAPH_WINDOWCLIPX0 + slot * 4) parameter)
      [slot_of NV097_SET_WINDOW_CLIP_HORIZONTAL 4 method..<8]"

definition pgraph_NV097_SET_WINDOW_CLIP_VERTICAL_handler :: handler where
  "pgraph_NV097_SET_WINDOW_CLIP_VERTICAL_handler method parameter =
    fold_res (\<lambda>slot. pgraph_reg_w (NV_PGRAPH_WINDOWCLIPY0 + slot * 4) parameter)
      [slot_of NV097_SET_WINDOW_CLIP_VERTICAL 4 method..<8]"

definition pgraph_NV097_SET_ALPHA_TEST_ENABLE_handler :: handler where
  "pgraph_NV097_SET_ALPHA_TEST_ENABLE_handler method parameter =
    PG_SET_MASK NV_PGRAPH_CONTROL_0 NV_PGRAPH_CONTROL_0_ALPHATESTENABLE parameter"

definition pgraph_NV097_SET_BLEND_ENABLE_handler :: handler where
  "pgraph_NV097_SET_BLEND_ENABLE_handler method parameter =
    PG_SET_MASK NV_PGRAPH_BLEND NV_PGRAPH_BLEND_EN parameter"

definition pgraph_NV097_SET_CULL_FACE_ENABLE_handler :: handler where
  "pgraph_NV097_SET_CULL_FACE_ENABLE_handler method parameter =
    PG_SET_MASK NV_PGRAPH_SETUPRASTER NV_PGRAPH_SETUPRASTER_CULLENABLE parameter"

definition pgraph_NV097_SET_DEPTH_TEST_ENABLE_handler :: handler where
  "pgraph_NV097_SET_DEPTH_TEST_ENABLE_handler method parameter =
    PG_SET_MASK NV_PGRAPH_CONTROL_0 NV_PGRAPH_CONTROL_0_ZENABLE parameter"

definition pgraph_NV097_SET_DITHER_ENABLE_handler :: handler where
  "pgraph_NV097_SET_DITHER_ENABLE_handler method parameter =
    PG_SET_MASK NV_PGRAPH_CONTROL_0 NV_PGRAPH_CONTROL_0_DITHERENABLE parameter"

definition pgraph_NV097_SET_LIGHTING_ENABLE_handler :: handler where
  "pgraph_NV097_SET_LIGHTING_ENABLE_handler method parameter =
    PG_SET_MASK NV_PGRAPH_CSV0_C NV_PGRAPH_CSV0_C_LIGHTING parameter"

definition pgraph_NV097_SET_POINT_PARAMS_ENABLE_handler :: handler where
  "pgraph_NV097_SET_POINT_PARAMS_ENABLE_handler method parameter =
    steps
      [PG_SET_MASK NV_PGRAPH_CSV0_D NV_PGRAPH_CSV0_D_POINTPARAMSENABLE parameter,
       PG_SET_MASK NV_PGRAPH_CONTROL_3 NV_PGRAPH_CONTROL_3_POINTPARAMSENABLE parameter]"

definition pgraph_NV097_SET_POINT_SMOOTH_ENABLE_handler :: handler where
  "pgraph_NV097_SET_POINT_SMOOTH_ENABLE_handler method parameter =
    PG_SET_MASK NV_PGRAPH_SETUPRASTER NV_PGRAPH_SETUPRASTER_POINTSMOOTHENABLE parameter"

definition pgraph_NV097_SET_LINE_SMOOTH_ENABLE_handler :: handler where
  "pgraph_NV097_SET_LINE_SMOOTH_ENABLE_handler method parameter =
    PG_SET_MASK NV_PGRAPH_SETUPRASTER NV_PGRAPH_SETUPRASTER_LINESMOOTHENABLE parameter"

definition pgraph_NV097_SET_POLY_SMOOTH_ENABLE_handler :: handler where
  "pgraph_NV097_SET_POLY_SMOOTH_ENABLE_handler method parameter =
    PG_SET_MASK NV_PGRAPH_SETUPRASTER NV_PGRAPH_SETUPRASTER_POLYSMOOTHENABLE parameter"

definition pgraph_NV097_SET_SKIN_MODE_handler :: handler where
  "pgraph_NV097_SET_SKIN_MODE_handler method parameter =
    PG_SET_MASK NV_PGRAPH_CSV0_D NV_PGRAPH_CSV0_D_SKIN parameter"

definition pgraph_NV097_SET_STENCIL_TEST_ENABLE_handler :: handler where
  "pgraph_NV097_SET_STENCIL_TEST_ENABLE_handler method parameter =
    PG_SET_MASK NV_PGRAPH_CONTROL_1 NV_PGRAPH_CONTROL_1_STENCIL_TEST_ENABLE parameter"

definition pgraph_NV097_SET_POLY_OFFSET_POINT_ENABLE_handler :: handler where
  "pgraph_NV097_SET_POLY_OFFSET_POINT_ENABLE_handler method parameter =
    PG_SET_MASK NV_PGRAPH_SETUPRASTER NV_PGRAPH_SETUPRASTER_POFFSETPOINTENABLE parameter"

definition pgraph_NV097_SET_POLY_OFFSET_LINE_ENABLE_handler :: handler where
  "pgraph_NV097_SET_POLY_OFFSET_LINE_ENABLE_handler method parameter =
    PG_SET_MASK NV_PGRAPH_SETUPRASTER NV_PGRAPH_SETUPRASTER_POFFSETLINEENABLE parameter"

definition pgraph_NV097_SET_POLY_OFFSET_FILL_ENABLE_handler :: handler where
  "pgraph_NV097_SET_POLY_OFFSET_FILL_ENABLE_handler method parameter =
    PG_SET_MASK NV_PGRAPH_SETUPRASTER NV_PGRAPH_SETUPRASTER_POFFSETFILLENABLE parameter"

definition pgraph_NV097_SET_ALPHA_FUNC_handler :: handler where
  "pgraph_NV097_SET_ALPHA_FUNC_handler method parameter =
    PG_SET_MASK NV_PGRAPH_CONTROL_0 NV_PGRAPH_CONTROL_0_ALPHAFUNC (parameter AND 0xF)"

definition pgraph_NV097_SET_ALPHA_REF_handler :: handler where
  "pgraph_NV097_SET_ALPHA_REF_handler method parameter =
    PG_SET_MASK NV_PGRAPH_CONTROL_0 NV_PGRAPH_CONTROL_0_ALPHAREF parameter"

definition pgraph_NV097_SET_BLEND_FUNC_SFACTOR_handler :: handler where
  "pgraph_NV097_SET_BLEND_FUNC_SFACTOR_handler method parameter =
    switch_discard
        [(NV097_SET_BLEND_FUNC_SFACTOR_V_ZERO, NV_PGRAPH_BLEND_SFACTOR_ZERO),
         (NV097_SET_BLEND_FUNC_SFACTOR_V_ONE, NV_PGRAPH_BLEND_SFACTOR_ONE),
         (NV097_SET_BLEND_FUNC_SFACTOR_V_SRC_COLOR, NV_PGRAPH_BLEND_SFACTOR_SRC_COLOR),
         (NV097_SET_BLEND_FUNC_SFACTOR_V_ONE_MINUS_SRC_COLOR, NV_PGRAPH_BLEND_SFACTOR_ONE_MINUS_SRC_COLOR),
         (NV097_SET_BLEND_FUNC_SFACTOR_V_SRC_ALPHA, NV_PGRAPH_BLEND_SFACTOR_SRC_ALPHA),
         (NV097_SET_BLEND_FUNC_SFACTOR_V_ONE_MINUS_SRC_ALPHA, NV_PGRAPH_BLEND_SFACTOR_ONE_MINUS_SRC_ALPHA),
         (NV097_SET_BLEND_FUNC_SFACTOR_V_DST_ALPHA, NV_PGRAPH_BLEND_SFACTOR_DST_ALPHA),
         (NV097_SET_BLEND_FUNC_SFACTOR_V_ONE_MINUS_DST_ALPHA, NV_PGRAPH_BLEND_SFACTOR_ONE_MINUS_DST_ALPHA),
         (NV097_SET_BLEND_FUNC_SFACTOR_V_DST_COLOR, NV_PGRAPH_BLEND_SFACTOR_DST_COLOR),
         (NV097_SET_BLEND_FUNC_SFACTOR_V_ONE_MINUS_DST_COLOR, NV_PGRAPH_BLEND_SFACTOR_ONE_MINUS_DST_COLOR),
         (NV097_SET_BLEND_FUNC_SFACTOR_V_SRC_ALPHA_SATURATE, NV_PGRAPH_BLEND_SFACTOR_SRC_ALPHA_SATURATE),
         (NV097_SET_BLEND_FUNC_SFACTOR_V_CONSTANT_COLOR, NV_PGRAPH_BLEND_SFACTOR_CONSTANT_COLOR),
         (NV097_SET_BLEND_FUNC_SFACTOR_V_ONE_MINUS_CONSTANT_COLOR, NV_PGRAPH_BLEND_SFACTOR_ONE_MINUS_CONSTANT_COLOR),
         (NV097_SET_BLEND_FUNC_SFACTOR_V_CONSTANT_ALPHA, NV_PGRAPH_BLEND_SFACTOR_CONSTANT_ALPHA),
         (NV097_SET_BLEND_FUNC_SFACTOR_V_ONE_MINUS_CONSTANT_ALPHA, NV_PGRAPH_BLEND_SFACTOR_ONE_MINUS_CONSTANT_ALPHA)] parameter
      (\<lambda>v. PG_SET_MASK NV_PGRAPH_BLEND NV_PGRAPH_BLEND_SFACTOR v)"

definition pgraph_NV097_SET_BLEND_FUNC_DFACTOR_handler :: handler where
  "pgraph_NV097_SET_BLEND_FUNC_DFACTOR_handler method parameter =
    switch_discard
        [(NV097_SET_BLEND_FUNC_DFACTOR_V_ZERO, NV_PGRAPH_BLEND_DFACTOR_ZERO),
         (NV097_SET_BLEND_FUNC_DFACTOR_V_ONE, NV_PGRAPH_BLEND_DFACTOR_ONE),
         (NV097_SET_BLEND_FUNC_DFACTOR_V_SRC_COLOR, NV_PGRAPH_BLEND_DFACTOR_SRC_COLOR),
         (NV097_SET_BLEND_FUNC_DFACTOR_V_ONE_MINUS_SRC_COLOR, NV_PGRAPH_BLEND_DFACTOR_ONE_MINUS_SRC_COLOR),
         (NV097_SET_BLEND_FUNC_DFACTOR_V_SRC_ALPHA, NV_PGRAPH_BLEND_DFACTOR_SRC_ALPHA),
         (NV097_SET_BLEND_FUNC_DFACTOR_V_ONE_MINUS_SRC_ALPHA, NV_PGRAPH_BLEND_DFACTOR_ONE_MINUS_SRC_ALPHA),
         (NV097_SET_BLEND_FUNC_DFACTOR_V_DST_ALPHA, NV_PGRAPH_BLEND_DFACTOR_DST_ALPHA),
         (NV097_SET_BLEND_FUNC_DFACTOR_V_ONE_MINUS_DST_ALPHA, NV_PGRAPH_BLEND_DFACTOR_ONE_MINUS_DST_ALPHA),
         (NV097_SET_BLEND_FUNC_DFACTOR_V_DST_COLOR, NV_PGRAPH_BLEND_DFACTOR_DST_COLOR),
         (NV097_SET_BLEND_FUNC_DFACTOR_V_ONE_MINUS_DST_COLOR, NV_PGRAPH_BLEND_DFACTOR_ONE_MINUS_DST_COLOR),
         (NV097_SET_BLEND_FUNC_DFACTOR_V_SRC_ALPHA_SATURATE, NV_PGRAPH_BLEND_DFACTOR_SRC_ALPHA_SATURATE),
         (NV097_SET_BLEND_FUNC_DFACTOR_V_CONSTANT_COLOR, NV_PGRAPH_BLEND_DFACTOR_CONSTANT_COLOR),
         (NV097_SET_BLEND_FUNC_DFACTOR_V_ONE_MINUS_CONSTANT_COLOR, NV_PGRAPH_BLEND_DFACTOR_ONE_MINUS_CONSTANT_COLOR),
         (NV097_SET_BLEND_FUNC_DFACTOR_V_CONSTANT_ALPHA, NV_PGRAPH_BLEND_DFACTOR_CONSTANT_ALPHA),
         (NV097_SET_BLEND_FUNC_DFACTOR_V_ONE_MINUS_CONSTANT_ALPHA, NV_PGRAPH_BLEND_DFACTOR_ONE_MINUS_CONSTANT_ALPHA)] parameter
      (\<lambda>v. PG_SET_MASK NV_PGRAPH_BLEND NV_PGRAPH_BLEND_DFACTOR v)"

definition pgraph_NV097_SET_BLEND_COLOR_handler :: handler where
  "pgraph_NV097_SET_BLEND_COLOR_handler method parameter =
    pgraph_reg_w NV_PGRAPH_BLENDCOLOR parameter"

definition pgraph_NV097_SET_BLEND_EQUATION_handler :: handler where
  "pgraph_NV097_SET_BLEND_EQUATION_handler method parameter =
    switch_discard
        [(NV097_SET_BLEND_EQUATION_V_FUNC_SUBTRACT, 0),
         (NV097_SET_BLEND_EQUATION_V_FUNC_REVERSE_SUBTRACT, 1),
         (NV097_SET_BLEND_EQUATION_V_FUNC_ADD, 2),
         (NV097_SET_BLEND_EQUATION_V_MIN, 3),
         (NV097_SET_BLEND_EQUATION_V_MAX, 4),
         (NV097_SET_BLEND_EQUATION_V_FUNC_REVERSE_SUBTRACT_SIGNED, 5),
         (NV097_SET_BLEND_EQUATION_V_FUNC_ADD_SIGNED, 6)] parameter
      (\<lambda>v. PG_SET_MASK NV_PGRAPH_BLEND NV_PGRAPH_BLEND_EQN v)"

definition pgraph_NV097_SET_DEPTH_FUNC_handler :: handler where
  "pgraph_NV097_SET_DEPTH_FUNC_handler method parameter pg =
    (if 0x200 \<le> parameter \<and> parameter \<le> 0x207
     then PG_SET_MASK NV_PGRAPH_CONTROL_0 NV_PGRAPH_CONTROL_0_ZFUNC (parameter AND 0xF) pg else Inr pg)"

definition pgraph_NV097_SET_COLOR_MASK_handler :: handler where
  "pgraph_NV097_SET_COLOR_MASK_handler method parameter pg =
    res_bind (pgraph_color_write_enabled pg) (\<lambda>en.
      steps
        [PG_SET_MASK NV_PGRAPH_CONTROL_0 NV_PGRAPH_CONTROL_0_ALPHA_WRITE_ENABLE
           (of_bool (parameter AND NV097_SET_COLOR_MASK_ALPHA_WRITE_ENABLE \<noteq> 0)),
         PG_SET_MASK NV_PGRAPH_CONTROL_0 NV_PGRAPH_CONTROL_0_RED_WRITE_ENABLE
           (of_bool (parameter AND NV097_SET_COLOR_MASK_RED_WRITE_ENABLE \<noteq> 0)),
         PG_SET_MASK NV_PGRAPH_CONTROL_0 NV_PGRAPH_CONTROL_0_GREEN_WRITE_ENABLE
           (of_bool (parameter AND NV097_SET_COLOR_MASK_GREEN_WRITE_ENABLE \<noteq> 0)),
         PG_SET_MASK NV_PGRAPH_CONTROL_0 NV_PGRAPH_CONTROL_0_BLUE_WRITE_ENABLE
           (of_bool (parameter AND NV097_SET_COLOR_MASK_BLUE_WRITE_ENABLE \<noteq> 0))]
        (pg\<lparr>pg_surface_color := (pg_surface_color pg)
           \<lparr>sf_write_enabled_cache := sf_write_enabled_cache (pg_surface_color pg) \<or> en\<rparr>\<rparr>))"

definition pgraph_NV097_SET_DEPTH_MASK_handler :: handler where
  "pgraph_NV097_SET_DEPTH_MASK_handler method parameter pg =
    res_bind (pgraph_zeta_write_enabled pg) (\<lambda>en.
      PG_SET_MASK NV_PGRAPH_CONTROL_0 NV_PGRAPH_CONTROL_0_ZWRITEENABLE parameter
        (pg\<lparr>pg_surface_zeta := (pg_surface_zeta pg)
           \<lparr>sf_write_enabled_cache := sf_write_enabled_cache (pg_surface_zeta pg) \<or> en\<rparr>\<rparr>))"

definition pgraph_NV097_SET_STENCIL_MASK_handler :: handler where
  "pgraph_NV097_SET_STENCIL_MASK_handler method parameter =
    PG_SET_MASK NV_PGRAPH_CONTROL_1 NV_PGRAPH_CONTROL_1_STENCIL_MASK_WRITE parameter"

definition pgraph_NV097_SET_STENCIL_FUNC_handler :: handler where
  "pgraph_NV097_SET_STENCIL_FUNC_handler method parameter =
    PG_SET_MASK NV_PGRAPH_CONTROL_1 NV_PGRAPH_CONTROL_1_STENCIL_FUNC (parameter AND 0xF)"

definition pgraph_NV097_SET_STENCIL_FUNC_REF_handler :: handler where
  "pgraph_NV097_SET_STENCIL_FUNC_REF_handler method parameter =
    PG_SET_MASK NV_PGRAPH_CONTROL_1 NV_PGRAPH_CONTROL_1_STENCIL_REF parameter"

definition pgraph_NV097_SET_STENCIL_FUNC_MASK_handler :: handler where
  "pgraph_NV097_SET_STENCIL_FUNC_MASK_handler method parameter =
    PG_SET_MASK NV_PGRAPH_CONTROL_1 NV_PGRAPH_CONTROL_1_STENCIL_MASK_READ parameter"

definition kelvin_map_stencil_op :: "u32 \<Rightarrow> u32 res" where
  "kelvin_map_stencil_op = switch_assert
    [(NV097_SET_STENCIL_OP_V_KEEP, NV_PGRAPH_CONTROL_2_STENCIL_OP_V_KEEP),
     (NV097_SET_STENCIL_OP_V_ZERO, NV_PGRAPH_CONTROL_2_STENCIL_OP_V_ZERO),
     (NV097_SET_STENCIL_OP_V_REPLACE, NV_PGRAPH_CONTROL_2_STENCIL_OP_V_REPLACE),
     (NV097_SET_STENCIL_OP_V_INCRSAT, NV_PGRAPH_CONTROL_2_STENCIL_OP_V_INCRSAT),
     (NV097_SET_STENCIL_OP_V_DECRSAT, NV_PGRAPH_CONTROL_2_STENCIL_OP_V_DECRSAT),
     (NV097_SET_STENCIL_OP_V_INVERT, NV_PGRAPH_CONTROL_2_STENCIL_OP_V_INVERT),
     (NV097_SET_STENCIL_OP_V_INCR, NV_PGRAPH_CONTROL_2_STENCIL_OP_V_INCR),
     (NV097_SET_STENCIL_OP_V_DECR, NV_PGRAPH_CONTROL_2_STENCIL_OP_V_DECR)]"

definition pgraph_NV097_SET_STENCIL_OP_FAIL_handler :: handler where
  "pgraph_NV097_SET_STENCIL_OP_FAIL_handler method parameter pg =
    res_bind (kelvin_map_stencil_op parameter) (\<lambda>v. PG_SET_MASK NV_PGRAPH_CONTROL_2 NV_PGRAPH_CONTROL_2_STENCIL_OP_FAIL v pg)"

definition pgraph_NV097_SET_STENCIL_OP_ZFAIL_handler :: handler where
  "pgraph_NV097_SET_STENCIL_OP_ZFAIL_handler method parameter pg =
    res_bind (kelvin_map_stencil_op parameter) (\<lambda>v. PG_SET_MASK NV_PGRAPH_CONTROL_2 NV_PGRAPH_CONTROL_2_STENCIL_OP_ZFAIL v pg)"

definition pgraph_NV097_SET_STENCIL_OP_ZPASS_handler :: handler where
  "pgraph_NV097_SET_STENCIL_OP_ZPASS_handler method parameter pg =
    res_bind (kelvin_map_stencil_op parameter) (\<lambda>v. PG_SET_MASK NV_PGRAPH_CONTROL_2 NV_PGRAPH_CONTROL_2_STENCIL_OP_ZPASS v pg)"

definition pgraph_NV097_SET_SHADE_MODE_handler :: handler where
  "pgraph_NV097_SET_SHADE_MODE_handler method parameter =
    switch_discard
        [(NV097_SET_SHADE_MODE_V_FLAT, NV_PGRAPH_CONTROL_3_SHADEMODE_FLAT),
         (NV097_SET_SHADE_MODE_V_SMOOTH, NV_PGRAPH_CONTROL_3_SHADEMODE_SMOOTH)] parameter
      (\<lambda>v. PG_SET_MASK NV_PGRAPH_CONTROL_3 NV_PGRAPH_CONTROL_3_SHADEMODE v)"

definition pgraph_NV097_SET_PROVOKING_VERTEX_handler :: handler where
  "pgraph_NV097_SET_PROVOKING_VERTEX_handler method parameter pg =
    res_bind (assert_res (parameter AND NOT 1 = 0)) (\<lambda>_.
      PG_SET_MASK NV_PGRAPH_CONTROL_3 NV_PGRAPH_CONTROL_3_PROVOKING_VERTEX parameter pg)"

definition pgraph_NV097_SET_POLYGON_OFFSET_SCALE_FACTOR_handler :: handler where
  "pgraph_NV097_SET_POLYGON_OFFSET_SCALE_FACTOR_handler method parameter =
    pgraph_reg_w NV_PGRAPH_ZOFFSETFACTOR parameter"

definition pgraph_NV097_SET_POLYGON_OFFSET_BIAS_handler :: handler where
  "pgraph_NV097_SET_POLYGON_OFFSET_BIAS_handler method parameter =
    pgraph_reg_w NV_PGRAPH_ZOFFSETBIAS parameter"

definition kelvin_map_polygon_mode :: "u32 \<Rightarrow> u32 res" where
  "kelvin_map_polygon_mode = switch_assert
    [(NV097_SET_FRONT_POLYGON_MODE_V_POINT, NV_PGRAPH_SETUPRASTER_FRONTFACEMODE_POINT),
     (NV097_SET_FRONT_POLYGON_MODE_V_LINE, NV_PGRAPH_SETUPRASTER_FRONTFACEMODE_LINE),
     (NV097_SET_FRONT_POLYGON_MODE_V_FILL, NV_PGRAPH_SETUPRASTER_FRONTFACEMODE_FILL)]"

definition pgraph_NV097_SET_FRONT_POLYGON_MODE_handler :: handler where
  "pgraph_NV097_SET_FRONT_POLYGON_MODE_handler method parameter pg =
    res_bind (kelvin_map_polygon_mode parameter) (\<lambda>v. PG_SET_MASK NV_PGRAPH_SETUPRASTER NV_PGRAPH_SETUPRASTER_FRONTFACEMODE v pg)"

definition pgraph_NV097_SET_BACK_POLYGON_MODE_handler :: handler where
  "pgraph_NV097_SET_BACK_POLYGON_MODE_handler method parameter pg =
    res_bind (kelvin_map_polygon_mode parameter) (\<lambda>v. PG_SET_MASK NV_PGRAPH_SETUPRASTER NV_PGRAPH_SETUPRASTER_BACKFACEMODE v pg)"

definition pgraph_NV097_SET_CLIP_MIN_handler :: handler where
  "pgraph_NV097_SET_CLIP_MIN_handler method parameter =
    pgraph_reg_w NV_PGRAPH_ZCLIPMIN parameter"

definition pgraph_NV097_SET_CLIP_MAX_handler :: handler where
  "pgraph_NV097_SET_CLIP_MAX_handler method parameter =
    pgraph_reg_w NV_PGRAPH_ZCLIPMAX parameter"

definition pgraph_NV097_SET_CULL_FACE_handler :: handler where
  "pgraph_NV097_SET_CULL_FACE_handler method parameter pg =
    res_bind (switch_assert
        [(NV097_SET_CULL_FACE_V_FRONT, NV_PGRAPH_SETUPRASTER_CULLCTRL_FRONT),
         (NV097_SET_CULL_FACE_V_BACK, NV_PGRAPH_SETUPRASTER_CULLCTRL_BACK),
         (NV097_SET_CULL_FACE_V_FRONT_AND_BACK, NV_PGRAPH_SETUPRASTER_CULLCTRL_FRONT_AND_BACK)] parameter)
      (\<lambda>mode. PG_SET_MASK NV_PGRAPH_SETUPRASTER NV_PGRAPH_SETUPRASTER_CULLCTRL mode pg)"

definition pgraph_NV097_SET_FRONT_FACE_handler :: handler where
  "pgraph_NV097_SET_FRONT_FACE_handler method parameter =
    switch_discard
        [(NV097_SET_FRONT_FACE_V_CW, 0),
         (NV097_SET_FRONT_FACE_V_CCW, 1)] parameter
      (\<lambda>v. PG_SET_MASK NV_PGRAPH_SETUPRASTER NV_PGRAPH_SETUPRASTER_FRONTFACE v)"

definition pgraph_NV097_SET_NORMALIZATION_ENABLE_handler :: handler where
  "pgraph_NV097_SET_NORMALIZATION_ENABLE_handler method parameter =
    PG_SET_MASK NV_PGRAPH_CSV0_C NV_PGRAPH_CSV0_C_NORMALIZATION_ENABLE parameter"

section \<open>Method handlers: constant tables\<close>

text \<open>Writing a word of a constant table marks its row for the renderers.\<close>

definition set_ltctxa :: "nat \<Rightarrow> nat \<Rightarrow> u32 \<Rightarrow> PGRAPHState \<Rightarrow> PGRAPHState res" where
  "set_ltctxa i j v pg = res_bind (arr2_set NV2A_LTCTXA_COUNT 4 (pg_ltctxa pg) i j v) (\<lambda>a.
    Inr (pg\<lparr>pg_ltctxa := a, pg_ltctxa_dirty := (pg_ltctxa_dirty pg)(i := True)\<rparr>))"

definition set_ltctxb :: "nat \<Rightarrow> nat \<Rightarrow> u32 \<Rightarrow> PGRAPHState \<Rightarrow> PGRAPHState res" where
  "set_ltctxb i j v pg = res_bind (arr2_set NV2A_LTCTXB_COUNT 4 (pg_ltctxb pg) i j v) (\<lambda>a.
    Inr (pg\<lparr>pg_ltctxb := a, pg_ltctxb_dirty := (pg_ltctxb_dirty pg)(i := True)\<rparr>))"

definition set_ltc1 :: "nat \<Rightarrow> nat \<Rightarrow> u32 \<Rightarrow> PGRAPHState \<Rightarrow> PGRAPHState res" where
  "set_ltc1 i j v pg = res_bind (arr2_set NV2A_LTC1_COUNT 4 (pg_ltc1 pg) i j v) (\<lambda>a.
    Inr (pg\<lparr>pg_ltc1 := a, pg_ltc1_dirty := (pg_ltc1_dirty pg)(i := True)\<rparr>))"

definition set_vsh_constant :: "nat \<Rightarrow> nat \<Rightarrow> u32 \<Rightarrow> PGRAPHState \<Rightarrow> PGRAPHState res" where
  "set_vsh_constant i j v pg = res_bind (arr2_set NV2A_VERTEXSHADER_CONSTANTS 4 (pg_vsh_constants pg) i j v) (\<lambda>a.
    Inr (pg\<lparr>pg_vsh_constants := a, pg_vsh_constants_dirty := (pg_vsh_constants_dirty pg)(i := True)\<rparr>))"

definition pgraph_NV097_SET_MATERIAL_EMISSION_handler :: handler where
  "pgraph_NV097_SET_MATERIAL_EMISSION_handler method parameter =
    set_ltctxa NV_IGRAPH_XF_LTCTXA_CM_COL (slot_of NV097_SET_MATERIAL_EMISSION 4 method) parameter"

definition pgraph_NV097_SET_MATERIAL_ALPHA_handler :: handler where
  "pgraph_NV097_SET_MATERIAL_ALPHA_handler method parameter pg = Inr (pg\<lparr>pg_material_alpha := parameter\<rparr>)"

definition pgraph_NV097_SET_SPECULAR_ENABLE_handler :: handler where
  "pgraph_NV097_SET_SPECULAR_ENABLE_handler method parameter =
    PG_SET_MASK NV_PGRAPH_CSV0_C NV_PGRAPH_CSV0_C_SPECULAR_ENABLE parameter"

definition pgraph_NV097_SET_LIGHT_ENABLE_MASK_handler :: handler where
  "pgraph_NV097_SET_LIGHT_ENABLE_MASK_handler method parameter =
    PG_SET_MASK NV_PGRAPH_CSV0_D NV_PGRAPH_CSV0_D_LIGHTS parameter"

definition kelvin_map_texgen :: "u32 \<Rightarrow> nat \<Rightarrow> u32 res" where
  "kelvin_map_texgen parameter channel =
    res_bind (assert_res (channel < 4)) (\<lambda>_.
      if parameter = NV097_SET_TEXGEN_S_DISABLE then Inr NV_PGRAPH_CSV1_A_T0_S_DISABLE
      else if parameter = NV097_SET_TEXGEN_S_EYE_LINEAR then Inr NV_PGRAPH_CSV1_A_T0_S_EYE_LINEAR
      else if parameter = NV097_SET_TEXGEN_S_OBJECT_LINEAR then Inr NV_PGRAPH_CSV1_A_T0_S_OBJECT_LINEAR
      else if parameter = NV097_SET_TEXGEN_S_SPHERE_MAP then
        res_bind (assert_res (channel < 2)) (\<lambda>_. Inr NV_PGRAPH_CSV1_A_T0_S_SPHERE_MAP)
      else if parameter = NV097_SET_TEXGEN_S_REFLECTION_MAP then
        res_bind (assert_res (channel < 3)) (\<lambda>_. Inr NV_PGRAPH_CSV1_A_T0_S_REFLECTION_MAP)
      else if parameter = NV097_SET_TEXGEN_S_NORMAL_MAP then
        res_bind (assert_res (channel < 3)) (\<lambda>_. Inr NV_PGRAPH_CSV1_A_T0_S_NORMAL_MAP)
      else Inl Assertion)"

definition pgraph_NV097_SET_TEXGEN_S_handler :: handler where
  "pgraph_NV097_SET_TEXGEN_S_handler method parameter pg =
    (let slot = slot_of NV097_SET_TEXGEN_S 16 method in
     res_bind (kelvin_map_texgen parameter 0) (\<lambda>v.
       PG_SET_MASK (if slot < 2 then NV_PGRAPH_CSV1_A else NV_PGRAPH_CSV1_B)
         (if slot mod 2 \<noteq> 0 then NV_PGRAPH_CSV1_A_T1_S else NV_PGRAPH_CSV1_A_T0_S) v pg))"

definition pgraph_NV097_SET_TEXGEN_T_handler :: handler where
  "pgraph_NV097_SET_TEXGEN_T_handler method parameter pg =
    (let slot = slot_of NV097_SET_TEXGEN_T 16 method in
     res_bind (kelvin_map_texgen parameter 1) (\<lambda>v.
       PG_SET_MASK (if slot < 2 then NV_PGRAPH_CSV1_A else NV_PGRAPH_CSV1_B)
         (if slot mod 2 \<noteq> 0 then NV_PGRAPH_CSV1_A_T1_T else NV_PGRAPH_CSV1_A_T0_T) v pg))"

definition pgraph_NV097_SET_TEXGEN_R_handler :: handler where
  "pgraph_NV097_SET_TEXGEN_R_handler method parameter pg =
    (let slot = slot_of NV097_SET_TEXGEN_R 16 method in
     res_bind (kelvin_map_texgen parameter 2) (\<lambda>v.
       PG_SET_MASK (if slot < 2 then NV_PGRAPH_CSV1_A else NV_PGRAPH_CSV1_B)
         (if slot mod 2 \<noteq> 0 then NV_PGRAPH_CSV1_A_T1_R else NV_PGRAPH_CSV1_A_T0_R) v pg))"

definition pgraph_NV097_SET_TEXGEN_Q_handler :: handler where
  "pgraph_NV097_SET_TEXGEN_Q_handler method parameter pg =
    (let slot = slot_of NV097_SET_TEXGEN_Q 16 method in
     res_bind (kelvin_map_texgen parameter 3) (\<lambda>v.
       PG_SET_MASK (if slot < 2 then NV_PGRAPH_CSV1_A else NV_PGRAPH_CSV1_B)
         (if slot mod 2 \<noteq> 0 then NV_PGRAPH_CSV1_A_T1_Q else NV_PGRAPH_CSV1_A_T0_Q) v pg))"

definition pgraph_NV097_SET_TEXTURE_MATRIX_ENABLE_handler :: handler where
  "pgraph_NV097_SET_TEXTURE_MATRIX_ENABLE_handler method parameter pg =
    res_bind (arr_set NV2A_MAX_TEXTURES (pg_texture_matrix_enable pg)
        (slot_of NV097_SET_TEXTURE_MATRIX_ENABLE 4 method) (parameter \<noteq> 0)) (\<lambda>a.
      Inr (pg\<lparr>pg_texture_matrix_enable := a\<rparr>))"

definition pgraph_NV097_SET_POINT_SIZE_handler :: handler where
  "pgraph_NV097_SET_POINT_SIZE_handler method parameter pg =
    (if parameter > NV097_SET_POINT_SIZE_V_MAX then Inr pg else pgraph_reg_w NV_PGRAPH_POINTSIZE parameter pg)"

definition pgraph_NV097_SET_PROJECTION_MATRIX_handler :: handler where
  "pgraph_NV097_SET_PROJECTION_MATRIX_handler method parameter =
    (let slot = slot_of NV097_SET_PROJECTION_MATRIX 4 method in set_vsh_constant (NV_IGRAPH_XF_XFCTX_PMAT0 + slot div 4) (slot mod 4) parameter)"

definition pgraph_NV097_SET_MODEL_VIEW_MATRIX_handler :: handler where
  "pgraph_NV097_SET_MODEL_VIEW_MATRIX_handler method parameter =
    (let slot = slot_of NV097_SET_MODEL_VIEW_MATRIX 4 method in
       set_vsh_constant (NV_IGRAPH_XF_XFCTX_MMAT0 + slot div 16 * 8 + slot mod 16 div 4) (slot mod 16 mod 4) parameter)"

definition pgraph_NV097_SET_INVERSE_MODEL_VIEW_MATRIX_handler :: handler where
  "pgraph_NV097_SET_INVERSE_MODEL_VIEW_MATRIX_handler method parameter =
    (let slot = slot_of NV097_SET_INVERSE_MODEL_VIEW_MATRIX 4 method in
       set_vsh_constant (NV_IGRAPH_XF_XFCTX_IMMAT0 + slot div 16 * 8 + slot mod 16 div 4) (slot mod 16 mod 4) parameter)"

definition pgraph_NV097_SET_COMPOSITE_MATRIX_handler :: handler where
  "pgraph_NV097_SET_COMPOSITE_MATRIX_handler method parameter =
    (let slot = slot_of NV097_SET_COMPOSITE_MATRIX 4 method in set_vsh_constant (NV_IGRAPH_XF_XFCTX_CMAT0 + slot div 4) (slot mod 4) parameter)"

definition pgraph_NV097_SET_TEXTURE_MATRIX_handler :: handler where
  "pgraph_NV097_SET_TEXTURE_MATRIX_handler method parameter =
    (let slot = slot_of NV097_SET_TEXTURE_MATRIX 4 method in
       set_vsh_constant (NV_IGRAPH_XF_XFCTX_T0MAT + slot div 16 * 8 + slot mod 16 div 4) (slot mod 16 mod 4) parameter)"

definition pgraph_NV097_SET_FOG_PARAMS_handler :: handler where
  "pgraph_NV097_SET_FOG_PARAMS_handler method parameter pg =
    (let slot = slot_of NV097_SET_FOG_PARAMS 4 method in
     res_bind (if slot < 2 then pgraph_reg_w (NV_PGRAPH_FOGPARAM0 + slot * 4) parameter pg else Inr pg)
       (set_ltctxa NV_IGRAPH_XF_LTCTXA_FOG_K slot parameter))"

definition pgraph_NV097_SET_TEXGEN_PLANE_S_handler :: handler where
  "pgraph_NV097_SET_TEXGEN_PLANE_S_handler method parameter =
    (let slot = slot_of NV097_SET_TEXGEN_PLANE_S 4 method in
       set_vsh_constant (NV_IGRAPH_XF_XFCTX_TG0MAT + slot div 16 * 8 + slot mod 16 div 4) (slot mod 16 mod 4) parameter)"

definition pgraph_NV097_SET_TEXGEN_VIEW_MODEL_handler :: handler where
  "pgraph_NV097_SET_TEXGEN_VIEW_MODEL_handler method parameter =
    PG_SET_MASK NV_PGRAPH_CSV0_D NV_PGRAPH_CSV0_D_TEXGEN_REF parameter"

definition pgraph_NV097_SET_FOG_PLANE_handler :: handler where
  "pgraph_NV097_SET_FOG_PLANE_handler method parameter =
    set_vsh_constant NV_IGRAPH_XF_XFCTX_FOG (slot_of NV097_SET_FOG_PLANE 4 method) parameter"

definition pgraph_NV097_SET_SCENE_AMBIENT_COLOR_handler :: handler where
  "pgraph_NV097_SET_SCENE_AMBIENT_COLOR_handler method parameter =
    set_ltctxa NV_IGRAPH_XF_LTCTXA_FR_AMB (slot_of NV097_SET_SCENE_AMBIENT_COLOR 4 method) parameter"

definition pgraph_NV097_SET_VIEWPORT_OFFSET_handler :: handler where
  "pgraph_NV097_SET_VIEWPORT_OFFSET_handler method parameter =
    set_vsh_constant NV_IGRAPH_XF_XFCTX_VPOFF (slot_of NV097_SET_VIEWPORT_OFFSET 4 method) parameter"

definition pgraph_NV097_SET_POINT_PARAMS_handler :: handler where
  "pgraph_NV097_SET_POINT_PARAMS_handler method parameter pg =
    res_bind (arr_set 8 (pg_point_params pg) (slot_of NV097_SET_POINT_PARAMS 4 method) parameter) (\<lambda>a.
      Inr (pg\<lparr>pg_point_params := a\<rparr>))"

definition pgraph_NV097_SET_EYE_POSITION_handler :: handler where
  "pgraph_NV097_SET_EYE_POSITION_handler method parameter =
    set_vsh_constant NV_IGRAPH_XF_XFCTX_EYEP (slot_of NV097_SET_EYE_POSITION 4 method) parameter"

definition pgraph_NV097_SET_COMBINER_FACTOR0_handler :: handler where
  "pgraph_NV097_SET_COMBINER_FACTOR0_handler method parameter =
    pgraph_reg_w (NV_PGRAPH_COMBINEFACTOR0 + slot_of NV097_SET_COMBINER_FACTOR0 4 method * 4) parameter"

definition pgraph_NV097_SET_COMBINER_FACTOR1_handler :: handler where
  "pgraph_NV097_SET_COMBINER_FACTOR1_handler method parameter =
    pgraph_reg_w (NV_PGRAPH_COMBINEFACTOR1 + slot_of NV097_SET_COMBINER_FACTOR1 4 method * 4) parameter"

definition pgraph_NV097_SET_COMBINER_ALPHA_OCW_handler :: handler where
  "pgraph_NV097_SET_COMBINER_ALPHA_OCW_handler method parameter =
    pgraph_reg_w (NV_PGRAPH_COMBINEALPHAO0 + slot_of NV097_SET_COMBINER_ALPHA_OCW 4 method * 4) parameter"

definition pgraph_NV097_SET_COMBINER_COLOR_ICW_handler :: handler where
  "pgraph_NV097_SET_COMBINER_COLOR_ICW_handler method parameter =
    pgraph_reg_w (NV_PGRAPH_COMBINECOLORI0 + slot_of NV097_SET_COMBINER_COLOR_ICW 4 method * 4) parameter"

definition pgraph_NV097_SET_COLOR_KEY_COLOR_handler :: handler where
  "pgraph_NV097_SET_COLOR_KEY_COLOR_handler method parameter =
    pgraph_reg_w (NV_PGRAPH_COLORKEYCOLOR0 + slot_of NV097_SET_COLOR_KEY_COLOR 4 method * 4) parameter"

definition pgraph_NV097_SET_VIEWPORT_SCALE_handler :: handler where
  "pgraph_NV097_SET_VIEWPORT_SCALE_handler method parameter =
    set_vsh_constant NV_IGRAPH_XF_XFCTX_VPSCL (slot_of NV097_SET_VIEWPORT_SCALE 4 method) parameter"

definition pgraph_NV097_SET_TRANSFORM_PROGRAM_handler :: handler where
  "pgraph_NV097_SET_TRANSFORM_PROGRAM_handler method parameter pg =
    (let slot = slot_of NV097_SET_TRANSFORM_PROGRAM 4 method in
     res_bind (PG_GET_MASK pg NV_PGRAPH_CHEOPS_OFFSET NV_PGRAPH_CHEOPS_OFFSET_PROG_LD_PTR) (\<lambda>program_load.
     res_bind (assert_res (unat program_load < NV2A_MAX_TRANSFORM_PROGRAM_LENGTH)) (\<lambda>_.
     res_bind (arr2_set NV2A_MAX_TRANSFORM_PROGRAM_LENGTH 4 (pg_program_data pg) (unat program_load) (slot mod 4) parameter) (\<lambda>a.
       let pg = pg\<lparr>pg_program_data := a, pg_program_data_dirty := True\<rparr> in
       if slot mod 4 = 3
       then PG_SET_MASK NV_PGRAPH_CHEOPS_OFFSET NV_PGRAPH_CHEOPS_OFFSET_PROG_LD_PTR (program_load + 1) pg
       else Inr pg))))"

definition pgraph_NV097_SET_TRANSFORM_CONSTANT_handler :: handler where
  "pgraph_NV097_SET_TRANSFORM_CONSTANT_handler method parameter pg =
    (let slot = slot_of NV097_SET_TRANSFORM_CONSTANT 4 method in
     res_bind (PG_GET_MASK pg NV_PGRAPH_CHEOPS_OFFSET NV_PGRAPH_CHEOPS_OFFSET_CONST_LD_PTR) (\<lambda>const_load.
     res_bind (assert_res (unat const_load < NV2A_VERTEXSHADER_CONSTANTS)) (\<lambda>_.
     let row = unat const_load;
         dirty = (pg_vsh_constants_dirty pg)(row :=
           pg_vsh_constants_dirty pg row \<or> parameter \<noteq> pg_vsh_constants pg row (slot mod 4)) in
     res_bind (arr2_set NV2A_VERTEXSHADER_CONSTANTS 4 (pg_vsh_constants pg) row (slot mod 4) parameter) (\<lambda>a.
       let pg = pg\<lparr>pg_vsh_constants_dirty := dirty, pg_vsh_constants := a\<rparr> in
       if slot mod 4 = 3
       then PG_SET_MASK NV_PGRAPH_CHEOPS_OFFSET NV_PGRAPH_CHEOPS_OFFSET_CONST_LD_PTR (const_load + 1) pg
       else Inr pg))))"

definition pgraph_NV097_SET_BACK_LIGHT_AMBIENT_COLOR_handler :: handler where
  "pgraph_NV097_SET_BACK_LIGHT_AMBIENT_COLOR_handler method parameter pg =
    (let slot = slot_of NV097_SET_BACK_LIGHT_AMBIENT_COLOR 4 method;
         part = slot mod 16;
         light = slot div 16
     in res_bind (assert_res (light < 8)) (\<lambda>_.
       if part < 3 then set_ltctxb (NV_IGRAPH_XF_LTCTXB_L0_BAMB + light * 6) part parameter pg
       else if part < 6 then set_ltctxb (NV_IGRAPH_XF_LTCTXB_L0_BDIF + light * 6) (part - 3) parameter pg
       else if part < 9 then set_ltctxb (NV_IGRAPH_XF_LTCTXB_L0_BSPC + light * 6) (part - 6) parameter pg
       else Inl Assertion))"

definition set_light3 :: "((nat \<Rightarrow> nat \<Rightarrow> u32) \<Rightarrow> PGRAPHState) \<Rightarrow> (nat \<Rightarrow> nat \<Rightarrow> u32) \<Rightarrow> nat \<Rightarrow> nat \<Rightarrow> u32 \<Rightarrow> PGRAPHState res" where
  "set_light3 upd a light part v = res_bind (arr2_set NV2A_MAX_LIGHTS 3 a light part v) (\<lambda>a. Inr (upd a))"

definition pgraph_NV097_SET_LIGHT_AMBIENT_COLOR_handler :: handler where
  "pgraph_NV097_SET_LIGHT_AMBIENT_COLOR_handler method parameter pg =
    (let slot = slot_of NV097_SET_LIGHT_AMBIENT_COLOR 4 method;
         part = slot mod 32;
         light = slot div 32
     in res_bind (assert_res (light < 8)) (\<lambda>_.
       if part < 3 then set_ltctxb (NV_IGRAPH_XF_LTCTXB_L0_AMB + light * 6) part parameter pg
       else if part < 6 then set_ltctxb (NV_IGRAPH_XF_LTCTXB_L0_DIF + light * 6) (part - 3) parameter pg
       else if part < 9 then set_ltctxb (NV_IGRAPH_XF_LTCTXB_L0_SPC + light * 6) (part - 6) parameter pg
       else if part = 9 then set_ltc1 (NV_IGRAPH_XF_LTC1_r0 + light) 0 parameter pg
       else if part < 13 then
         set_light3 (\<lambda>a. pg\<lparr>pg_light_infinite_half_vector := a\<rparr>) (pg_light_infinite_half_vector pg) light (part - 10) parameter
       else if part < 16 then
         set_light3 (\<lambda>a. pg\<lparr>pg_light_infinite_direction := a\<rparr>) (pg_light_infinite_direction pg) light (part - 13) parameter
       else if part < 19 then set_ltctxa (NV_IGRAPH_XF_LTCTXA_L0_K + light * 2) (part - 16) parameter pg
       else if part < 23 then set_ltctxa (NV_IGRAPH_XF_LTCTXA_L0_SPT + light * 2) (part - 19) parameter pg
       else if part < 26 then
         set_light3 (\<lambda>a. pg\<lparr>pg_light_local_position := a\<rparr>) (pg_light_local_position pg) light (part - 23) parameter
       else if part < 29 then
         set_light3 (\<lambda>a. pg\<lparr>pg_light_local_attenuation := a\<rparr>) (pg_light_local_attenuation pg) light (part - 26) parameter
       else Inl Assertion))"

section \<open>Method handlers: vertex arrays, textures and combiners\<close>

text \<open>The element sizes of the vertex formats, with the component counts that two of them require.\<close>

definition vertex_format_size :: "u32 \<Rightarrow> u32 \<Rightarrow> u32 res" where
  "vertex_format_size format count =
    (if format = NV097_SET_VERTEX_DATA_ARRAY_FORMAT_TYPE_UB_D3D then res_bind (assert_res (count = 4)) (\<lambda>_. Inr 1)
     else if format = NV097_SET_VERTEX_DATA_ARRAY_FORMAT_TYPE_UB_OGL then Inr 1
     else if format = NV097_SET_VERTEX_DATA_ARRAY_FORMAT_TYPE_S1 then Inr 2
     else if format = NV097_SET_VERTEX_DATA_ARRAY_FORMAT_TYPE_F then Inr 4
     else if format = NV097_SET_VERTEX_DATA_ARRAY_FORMAT_TYPE_S32K then Inr 2
     else if format = NV097_SET_VERTEX_DATA_ARRAY_FORMAT_TYPE_CMP then res_bind (assert_res (count = 1)) (\<lambda>_. Inr 4)
     else Inl Assertion)"

definition pgraph_NV097_SET_VERTEX_DATA_ARRAY_FORMAT_handler :: handler where
  "pgraph_NV097_SET_VERTEX_DATA_ARRAY_FORMAT_handler method parameter pg =
    (let slot = slot_of NV097_SET_VERTEX_DATA_ARRAY_FORMAT 4 method;
         format = GET_MASK parameter NV097_SET_VERTEX_DATA_ARRAY_FORMAT_TYPE;
         count = GET_MASK parameter NV097_SET_VERTEX_DATA_ARRAY_FORMAT_SIZE
     in res_bind (arr_get NV2A_VERTEXSHADER_ATTRIBUTES (pg_vertex_attributes pg) slot) (\<lambda>attr.
        res_bind (vertex_format_size format count) (\<lambda>sz.
          Inr (pg\<lparr>pg_vertex_attributes := (pg_vertex_attributes pg)(slot := attr
                \<lparr>va_format := format, va_count := count,
                 va_stride := GET_MASK parameter NV097_SET_VERTEX_DATA_ARRAY_FORMAT_STRIDE, va_size := sz\<rparr>),
              pg_compressed_attrs := (if format = NV097_SET_VERTEX_DATA_ARRAY_FORMAT_TYPE_CMP
                then pg_compressed_attrs pg OR push_bit slot 1
                else pg_compressed_attrs pg AND NOT (push_bit slot 1))\<rparr>))))"

definition pgraph_NV097_SET_VERTEX_DATA_ARRAY_OFFSET_handler :: handler where
  "pgraph_NV097_SET_VERTEX_DATA_ARRAY_OFFSET_handler method parameter pg =
    (let slot = slot_of NV097_SET_VERTEX_DATA_ARRAY_OFFSET 4 method in
     res_bind (arr_get NV2A_VERTEXSHADER_ATTRIBUTES (pg_vertex_attributes pg) slot) (\<lambda>attr.
       Inr (pg\<lparr>pg_vertex_attributes := (pg_vertex_attributes pg)(slot := attr
         \<lparr>va_dma_select := (parameter AND 0x80000000 \<noteq> 0), va_offset := ucast (parameter AND 0x7fffffff)\<rparr>)\<rparr>)))"

definition pgraph_NV097_SET_LOGIC_OP_ENABLE_handler :: handler where
  "pgraph_NV097_SET_LOGIC_OP_ENABLE_handler method parameter =
    PG_SET_MASK NV_PGRAPH_BLEND NV_PGRAPH_BLEND_LOGICOP_ENABLE parameter"

definition pgraph_NV097_SET_LOGIC_OP_handler :: handler where
  "pgraph_NV097_SET_LOGIC_OP_handler method parameter =
    PG_SET_MASK NV_PGRAPH_BLEND NV_PGRAPH_BLEND_LOGICOP (parameter AND 0xF)"

definition pgraph_NV097_SET_ZPASS_PIXEL_COUNT_ENABLE_handler :: handler where
  "pgraph_NV097_SET_ZPASS_PIXEL_COUNT_ENABLE_handler method parameter pg = Inr (pg\<lparr>pg_zpass_pixel_count_enable := (parameter \<noteq> 0)\<rparr>)"

definition pgraph_NV097_SET_EYE_DIRECTION_handler :: handler where
  "pgraph_NV097_SET_EYE_DIRECTION_handler method parameter =
    set_ltctxa NV_IGRAPH_XF_LTCTXA_EYED (slot_of NV097_SET_EYE_DIRECTION 4 method) parameter"

definition set_texture_dirty :: "nat \<Rightarrow> PGRAPHState \<Rightarrow> PGRAPHState res" where
  "set_texture_dirty slot pg = res_bind (arr_set NV2A_MAX_TEXTURES (pg_texture_dirty pg) slot True) (\<lambda>a.
    Inr (pg\<lparr>pg_texture_dirty := a\<rparr>))"

definition pgraph_NV097_SET_TEXTURE_OFFSET_handler :: handler where
  "pgraph_NV097_SET_TEXTURE_OFFSET_handler method parameter =
    (let slot = slot_of NV097_SET_TEXTURE_OFFSET 64 method in
       steps [pgraph_reg_w (NV_PGRAPH_TEXOFFSET0 + slot * 4) parameter, set_texture_dirty slot])"

definition pgraph_NV097_SET_TEXTURE_FORMAT_handler :: handler where
  "pgraph_NV097_SET_TEXTURE_FORMAT_handler method parameter =
    (let slot = slot_of NV097_SET_TEXTURE_FORMAT 64 method; reg = NV_PGRAPH_TEXFMT0 + slot * 4 in
       steps
        [PG_SET_MASK reg NV_PGRAPH_TEXFMT0_CONTEXT_DMA (of_bool (GET_MASK parameter NV097_SET_TEXTURE_FORMAT_CONTEXT_DMA = 2)),
         PG_SET_MASK reg NV_PGRAPH_TEXFMT0_CUBEMAPENABLE (of_bool (GET_MASK parameter NV097_SET_TEXTURE_FORMAT_CUBEMAP_ENABLE \<noteq> 0)),
         PG_SET_MASK reg NV_PGRAPH_TEXFMT0_BORDER_SOURCE (GET_MASK parameter NV097_SET_TEXTURE_FORMAT_BORDER_SOURCE),
         PG_SET_MASK reg NV_PGRAPH_TEXFMT0_DIMENSIONALITY (GET_MASK parameter NV097_SET_TEXTURE_FORMAT_DIMENSIONALITY),
         PG_SET_MASK reg NV_PGRAPH_TEXFMT0_COLOR (GET_MASK parameter NV097_SET_TEXTURE_FORMAT_COLOR),
         PG_SET_MASK reg NV_PGRAPH_TEXFMT0_MIPMAP_LEVELS (GET_MASK parameter NV097_SET_TEXTURE_FORMAT_MIPMAP_LEVELS),
         PG_SET_MASK reg NV_PGRAPH_TEXFMT0_BASE_SIZE_U (GET_MASK parameter NV097_SET_TEXTURE_FORMAT_BASE_SIZE_U),
         PG_SET_MASK reg NV_PGRAPH_TEXFMT0_BASE_SIZE_V (GET_MASK parameter NV097_SET_TEXTURE_FORMAT_BASE_SIZE_V),
         PG_SET_MASK reg NV_PGRAPH_TEXFMT0_BASE_SIZE_P (GET_MASK parameter NV097_SET_TEXTURE_FORMAT_BASE_SIZE_P),
         set_texture_dirty slot])"

definition pgraph_NV097_SET_TEXTURE_CONTROL0_handler :: handler where
  "pgraph_NV097_SET_TEXTURE_CONTROL0_handler method parameter =
    (let slot = slot_of NV097_SET_TEXTURE_CONTROL0 64 method in
       steps [pgraph_reg_w (NV_PGRAPH_TEXCTL0_0 + slot * 4) parameter, set_texture_dirty slot])"

definition pgraph_NV097_SET_TEXTURE_CONTROL1_handler :: handler where
  "pgraph_NV097_SET_TEXTURE_CONTROL1_handler method parameter =
    (let slot = slot_of NV097_SET_TEXTURE_CONTROL1 64 method in
       steps [pgraph_reg_w (NV_PGRAPH_TEXCTL1_0 + slot * 4) parameter, set_texture_dirty slot])"

definition pgraph_NV097_SET_TEXTURE_FILTER_handler :: handler where
  "pgraph_NV097_SET_TEXTURE_FILTER_handler method parameter =
    (let slot = slot_of NV097_SET_TEXTURE_FILTER 64 method in
       steps [pgraph_reg_w (NV_PGRAPH_TEXFILTER0 + slot * 4) parameter, set_texture_dirty slot])"

definition pgraph_NV097_SET_TEXTURE_IMAGE_RECT_handler :: handler where
  "pgraph_NV097_SET_TEXTURE_IMAGE_RECT_handler method parameter =
    (let slot = slot_of NV097_SET_TEXTURE_IMAGE_RECT 64 method in
       steps [pgraph_reg_w (NV_PGRAPH_TEXIMAGERECT0 + slot * 4) parameter, set_texture_dirty slot])"

definition pgraph_NV097_SET_TEXTURE_PALETTE_handler :: handler where
  "pgraph_NV097_SET_TEXTURE_PALETTE_handler method parameter =
    (let slot = slot_of NV097_SET_TEXTURE_PALETTE 64 method; reg = NV_PGRAPH_TEXPALETTE0 + slot * 4 in
       steps
        [PG_SET_MASK reg NV_PGRAPH_TEXPALETTE0_CONTEXT_DMA (of_bool (GET_MASK parameter NV097_SET_TEXTURE_PALETTE_CONTEXT_DMA = 1)),
         PG_SET_MASK reg NV_PGRAPH_TEXPALETTE0_LENGTH (GET_MASK parameter NV097_SET_TEXTURE_PALETTE_LENGTH),
         PG_SET_MASK reg NV_PGRAPH_TEXPALETTE0_OFFSET (GET_MASK parameter NV097_SET_TEXTURE_PALETTE_OFFSET),
         set_texture_dirty slot])"

definition pgraph_NV097_SET_TEXTURE_BORDER_COLOR_handler :: handler where
  "pgraph_NV097_SET_TEXTURE_BORDER_COLOR_handler method parameter =
    pgraph_reg_w (NV_PGRAPH_BORDERCOLOR0 + slot_of NV097_SET_TEXTURE_BORDER_COLOR 64 method * 4) parameter"

definition pgraph_NV097_SET_TEXTURE_SET_BUMP_ENV_MAT_handler :: handler where
  "pgraph_NV097_SET_TEXTURE_SET_BUMP_ENV_MAT_handler method parameter pg =
    (let slot = slot_of NV097_SET_TEXTURE_SET_BUMP_ENV_MAT 4 method in
     if slot < 16 then Inr pg
     else let slot = slot - 16 in
       pgraph_reg_w ([NV_PGRAPH_BUMPMAT00, NV_PGRAPH_BUMPMAT01, NV_PGRAPH_BUMPMAT11, NV_PGRAPH_BUMPMAT10] ! (slot mod 4)
         + slot div 4) parameter pg)"

definition pgraph_NV097_SET_TEXTURE_SET_BUMP_ENV_SCALE_handler :: handler where
  "pgraph_NV097_SET_TEXTURE_SET_BUMP_ENV_SCALE_handler method parameter pg =
    (let slot = slot_of NV097_SET_TEXTURE_SET_BUMP_ENV_SCALE 64 method in
     if slot = 0 then Inr pg else pgraph_reg_w (NV_PGRAPH_BUMPSCALE1 + (slot - 1) * 4) parameter pg)"

definition pgraph_NV097_SET_TEXTURE_SET_BUMP_ENV_OFFSET_handler :: handler where
  "pgraph_NV097_SET_TEXTURE_SET_BUMP_ENV_OFFSET_handler method parameter pg =
    (let slot = slot_of NV097_SET_TEXTURE_SET_BUMP_ENV_OFFSET 64 method in
     if slot = 0 then Inr pg else pgraph_reg_w (NV_PGRAPH_BUMPOFFSET1 + (slot - 1) * 4) parameter pg)"

definition pgraph_NV097_SET_EYE_VECTOR_handler :: handler where
  "pgraph_NV097_SET_EYE_VECTOR_handler method parameter =
    pgraph_reg_w (NV_PGRAPH_EYEVEC0 + slot_of NV097_SET_EYE_VECTOR 4 method * 4) parameter"

definition pgraph_NV097_SET_SEMAPHORE_OFFSET_handler :: handler where
  "pgraph_NV097_SET_SEMAPHORE_OFFSET_handler method parameter =
    pgraph_reg_w NV_PGRAPH_SEMAPHOREOFFSET parameter"

definition pgraph_NV097_SET_ZMIN_MAX_CONTROL_handler :: handler where
  "pgraph_NV097_SET_ZMIN_MAX_CONTROL_handler method parameter pg =
    res_bind (switch_assert
        [(NV097_SET_ZMIN_MAX_CONTROL_ZCLAMP_EN_CULL, NV_PGRAPH_ZCOMPRESSOCCLUDE_ZCLAMP_EN_CULL),
         (NV097_SET_ZMIN_MAX_CONTROL_ZCLAMP_EN_CLAMP, NV_PGRAPH_ZCOMPRESSOCCLUDE_ZCLAMP_EN_CLAMP)]
        (GET_MASK parameter NV097_SET_ZMIN_MAX_CONTROL_ZCLAMP_EN))
      (\<lambda>v. PG_SET_MASK NV_PGRAPH_ZCOMPRESSOCCLUDE NV_PGRAPH_ZCOMPRESSOCCLUDE_ZCLAMP_EN v pg)"

definition pgraph_NV097_SET_ANTI_ALIASING_CONTROL_handler :: handler where
  "pgraph_NV097_SET_ANTI_ALIASING_CONTROL_handler method parameter =
    PG_SET_MASK NV_PGRAPH_ANTIALIASING NV_PGRAPH_ANTIALIASING_ENABLE (GET_MASK parameter NV097_SET_ANTI_ALIASING_CONTROL_ENABLE)"

definition pgraph_NV097_SET_ZSTENCIL_CLEAR_VALUE_handler :: handler where
  "pgraph_NV097_SET_ZSTENCIL_CLEAR_VALUE_handler method parameter =
    pgraph_reg_w NV_PGRAPH_ZSTENCILCLEARVALUE parameter"

definition pgraph_NV097_SET_COLOR_CLEAR_VALUE_handler :: handler where
  "pgraph_NV097_SET_COLOR_CLEAR_VALUE_handler method parameter =
    pgraph_reg_w NV_PGRAPH_COLORCLEARVALUE parameter"

definition pgraph_NV097_SET_CLEAR_RECT_HORIZONTAL_handler :: handler where
  "pgraph_NV097_SET_CLEAR_RECT_HORIZONTAL_handler method parameter =
    pgraph_reg_w NV_PGRAPH_CLEARRECTX parameter"

definition pgraph_NV097_SET_CLEAR_RECT_VERTICAL_handler :: handler where
  "pgraph_NV097_SET_CLEAR_RECT_VERTICAL_handler method parameter =
    pgraph_reg_w NV_PGRAPH_CLEARRECTY parameter"

definition pgraph_NV097_SET_SPECULAR_FOG_FACTOR_handler :: handler where
  "pgraph_NV097_SET_SPECULAR_FOG_FACTOR_handler method parameter =
    pgraph_reg_w (NV_PGRAPH_SPECFOGFACTOR0 + slot_of NV097_SET_SPECULAR_FOG_FACTOR 4 method * 4) parameter"

definition pgraph_NV097_SET_SHADER_CLIP_PLANE_MODE_handler :: handler where
  "pgraph_NV097_SET_SHADER_CLIP_PLANE_MODE_handler method parameter =
    pgraph_reg_w NV_PGRAPH_SHADERCLIPMODE parameter"

definition pgraph_NV097_SET_COMBINER_COLOR_OCW_handler :: handler where
  "pgraph_NV097_SET_COMBINER_COLOR_OCW_handler method parameter =
    pgraph_reg_w (NV_PGRAPH_COMBINECOLORO0 + slot_of NV097_SET_COMBINER_COLOR_OCW 4 method * 4) parameter"

definition pgraph_NV097_SET_COMBINER_CONTROL_handler :: handler where
  "pgraph_NV097_SET_COMBINER_CONTROL_handler method parameter =
    pgraph_reg_w NV_PGRAPH_COMBINECTL parameter"

definition pgraph_NV097_SET_SHADOW_ZSLOPE_THRESHOLD_handler :: handler where
  "pgraph_NV097_SET_SHADOW_ZSLOPE_THRESHOLD_handler method parameter pg =
    res_bind (pgraph_reg_w NV_PGRAPH_SHADOWZSLOPETHRESHOLD parameter pg) (\<lambda>pg.
    res_bind (assert_res (parameter = 0x7F800000)) (\<lambda>_. Inr pg))"

definition pgraph_NV097_SET_SHADOW_DEPTH_FUNC_handler :: handler where
  "pgraph_NV097_SET_SHADOW_DEPTH_FUNC_handler method parameter =
    PG_SET_MASK NV_PGRAPH_SHADOWCTL NV_PGRAPH_SHADOWCTL_SHADOW_ZFUNC parameter"

definition pgraph_NV097_SET_SHADER_STAGE_PROGRAM_handler :: handler where
  "pgraph_NV097_SET_SHADER_STAGE_PROGRAM_handler method parameter =
    pgraph_reg_w NV_PGRAPH_SHADERPROG parameter"

definition pgraph_NV097_SET_DOT_RGBMAPPING_handler :: handler where
  "pgraph_NV097_SET_DOT_RGBMAPPING_handler method parameter =
    PG_SET_MASK NV_PGRAPH_SHADERCTL 0xFFF (GET_MASK parameter 0xFFF)"

definition pgraph_NV097_SET_SHADER_OTHER_STAGE_INPUT_handler :: handler where
  "pgraph_NV097_SET_SHADER_OTHER_STAGE_INPUT_handler method parameter =
    PG_SET_MASK NV_PGRAPH_SHADERCTL 0xFFFF000 (GET_MASK parameter 0xFFFF000)"

definition pgraph_NV097_SET_TRANSFORM_DATA_handler :: handler where
  "pgraph_NV097_SET_TRANSFORM_DATA_handler method parameter pg =
    res_bind (arr_set 4 (pg_vertex_state_shader_v0 pg) (slot_of NV097_SET_TRANSFORM_DATA 4 method) parameter) (\<lambda>a.
      Inr (pg\<lparr>pg_vertex_state_shader_v0 := a\<rparr>))"

definition pgraph_NV097_SET_TRANSFORM_EXECUTION_MODE_handler :: handler where
  "pgraph_NV097_SET_TRANSFORM_EXECUTION_MODE_handler method parameter =
    steps
      [PG_SET_MASK NV_PGRAPH_CSV0_D NV_PGRAPH_CSV0_D_MODE (GET_MASK parameter NV097_SET_TRANSFORM_EXECUTION_MODE_MODE),
       PG_SET_MASK NV_PGRAPH_CSV0_D NV_PGRAPH_CSV0_D_RANGE_MODE (GET_MASK parameter NV097_SET_TRANSFORM_EXECUTION_MODE_RANGE_MODE)]"

definition pgraph_NV097_SET_TRANSFORM_PROGRAM_CXT_WRITE_EN_handler :: handler where
  "pgraph_NV097_SET_TRANSFORM_PROGRAM_CXT_WRITE_EN_handler method parameter pg = Inr (pg\<lparr>pg_enable_vertex_program_write := (parameter \<noteq> 0)\<rparr>)"

definition pgraph_NV097_SET_TRANSFORM_PROGRAM_LOAD_handler :: handler where
  "pgraph_NV097_SET_TRANSFORM_PROGRAM_LOAD_handler method parameter pg =
    res_bind (assert_res (unat parameter < NV2A_MAX_TRANSFORM_PROGRAM_LENGTH)) (\<lambda>_.
      PG_SET_MASK NV_PGRAPH_CHEOPS_OFFSET
        NV_PGRAPH_CHEOPS_OFFSET_PROG_LD_PTR parameter pg)"

definition pgraph_NV097_SET_TRANSFORM_PROGRAM_START_handler :: handler where
  "pgraph_NV097_SET_TRANSFORM_PROGRAM_START_handler method parameter pg =
    res_bind (assert_res (unat parameter < NV2A_MAX_TRANSFORM_PROGRAM_LENGTH)) (\<lambda>_.
      PG_SET_MASK NV_PGRAPH_CSV0_C
        NV_PGRAPH_CSV0_C_CHEOPS_PROGRAM_START parameter pg)"

definition pgraph_NV097_SET_TRANSFORM_CONSTANT_LOAD_handler :: handler where
  "pgraph_NV097_SET_TRANSFORM_CONSTANT_LOAD_handler method parameter pg =
    res_bind (assert_res (unat parameter < NV2A_VERTEXSHADER_CONSTANTS)) (\<lambda>_.
      PG_SET_MASK NV_PGRAPH_CHEOPS_OFFSET
        NV_PGRAPH_CHEOPS_OFFSET_CONST_LD_PTR parameter pg)"

end
