(* ===== verification/PGRAPH_Vertex.thy ===== *)
theory PGRAPH_Vertex
  imports PGRAPH_Regs
begin

text \<open>
  Immediate-mode vertex attributes: \<open>hw/xbox/nv2a/pgraph/vertex.c\<close> and the vertex-data methods of
  \<open>pgraph.c\<close>.  An attribute's per-vertex buffer is filled lazily: it is only populated once the
  attribute changes between two vertices of a batch, and until then its current value stands for
  all of them.  The main result is that this is equivalent to recording all attributes of every
  vertex when it is completed.

  Single-precision values are bit patterns; the conversions the methods need, quotients of small
  integers, are computed exactly and rounded to nearest even.
\<close>

section \<open>Single-precision quotients\<close>

function bit_len :: "int \<Rightarrow> int" where
  "bit_len n = (if n \<le> 0 then 0 else 1 + bit_len (n div 2))"
  by auto
termination by (relation "measure nat") auto

declare bit_len.simps [simp del]

text \<open>
  \<open>round_ratio p n d\<close> rounds \<open>n / d\<close>, both positive, to \<open>p\<close> significant bits, ties to even: \<open>(q, e)\<close> stands
  for \<open>q * 2 ^ (e - (p - 1))\<close>.
\<close>

definition round_ratio :: "int \<Rightarrow> int \<Rightarrow> int \<Rightarrow> int \<times> int" where
  "round_ratio p n d =
    (let e = bit_len n - bit_len d;
         e = (if n * 2 ^ nat (- e) < d * 2 ^ nat e then e - 1 else e);
         sh = p - 1 - e;
         nn = n * 2 ^ nat sh;
         dd = d * 2 ^ nat (- sh);
         q = nn div dd;
         r = nn mod dd
     in (if 2 * r > dd \<or> 2 * r = dd \<and> odd q then q + 1 else q, e))"

text \<open>The single-precision value of a quotient that is zero or in the normal range.\<close>

definition f32_ratio :: "int \<Rightarrow> int \<Rightarrow> u32" where
  "f32_ratio n d = (if n = 0 then 0 else
    (case round_ratio 24 n d of (q, e) \<Rightarrow> of_int ((e + 127) * 2 ^ 23 + (q - 2 ^ 23))))"

text \<open>The quotient in double precision, then converted to single precision.\<close>

definition f32_of_f64_ratio :: "int \<Rightarrow> int \<Rightarrow> u32" where
  "f32_of_f64_ratio n d = (if n = 0 then 0 else
    (case round_ratio 53 n d of (q, e) \<Rightarrow> f32_ratio (q * 2 ^ nat (e - 52)) (2 ^ nat (52 - e))))"

definition f32_int_ratio :: "int \<Rightarrow> int \<Rightarrow> u32" where
  "f32_int_ratio i d = (if i < 0 then 0x80000000 OR f32_ratio (- i) d else f32_ratio i d)"

abbreviation (input) f32_1 :: u32 where "f32_1 \<equiv> 0x3F800000"
abbreviation (input) f32_minus_1 :: u32 where "f32_minus_1 \<equiv> 0xBF800000"

text \<open>\<open>MAX(-1.0f, (float)i / d)\<close>\<close>

definition f32_snorm :: "int \<Rightarrow> int \<Rightarrow> u32" where
  "f32_snorm i d = (if i < - d then f32_minus_1 else f32_int_ratio i d)"

text \<open>\<open>(float)(int16_t)w\<close>, \<open>(w & 0xFF) / 255.0f\<close> and \<open>(w & 0xFF) / 255.0\<close>\<close>

definition f32_s16 :: "u32 \<Rightarrow> u32" where
  "f32_s16 w = f32_int_ratio (sint (ucast w :: u16)) 1"

definition f32_ub :: "u32 \<Rightarrow> u32" where
  "f32_ub w = f32_ratio (uint (w AND 0xFF)) 255"

definition f32_ub_double :: "u32 \<Rightarrow> u32" where
  "f32_ub_double w = f32_of_f64_ratio (uint (w AND 0xFF)) 255"

section \<open>Inline buffers\<close>

abbreviation (input) INLINE_BUFFER_SIZE :: nat where "INLINE_BUFFER_SIZE \<equiv> 4 * NV2A_MAX_BATCH_LENGTH"

text \<open>\<open>memcpy\<close> of four components to vertex \<open>i\<close> of an inline buffer.\<close>

definition memcpy4 :: "(nat \<Rightarrow> u32) \<Rightarrow> nat \<Rightarrow> (nat \<Rightarrow> u32) \<Rightarrow> (nat \<Rightarrow> u32) res" where
  "memcpy4 buf i v = (if i * 4 + 4 \<le> INLINE_BUFFER_SIZE
    then Inr (\<lambda>j. if i * 4 \<le> j \<and> j < i * 4 + 4 then v (j - i * 4) else buf j) else Inl Out_of_bounds)"

definition get_attr :: "PGRAPHState \<Rightarrow> nat \<Rightarrow> VertexAttribute res" where
  "get_attr pg a = arr_get NV2A_VERTEXSHADER_ATTRIBUTES (pg_vertex_attributes pg) a"

definition put_attr :: "nat \<Rightarrow> VertexAttribute \<Rightarrow> PGRAPHState \<Rightarrow> PGRAPHState" where
  "put_attr a attribute pg = pg\<lparr>pg_vertex_attributes := (pg_vertex_attributes pg)(a := attribute)\<rparr>"

definition pgraph_allocate_inline_buffer_vertices :: "nat \<Rightarrow> PGRAPHState \<Rightarrow> PGRAPHState res" where
  "pgraph_allocate_inline_buffer_vertices a pg =
    res_bind (get_attr pg a) (\<lambda>attribute.
      if va_inline_buffer_populated attribute \<or> pg_inline_buffer_length pg = 0 then Inr pg
      else res_bind (fold_res (\<lambda>i buf. memcpy4 buf i (va_inline_value attribute))
             [0..<unat (pg_inline_buffer_length pg)] (va_inline_buffer attribute)) (\<lambda>buf.
        Inr (put_attr a (attribute\<lparr>va_inline_buffer_populated := True, va_inline_buffer := buf\<rparr>) pg)))"

definition finish_attr :: "nat \<Rightarrow> PGRAPHState \<Rightarrow> PGRAPHState res" where
  "finish_attr i pg =
    (let attribute = pg_vertex_attributes pg i in
     if va_inline_buffer_populated attribute
     then res_bind (memcpy4 (va_inline_buffer attribute) (unat (pg_inline_buffer_length pg)) (va_inline_value attribute)) (\<lambda>buf.
       Inr (put_attr i (attribute\<lparr>va_inline_buffer := buf\<rparr>) pg))
     else Inr pg)"

definition pgraph_finish_inline_buffer_vertex :: "PGRAPHState \<Rightarrow> PGRAPHState res" where
  "pgraph_finish_inline_buffer_vertex pg =
    res_bind (assert_res (unat (pg_inline_buffer_length pg) < NV2A_MAX_BATCH_LENGTH)) (\<lambda>_.
    res_bind (fold_res finish_attr [0..<NV2A_VERTEXSHADER_ATTRIBUTES] pg) (\<lambda>pg.
      Inr (pg\<lparr>pg_inline_buffer_length := pg_inline_buffer_length pg + 1\<rparr>)))"

definition pgraph_reset_draw_arrays :: "PGRAPHState \<Rightarrow> PGRAPHState" where
  "pgraph_reset_draw_arrays pg = pg\<lparr>pg_draw_arrays_length := 0, pg_draw_arrays_min_start := - 1,
    pg_draw_arrays_max_count := 0, pg_draw_arrays_prevent_connect := False\<rparr>"

definition pgraph_reset_inline_buffers :: "PGRAPHState \<Rightarrow> PGRAPHState" where
  "pgraph_reset_inline_buffers pg = pgraph_reset_draw_arrays
    (pg\<lparr>pg_inline_elements_length := 0, pg_inline_array_length := 0, pg_inline_buffer_length := 0\<rparr>)"

text \<open>The attribute value that vertex data in memory decodes to; \<open>mem\<close> gives the bytes at the data pointer.\<close>

definition data_s16 :: "(nat \<Rightarrow> u8) \<Rightarrow> nat \<Rightarrow> int" where
  "data_s16 mem i = sint (ucast (mem (2 * i)) OR push_bit 8 (ucast (mem (2 * i + 1))) :: u16)"

definition data_u32 :: "(nat \<Rightarrow> u8) \<Rightarrow> nat \<Rightarrow> u32" where
  "data_u32 mem i = ucast (mem (4 * i)) OR push_bit 8 (ucast (mem (4 * i + 1))) OR
    push_bit 16 (ucast (mem (4 * i + 2))) OR push_bit 24 (ucast (mem (4 * i + 3)))"

text \<open>\<open>memcpy\<close> of \<open>n\<close> bytes over the four components.\<close>

definition memcpy_value :: "(nat \<Rightarrow> u8) \<Rightarrow> nat \<Rightarrow> (nat \<Rightarrow> u32) \<Rightarrow> (nat \<Rightarrow> u32) res" where
  "memcpy_value mem n val = (if n \<le> 16
    then Inr (\<lambda>i. if i < 4 then
        data_u32 (\<lambda>k. if k < n then mem k else ucast (drop_bit (8 * (k mod 4)) (val (k div 4)))) i
      else val i)
    else Inl Out_of_bounds)"

definition signed_field :: "nat \<Rightarrow> u32 \<Rightarrow> int" where
  "signed_field n x = sint (if bit x (n - 1) then x OR NOT (mask n) else x)"

definition pgraph_update_inline_value :: "VertexAttribute \<Rightarrow> (nat \<Rightarrow> u8) \<Rightarrow> VertexAttribute res" where
  "pgraph_update_inline_value attr mem =
    res_bind (assert_res (va_count attr \<le> 4)) (\<lambda>_.
      let n = unat (va_count attr);
          dflt = (va_inline_value attr)(0 := 0, 1 := 0, 2 := 0, 3 := f32_1);
          each = (\<lambda>f. Inr (attr\<lparr>va_inline_value := fold (\<lambda>i v. v(i := f i)) [0..<n] dflt\<rparr>))
      in if va_format attr = NV097_SET_VERTEX_DATA_ARRAY_FORMAT_TYPE_UB_D3D \<or>
            va_format attr = NV097_SET_VERTEX_DATA_ARRAY_FORMAT_TYPE_UB_OGL
         then each (\<lambda>i. f32_ratio (uint (mem i)) 255)
         else if va_format attr = NV097_SET_VERTEX_DATA_ARRAY_FORMAT_TYPE_S1
         then each (\<lambda>i. f32_snorm (data_s16 mem i) 32767)
         else if va_format attr = NV097_SET_VERTEX_DATA_ARRAY_FORMAT_TYPE_F
         then res_bind (memcpy_value mem (unat (va_size attr * va_count attr)) dflt) (\<lambda>v. Inr (attr\<lparr>va_inline_value := v\<rparr>))
         else if va_format attr = NV097_SET_VERTEX_DATA_ARRAY_FORMAT_TYPE_S32K
         then each (\<lambda>i. f32_int_ratio (data_s16 mem i) 1)
         else if va_format attr = NV097_SET_VERTEX_DATA_ARRAY_FORMAT_TYPE_CMP
         then let val = data_u32 mem 0;
                  x = signed_field 11 (val AND 0x7FF);
                  y = signed_field 11 (drop_bit 11 val AND 0x7FF);
                  z = signed_field 10 (signed_drop_bit 22 val AND 0x7FF)
              in Inr (attr\<lparr>va_inline_value := dflt(0 := f32_snorm x 1023, 1 := f32_snorm y 1023, 2 := f32_snorm z 511)\<rparr>)
         else Inl Assertion)"

text \<open>The current values of the attributes selected by a bit mask, in order.\<close>

definition pgraph_get_inline_values :: "PGRAPHState \<Rightarrow> u16 \<Rightarrow> (nat \<Rightarrow> u32) list" where
  "pgraph_get_inline_values pg attrs =
    map (\<lambda>i. va_inline_value (pg_vertex_attributes pg i)) (filter (\<lambda>i. bit attrs i) [0..<NV2A_VERTEXSHADER_ATTRIBUTES])"

section \<open>Vertex-data methods\<close>

text \<open>
  Every vertex-data method allocates the buffer of its attribute, sets some components of the
  current value, and may complete a vertex.
\<close>

definition vertex_write :: "nat \<Rightarrow> (nat \<times> u32) list \<Rightarrow> bool \<Rightarrow> PGRAPHState \<Rightarrow> PGRAPHState res" where
  "vertex_write a ws fin pg =
    res_bind (pgraph_allocate_inline_buffer_vertices a pg) (\<lambda>pg.
    res_bind (get_attr pg a) (\<lambda>attribute.
    res_bind (fold_res (\<lambda>(c, v) val. arr_set 4 val c v) ws (va_inline_value attribute)) (\<lambda>val.
      let pg = put_attr a (attribute\<lparr>va_inline_value := val\<rparr>) pg in
      if fin then pgraph_finish_inline_buffer_vertex pg else Inr pg)))"

definition pgraph_NV097_SET_VERTEX3F_handler :: handler where
  "pgraph_NV097_SET_VERTEX3F_handler method parameter =
    (let slot = slot_of NV097_SET_VERTEX3F 4 method in
     vertex_write NV2A_VERTEX_ATTR_POSITION [(slot, parameter), (3, f32_1)] (slot = 2))"

definition pgraph_NV097_SET_VERTEX4F_handler :: handler where
  "pgraph_NV097_SET_VERTEX4F_handler method parameter =
    (let slot = slot_of NV097_SET_VERTEX4F 4 method in
     vertex_write NV2A_VERTEX_ATTR_POSITION [(slot, parameter)] (slot = 3))"

definition pgraph_NV097_SET_FOG_COORD_handler :: handler where
  "pgraph_NV097_SET_FOG_COORD_handler method parameter =
    (vertex_write NV2A_VERTEX_ATTR_FOG [(0, parameter), (1, parameter), (2, parameter), (3, parameter)] False)"

definition pgraph_NV097_SET_WEIGHT1F_handler :: handler where
  "pgraph_NV097_SET_WEIGHT1F_handler method parameter =
    (vertex_write NV2A_VERTEX_ATTR_WEIGHT [(0, parameter), (1, 0), (2, 0), (3, f32_1)] False)"

definition f32_snorm16 :: "u32 \<Rightarrow> u32" where
  "f32_snorm16 w = f32_snorm (sint (ucast w :: u16)) 32767"

definition pgraph_NV097_SET_NORMAL3S_handler :: handler where
  "pgraph_NV097_SET_NORMAL3S_handler method parameter =
    (let slot = slot_of NV097_SET_NORMAL3S 4 method in
     let part = slot mod 2 in
     vertex_write NV2A_VERTEX_ATTR_NORMAL [(part * 2 + 0, f32_snorm16 parameter), (part * 2 + 1, f32_snorm16 (drop_bit 16 parameter))] False)"

definition SET_VERTEX_ATTRIBUTE_4S :: "u32 \<Rightarrow> nat \<Rightarrow> handler" where
  "SET_VERTEX_ATTRIBUTE_4S command a method parameter =
    (let part = slot_of command 4 method mod 2 in
     vertex_write a [(part * 2 + 0, f32_s16 parameter), (part * 2 + 1, f32_s16 (drop_bit 16 parameter))] False)"

definition pgraph_NV097_SET_TEXCOORD0_4S_handler :: handler where
  "pgraph_NV097_SET_TEXCOORD0_4S_handler = SET_VERTEX_ATTRIBUTE_4S NV097_SET_TEXCOORD0_4S NV2A_VERTEX_ATTR_TEXTURE0"

definition pgraph_NV097_SET_TEXCOORD1_4S_handler :: handler where
  "pgraph_NV097_SET_TEXCOORD1_4S_handler = SET_VERTEX_ATTRIBUTE_4S NV097_SET_TEXCOORD1_4S NV2A_VERTEX_ATTR_TEXTURE1"

definition pgraph_NV097_SET_TEXCOORD2_4S_handler :: handler where
  "pgraph_NV097_SET_TEXCOORD2_4S_handler = SET_VERTEX_ATTRIBUTE_4S NV097_SET_TEXCOORD2_4S NV2A_VERTEX_ATTR_TEXTURE2"

definition pgraph_NV097_SET_TEXCOORD3_4S_handler :: handler where
  "pgraph_NV097_SET_TEXCOORD3_4S_handler = SET_VERTEX_ATTRIBUTE_4S NV097_SET_TEXCOORD3_4S NV2A_VERTEX_ATTR_TEXTURE3"

definition SET_VERTEX_ATRIBUTE_TEX_2S :: "nat \<Rightarrow> handler" where
  "SET_VERTEX_ATRIBUTE_TEX_2S a method parameter =
    vertex_write a [(0, f32_s16 parameter), (1, f32_s16 (drop_bit 16 parameter)), (2, 0), (3, f32_1)] False"

definition pgraph_NV097_SET_TEXCOORD0_2S_handler :: handler where
  "pgraph_NV097_SET_TEXCOORD0_2S_handler = SET_VERTEX_ATRIBUTE_TEX_2S NV2A_VERTEX_ATTR_TEXTURE0"

definition pgraph_NV097_SET_TEXCOORD1_2S_handler :: handler where
  "pgraph_NV097_SET_TEXCOORD1_2S_handler = SET_VERTEX_ATRIBUTE_TEX_2S NV2A_VERTEX_ATTR_TEXTURE1"

definition pgraph_NV097_SET_TEXCOORD2_2S_handler :: handler where
  "pgraph_NV097_SET_TEXCOORD2_2S_handler = SET_VERTEX_ATRIBUTE_TEX_2S NV2A_VERTEX_ATTR_TEXTURE2"

definition pgraph_NV097_SET_TEXCOORD3_2S_handler :: handler where
  "pgraph_NV097_SET_TEXCOORD3_2S_handler = SET_VERTEX_ATRIBUTE_TEX_2S NV2A_VERTEX_ATTR_TEXTURE3"

definition SET_VERTEX_COLOR_3F :: "u32 \<Rightarrow> nat \<Rightarrow> handler" where
  "SET_VERTEX_COLOR_3F command a method parameter =
    vertex_write a [(slot_of command 4 method, parameter), (3, f32_1)] False"

definition pgraph_NV097_SET_DIFFUSE_COLOR3F_handler :: handler where
  "pgraph_NV097_SET_DIFFUSE_COLOR3F_handler = SET_VERTEX_COLOR_3F NV097_SET_DIFFUSE_COLOR3F NV2A_VERTEX_ATTR_DIFFUSE"

definition pgraph_NV097_SET_SPECULAR_COLOR3F_handler :: handler where
  "pgraph_NV097_SET_SPECULAR_COLOR3F_handler = SET_VERTEX_COLOR_3F NV097_SET_SPECULAR_COLOR3F NV2A_VERTEX_ATTR_SPECULAR"

definition SET_VERTEX_ATTRIBUTE_F :: "u32 \<Rightarrow> nat \<Rightarrow> handler" where
  "SET_VERTEX_ATTRIBUTE_F command a method parameter =
    vertex_write a [(slot_of command 4 method, parameter)] False"

definition pgraph_NV097_SET_NORMAL3F_handler :: handler where
  "pgraph_NV097_SET_NORMAL3F_handler = SET_VERTEX_ATTRIBUTE_F NV097_SET_NORMAL3F NV2A_VERTEX_ATTR_NORMAL"

definition pgraph_NV097_SET_DIFFUSE_COLOR4F_handler :: handler where
  "pgraph_NV097_SET_DIFFUSE_COLOR4F_handler = SET_VERTEX_ATTRIBUTE_F NV097_SET_DIFFUSE_COLOR4F NV2A_VERTEX_ATTR_DIFFUSE"

definition pgraph_NV097_SET_SPECULAR_COLOR4F_handler :: handler where
  "pgraph_NV097_SET_SPECULAR_COLOR4F_handler = SET_VERTEX_ATTRIBUTE_F NV097_SET_SPECULAR_COLOR4F NV2A_VERTEX_ATTR_SPECULAR"

definition pgraph_NV097_SET_TEXCOORD0_4F_handler :: handler where
  "pgraph_NV097_SET_TEXCOORD0_4F_handler = SET_VERTEX_ATTRIBUTE_F NV097_SET_TEXCOORD0_4F NV2A_VERTEX_ATTR_TEXTURE0"

definition pgraph_NV097_SET_TEXCOORD1_4F_handler :: handler where
  "pgraph_NV097_SET_TEXCOORD1_4F_handler = SET_VERTEX_ATTRIBUTE_F NV097_SET_TEXCOORD1_4F NV2A_VERTEX_ATTR_TEXTURE1"

definition pgraph_NV097_SET_TEXCOORD2_4F_handler :: handler where
  "pgraph_NV097_SET_TEXCOORD2_4F_handler = SET_VERTEX_ATTRIBUTE_F NV097_SET_TEXCOORD2_4F NV2A_VERTEX_ATTR_TEXTURE2"

definition pgraph_NV097_SET_TEXCOORD3_4F_handler :: handler where
  "pgraph_NV097_SET_TEXCOORD3_4F_handler = SET_VERTEX_ATTRIBUTE_F NV097_SET_TEXCOORD3_4F NV2A_VERTEX_ATTR_TEXTURE3"

definition pgraph_NV097_SET_WEIGHT4F_handler :: handler where
  "pgraph_NV097_SET_WEIGHT4F_handler = SET_VERTEX_ATTRIBUTE_F NV097_SET_WEIGHT4F NV2A_VERTEX_ATTR_WEIGHT"

definition pgraph_NV097_SET_WEIGHT2F_handler :: handler where
  "pgraph_NV097_SET_WEIGHT2F_handler method parameter =
    (let slot = slot_of NV097_SET_WEIGHT2F 4 method in
     vertex_write NV2A_VERTEX_ATTR_WEIGHT [(slot, parameter), (2, 0), (3, f32_1)] False)"

definition pgraph_NV097_SET_WEIGHT3F_handler :: handler where
  "pgraph_NV097_SET_WEIGHT3F_handler method parameter =
    (let slot = slot_of NV097_SET_WEIGHT3F 4 method in
     vertex_write NV2A_VERTEX_ATTR_WEIGHT [(slot, parameter), (3, f32_1)] False)"

definition SET_VERTEX_ATRIBUTE_TEX_2F :: "u32 \<Rightarrow> nat \<Rightarrow> handler" where
  "SET_VERTEX_ATRIBUTE_TEX_2F command a method parameter =
    vertex_write a [(slot_of command 4 method, parameter), (2, 0), (3, f32_1)] False"

definition pgraph_NV097_SET_TEXCOORD0_2F_handler :: handler where
  "pgraph_NV097_SET_TEXCOORD0_2F_handler = SET_VERTEX_ATRIBUTE_TEX_2F NV097_SET_TEXCOORD0_2F NV2A_VERTEX_ATTR_TEXTURE0"

definition pgraph_NV097_SET_TEXCOORD1_2F_handler :: handler where
  "pgraph_NV097_SET_TEXCOORD1_2F_handler = SET_VERTEX_ATRIBUTE_TEX_2F NV097_SET_TEXCOORD1_2F NV2A_VERTEX_ATTR_TEXTURE1"

definition pgraph_NV097_SET_TEXCOORD2_2F_handler :: handler where
  "pgraph_NV097_SET_TEXCOORD2_2F_handler = SET_VERTEX_ATRIBUTE_TEX_2F NV097_SET_TEXCOORD2_2F NV2A_VERTEX_ATTR_TEXTURE2"

definition pgraph_NV097_SET_TEXCOORD3_2F_handler :: handler where
  "pgraph_NV097_SET_TEXCOORD3_2F_handler = SET_VERTEX_ATRIBUTE_TEX_2F NV097_SET_TEXCOORD3_2F NV2A_VERTEX_ATTR_TEXTURE3"

definition SET_VERTEX_ATTRIBUTE_4UB :: "nat \<Rightarrow> handler" where
  "SET_VERTEX_ATTRIBUTE_4UB a method parameter =
    vertex_write a [(0, f32_ub parameter), (1, f32_ub (drop_bit 8 parameter)), (2, f32_ub (drop_bit 16 parameter)),
      (3, f32_ub (drop_bit 24 parameter))] False"

definition pgraph_NV097_SET_DIFFUSE_COLOR4UB_handler :: handler where
  "pgraph_NV097_SET_DIFFUSE_COLOR4UB_handler = SET_VERTEX_ATTRIBUTE_4UB NV2A_VERTEX_ATTR_DIFFUSE"

definition pgraph_NV097_SET_SPECULAR_COLOR4UB_handler :: handler where
  "pgraph_NV097_SET_SPECULAR_COLOR4UB_handler = SET_VERTEX_ATTRIBUTE_4UB NV2A_VERTEX_ATTR_SPECULAR"

definition pgraph_NV097_SET_VERTEX_DATA2F_M_handler :: handler where
  "pgraph_NV097_SET_VERTEX_DATA2F_M_handler method parameter =
    (let slot = slot_of NV097_SET_VERTEX_DATA2F_M 4 method in
     let part = slot mod 2; a = slot div 2 in
     vertex_write a [(part, parameter), (2, 0), (3, f32_1)] (a = 0 \<and> part = 1))"

definition pgraph_NV097_SET_VERTEX_DATA4F_M_handler :: handler where
  "pgraph_NV097_SET_VERTEX_DATA4F_M_handler method parameter =
    (let slot = slot_of NV097_SET_VERTEX_DATA4F_M 4 method in
     let part = slot mod 4; a = slot div 4 in
     vertex_write a [(part, parameter)] (a = 0 \<and> part = 3))"

definition pgraph_NV097_SET_VERTEX_DATA2S_handler :: handler where
  "pgraph_NV097_SET_VERTEX_DATA2S_handler method parameter =
    (let slot = slot_of NV097_SET_VERTEX_DATA2S 4 method in
     vertex_write slot [(0, f32_s16 parameter), (1, f32_s16 (drop_bit 16 parameter)), (2, 0), (3, f32_1)] (slot = 0))"

definition pgraph_NV097_SET_VERTEX_DATA4UB_handler :: handler where
  "pgraph_NV097_SET_VERTEX_DATA4UB_handler method parameter =
    (let slot = slot_of NV097_SET_VERTEX_DATA4UB 4 method in
     vertex_write slot [(0, f32_ub_double parameter), (1, f32_ub_double (drop_bit 8 parameter)),
       (2, f32_ub_double (drop_bit 16 parameter)), (3, f32_ub_double (drop_bit 24 parameter))] (slot = 0))"

definition pgraph_NV097_SET_VERTEX_DATA4S_M_handler :: handler where
  "pgraph_NV097_SET_VERTEX_DATA4S_M_handler method parameter =
    (let slot = slot_of NV097_SET_VERTEX_DATA4S_M 4 method in
     let part = slot mod 2; a = slot div 2 in
     vertex_write a [(part * 2 + 0, f32_s16 parameter), (part * 2 + 1, f32_s16 (drop_bit 16 parameter))] (a = 0 \<and> part = 1))"

section \<open>Lazy recording is recording\<close>

text \<open>Component \<open>c\<close> of attribute \<open>a\<close> at vertex \<open>k\<close> of the batch, as the renderers read it.\<close>

definition inline_vertex :: "PGRAPHState \<Rightarrow> nat \<Rightarrow> nat \<Rightarrow> nat \<Rightarrow> u32" where
  "inline_vertex pg k a c =
    (let attribute = pg_vertex_attributes pg a in
     if va_inline_buffer_populated attribute then va_inline_buffer attribute (k * 4 + c) else va_inline_value attribute c)"

definition current_value :: "PGRAPHState \<Rightarrow> nat \<Rightarrow> nat \<Rightarrow> u32" where
  "current_value pg a c = va_inline_value (pg_vertex_attributes pg a) c"

definition batch_ok :: "PGRAPHState \<Rightarrow> bool" where
  "batch_ok pg \<longleftrightarrow> unat (pg_inline_buffer_length pg) \<le> NV2A_MAX_BATCH_LENGTH"

lemma put_attr_simps [simp]:
  "pg_vertex_attributes (put_attr a x pg) = (pg_vertex_attributes pg)(a := x)"
  "pg_inline_buffer_length (put_attr a x pg) = pg_inline_buffer_length pg"
  by (simp_all add: put_attr_def)

lemma memcpy4_fold:
  assumes "n \<le> NV2A_MAX_BATCH_LENGTH"
  shows "\<exists>buf'. fold_res (\<lambda>i buf. memcpy4 buf i v) [0..<n] buf = Inr buf' \<and>
    (\<forall>j. buf' j = (if j < n * 4 then v (j mod 4) else buf j))"
  using assms
proof (induction n)
  case (Suc n)
  then obtain b where b: "fold_res (\<lambda>i buf. memcpy4 buf i v) [0..<n] buf = Inr b"
    "\<forall>j. b j = (if j < n * 4 then v (j mod 4) else buf j)" by auto
  have m: "j mod 4 = j - n * 4" if "n * 4 \<le> j" "j < n * 4 + 4" for j
    using that by (metis add.commute le_add_diff_inverse2 mod_less mod_mult_self2 mult.commute nat_add_left_cancel_less)
  show ?case using Suc.prems b m by (auto simp: fold_res_append memcpy4_def)
qed simp

lemma allocate_spec:
  assumes "a < 16" "batch_ok pg"
  shows "\<exists>pg'. pgraph_allocate_inline_buffer_vertices a pg = Inr pg' \<and>
    pg_inline_buffer_length pg' = pg_inline_buffer_length pg \<and> current_value pg' = current_value pg \<and>
    (\<forall>k < unat (pg_inline_buffer_length pg). \<forall>b. \<forall>c < 4. inline_vertex pg' k b c = inline_vertex pg k b c) \<and>
    (pg_inline_buffer_length pg = 0 \<or> va_inline_buffer_populated (pg_vertex_attributes pg' a))"
proof (cases "va_inline_buffer_populated (pg_vertex_attributes pg a) \<or> pg_inline_buffer_length pg = 0")
  case True
  with assms(1) show ?thesis by (auto simp: pgraph_allocate_inline_buffer_vertices_def get_attr_def)
next
  case False
  let ?at = "pg_vertex_attributes pg a"
  have "unat (pg_inline_buffer_length pg) \<le> NV2A_MAX_BATCH_LENGTH" using assms(2) by (simp add: batch_ok_def)
  from memcpy4_fold [OF this, of "va_inline_value ?at" "va_inline_buffer ?at"] obtain buf where
    buf: "fold_res (\<lambda>i buf. memcpy4 buf i (va_inline_value ?at)) [0..<unat (pg_inline_buffer_length pg)] (va_inline_buffer ?at) = Inr buf"
      "\<forall>j. buf j = (if j < unat (pg_inline_buffer_length pg) * 4 then va_inline_value ?at (j mod 4) else va_inline_buffer ?at j)"
    by blast
  from False buf assms(1) show ?thesis
    by (auto simp: pgraph_allocate_inline_buffer_vertices_def get_attr_def current_value_def inline_vertex_def fun_eq_iff)
qed

lemma finish_attrs:
  assumes "unat (pg_inline_buffer_length pg) < NV2A_MAX_BATCH_LENGTH"
  shows "\<exists>pg'. fold_res finish_attr [0..<n] pg = Inr pg' \<and> pg_inline_buffer_length pg' = pg_inline_buffer_length pg \<and>
    (\<forall>b. pg_vertex_attributes pg' b =
      (let at = pg_vertex_attributes pg b; l = unat (pg_inline_buffer_length pg) in
       if b < n \<and> va_inline_buffer_populated at
       then at\<lparr>va_inline_buffer := \<lambda>j. if l * 4 \<le> j \<and> j < l * 4 + 4 then va_inline_value at (j - l * 4)
         else va_inline_buffer at j\<rparr> else at))"
proof (induction n)
  case (Suc n)
  then obtain p where p: "fold_res finish_attr [0..<n] pg = Inr p" "pg_inline_buffer_length p = pg_inline_buffer_length pg"
    "\<forall>b. pg_vertex_attributes p b =
      (let at = pg_vertex_attributes pg b; l = unat (pg_inline_buffer_length pg) in
       if b < n \<and> va_inline_buffer_populated at
       then at\<lparr>va_inline_buffer := \<lambda>j. if l * 4 \<le> j \<and> j < l * 4 + 4 then va_inline_value at (j - l * 4)
         else va_inline_buffer at j\<rparr> else at)" by blast
  have n: "pg_vertex_attributes p n = pg_vertex_attributes pg n" using p(3) by (simp add: Let_def)
  have "finish_attr n p = Inr (if va_inline_buffer_populated (pg_vertex_attributes pg n)
      then put_attr n ((pg_vertex_attributes pg n)\<lparr>va_inline_buffer := \<lambda>j.
        if unat (pg_inline_buffer_length pg) * 4 \<le> j \<and> j < unat (pg_inline_buffer_length pg) * 4 + 4
        then va_inline_value (pg_vertex_attributes pg n) (j - unat (pg_inline_buffer_length pg) * 4)
        else va_inline_buffer (pg_vertex_attributes pg n) j\<rparr>) p else p)"
    using assms p(2) by (simp add: finish_attr_def n memcpy4_def Let_def)
  with p show ?case by (auto simp: fold_res_append Let_def less_Suc_eq n)
qed simp

lemma finish_spec:
  assumes "unat (pg_inline_buffer_length pg) < NV2A_MAX_BATCH_LENGTH"
  shows "\<exists>pg'. pgraph_finish_inline_buffer_vertex pg = Inr pg' \<and>
    unat (pg_inline_buffer_length pg') = Suc (unat (pg_inline_buffer_length pg)) \<and> current_value pg' = current_value pg \<and>
    (\<forall>k < unat (pg_inline_buffer_length pg). \<forall>a < 16. \<forall>c < 4. inline_vertex pg' k a c = inline_vertex pg k a c) \<and>
    (\<forall>a < 16. \<forall>c < 4. inline_vertex pg' (unat (pg_inline_buffer_length pg)) a c = current_value pg a c)"
proof -
  let ?l = "pg_inline_buffer_length pg"
  have l: "unat (?l + 1) = Suc (unat ?l)" using assms by (subst unat_add_lem [THEN iffD1]) simp_all
  from finish_attrs [OF assms, of 16] obtain p where
    p: "fold_res finish_attr [0..<16] pg = Inr p" "pg_inline_buffer_length p = ?l"
    "\<forall>b. pg_vertex_attributes p b =
      (let at = pg_vertex_attributes pg b; l = unat ?l in
       if b < 16 \<and> va_inline_buffer_populated at
       then at\<lparr>va_inline_buffer := \<lambda>j. if l * 4 \<le> j \<and> j < l * 4 + 4 then va_inline_value at (j - l * 4)
         else va_inline_buffer at j\<rparr> else at)" by blast
  then show ?thesis using assms l
    by (auto simp: pgraph_finish_inline_buffer_vertex_def current_value_def inline_vertex_def Let_def fun_eq_iff)
qed

text \<open>The reference: the current attribute values and the snapshot of all of them at every vertex.\<close>

type_synonym vertex_log = "(nat \<Rightarrow> nat \<Rightarrow> u32) \<times> (nat \<Rightarrow> nat \<Rightarrow> u32) list"

fun spec_write :: "nat \<times> (nat \<times> u32) list \<times> bool \<Rightarrow> vertex_log \<Rightarrow> vertex_log" where
  "spec_write (a, ws, fin) (cur, recs) =
    (let cur = cur(a := fold (\<lambda>(c, v) val. val(c := v)) ws (cur a)) in (cur, if fin then recs @ [cur] else recs))"

definition records :: "PGRAPHState \<Rightarrow> vertex_log \<Rightarrow> bool" where
  "records pg lg \<longleftrightarrow> batch_ok pg \<and> current_value pg = fst lg \<and> length (snd lg) = unat (pg_inline_buffer_length pg) \<and>
    (\<forall>k < length (snd lg). \<forall>a < 16. \<forall>c < 4. inline_vertex pg k a c = (snd lg ! k) a c)"

fun write_ok :: "nat \<times> (nat \<times> u32) list \<times> bool \<Rightarrow> bool" where
  "write_ok (a, ws, fin) \<longleftrightarrow> a < 16 \<and> (\<forall>w \<in> set ws. fst w < 4)"

lemma set_components:
  "\<forall>w \<in> set ws. fst w < 4 \<Longrightarrow>
    fold_res (\<lambda>(c, v) val. arr_set 4 val c v) ws val = Inr (fold (\<lambda>(c, v) val. val(c := v)) ws val)"
  by (induction ws arbitrary: val) auto

lemma vertex_write_records:
  assumes "records pg lg" "write_ok (a, ws, fin)" "fin \<Longrightarrow> length (snd lg) < NV2A_MAX_BATCH_LENGTH"
  shows "\<exists>pg'. vertex_write a ws fin pg = Inr pg' \<and> records pg' (spec_write (a, ws, fin) lg)"
proof -
  obtain cur recs where lg: "lg = (cur, recs)" by (cases lg)
  have a: "a < 16" and ws: "\<forall>w \<in> set ws. fst w < 4" using assms(2) by auto
  have r: "batch_ok pg" "current_value pg = cur" "length recs = unat (pg_inline_buffer_length pg)"
    "\<forall>k < length recs. \<forall>b < 16. \<forall>c < 4. inline_vertex pg k b c = (recs ! k) b c"
    using assms(1) by (auto simp: records_def lg)
  from allocate_spec [OF a r(1)] obtain p where
    p: "pgraph_allocate_inline_buffer_vertices a pg = Inr p" "pg_inline_buffer_length p = pg_inline_buffer_length pg"
      "current_value p = cur"
      "\<forall>k < length recs. \<forall>b < 16. \<forall>c < 4. inline_vertex p k b c = (recs ! k) b c"
      "recs = [] \<or> va_inline_buffer_populated (pg_vertex_attributes p a)"
    using r by (auto simp: unat_eq_0)
  let ?v = "fold (\<lambda>(c, v) val. val(c := v)) ws (cur a)"
  let ?q = "put_attr a ((pg_vertex_attributes p a)\<lparr>va_inline_value := ?v\<rparr>) p"
  have va: "va_inline_value (pg_vertex_attributes p a) = cur a"
    using p(3) by (auto simp: current_value_def fun_eq_iff)
  have w: "vertex_write a ws fin pg = (if fin then pgraph_finish_inline_buffer_vertex ?q else Inr ?q)"
    using p(1) a by (simp add: vertex_write_def get_attr_def set_components [OF ws] va Let_def)
  have "inline_vertex ?q k b c = inline_vertex p k b c" if "k < length recs" for k b c
    using p(5) that by (auto simp: inline_vertex_def Let_def)
  then have q: "current_value ?q = cur(a := ?v)" "pg_inline_buffer_length ?q = pg_inline_buffer_length pg"
    "\<forall>k < length recs. \<forall>b < 16. \<forall>c < 4. inline_vertex ?q k b c = (recs ! k) b c"
    using p(2-4) by (auto simp: current_value_def fun_eq_iff)
  show ?thesis
  proof (cases fin)
    case False
    with q r(1,3) w show ?thesis by (auto simp: records_def lg batch_ok_def Let_def)
  next
    case True
    then have l: "unat (pg_inline_buffer_length ?q) < NV2A_MAX_BATCH_LENGTH" using assms(3) r(3) q(2) by (simp add: lg)
    let ?n = "unat (pg_inline_buffer_length pg)"
    from finish_spec [OF l] obtain f where f: "pgraph_finish_inline_buffer_vertex ?q = Inr f"
      "unat (pg_inline_buffer_length f) = Suc ?n" "current_value f = cur(a := ?v)"
      "\<forall>k < ?n. \<forall>b < 16. \<forall>c < 4. inline_vertex f k b c = inline_vertex ?q k b c"
      "\<forall>b < 16. \<forall>c < 4. inline_vertex f ?n b c = (cur(a := ?v)) b c"
      unfolding q(1,2) by blast
    have "inline_vertex f k b c = ((recs @ [cur(a := ?v)]) ! k) b c" if "k < Suc ?n" "b < 16" "c < 4" for k b c
    proof (cases "k = ?n")
      case True
      then show ?thesis using f(5) that r(3) by (simp add: nth_append)
    next
      case False
      then show ?thesis using f(4) q(3) that r(3) by (simp add: nth_append)
    qed
    then have "records f (spec_write (a, ws, fin) lg)"
      using True f(2,3) l r(3) q(2) by (simp add: records_def lg batch_ok_def Let_def)
    then show ?thesis using w True f(1) by simp
  qed
qed

lemma spec_write_length: "length (snd lg) \<le> length (snd (fold spec_write ops lg))"
proof (induction ops arbitrary: lg)
  case (Cons op ops)
  obtain a ws fin cur recs where "op = (a, ws, fin)" "lg = (cur, recs)" by (cases op; cases lg)
  then have "length (snd lg) \<le> length (snd (spec_write op lg))" by (simp add: Let_def)
  also have "\<dots> \<le> length (snd (fold spec_write ops (spec_write op lg)))" by (rule Cons.IH)
  finally show ?case by simp
qed simp

text \<open>
  C17.  Whatever vertex-data methods are sent, as long as the batch does not exceed its maximum
  length, what the renderers read for every vertex and attribute (the attribute's buffer if it
  was populated, otherwise its current value) is the value the attribute had when that vertex was
  completed.
\<close>

theorem inline_vertices_recorded:
  assumes "records pg lg" and "\<forall>op \<in> set ops. write_ok op"
    and "length (snd (fold spec_write ops lg)) \<le> NV2A_MAX_BATCH_LENGTH"
  shows "\<exists>pg'. fold_res (\<lambda>(a, ws, fin). vertex_write a ws fin) ops pg = Inr pg' \<and> records pg' (fold spec_write ops lg)"
  using assms
proof (induction ops arbitrary: pg lg)
  case (Cons op ops)
  obtain a ws fin where op: "op = (a, ws, fin)" by (cases op)
  obtain cur recs where lg: "lg = (cur, recs)" by (cases lg)
  have "length (snd lg) < NV2A_MAX_BATCH_LENGTH" if fin
    using that Cons.prems(3) spec_write_length [of "spec_write op lg" ops] by (simp add: op lg Let_def)
  with Cons.prems(1,2) obtain p where
    p: "vertex_write a ws fin pg = Inr p" "records p (spec_write op lg)"
    using vertex_write_records [of pg lg a ws fin] by (auto simp: op)
  from Cons.IH [OF p(2)] Cons.prems(2,3) p(1) show ?case by (simp add: op)
qed simp

definition vertex_demo :: "(nat \<times> (nat \<times> u32) list \<times> bool) list" where
  "vertex_demo = [(3, [(0, 7)], False), (0, [(0, 1)], True), (3, [(0, 8)], False), (0, [(0, 2)], True)]"

theorem inline_vertices_recorded_witness:
  "\<exists>pg'. fold_res (\<lambda>(a, ws, fin). vertex_write a ws fin) vertex_demo zero_PGRAPHState = Inr pg' \<and>
    inline_vertex pg' 0 3 0 = 7 \<and> inline_vertex pg' 1 3 0 = 8 \<and> inline_vertex pg' 0 0 0 = 1"
proof -
  have r: "records zero_PGRAPHState (\<lambda>_ _. 0, [])"
    by (simp add: records_def batch_ok_def current_value_def fun_eq_iff zero_PGRAPHState_def zero_VertexAttribute_def)
  have lg: "snd (fold spec_write vertex_demo (\<lambda>_ _. 0, [])) =
      [(\<lambda>_ _. 0)(3 := (\<lambda>_. 0)(0 := 7), 0 := (\<lambda>_. 0)(0 := 1)), (\<lambda>_ _. 0)(3 := (\<lambda>_. 0)(0 := 8), 0 := (\<lambda>_. 0)(0 := 2))]"
    by (simp add: vertex_demo_def Let_def fun_upd_twist)
  have "\<exists>pg'. fold_res (\<lambda>(a, ws, fin). vertex_write a ws fin) vertex_demo zero_PGRAPHState = Inr pg' \<and>
      records pg' (fold spec_write vertex_demo (\<lambda>_ _. 0, []))"
    by (rule inline_vertices_recorded [OF r]) (simp_all only: lg, simp_all add: vertex_demo_def)
  then show ?thesis by (auto simp: records_def lg)
qed

section \<open>Byte components\<close>

definition byte_component_ok :: "int \<Rightarrow> bool" where
  "byte_component_ok n = (let r = f32_ratio n 255 in
    f32_of_f64_ratio n 255 = r \<and> r \<le> f32_1 \<and> (r = 0 \<longleftrightarrow> n = 0) \<and> (r = f32_1 \<longleftrightarrow> n = 255))"

lemma list_all_upto: "list_all P [a..b] \<longleftrightarrow> (\<forall>n. a \<le> n \<and> n \<le> b \<longrightarrow> P n)"
  by (simp add: list_all_iff Ball_def)

lemma byte_components_0: "list_all byte_component_ok [0..63]"
  by code_simp

lemma byte_components_1: "list_all byte_component_ok [64..127]"
  by code_simp

lemma byte_components_2: "list_all byte_component_ok [128..191]"
  by code_simp

lemma byte_components_3: "list_all byte_component_ok [192..255]"
  by code_simp

lemmas byte_components_checked =
  byte_components_0 [unfolded list_all_upto] byte_components_1 [unfolded list_all_upto] byte_components_2 [unfolded list_all_upto]
  byte_components_3 [unfolded list_all_upto]

text \<open>
  C18.  A colour byte becomes the same single-precision value on the path that divides in single
  precision and on the one that divides in double precision and converts; the value never exceeds
  1.0, is 0.0 exactly for byte 0 and 1.0 exactly for byte 255.
\<close>

theorem byte_components:
  "f32_ub_double w = f32_ub w \<and> f32_ub w \<le> f32_1 \<and> (f32_ub w = 0 \<longleftrightarrow> w AND 0xFF = 0) \<and>
   (f32_ub w = f32_1 \<longleftrightarrow> w AND 0xFF = 0xFF)"
proof -
  let ?n = "uint (w AND 0xFF)"
  have "w AND 0xFF \<le> 0xFF" by (rule word_and_le1)
  then have "?n \<le> 255" by (simp add: word_le_def)
  then consider "0 \<le> ?n \<and> ?n \<le> 63" | "64 \<le> ?n \<and> ?n \<le> 127" | "128 \<le> ?n \<and> ?n \<le> 191" | "192 \<le> ?n \<and> ?n \<le> 255"
    using uint_ge_0 [of "w AND 0xFF"] by linarith
  then have "byte_component_ok ?n"
    by cases (use byte_components_checked in blast)+
  moreover have "?n = 0 \<longleftrightarrow> w AND 0xFF = 0" "?n = 255 \<longleftrightarrow> w AND 0xFF = 0xFF"
    using word_uint_eq_iff [of "w AND 0xFF" 0] word_uint_eq_iff [of "w AND 0xFF" "0xFF"] by simp_all
  ultimately show ?thesis by (simp add: byte_component_ok_def f32_ub_def f32_ub_double_def Let_def)
qed

end
