(* ===== verification/PGRAPH_Draw.thy ===== *)
theory PGRAPH_Draw
  imports PGRAPH_Vertex
begin

text \<open>
  The renderer interface of \<open>hw/xbox/nv2a/pgraph/pgraph.h\<close>, the null renderer of
  \<open>pgraph/null/renderer.c\<close>, and the Kelvin methods of \<open>pgraph.c\<close> that draw, wait or call a renderer.
  A renderer is a record of state transformers.  The vertex-program interpreter that
  \<open>LAUNCH_TRANSFORM_PROGRAM\<close> calls is a separate library, and the rounding of the power
  reconstruction depends on how the host contracts multiply-adds; both are fields of the
  environment.
\<close>

section \<open>Renderers\<close>

record PGRAPHRenderer =
  clear_report_value :: "NV2AState \<Rightarrow> NV2AState res"
  clear_surface :: "NV2AState \<Rightarrow> u32 \<Rightarrow> NV2AState res"
  draw_begin :: "NV2AState \<Rightarrow> NV2AState res"
  draw_end :: "NV2AState \<Rightarrow> NV2AState res"
  flip_stall :: "NV2AState \<Rightarrow> NV2AState res"
  flush_draw :: "NV2AState \<Rightarrow> NV2AState res"
  get_report :: "NV2AState \<Rightarrow> u32 \<Rightarrow> NV2AState res"
  image_blit :: "NV2AState \<Rightarrow> NV2AState res"
  process_pending :: "NV2AState \<Rightarrow> NV2AState res"
  process_pending_reports :: "NV2AState \<Rightarrow> NV2AState res"
  surface_update :: "NV2AState \<Rightarrow> bool \<Rightarrow> bool \<Rightarrow> bool \<Rightarrow> NV2AState res"

record pgraph_env =
  renderer :: PGRAPHRenderer
  vsh_execute :: "(nat \<Rightarrow> nat \<Rightarrow> u32) \<Rightarrow> nat \<Rightarrow> (nat \<Rightarrow> u32) \<Rightarrow> (nat \<Rightarrow> nat \<Rightarrow> u32) \<Rightarrow> (nat \<Rightarrow> bool) \<Rightarrow>
    ((nat \<Rightarrow> nat \<Rightarrow> u32) \<times> (nat \<Rightarrow> bool)) option"
  reconstruct_specular_power :: "(nat \<Rightarrow> u32) \<Rightarrow> u32"

definition pgraph_write_zpass_pixel_cnt_report :: "NV2AState \<Rightarrow> u32 \<Rightarrow> u32 \<Rightarrow> NV2AState res" where
  "pgraph_write_zpass_pixel_cnt_report d parameter result =
    res_bind (nv_dma_map d (pg_dma_report (pgraph d))) (\<lambda>(report, len).
      let offset = ucast (GET_MASK parameter NV097_GET_REPORT_OFFSET) :: u64;
          a = report + unat offset
      in res_bind (assert_res (offset < len)) (\<lambda>_.
         res_bind (stl_le (nv_vram d) a 0x44556677) (\<lambda>m.
         res_bind (stl_le m (a + 4) 0x00112233) (\<lambda>m.
         res_bind (stl_le m (a + 8) result) (\<lambda>m.
         res_bind (stl_le m (a + 12) 0) (\<lambda>m. Inr (d\<lparr>nv_vram := m\<rparr>)))))))"

definition pgraph_null_sync :: "NV2AState \<Rightarrow> NV2AState" where
  "pgraph_null_sync d = d\<lparr>pgraph := (pgraph d)\<lparr>pg_sync_pending := False\<rparr>\<rparr>"

definition pgraph_null_flush :: "NV2AState \<Rightarrow> NV2AState" where
  "pgraph_null_flush d = d\<lparr>pgraph := (pgraph d)\<lparr>pg_flush_pending := False\<rparr>\<rparr>"

definition pgraph_null_process_pending :: "NV2AState \<Rightarrow> NV2AState res" where
  "pgraph_null_process_pending d =
    (if pg_sync_pending (pgraph d) \<or> pg_flush_pending (pgraph d) then
       let d = (if pg_sync_pending (pgraph d) then pgraph_null_sync d else d);
           d = (if pg_flush_pending (pgraph d) then pgraph_null_flush d else d)
       in Inr d
     else Inr d)"

definition pgraph_null_get_report :: "NV2AState \<Rightarrow> u32 \<Rightarrow> NV2AState res" where
  "pgraph_null_get_report d parameter = pgraph_write_zpass_pixel_cnt_report d parameter 0"

definition pgraph_null_renderer :: PGRAPHRenderer where
  "pgraph_null_renderer = \<lparr>clear_report_value = Inr, clear_surface = (\<lambda>d p. Inr d), draw_begin = Inr, draw_end = Inr,
    flip_stall = Inr, flush_draw = Inr, get_report = pgraph_null_get_report, image_blit = Inr,
    process_pending = pgraph_null_process_pending, process_pending_reports = Inr,
    surface_update = (\<lambda>d u c z. Inr d)\<rparr>"

section \<open>Waiting, surfaces and reports\<close>

type_synonym dev_handler = "pgraph_env \<Rightarrow> u32 \<Rightarrow> u32 \<Rightarrow> u32 \<Rightarrow> NV2AState \<Rightarrow> NV2AState res"

abbreviation (input) update_surface :: "pgraph_env \<Rightarrow> NV2AState \<Rightarrow> NV2AState res" where
  "update_surface env d \<equiv> surface_update (renderer env) d False True True"

definition pgraph_NV097_NO_OPERATION_handler :: dev_handler where
  "pgraph_NV097_NO_OPERATION_handler env subchannel method parameter d =
    (if parameter = 0 then Inr d else
     res_bind (PG_GET_MASK (pgraph d) NV_PGRAPH_CTX_USER NV_PGRAPH_CTX_USER_CHID) (\<lambda>channel_id.
     res_bind (assert_res (pg_pending_interrupts (pgraph d) AND NV_PGRAPH_INTR_ERROR = 0)) (\<lambda>_.
     res_bind (on_pg (steps
       [PG_SET_MASK NV_PGRAPH_TRAPPED_ADDR NV_PGRAPH_TRAPPED_ADDR_CHID channel_id,
        PG_SET_MASK NV_PGRAPH_TRAPPED_ADDR NV_PGRAPH_TRAPPED_ADDR_SUBCH subchannel,
        PG_SET_MASK NV_PGRAPH_TRAPPED_ADDR NV_PGRAPH_TRAPPED_ADDR_MTHD method,
        pgraph_reg_w NV_PGRAPH_TRAPPED_DATA_LOW parameter,
        pgraph_reg_w NV_PGRAPH_NSOURCE NV_PGRAPH_NSOURCE_NOTIFICATION,
        (\<lambda>pg. Inr (pg\<lparr>pg_pending_interrupts := pg_pending_interrupts pg OR NV_PGRAPH_INTR_ERROR,
                        pg_waiting_for_nop := True\<rparr>))]) d) (\<lambda>d.
       Inr (nv2a_update_irq d)))))"

definition pgraph_NV097_WAIT_FOR_IDLE_handler :: dev_handler where
  "pgraph_NV097_WAIT_FOR_IDLE_handler env subchannel method parameter d = update_surface env d"

definition pgraph_NV097_FLIP_STALL_handler :: dev_handler where
  "pgraph_NV097_FLIP_STALL_handler env subchannel method parameter d =
    res_bind (update_surface env d) (\<lambda>d.
    res_bind (flip_stall (renderer env) d) (on_pg (\<lambda>pg. Inr (pg\<lparr>pg_waiting_for_flip := True\<rparr>))))"

definition pgraph_NV097_SET_CONTEXT_DMA_COLOR_handler :: dev_handler where
  "pgraph_NV097_SET_CONTEXT_DMA_COLOR_handler env subchannel method parameter d =
    res_bind (update_surface env d) (on_pg (\<lambda>pg.
      Inr (pg\<lparr>pg_dma_color := ucast parameter, pg_surface_color := (pg_surface_color pg)\<lparr>sf_buffer_dirty := True\<rparr>\<rparr>)))"

definition pgraph_NV097_SET_CONTEXT_DMA_REPORT_handler :: dev_handler where
  "pgraph_NV097_SET_CONTEXT_DMA_REPORT_handler env subchannel method parameter d =
    res_bind (process_pending_reports (renderer env) d) (on_pg (\<lambda>pg. Inr (pg\<lparr>pg_dma_report := ucast parameter\<rparr>)))"

definition pgraph_NV097_SET_SURFACE_CLIP_HORIZONTAL_handler :: dev_handler where
  "pgraph_NV097_SET_SURFACE_CLIP_HORIZONTAL_handler env subchannel method parameter d =
    res_bind (update_surface env d) (on_pg (\<lambda>pg. Inr (pg\<lparr>pg_surface_shape := (pg_surface_shape pg)
      \<lparr>ss_clip_x := GET_MASK parameter NV097_SET_SURFACE_CLIP_HORIZONTAL_X,
       ss_clip_width := GET_MASK parameter NV097_SET_SURFACE_CLIP_HORIZONTAL_WIDTH\<rparr>\<rparr>)))"

definition pgraph_NV097_SET_SURFACE_CLIP_VERTICAL_handler :: dev_handler where
  "pgraph_NV097_SET_SURFACE_CLIP_VERTICAL_handler env subchannel method parameter d =
    res_bind (update_surface env d) (on_pg (\<lambda>pg. Inr (pg\<lparr>pg_surface_shape := (pg_surface_shape pg)
      \<lparr>ss_clip_y := GET_MASK parameter NV097_SET_SURFACE_CLIP_VERTICAL_Y,
       ss_clip_height := GET_MASK parameter NV097_SET_SURFACE_CLIP_VERTICAL_HEIGHT\<rparr>\<rparr>)))"

definition pgraph_NV097_SET_SURFACE_FORMAT_handler :: dev_handler where
  "pgraph_NV097_SET_SURFACE_FORMAT_handler env subchannel method parameter d =
    res_bind (update_surface env d) (on_pg (\<lambda>pg.
      let pg = pg\<lparr>pg_surface_shape := (pg_surface_shape pg)
            \<lparr>ss_color_format := GET_MASK parameter NV097_SET_SURFACE_FORMAT_COLOR,
             ss_zeta_format := GET_MASK parameter NV097_SET_SURFACE_FORMAT_ZETA,
             ss_anti_aliasing := GET_MASK parameter NV097_SET_SURFACE_FORMAT_ANTI_ALIASING,
             ss_log_width := GET_MASK parameter NV097_SET_SURFACE_FORMAT_WIDTH,
             ss_log_height := GET_MASK parameter NV097_SET_SURFACE_FORMAT_HEIGHT\<rparr>\<rparr>;
          surface_type = GET_MASK parameter NV097_SET_SURFACE_FORMAT_TYPE
      in Inr (if surface_type \<noteq> pg_surface_type pg
           then pg\<lparr>pg_surface_type := surface_type,
                pg_surface_color := (pg_surface_color pg)\<lparr>sf_buffer_dirty := True\<rparr>,
                pg_surface_zeta := (pg_surface_zeta pg)\<lparr>sf_buffer_dirty := True\<rparr>\<rparr>
           else pg)))"

definition set_surface_pitch :: "u32 \<Rightarrow> Surface \<Rightarrow> Surface" where
  "set_surface_pitch p s = s\<lparr>sf_buffer_dirty := sf_buffer_dirty s \<or> sf_pitch s \<noteq> p, sf_pitch := p\<rparr>"

definition set_surface_offset :: "u32 \<Rightarrow> Surface \<Rightarrow> Surface" where
  "set_surface_offset p s = s\<lparr>sf_buffer_dirty := sf_buffer_dirty s \<or> sf_offset s \<noteq> ucast p, sf_offset := ucast p\<rparr>"

definition pgraph_NV097_SET_SURFACE_PITCH_handler :: dev_handler where
  "pgraph_NV097_SET_SURFACE_PITCH_handler env subchannel method parameter d =
    res_bind (update_surface env d) (on_pg (\<lambda>pg. Inr (pg
      \<lparr>pg_surface_color := set_surface_pitch (GET_MASK parameter NV097_SET_SURFACE_PITCH_COLOR) (pg_surface_color pg),
       pg_surface_zeta := set_surface_pitch (GET_MASK parameter NV097_SET_SURFACE_PITCH_ZETA) (pg_surface_zeta pg)\<rparr>)))"

definition pgraph_NV097_SET_SURFACE_COLOR_OFFSET_handler :: dev_handler where
  "pgraph_NV097_SET_SURFACE_COLOR_OFFSET_handler env subchannel method parameter d =
    res_bind (update_surface env d) (on_pg (\<lambda>pg.
      Inr (pg\<lparr>pg_surface_color := set_surface_offset parameter (pg_surface_color pg)\<rparr>)))"

definition pgraph_NV097_SET_SURFACE_ZETA_OFFSET_handler :: dev_handler where
  "pgraph_NV097_SET_SURFACE_ZETA_OFFSET_handler env subchannel method parameter d =
    res_bind (update_surface env d) (on_pg (\<lambda>pg.
      Inr (pg\<lparr>pg_surface_zeta := set_surface_offset parameter (pg_surface_zeta pg)\<rparr>)))"

definition pgraph_NV097_SET_CONTROL0_handler :: dev_handler where
  "pgraph_NV097_SET_CONTROL0_handler env subchannel method parameter d =
    res_bind (update_surface env d) (on_pg (steps
      [PG_SET_MASK NV_PGRAPH_CONTROL_0 NV_PGRAPH_CONTROL_0_STENCIL_WRITE_ENABLE
         (of_bool (parameter AND NV097_SET_CONTROL0_STENCIL_WRITE_ENABLE \<noteq> 0)),
       PG_SET_MASK NV_PGRAPH_SETUPRASTER NV_PGRAPH_SETUPRASTER_Z_FORMAT (GET_MASK parameter NV097_SET_CONTROL0_Z_FORMAT),
       PG_SET_MASK NV_PGRAPH_CONTROL_0 NV_PGRAPH_CONTROL_0_Z_PERSPECTIVE_ENABLE
         (of_bool (parameter AND NV097_SET_CONTROL0_Z_PERSPECTIVE_ENABLE \<noteq> 0))]))"

definition pgraph_NV097_CLEAR_REPORT_VALUE_handler :: dev_handler where
  "pgraph_NV097_CLEAR_REPORT_VALUE_handler env subchannel method parameter d = clear_report_value (renderer env) d"

definition pgraph_NV097_GET_REPORT_handler :: dev_handler where
  "pgraph_NV097_GET_REPORT_handler env subchannel method parameter d =
    res_bind (assert_res (take_bit 8 (GET_MASK parameter NV097_GET_REPORT_TYPE) = NV097_GET_REPORT_TYPE_ZPASS_PIXEL_CNT)) (\<lambda>_.
      get_report (renderer env) d parameter)"

definition pgraph_NV097_BACK_END_WRITE_SEMAPHORE_RELEASE_handler :: dev_handler where
  "pgraph_NV097_BACK_END_WRITE_SEMAPHORE_RELEASE_handler env subchannel method parameter d =
    res_bind (update_surface env d) (\<lambda>d.
    res_bind (pgraph_reg_r (pgraph d) NV_PGRAPH_SEMAPHOREOFFSET) (\<lambda>semaphore_offset.
    res_bind (nv_dma_map d (pg_dma_semaphore (pgraph d))) (\<lambda>(semaphore, len).
    res_bind (assert_res (ucast semaphore_offset < len)) (\<lambda>_.
    res_bind (stl_le (nv_vram d) (semaphore + unat semaphore_offset) parameter) (\<lambda>m. Inr (d\<lparr>nv_vram := m\<rparr>))))))"

definition pgraph_NV097_CLEAR_SURFACE_handler :: dev_handler where
  "pgraph_NV097_CLEAR_SURFACE_handler env subchannel method parameter d = clear_surface (renderer env) d parameter"

definition pgraph_NV097_LAUNCH_TRANSFORM_PROGRAM_handler :: dev_handler where
  "pgraph_NV097_LAUNCH_TRANSFORM_PROGRAM_handler env subchannel method parameter = on_pg (\<lambda>pg.
    res_bind (assert_res (unat parameter < NV2A_MAX_TRANSFORM_PROGRAM_LENGTH)) (\<lambda>_.
      case vsh_execute env (pg_program_data pg) (unat parameter) (pg_vertex_state_shader_v0 pg)
          (pg_vsh_constants pg) (pg_vsh_constants_dirty pg) of
        None \<Rightarrow> Inl Assertion
      | Some (constants, dirty) \<Rightarrow> Inr (pg\<lparr>pg_vsh_constants := constants, pg_vsh_constants_dirty := dirty\<rparr>)))"

definition pgraph_NV097_SET_SPECULAR_PARAMS_handler :: dev_handler where
  "pgraph_NV097_SET_SPECULAR_PARAMS_handler env subchannel method parameter = on_pg (\<lambda>pg.
    let slot = slot_of NV097_SET_SPECULAR_PARAMS 4 method in
    res_bind (arr_set 6 (pg_specular_params pg) slot parameter) (\<lambda>a.
      let pg = pg\<lparr>pg_specular_params := a\<rparr> in
      Inr (if slot = 5 then pg\<lparr>pg_specular_power := reconstruct_specular_power env a\<rparr> else pg)))"

definition pgraph_NV097_SET_SPECULAR_PARAMS_BACK_handler :: dev_handler where
  "pgraph_NV097_SET_SPECULAR_PARAMS_BACK_handler env subchannel method parameter = on_pg (\<lambda>pg.
    let slot = slot_of NV097_SET_SPECULAR_PARAMS_BACK 4 method in
    res_bind (arr_set 6 (pg_specular_params_back pg) slot parameter) (\<lambda>a.
      let pg = pg\<lparr>pg_specular_params_back := a\<rparr> in
      Inr (if slot = 5 then pg\<lparr>pg_specular_power_back := reconstruct_specular_power env a\<rparr> else pg)))"

section \<open>Drawing\<close>

definition pgraph_NV097_SET_BEGIN_END_handler :: dev_handler where
  "pgraph_NV097_SET_BEGIN_END_handler env subchannel method parameter d =
    (if parameter = NV097_SET_BEGIN_END_OP_END then
       (if pg_primitive_mode (pgraph d) = PRIM_TYPE_INVALID
        then Inr (d\<lparr>pgraph := pgraph_reset_inline_buffers (pgraph d)\<rparr>)
        else res_bind (draw_end (renderer env) d) (on_pg (\<lambda>pg.
          Inr ((pgraph_reset_inline_buffers pg)\<lparr>pg_primitive_mode := PRIM_TYPE_INVALID\<rparr>))))
     else
       (if pg_primitive_mode (pgraph d) \<noteq> PRIM_TYPE_INVALID then Inr d
        else res_bind (assert_res (parameter \<le> NV097_SET_BEGIN_END_OP_POLYGON)) (\<lambda>_.
          draw_begin (renderer env) (d\<lparr>pgraph := pgraph_reset_inline_buffers ((pgraph d)\<lparr>pg_primitive_mode := parameter\<rparr>)\<rparr>))))"

text \<open>\<open>pg->inline_elements[pg->inline_elements_length++] = v\<close>\<close>

definition push_element :: "u32 \<Rightarrow> PGRAPHState \<Rightarrow> PGRAPHState res" where
  "push_element v pg =
    res_bind (arr_set NV2A_MAX_BATCH_LENGTH (pg_inline_elements pg) (unat (pg_inline_elements_length pg)) v) (\<lambda>a.
      Inr (pg\<lparr>pg_inline_elements := a, pg_inline_elements_length := pg_inline_elements_length pg + 1\<rparr>))"

definition pgraph_expand_draw_arrays :: "pgraph_env \<Rightarrow> NV2AState \<Rightarrow> NV2AState res" where
  "pgraph_expand_draw_arrays env d =
    (let i = unat (pg_draw_arrays_length (pgraph d) - 1) in
     res_bind (arr_get NV2A_MAX_DRAW_ARRAYS (pg_draw_arrays_start (pgraph d)) i) (\<lambda>start.
     res_bind (arr_get NV2A_MAX_DRAW_ARRAYS (pg_draw_arrays_count (pgraph d)) i) (\<lambda>count.
     res_bind (if pg_draw_arrays_length (pgraph d) > 1
         then res_bind (flush_draw (renderer env) d) (on_pg (\<lambda>pg. Inr (pgraph_reset_inline_buffers pg)))
         else Inr d) (on_pg (\<lambda>pg.
     res_bind (assert_res (pg_inline_elements_length pg + count < of_nat NV2A_MAX_BATCH_LENGTH)) (\<lambda>_.
     res_bind (fold_res (\<lambda>i. push_element (start + of_nat i)) [0..<unat count] pg) (\<lambda>pg.
       Inr (pgraph_reset_draw_arrays pg))))))))"

definition expand_if_draw_arrays :: "pgraph_env \<Rightarrow> NV2AState \<Rightarrow> NV2AState res" where
  "expand_if_draw_arrays env d =
    (if pg_draw_arrays_length (pgraph d) \<noteq> 0 then pgraph_expand_draw_arrays env d else Inr d)"

definition assert_element_room :: "PGRAPHState \<Rightarrow> PGRAPHState res" where
  "assert_element_room pg =
    res_bind (assert_res (unat (pg_inline_elements_length pg) < NV2A_MAX_BATCH_LENGTH)) (\<lambda>_. Inr pg)"

definition pgraph_NV097_ARRAY_ELEMENT16_handler :: dev_handler where
  "pgraph_NV097_ARRAY_ELEMENT16_handler env subchannel method parameter d =
    res_bind (expand_if_draw_arrays env d) (on_pg (steps
      [assert_element_room, push_element (parameter AND 0xFFFF), push_element (drop_bit 16 parameter)]))"

definition pgraph_NV097_ARRAY_ELEMENT32_handler :: dev_handler where
  "pgraph_NV097_ARRAY_ELEMENT32_handler env subchannel method parameter d =
    res_bind (expand_if_draw_arrays env d) (on_pg (steps [assert_element_room, push_element parameter]))"

definition connects :: "u32 \<Rightarrow> PGRAPHState \<Rightarrow> bool" where
  "connects start pg \<longleftrightarrow> \<not> pg_draw_arrays_prevent_connect pg \<and> pg_draw_arrays_length pg > 0 \<and>
    (let i = unat (pg_draw_arrays_length pg - 1) in start = pg_draw_arrays_start pg i + pg_draw_arrays_count pg i)"

definition pgraph_NV097_DRAW_ARRAYS_handler :: handler where
  "pgraph_NV097_DRAW_ARRAYS_handler method parameter pg =
    (let start = GET_MASK parameter NV097_DRAW_ARRAYS_START_INDEX;
         count = GET_MASK parameter NV097_DRAW_ARRAYS_COUNT + 1
     in if pg_inline_elements_length pg \<noteq> 0 then
          res_bind (assert_res (pg_inline_elements_length pg + count < of_nat NV2A_MAX_BATCH_LENGTH)) (\<lambda>_.
          res_bind (assert_res (\<not> pg_draw_arrays_prevent_connect pg)) (\<lambda>_.
            fold_res (\<lambda>i. push_element (start + of_nat i)) [0..<unat count] pg))
        else
          let pg = pg\<lparr>pg_draw_arrays_min_start := min (pg_draw_arrays_min_start pg) start,
                      pg_draw_arrays_max_count := max (pg_draw_arrays_max_count pg) (start + count)\<rparr> in
          res_bind (assert_res (unat (pg_draw_arrays_length pg) < NV2A_MAX_DRAW_ARRAYS)) (\<lambda>_.
            if connects start pg then
              let i = unat (pg_draw_arrays_length pg - 1) in
              Inr (pg\<lparr>pg_draw_arrays_count := (pg_draw_arrays_count pg)(i := pg_draw_arrays_count pg i + count)\<rparr>)
            else
              let i = unat (pg_draw_arrays_length pg) in
              Inr (pg\<lparr>pg_draw_arrays_start := (pg_draw_arrays_start pg)(i := start),
                pg_draw_arrays_count := (pg_draw_arrays_count pg)(i := count),
                pg_draw_arrays_length := pg_draw_arrays_length pg + 1, pg_draw_arrays_prevent_connect := False\<rparr>)))"

definition pgraph_NV097_INLINE_ARRAY_handler :: handler where
  "pgraph_NV097_INLINE_ARRAY_handler method parameter pg =
    res_bind (assert_res (unat (pg_inline_array_length pg) < NV2A_MAX_BATCH_LENGTH)) (\<lambda>_.
    res_bind (arr_set NV2A_MAX_BATCH_LENGTH (pg_inline_array pg) (unat (pg_inline_array_length pg)) parameter) (\<lambda>a.
      Inr (pg\<lparr>pg_inline_array := a, pg_inline_array_length := pg_inline_array_length pg + 1\<rparr>)))"

section \<open>Clear values\<close>

definition pgraph_get_clear_color :: "PGRAPHState \<Rightarrow> (u32 \<times> u32 \<times> u32 \<times> u32) res" where
  "pgraph_get_clear_color pg =
    res_bind (pgraph_reg_r pg NV_PGRAPH_COLORCLEARVALUE) (\<lambda>c.
      let fmt = ss_color_format (pg_surface_shape pg);
          ch = (\<lambda>k w d. f32_ratio (uint (drop_bit k c AND w)) d)
      in res_bind
          (if fmt \<in> {NV097_SET_SURFACE_FORMAT_COLOR_LE_X1R5G5B5_Z1R5G5B5, NV097_SET_SURFACE_FORMAT_COLOR_LE_X1R5G5B5_O1R5G5B5}
           then Inr (ch 10 0x1F 31, ch 5 0x1F 31, ch 0 0x1F 31)
           else if fmt = NV097_SET_SURFACE_FORMAT_COLOR_LE_R5G6B5
           then Inr (ch 11 0x1F 31, ch 5 0x3F 63, ch 0 0x1F 31)
           else if fmt \<in> {NV097_SET_SURFACE_FORMAT_COLOR_LE_X8R8G8B8_Z8R8G8B8, NV097_SET_SURFACE_FORMAT_COLOR_LE_X8R8G8B8_O8R8G8B8,
             NV097_SET_SURFACE_FORMAT_COLOR_LE_X1A7R8G8B8_Z1A7R8G8B8, NV097_SET_SURFACE_FORMAT_COLOR_LE_X1A7R8G8B8_O1A7R8G8B8,
             NV097_SET_SURFACE_FORMAT_COLOR_LE_A8R8G8B8}
           then Inr (ch 16 0xFF 255, ch 8 0xFF 255, ch 0 0xFF 255)
           else Inl Assertion)
          (\<lambda>(r, g, b).
            if fmt \<in> {NV097_SET_SURFACE_FORMAT_COLOR_LE_X1A7R8G8B8_Z1A7R8G8B8, NV097_SET_SURFACE_FORMAT_COLOR_LE_X1A7R8G8B8_O1A7R8G8B8}
            then Inl Assertion
            else if fmt = NV097_SET_SURFACE_FORMAT_COLOR_LE_A8R8G8B8 then Inr (r, g, b, ch 24 0xFF 255)
            else Inr (r, g, b, f32_1)))"

section \<open>The vertex stream of a batch\<close>

text \<open>
  The indices a batch will draw, in order: the expanded index list, or the index ranges.
\<close>

definition range_indices :: "u32 \<Rightarrow> u32 \<Rightarrow> u32 list" where
  "range_indices start count = map (\<lambda>k. start + of_nat k) [0..<unat count]"

definition element_stream :: "PGRAPHState \<Rightarrow> u32 list" where
  "element_stream pg = map (pg_inline_elements pg) [0..<unat (pg_inline_elements_length pg)]"

definition range_stream :: "PGRAPHState \<Rightarrow> nat \<Rightarrow> u32 list" where
  "range_stream pg n = concat (map (\<lambda>i. range_indices (pg_draw_arrays_start pg i) (pg_draw_arrays_count pg i)) [0..<n])"

definition vertex_stream :: "PGRAPHState \<Rightarrow> u32 list" where
  "vertex_stream pg = element_stream pg @ range_stream pg (unat (pg_draw_arrays_length pg))"

definition batch_inv :: "PGRAPHState \<Rightarrow> bool" where
  "batch_inv pg \<longleftrightarrow> unat (pg_inline_array_length pg) \<le> NV2A_MAX_BATCH_LENGTH \<and>
    unat (pg_inline_elements_length pg) \<le> NV2A_MAX_BATCH_LENGTH \<and>
    unat (pg_inline_buffer_length pg) \<le> NV2A_MAX_BATCH_LENGTH \<and>
    unat (pg_draw_arrays_length pg) \<le> NV2A_MAX_DRAW_ARRAYS \<and>
    (pg_inline_elements_length pg \<noteq> 0 \<longrightarrow> pg_draw_arrays_length pg = 0) \<and>
    (\<forall>i < unat (pg_draw_arrays_length pg).
      unat (pg_draw_arrays_start pg i) + unat (pg_draw_arrays_count pg i) \<le> 2 ^ 25)"

lemma range_stream_cong:
  "(\<And>i. i < n \<Longrightarrow> s i = pg_draw_arrays_start pg i \<and> c i = pg_draw_arrays_count pg i) \<Longrightarrow>
    range_stream (pg\<lparr>pg_draw_arrays_start := s, pg_draw_arrays_count := c\<rparr>) n = range_stream pg n"
  by (auto simp: range_stream_def intro!: arg_cong [where f = concat])

lemma unat_inc: "unat w < n \<Longrightarrow> n < 2 ^ 32 \<Longrightarrow> unat (w + 1) = Suc (unat w)" for w :: u32
  by (subst unat_add_lem [THEN iffD1]) simp_all

lemma unat_dec: "w \<noteq> 0 \<Longrightarrow> unat (w - 1) = unat w - 1" for w :: u32
  by (simp add: unat_minus_one)

lemma push_element_Inr:
  assumes "unat (pg_inline_elements_length pg) < NV2A_MAX_BATCH_LENGTH"
  shows "\<exists>e. push_element v pg = Inr (pg\<lparr>pg_inline_elements := e, pg_inline_elements_length := pg_inline_elements_length pg + 1\<rparr>) \<and>
    map e [0..<Suc (unat (pg_inline_elements_length pg))] = element_stream pg @ [v]"
  using assms by (auto simp: push_element_def element_stream_def)

lemma elements_same:
  "pg\<lparr>pg_inline_elements := pg_inline_elements pg, pg_inline_elements_length := pg_inline_elements_length pg\<rparr> = pg"
  by (cases pg) simp

lemma push_elements:
  assumes "unat (pg_inline_elements_length pg) + n \<le> NV2A_MAX_BATCH_LENGTH"
  shows "\<exists>e. fold_res (\<lambda>i. push_element (f i)) [0..<n] pg =
      Inr (pg\<lparr>pg_inline_elements := e, pg_inline_elements_length := pg_inline_elements_length pg + of_nat n\<rparr>) \<and>
    map e [0..<unat (pg_inline_elements_length pg) + n] = element_stream pg @ map f [0..<n]"
  using assms
proof (induction n)
  case 0
  show ?case by (rule exI [of _ "pg_inline_elements pg"]) (simp add: element_stream_def elements_same)
next
  case (Suc n)
  then obtain e where e: "fold_res (\<lambda>i. push_element (f i)) [0..<n] pg =
      Inr (pg\<lparr>pg_inline_elements := e, pg_inline_elements_length := pg_inline_elements_length pg + of_nat n\<rparr>)"
    "map e [0..<unat (pg_inline_elements_length pg) + n] = element_stream pg @ map f [0..<n]" by auto
  let ?p = "pg\<lparr>pg_inline_elements := e, pg_inline_elements_length := pg_inline_elements_length pg + of_nat n\<rparr>"
  have l: "unat (pg_inline_elements_length pg + of_nat n) = unat (pg_inline_elements_length pg) + n"
    using Suc.prems by (subst unat_add_lem [THEN iffD1]) (simp_all add: unsigned_of_nat take_bit_nat_eq_self)
  from push_element_Inr [of ?p "f n"] l Suc.prems obtain e' where
    e': "push_element (f n) ?p = Inr (?p\<lparr>pg_inline_elements := e', pg_inline_elements_length := pg_inline_elements_length ?p + 1\<rparr>)"
      "map e' [0..<Suc (unat (pg_inline_elements_length pg) + n)] = element_stream ?p @ [f n]" by auto
  have st: "element_stream ?p = element_stream pg @ map f [0..<n]" using e(2) l by (simp add: element_stream_def)
  have len: "pg_inline_elements_length pg + of_nat n + 1 = pg_inline_elements_length pg + of_nat (Suc n)" by simp
  have "fold_res (\<lambda>i. push_element (f i)) [0..<Suc n] pg = Inr (pg\<lparr>pg_inline_elements := e',
      pg_inline_elements_length := pg_inline_elements_length pg + of_nat (Suc n)\<rparr>)"
    using e(1) e'(1) by (simp add: fold_res_append len del: of_nat_Suc)
  moreover have "map e' [0..<unat (pg_inline_elements_length pg) + Suc n] = element_stream pg @ map f [0..<Suc n]"
    using e'(2) st by simp
  ultimately show ?case by blast
qed

lemma range_indices_append:
  assumes "unat s + unat c < 2 ^ 32"
  shows "range_indices s c @ range_indices (s + c) c' = map (\<lambda>k. s + of_nat k) [0..<unat c + unat c']"
proof -
  have "map (\<lambda>k. s + of_nat k) [0..<unat c + unat c'] = range_indices s c @ map (\<lambda>k. s + of_nat k) [unat c..<unat c + unat c']"
    unfolding range_indices_def by (simp only: upt_add_eq_append [OF le0] map_append)
  moreover have "map (\<lambda>k. s + of_nat k) [unat c..<unat c + unat c'] = range_indices (s + c) c'"
    by (rule nth_equalityI) (simp_all add: range_indices_def add.assoc)
  ultimately show ?thesis by simp
qed

lemma range_indices_join:
  assumes "unat s + unat c < 2 ^ 32" "unat c + unat c' < 2 ^ 32"
  shows "range_indices s (c + c') = range_indices s c @ range_indices (s + c) c'"
  using range_indices_append [OF assms(1), of c'] assms(2)
  by (simp add: range_indices_def unat_add_lem [THEN iffD1])

lemma range_stream_Suc:
  "range_stream pg (Suc n) = range_stream pg n @ range_indices (pg_draw_arrays_start pg n) (pg_draw_arrays_count pg n)"
  by (simp add: range_stream_def)

lemma draw_mask_bounds:
  "unat (GET_MASK p NV097_DRAW_ARRAYS_START_INDEX) < 2 ^ 24" "unat (GET_MASK p NV097_DRAW_ARRAYS_COUNT) < 2 ^ 8"
proof -
  have "GET_MASK NV097_DRAW_ARRAYS_START_INDEX NV097_DRAW_ARRAYS_START_INDEX < 2 ^ 24"
    "GET_MASK NV097_DRAW_ARRAYS_COUNT NV097_DRAW_ARRAYS_COUNT < 2 ^ 8" by code_simp+
  then have "GET_MASK p NV097_DRAW_ARRAYS_START_INDEX < 2 ^ 24" "GET_MASK p NV097_DRAW_ARRAYS_COUNT < 2 ^ 8"
    using GET_MASK_le by (blast intro: le_less_trans)+
  then show "unat (GET_MASK p NV097_DRAW_ARRAYS_START_INDEX) < 2 ^ 24" "unat (GET_MASK p NV097_DRAW_ARRAYS_COUNT) < 2 ^ 8"
    by (simp_all add: word_less_nat_alt)
qed

lemma draw_count:
  "unat (GET_MASK p NV097_DRAW_ARRAYS_COUNT + 1) = Suc (unat (GET_MASK p NV097_DRAW_ARRAYS_COUNT))"
  "unat (GET_MASK p NV097_DRAW_ARRAYS_START_INDEX) + unat (GET_MASK p NV097_DRAW_ARRAYS_COUNT + 1) \<le> 2 ^ 25"
proof -
  show c: "unat (GET_MASK p NV097_DRAW_ARRAYS_COUNT + 1) = Suc (unat (GET_MASK p NV097_DRAW_ARRAYS_COUNT))"
    by (rule unat_inc [where n = "2 ^ 8"]) (use draw_mask_bounds(2) [of p] in simp_all)
  show "unat (GET_MASK p NV097_DRAW_ARRAYS_START_INDEX) + unat (GET_MASK p NV097_DRAW_ARRAYS_COUNT + 1) \<le> 2 ^ 25"
    unfolding c using draw_mask_bounds [of p] by simp
qed

lemma draw_elements:
  assumes "batch_inv pg" "pg_inline_elements_length pg \<noteq> 0" "unat count \<le> 2 ^ 25"
    "pg_inline_elements_length pg + count < of_nat NV2A_MAX_BATCH_LENGTH"
  shows "\<exists>pg'. fold_res (\<lambda>i. push_element (start + of_nat i)) [0..<unat count] pg = Inr pg' \<and> batch_inv pg' \<and>
    vertex_stream pg' = vertex_stream pg @ range_indices start count"
proof -
  have le: "unat (pg_inline_elements_length pg) \<le> NV2A_MAX_BATCH_LENGTH" using assms(1) by (simp add: batch_inv_def)
  then have u: "unat (pg_inline_elements_length pg + count) = unat (pg_inline_elements_length pg) + unat count"
    using assms(3) by (subst unat_add_lem [THEN iffD1]) simp_all
  then have b: "unat (pg_inline_elements_length pg) + unat count < NV2A_MAX_BATCH_LENGTH"
    using assms(4) by (simp add: word_less_nat_alt)
  from push_elements [of pg "unat count" "\<lambda>i. start + of_nat i"] b obtain e where
    e: "fold_res (\<lambda>i. push_element (start + of_nat i)) [0..<unat count] pg =
      Inr (pg\<lparr>pg_inline_elements := e, pg_inline_elements_length := pg_inline_elements_length pg + count\<rparr>)"
    "map e [0..<unat (pg_inline_elements_length pg) + unat count] = element_stream pg @ range_indices start count"
    by (auto simp: range_indices_def)
  have "pg_draw_arrays_length pg = 0" using assms(1,2) by (simp add: batch_inv_def)
  with e u b assms(1) show ?thesis
    by (auto simp: batch_inv_def vertex_stream_def element_stream_def range_stream_def)
qed

lemma draw_connect:
  assumes "batch_inv pg" "connects start pg" "unat start + unat count \<le> 2 ^ 25" "unat count \<le> 2 ^ 9"
    "pg_inline_elements_length pg = 0"
  shows "let i = unat (pg_draw_arrays_length pg - 1);
      pg' = pg\<lparr>pg_draw_arrays_count := (pg_draw_arrays_count pg)(i := pg_draw_arrays_count pg i + count)\<rparr>
    in batch_inv pg' \<and> vertex_stream pg' = vertex_stream pg @ range_indices start count"
proof -
  define n where "n = unat (pg_draw_arrays_length pg) - 1"
  have n: "unat (pg_draw_arrays_length pg) = Suc n" "unat (pg_draw_arrays_length pg - 1) = n"
    using assms(2) unat_dec [of "pg_draw_arrays_length pg"] by (auto simp: connects_def n_def unat_gt_0 word_neq_0_conv [symmetric])
  let ?s = "pg_draw_arrays_start pg n" and ?c = "pg_draw_arrays_count pg n"
  have b: "unat ?s + unat ?c \<le> 2 ^ 25" using assms(1) n(1) by (simp add: batch_inv_def)
  have st: "start = ?s + ?c" using assms(2) n(2) by (simp add: connects_def)
  have us: "unat start = unat ?s + unat ?c" unfolding st using b by (subst unat_add_lem [THEN iffD1]) simp_all
  have uc: "unat (?c + count) = unat ?c + unat count" using b assms(4) by (subst unat_add_lem [THEN iffD1]) simp_all
  let ?pg = "pg\<lparr>pg_draw_arrays_count := (pg_draw_arrays_count pg)(n := ?c + count)\<rparr>"
  have "range_stream ?pg n = range_stream pg n"
    using range_stream_cong [of n "pg_draw_arrays_start pg" pg "(pg_draw_arrays_count pg)(n := ?c + count)"]
    by (simp add: range_stream_def)
  moreover have "range_indices ?s (?c + count) = range_indices ?s ?c @ range_indices start count"
    unfolding st by (rule range_indices_join) (use b assms(4) in simp_all)
  ultimately have "vertex_stream ?pg = vertex_stream pg @ range_indices start count"
    using n(1) by (simp add: vertex_stream_def range_stream_Suc element_stream_def)
  moreover have "batch_inv ?pg" using assms(1,3) us uc n(1) by (auto simp: batch_inv_def)
  ultimately show ?thesis by (simp add: n(2) Let_def)
qed

lemma draw_append:
  assumes "batch_inv pg" "unat (pg_draw_arrays_length pg) < NV2A_MAX_DRAW_ARRAYS" "unat start + unat count \<le> 2 ^ 25"
    "pg_inline_elements_length pg = 0"
  shows "let i = unat (pg_draw_arrays_length pg);
      pg' = pg\<lparr>pg_draw_arrays_start := (pg_draw_arrays_start pg)(i := start),
        pg_draw_arrays_count := (pg_draw_arrays_count pg)(i := count),
        pg_draw_arrays_length := pg_draw_arrays_length pg + 1, pg_draw_arrays_prevent_connect := False\<rparr>
    in batch_inv pg' \<and> vertex_stream pg' = vertex_stream pg @ range_indices start count"
proof -
  let ?n = "unat (pg_draw_arrays_length pg)"
  have l: "unat (pg_draw_arrays_length pg + 1) = Suc ?n" by (rule unat_inc [OF assms(2)]) simp
  have "range_stream (pg\<lparr>pg_draw_arrays_start := (pg_draw_arrays_start pg)(?n := start),
      pg_draw_arrays_count := (pg_draw_arrays_count pg)(?n := count)\<rparr>) ?n = range_stream pg ?n"
    by (rule range_stream_cong) simp
  then show ?thesis using assms l
    by (auto simp: Let_def batch_inv_def vertex_stream_def element_stream_def range_stream_def)
qed

lemma draw_arrays_guarded:
  assumes "batch_inv pg"
  shows "guarded (\<lambda>pg'. batch_inv pg' \<and> vertex_stream pg' = vertex_stream pg @
      range_indices (GET_MASK p NV097_DRAW_ARRAYS_START_INDEX) (GET_MASK p NV097_DRAW_ARRAYS_COUNT + 1))
    (pgraph_NV097_DRAW_ARRAYS_handler m p pg)"
proof -
  let ?s = "GET_MASK p NV097_DRAW_ARRAYS_START_INDEX" and ?c = "GET_MASK p NV097_DRAW_ARRAYS_COUNT + 1"
  let ?pg = "pg\<lparr>pg_draw_arrays_min_start := min (pg_draw_arrays_min_start pg) ?s,
                      pg_draw_arrays_max_count := max (pg_draw_arrays_max_count pg) (?s + ?c)\<rparr>"
  have c: "unat ?c \<le> 2 ^ 9" "unat ?s + unat ?c \<le> 2 ^ 25" using draw_count [of p] draw_mask_bounds [of p] by simp_all
  have inv: "batch_inv ?pg" "vertex_stream ?pg = vertex_stream pg"
    using assms by (simp_all add: batch_inv_def vertex_stream_def element_stream_def range_stream_def)
  show ?thesis
  proof (cases "pg_inline_elements_length pg = 0")
    case False
    then show ?thesis using draw_elements [OF assms False, of ?c ?s] c
      by (auto simp: pgraph_NV097_DRAW_ARRAYS_handler_def Let_def intro!: guarded_assert)
  next
    case True
    then have e: "pg_inline_elements_length ?pg = 0" by simp
    show ?thesis
      using draw_connect [OF inv(1) _ c(2,1) e] draw_append [OF inv(1) _ c(2) e] True inv(2)
      by (auto simp: pgraph_NV097_DRAW_ARRAYS_handler_def Let_def intro!: guarded_assert)
  qed
qed

text \<open>
  C19.  However \<open>DRAW_ARRAYS\<close> methods are sent, whether their ranges are appended, joined to the
  previous range or expanded behind explicit indices, the batch draws exactly the indices asked
  for, in order; the methods never write outside the batch arrays.
\<close>

theorem draw_arrays_stream:
  assumes "batch_inv pg"
  shows "guarded (\<lambda>pg'. batch_inv pg' \<and> vertex_stream pg' = vertex_stream pg @ concat (map (\<lambda>p.
      range_indices (GET_MASK p NV097_DRAW_ARRAYS_START_INDEX) (GET_MASK p NV097_DRAW_ARRAYS_COUNT + 1)) ps))
    (fold_res (pgraph_NV097_DRAW_ARRAYS_handler NV097_DRAW_ARRAYS) ps pg)"
  using assms
proof (induction ps arbitrary: pg)
  case (Cons p ps)
  show ?case
    by (simp, rule guarded_bind [OF draw_arrays_guarded [OF Cons.prems, of p]])
      (auto intro: guarded_mono [OF Cons.IH])
qed simp

theorem draw_arrays_stream_witness:
  "\<exists>pg'. fold_res (pgraph_NV097_DRAW_ARRAYS_handler NV097_DRAW_ARRAYS) [0x01000005, 0x00000007, 0x01000003] zero_PGRAPHState = Inr pg' \<and>
    vertex_stream pg' = [5, 6, 7, 3, 4] \<and> pg_draw_arrays_length pg' = 2"
proof -
  have inv: "batch_inv zero_PGRAPHState" by (simp add: batch_inv_def zero_PGRAPHState_def)
  have m: "GET_MASK 0x01000005 NV097_DRAW_ARRAYS_START_INDEX = 5" "GET_MASK 0x01000005 NV097_DRAW_ARRAYS_COUNT = 1"
    "GET_MASK 0x7 NV097_DRAW_ARRAYS_START_INDEX = 7" "GET_MASK 0x7 NV097_DRAW_ARRAYS_COUNT = 0"
    "GET_MASK 0x01000003 NV097_DRAW_ARRAYS_START_INDEX = 3" "GET_MASK 0x01000003 NV097_DRAW_ARRAYS_COUNT = 1"
    by code_simp+
  obtain pg' where r: "fold_res (pgraph_NV097_DRAW_ARRAYS_handler NV097_DRAW_ARRAYS) [0x01000005, 0x00000007, 0x01000003] zero_PGRAPHState = Inr pg'"
    "pg_draw_arrays_length pg' = 2"
    by (simp add: pgraph_NV097_DRAW_ARRAYS_handler_def m connects_def zero_PGRAPHState_def)
  have "vertex_stream zero_PGRAPHState = []"
    by (simp add: vertex_stream_def element_stream_def range_stream_def zero_PGRAPHState_def)
  then show ?thesis
    using draw_arrays_stream [OF inv, of "[0x01000005, 0x00000007, 0x01000003]"] r
    by (simp add: m range_indices_def upt_rec)
qed

lemma reset_inline_inv: "batch_inv (pgraph_reset_inline_buffers pg)" "pg_inline_elements_length (pgraph_reset_inline_buffers pg) = 0"
  by (simp_all add: pgraph_reset_inline_buffers_def pgraph_reset_draw_arrays_def batch_inv_def)

definition expand_range :: "u32 \<Rightarrow> u32 \<Rightarrow> PGRAPHState \<Rightarrow> PGRAPHState res" where
  "expand_range start count pg =
    res_bind (assert_res (pg_inline_elements_length pg + count < of_nat NV2A_MAX_BATCH_LENGTH)) (\<lambda>_.
    res_bind (fold_res (\<lambda>i. push_element (start + of_nat i)) [0..<unat count] pg) (\<lambda>pg.
      Inr (pgraph_reset_draw_arrays pg)))"

lemma expand_range_spec:
  assumes "batch_inv pg" "pg_inline_elements_length pg = 0"
  shows "guarded (\<lambda>pg'. batch_inv pg' \<and> vertex_stream pg' = range_indices start count \<and> pg_draw_arrays_length pg' = 0 \<and>
    unat (pg_inline_elements_length pg') = unat count) (expand_range start count pg)"
  unfolding expand_range_def
proof (rule guarded_assert)
  assume "pg_inline_elements_length pg + count < of_nat NV2A_MAX_BATCH_LENGTH"
  then have b: "unat count < NV2A_MAX_BATCH_LENGTH" using assms(2) by (simp add: word_less_nat_alt)
  from push_elements [of pg "unat count" "\<lambda>i. start + of_nat i"] b assms(2) obtain e where
    e: "fold_res (\<lambda>i. push_element (start + of_nat i)) [0..<unat count] pg =
      Inr (pg\<lparr>pg_inline_elements := e, pg_inline_elements_length := count\<rparr>)"
    "map e [0..<unat count] = range_indices start count"
    by (auto simp: range_indices_def element_stream_def)
  with b assms(1) show "guarded (\<lambda>pg'. batch_inv pg' \<and> vertex_stream pg' = range_indices start count \<and>
      pg_draw_arrays_length pg' = 0 \<and> unat (pg_inline_elements_length pg') = unat count)
    (res_bind (fold_res (\<lambda>i. push_element (start + of_nat i)) [0..<unat count] pg) (\<lambda>pg. Inr (pgraph_reset_draw_arrays pg)))"
    by (simp add: pgraph_reset_draw_arrays_def batch_inv_def vertex_stream_def element_stream_def range_stream_def)
qed

lemma expand_draw_arrays_eq:
  assumes "batch_inv (pgraph d)" "pg_draw_arrays_length (pgraph d) \<noteq> 0"
  defines "i \<equiv> unat (pg_draw_arrays_length (pgraph d)) - 1"
  shows "pgraph_expand_draw_arrays env d =
    res_bind (if pg_draw_arrays_length (pgraph d) > 1
      then res_bind (flush_draw (renderer env) d) (on_pg (\<lambda>pg. Inr (pgraph_reset_inline_buffers pg))) else Inr d)
    (on_pg (expand_range (pg_draw_arrays_start (pgraph d) i) (pg_draw_arrays_count (pgraph d) i)))"
proof -
  have i: "unat (pg_draw_arrays_length (pgraph d) - 1) = i" using assms(2) by (simp add: i_def unat_dec)
  have "i < NV2A_MAX_DRAW_ARRAYS"
    using assms(1,2) unat_gt_0 [of "pg_draw_arrays_length (pgraph d)"] by (auto simp: batch_inv_def i_def)
  then show ?thesis unfolding expand_range_def [abs_def] by (simp add: pgraph_expand_draw_arrays_def i Let_def)
qed

lemma on_pg_guarded:
  "guarded P (on_pg f d) \<longleftrightarrow> guarded (\<lambda>pg. P (d\<lparr>pgraph := pg\<rparr>)) (f (pgraph d))"
  by (cases "f (pgraph d)") (simp_all add: on_pg_def)

text \<open>The indices of the last pending range.\<close>

definition last_range :: "PGRAPHState \<Rightarrow> u32 list" where
  "last_range pg = (let i = unat (pg_draw_arrays_length pg) - 1 in
    range_indices (pg_draw_arrays_start pg i) (pg_draw_arrays_count pg i))"

lemma last_range_suffix:
  assumes "batch_inv pg" "pg_draw_arrays_length pg \<noteq> 0"
  shows "vertex_stream pg = range_stream pg (unat (pg_draw_arrays_length pg) - 1) @ last_range pg"
proof -
  obtain n where n: "unat (pg_draw_arrays_length pg) = Suc n"
    using assms(2) unat_gt_0 [of "pg_draw_arrays_length pg"] by (cases "unat (pg_draw_arrays_length pg)") auto
  have "pg_inline_elements_length pg = 0" using assms by (auto simp: batch_inv_def)
  then show ?thesis by (simp add: vertex_stream_def element_stream_def n range_stream_Suc last_range_def)
qed

lemma expand_if_spec:
  assumes "batch_inv (pgraph d)" "guarded (\<lambda>_. True) (flush_draw (renderer env) d)"
  shows "guarded (\<lambda>d'. batch_inv (pgraph d') \<and> pg_draw_arrays_length (pgraph d') = 0 \<and> vertex_stream (pgraph d') =
      (if pg_draw_arrays_length (pgraph d) > 1 then last_range (pgraph d) else vertex_stream (pgraph d)))
    (expand_if_draw_arrays env d)"
proof (cases "pg_draw_arrays_length (pgraph d) = 0")
  case True
  then show ?thesis using assms(1) by (simp add: expand_if_draw_arrays_def)
next
  case nz: False
  let ?l = "pg_draw_arrays_length (pgraph d)"
  have e0: "pg_inline_elements_length (pgraph d) = 0" using assms(1) nz by (auto simp: batch_inv_def)
  show ?thesis
  proof (cases "?l > 1")
    case True
    have "guarded (\<lambda>d. batch_inv (pgraph d) \<and> pg_inline_elements_length (pgraph d) = 0)
        (res_bind (flush_draw (renderer env) d) (on_pg (\<lambda>pg. Inr (pgraph_reset_inline_buffers pg))))"
      by (rule guarded_bind [OF assms(2)]) (simp add: on_pg_guarded reset_inline_inv)
    then show ?thesis using nz True
      by (auto simp: expand_if_draw_arrays_def expand_draw_arrays_eq [OF assms(1) nz] on_pg_guarded last_range_def Let_def
          intro!: guarded_bind [where P = "\<lambda>d'. batch_inv (pgraph d') \<and> _ d'"] guarded_mono [OF expand_range_spec])
  next
    case False
    then have "?l = 1" using nz by (metis linorder_neqE word_less_1)
    with nz e0 assms(1) show ?thesis
      by (auto simp: expand_if_draw_arrays_def expand_draw_arrays_eq [OF assms(1) nz] on_pg_guarded last_range_suffix
          range_stream_def last_range_def intro!: guarded_mono [OF expand_range_spec])
  qed
qed

lemma push_stream:
  assumes "batch_inv pg" "pg_draw_arrays_length pg = 0" "unat (pg_inline_elements_length pg) < NV2A_MAX_BATCH_LENGTH"
  shows "\<exists>pg'. push_element v pg = Inr pg' \<and> batch_inv pg' \<and> pg_draw_arrays_length pg' = 0 \<and>
    vertex_stream pg' = vertex_stream pg @ [v] \<and> unat (pg_inline_elements_length pg') = Suc (unat (pg_inline_elements_length pg))"
proof -
  have u: "unat (pg_inline_elements_length pg + 1) = Suc (unat (pg_inline_elements_length pg))"
    by (rule unat_inc [OF assms(3)]) simp
  from push_element_Inr [OF assms(3), of v] obtain e where
    "push_element v pg = Inr (pg\<lparr>pg_inline_elements := e, pg_inline_elements_length := pg_inline_elements_length pg + 1\<rparr>)"
    "map e [0..<Suc (unat (pg_inline_elements_length pg))] = element_stream pg @ [v]" by blast
  with assms u show ?thesis by (auto simp: batch_inv_def vertex_stream_def element_stream_def range_stream_def)
qed

lemma element32_step:
  assumes "batch_inv pg" "pg_draw_arrays_length pg = 0"
  shows "guarded (\<lambda>pg'. batch_inv pg' \<and> vertex_stream pg' = vertex_stream pg @ [p]) (steps [assert_element_room, push_element p] pg)"
proof (cases "unat (pg_inline_elements_length pg) < NV2A_MAX_BATCH_LENGTH")
  case True
  from push_stream [OF assms True, of p] True show ?thesis by (auto simp: assert_element_room_def)
qed (simp add: assert_element_room_def)


text \<open>Two pending ranges, then an index.\<close>

definition ranges_demo :: NV2AState where
  "ranges_demo = (nv2a_blank 0 0)\<lparr>pgraph := zero_PGRAPHState\<lparr>pg_draw_arrays_length := 2,
     pg_draw_arrays_start := (\<lambda>_. 0)(0 := 10, 1 := 20), pg_draw_arrays_count := (\<lambda>_. 0)(0 := 1, 1 := 2)\<rparr>\<rparr>"

definition null_env :: pgraph_env where
  "null_env = \<lparr>renderer = pgraph_null_renderer, vsh_execute = (\<lambda>_ _ _ _ _. None), reconstruct_specular_power = (\<lambda>_. 0)\<rparr>"


text \<open>
  C21.  A 16-bit index pair is checked for room for one index only: with a single free place in the
  batch the second index is written one past the end of \<open>inline_elements\<close>, and in every other case
  the pair is appended or the assertion stops it.
\<close>

theorem array_element16_overflow:
  assumes "batch_inv (pgraph d)" and "pg_draw_arrays_length (pgraph d) = 0"
  shows "if unat (pg_inline_elements_length (pgraph d)) = NV2A_MAX_BATCH_LENGTH - 1
    then pgraph_NV097_ARRAY_ELEMENT16_handler env sub m p d = Inl Out_of_bounds
    else guarded (\<lambda>d'. batch_inv (pgraph d') \<and>
        vertex_stream (pgraph d') = vertex_stream (pgraph d) @ [p AND 0xFFFF, drop_bit 16 p])
      (pgraph_NV097_ARRAY_ELEMENT16_handler env sub m p d)"
proof -
  let ?l = "unat (pg_inline_elements_length (pgraph d))"
  have h: "pgraph_NV097_ARRAY_ELEMENT16_handler env sub m p d =
      on_pg (steps [assert_element_room, push_element (p AND 0xFFFF), push_element (drop_bit 16 p)]) d"
    using assms(2) by (simp add: pgraph_NV097_ARRAY_ELEMENT16_handler_def expand_if_draw_arrays_def)
  show ?thesis
  proof (cases "?l < NV2A_MAX_BATCH_LENGTH")
    case False
    then show ?thesis using assms(1) by (auto simp: h on_pg_def assert_element_room_def)
  next
    case True
    from push_stream [OF assms True, of "p AND 0xFFFF"] obtain q where
      q: "push_element (p AND 0xFFFF) (pgraph d) = Inr q" "batch_inv q" "pg_draw_arrays_length q = 0"
        "vertex_stream q = vertex_stream (pgraph d) @ [p AND 0xFFFF]" "unat (pg_inline_elements_length q) = Suc ?l" by blast
    show ?thesis
    proof (cases "?l = NV2A_MAX_BATCH_LENGTH - 1")
      case True
      then show ?thesis using q by (simp add: h on_pg_def assert_element_room_def push_element_def arr_set_def)
    next
      case False
      with True q(5) have "unat (pg_inline_elements_length q) < NV2A_MAX_BATCH_LENGTH" by simp
      from push_stream [OF q(2,3) this, of "drop_bit 16 p"] q(1,4) True False show ?thesis
        by (auto simp: h on_pg_def assert_element_room_def)
    qed
  qed
qed

theorem array_element16_overflow_witness:
  "pgraph_NV097_ARRAY_ELEMENT16_handler null_env 0 NV097_ARRAY_ELEMENT16 0
    ((nv2a_blank 0 0)\<lparr>pgraph := zero_PGRAPHState\<lparr>pg_inline_elements_length := 0x7FFFE\<rparr>\<rparr>) = Inl Out_of_bounds"
  using array_element16_overflow [of "(nv2a_blank 0 0)\<lparr>pgraph := zero_PGRAPHState\<lparr>pg_inline_elements_length := 0x7FFFE\<rparr>\<rparr>"
      null_env 0 NV097_ARRAY_ELEMENT16 0]
  by (simp add: batch_inv_def zero_PGRAPHState_def)

end
