(* ===== verification/PGRAPH.thy ===== *)
theory PGRAPH
  imports PGRAPH_Draw
begin

text \<open>
  The method table of \<open>hw/xbox/nv2a/pgraph/methods.h.inc\<close> and the method dispatch of \<open>pgraph.c\<close>.
  The parameters of a method are read from video memory, where the command buffer lies.
\<close>

section \<open>The Kelvin method table\<close>

datatype method_func = Pg handler | Dev dev_handler

text \<open>How a handler consumes words: one, those of an increasing or those of a non-increasing command.\<close>

datatype method_kind = Single | Inc u32 | Non_inc

text \<open>First method, offset from the base, number of methods, their distance, kind and handler.\<close>

type_synonym method_entry = "u32 \<times> u32 \<times> nat \<times> nat \<times> method_kind \<times> method_func"

definition kelvin_methods_1 :: "method_entry list" where
  "kelvin_methods_1 =
    [(NV097_SET_OBJECT, 0, 1, 4, Single, Pg pgraph_NV097_SET_OBJECT_handler),
     (NV097_NO_OPERATION, 0, 1, 4, Single, Dev pgraph_NV097_NO_OPERATION_handler),
     (NV097_WAIT_FOR_IDLE, 0, 1, 4, Single, Dev pgraph_NV097_WAIT_FOR_IDLE_handler),
     (NV097_SET_FLIP_READ, 0, 1, 4, Single, Pg pgraph_NV097_SET_FLIP_READ_handler),
     (NV097_SET_FLIP_WRITE, 0, 1, 4, Single, Pg pgraph_NV097_SET_FLIP_WRITE_handler),
     (NV097_SET_FLIP_MODULO, 0, 1, 4, Single, Pg pgraph_NV097_SET_FLIP_MODULO_handler),
     (NV097_FLIP_INCREMENT_WRITE, 0, 1, 4, Single, Pg pgraph_NV097_FLIP_INCREMENT_WRITE_handler),
     (NV097_FLIP_STALL, 0, 1, 4, Single, Dev pgraph_NV097_FLIP_STALL_handler),
     (NV097_SET_CONTEXT_DMA_NOTIFIES, 0, 1, 4, Single, Pg pgraph_NV097_SET_CONTEXT_DMA_NOTIFIES_handler),
     (NV097_SET_CONTEXT_DMA_A, 0, 1, 4, Single, Pg pgraph_NV097_SET_CONTEXT_DMA_A_handler),
     (NV097_SET_CONTEXT_DMA_B, 0, 1, 4, Single, Pg pgraph_NV097_SET_CONTEXT_DMA_B_handler),
     (NV097_SET_CONTEXT_DMA_STATE, 0, 1, 4, Single, Pg pgraph_NV097_SET_CONTEXT_DMA_STATE_handler),
     (NV097_SET_CONTEXT_DMA_COLOR, 0, 1, 4, Single, Dev pgraph_NV097_SET_CONTEXT_DMA_COLOR_handler),
     (NV097_SET_CONTEXT_DMA_ZETA, 0, 1, 4, Single, Pg pgraph_NV097_SET_CONTEXT_DMA_ZETA_handler),
     (NV097_SET_CONTEXT_DMA_VERTEX_A, 0, 1, 4, Single, Pg pgraph_NV097_SET_CONTEXT_DMA_VERTEX_A_handler),
     (NV097_SET_CONTEXT_DMA_VERTEX_B, 0, 1, 4, Single, Pg pgraph_NV097_SET_CONTEXT_DMA_VERTEX_B_handler),
     (NV097_SET_CONTEXT_DMA_SEMAPHORE, 0, 1, 4, Single, Pg pgraph_NV097_SET_CONTEXT_DMA_SEMAPHORE_handler),
     (NV097_SET_CONTEXT_DMA_REPORT, 0, 1, 4, Single, Dev pgraph_NV097_SET_CONTEXT_DMA_REPORT_handler),
     (NV097_SET_SURFACE_CLIP_HORIZONTAL, 0, 1, 4, Single, Dev pgraph_NV097_SET_SURFACE_CLIP_HORIZONTAL_handler),
     (NV097_SET_SURFACE_CLIP_VERTICAL, 0, 1, 4, Single, Dev pgraph_NV097_SET_SURFACE_CLIP_VERTICAL_handler),
     (NV097_SET_SURFACE_FORMAT, 0, 1, 4, Single, Dev pgraph_NV097_SET_SURFACE_FORMAT_handler),
     (NV097_SET_SURFACE_PITCH, 0, 1, 4, Single, Dev pgraph_NV097_SET_SURFACE_PITCH_handler),
     (NV097_SET_SURFACE_COLOR_OFFSET, 0, 1, 4, Single, Dev pgraph_NV097_SET_SURFACE_COLOR_OFFSET_handler),
     (NV097_SET_SURFACE_ZETA_OFFSET, 0, 1, 4, Single, Dev pgraph_NV097_SET_SURFACE_ZETA_OFFSET_handler),
     (NV097_SET_COMBINER_ALPHA_ICW, 0, 8, 4, Inc (NV097_SET_COMBINER_ALPHA_ICW + 32), Pg pgraph_NV097_SET_COMBINER_ALPHA_ICW_handler),
     (NV097_SET_COMBINER_SPECULAR_FOG_CW0, 0, 1, 4, Single, Pg pgraph_NV097_SET_COMBINER_SPECULAR_FOG_CW0_handler),
     (NV097_SET_COMBINER_SPECULAR_FOG_CW1, 0, 1, 4, Single, Pg pgraph_NV097_SET_COMBINER_SPECULAR_FOG_CW1_handler),
     (NV097_SET_TEXTURE_ADDRESS, 0, 4, 64, Single, Pg pgraph_NV097_SET_TEXTURE_ADDRESS_handler),
     (NV097_SET_CONTROL0, 0, 1, 4, Single, Dev pgraph_NV097_SET_CONTROL0_handler),
     (NV097_SET_LIGHT_CONTROL, 0, 1, 4, Single, Pg pgraph_NV097_SET_LIGHT_CONTROL_handler),
     (NV097_SET_COLOR_MATERIAL, 0, 1, 4, Single, Pg pgraph_NV097_SET_COLOR_MATERIAL_handler),
     (NV097_SET_FOG_MODE, 0, 1, 4, Single, Pg pgraph_NV097_SET_FOG_MODE_handler),
     (NV097_SET_FOG_GEN_MODE, 0, 1, 4, Single, Pg pgraph_NV097_SET_FOG_GEN_MODE_handler),
     (NV097_SET_FOG_ENABLE, 0, 1, 4, Single, Pg pgraph_NV097_SET_FOG_ENABLE_handler),
     (NV097_SET_FOG_COLOR, 0, 1, 4, Single, Pg pgraph_NV097_SET_FOG_COLOR_handler),
     (NV097_SET_WINDOW_CLIP_TYPE, 0, 1, 4, Single, Pg pgraph_NV097_SET_WINDOW_CLIP_TYPE_handler),
     (NV097_SET_WINDOW_CLIP_HORIZONTAL, 0, 8, 4, Inc (NV097_SET_WINDOW_CLIP_HORIZONTAL + 32), Pg pgraph_NV097_SET_WINDOW_CLIP_HORIZONTAL_handler),
     (NV097_SET_WINDOW_CLIP_VERTICAL, 0, 8, 4, Inc (NV097_SET_WINDOW_CLIP_VERTICAL + 32), Pg pgraph_NV097_SET_WINDOW_CLIP_VERTICAL_handler),
     (NV097_SET_ALPHA_TEST_ENABLE, 0, 1, 4, Single, Pg pgraph_NV097_SET_ALPHA_TEST_ENABLE_handler),
     (NV097_SET_BLEND_ENABLE, 0, 1, 4, Single, Pg pgraph_NV097_SET_BLEND_ENABLE_handler),
     (NV097_SET_CULL_FACE_ENABLE, 0, 1, 4, Single, Pg pgraph_NV097_SET_CULL_FACE_ENABLE_handler),
     (NV097_SET_DEPTH_TEST_ENABLE, 0, 1, 4, Single, Pg pgraph_NV097_SET_DEPTH_TEST_ENABLE_handler),
     (NV097_SET_DITHER_ENABLE, 0, 1, 4, Single, Pg pgraph_NV097_SET_DITHER_ENABLE_handler),
     (NV097_SET_LIGHTING_ENABLE, 0, 1, 4, Single, Pg pgraph_NV097_SET_LIGHTING_ENABLE_handler),
     (NV097_SET_POINT_PARAMS_ENABLE, 0, 1, 4, Single, Pg pgraph_NV097_SET_POINT_PARAMS_ENABLE_handler),
     (NV097_SET_POINT_SMOOTH_ENABLE, 0, 1, 4, Single, Pg pgraph_NV097_SET_POINT_SMOOTH_ENABLE_handler),
     (NV097_SET_LINE_SMOOTH_ENABLE, 0, 1, 4, Single, Pg pgraph_NV097_SET_LINE_SMOOTH_ENABLE_handler),
     (NV097_SET_POLY_SMOOTH_ENABLE, 0, 1, 4, Single, Pg pgraph_NV097_SET_POLY_SMOOTH_ENABLE_handler),
     (NV097_SET_SKIN_MODE, 0, 1, 4, Single, Pg pgraph_NV097_SET_SKIN_MODE_handler),
     (NV097_SET_STENCIL_TEST_ENABLE, 0, 1, 4, Single, Pg pgraph_NV097_SET_STENCIL_TEST_ENABLE_handler),
     (NV097_SET_POLY_OFFSET_POINT_ENABLE, 0, 1, 4, Single, Pg pgraph_NV097_SET_POLY_OFFSET_POINT_ENABLE_handler),
     (NV097_SET_POLY_OFFSET_LINE_ENABLE, 0, 1, 4, Single, Pg pgraph_NV097_SET_POLY_OFFSET_LINE_ENABLE_handler),
     (NV097_SET_POLY_OFFSET_FILL_ENABLE, 0, 1, 4, Single, Pg pgraph_NV097_SET_POLY_OFFSET_FILL_ENABLE_handler),
     (NV097_SET_ALPHA_FUNC, 0, 1, 4, Single, Pg pgraph_NV097_SET_ALPHA_FUNC_handler),
     (NV097_SET_ALPHA_REF, 0, 1, 4, Single, Pg pgraph_NV097_SET_ALPHA_REF_handler),
     (NV097_SET_BLEND_FUNC_SFACTOR, 0, 1, 4, Single, Pg pgraph_NV097_SET_BLEND_FUNC_SFACTOR_handler),
     (NV097_SET_BLEND_FUNC_DFACTOR, 0, 1, 4, Single, Pg pgraph_NV097_SET_BLEND_FUNC_DFACTOR_handler),
     (NV097_SET_BLEND_COLOR, 0, 1, 4, Single, Pg pgraph_NV097_SET_BLEND_COLOR_handler),
     (NV097_SET_BLEND_EQUATION, 0, 1, 4, Single, Pg pgraph_NV097_SET_BLEND_EQUATION_handler),
     (NV097_SET_DEPTH_FUNC, 0, 1, 4, Single, Pg pgraph_NV097_SET_DEPTH_FUNC_handler),
     (NV097_SET_COLOR_MASK, 0, 1, 4, Single, Pg pgraph_NV097_SET_COLOR_MASK_handler),
     (NV097_SET_DEPTH_MASK, 0, 1, 4, Single, Pg pgraph_NV097_SET_DEPTH_MASK_handler),
     (NV097_SET_STENCIL_MASK, 0, 1, 4, Single, Pg pgraph_NV097_SET_STENCIL_MASK_handler),
     (NV097_SET_STENCIL_FUNC, 0, 1, 4, Single, Pg pgraph_NV097_SET_STENCIL_FUNC_handler),
     (NV097_SET_STENCIL_FUNC_REF, 0, 1, 4, Single, Pg pgraph_NV097_SET_STENCIL_FUNC_REF_handler),
     (NV097_SET_STENCIL_FUNC_MASK, 0, 1, 4, Single, Pg pgraph_NV097_SET_STENCIL_FUNC_MASK_handler),
     (NV097_SET_STENCIL_OP_FAIL, 0, 1, 4, Single, Pg pgraph_NV097_SET_STENCIL_OP_FAIL_handler),
     (NV097_SET_STENCIL_OP_ZFAIL, 0, 1, 4, Single, Pg pgraph_NV097_SET_STENCIL_OP_ZFAIL_handler),
     (NV097_SET_STENCIL_OP_ZPASS, 0, 1, 4, Single, Pg pgraph_NV097_SET_STENCIL_OP_ZPASS_handler),
     (NV097_SET_SHADE_MODE, 0, 1, 4, Single, Pg pgraph_NV097_SET_SHADE_MODE_handler)]"

definition kelvin_methods_2 :: "method_entry list" where
  "kelvin_methods_2 =
    [(NV097_SET_PROVOKING_VERTEX, 0, 1, 4, Single, Pg pgraph_NV097_SET_PROVOKING_VERTEX_handler),
     (NV097_SET_POLYGON_OFFSET_SCALE_FACTOR, 0, 1, 4, Single, Pg pgraph_NV097_SET_POLYGON_OFFSET_SCALE_FACTOR_handler),
     (NV097_SET_POLYGON_OFFSET_BIAS, 0, 1, 4, Single, Pg pgraph_NV097_SET_POLYGON_OFFSET_BIAS_handler),
     (NV097_SET_FRONT_POLYGON_MODE, 0, 1, 4, Single, Pg pgraph_NV097_SET_FRONT_POLYGON_MODE_handler),
     (NV097_SET_BACK_POLYGON_MODE, 0, 1, 4, Single, Pg pgraph_NV097_SET_BACK_POLYGON_MODE_handler),
     (NV097_SET_CLIP_MIN, 0, 1, 4, Single, Pg pgraph_NV097_SET_CLIP_MIN_handler),
     (NV097_SET_CLIP_MAX, 0, 1, 4, Single, Pg pgraph_NV097_SET_CLIP_MAX_handler),
     (NV097_SET_CULL_FACE, 0, 1, 4, Single, Pg pgraph_NV097_SET_CULL_FACE_handler),
     (NV097_SET_FRONT_FACE, 0, 1, 4, Single, Pg pgraph_NV097_SET_FRONT_FACE_handler),
     (NV097_SET_NORMALIZATION_ENABLE, 0, 1, 4, Single, Pg pgraph_NV097_SET_NORMALIZATION_ENABLE_handler),
     (NV097_SET_MATERIAL_EMISSION, 0, 3, 4, Inc (NV097_SET_MATERIAL_EMISSION + 12), Pg pgraph_NV097_SET_MATERIAL_EMISSION_handler),
     (NV097_SET_MATERIAL_ALPHA, 0, 1, 4, Single, Pg pgraph_NV097_SET_MATERIAL_ALPHA_handler),
     (NV097_SET_SPECULAR_ENABLE, 0, 1, 4, Single, Pg pgraph_NV097_SET_SPECULAR_ENABLE_handler),
     (NV097_SET_LIGHT_ENABLE_MASK, 0, 1, 4, Single, Pg pgraph_NV097_SET_LIGHT_ENABLE_MASK_handler),
     (NV097_SET_TEXGEN_S, 0, 4, 16, Single, Pg pgraph_NV097_SET_TEXGEN_S_handler),
     (NV097_SET_TEXGEN_T, 0, 4, 16, Single, Pg pgraph_NV097_SET_TEXGEN_T_handler),
     (NV097_SET_TEXGEN_R, 0, 4, 16, Single, Pg pgraph_NV097_SET_TEXGEN_R_handler),
     (NV097_SET_TEXGEN_Q, 0, 4, 16, Single, Pg pgraph_NV097_SET_TEXGEN_Q_handler),
     (NV097_SET_TEXTURE_MATRIX_ENABLE, 0, 4, 4, Inc (NV097_SET_TEXTURE_MATRIX_ENABLE + 16), Pg pgraph_NV097_SET_TEXTURE_MATRIX_ENABLE_handler),
     (NV097_SET_POINT_SIZE, 0, 1, 4, Single, Pg pgraph_NV097_SET_POINT_SIZE_handler),
     (NV097_SET_PROJECTION_MATRIX, 0, 16, 4, Inc (NV097_SET_PROJECTION_MATRIX + 64), Pg pgraph_NV097_SET_PROJECTION_MATRIX_handler),
     (NV097_SET_MODEL_VIEW_MATRIX, 0, 64, 4, Inc (NV097_SET_MODEL_VIEW_MATRIX + 256), Pg pgraph_NV097_SET_MODEL_VIEW_MATRIX_handler),
     (NV097_SET_INVERSE_MODEL_VIEW_MATRIX, 0, 64, 4, Inc (NV097_SET_INVERSE_MODEL_VIEW_MATRIX + 256), Pg pgraph_NV097_SET_INVERSE_MODEL_VIEW_MATRIX_handler),
     (NV097_SET_COMPOSITE_MATRIX, 0, 16, 4, Inc (NV097_SET_COMPOSITE_MATRIX + 64), Pg pgraph_NV097_SET_COMPOSITE_MATRIX_handler),
     (NV097_SET_TEXTURE_MATRIX, 0, 64, 4, Inc (NV097_SET_TEXTURE_MATRIX + 256), Pg pgraph_NV097_SET_TEXTURE_MATRIX_handler),
     (NV097_SET_FOG_PARAMS, 0, 3, 4, Inc (NV097_SET_FOG_PARAMS + 12), Pg pgraph_NV097_SET_FOG_PARAMS_handler),
     (NV097_SET_TEXGEN_PLANE_S, 0, 64, 4, Inc (NV097_SET_TEXGEN_PLANE_S + 256), Pg pgraph_NV097_SET_TEXGEN_PLANE_S_handler),
     (NV097_SET_TEXGEN_VIEW_MODEL, 0, 1, 4, Single, Pg pgraph_NV097_SET_TEXGEN_VIEW_MODEL_handler),
     (NV097_SET_FOG_PLANE, 0, 4, 4, Inc (NV097_SET_FOG_PLANE + 16), Pg pgraph_NV097_SET_FOG_PLANE_handler),
     (NV097_SET_SPECULAR_PARAMS, 0, 6, 4, Inc (NV097_SET_SPECULAR_PARAMS + 24), Dev pgraph_NV097_SET_SPECULAR_PARAMS_handler),
     (NV097_SET_SCENE_AMBIENT_COLOR, 0, 3, 4, Inc (NV097_SET_SCENE_AMBIENT_COLOR + 12), Pg pgraph_NV097_SET_SCENE_AMBIENT_COLOR_handler),
     (NV097_SET_VIEWPORT_OFFSET, 0, 4, 4, Inc (NV097_SET_VIEWPORT_OFFSET + 16), Pg pgraph_NV097_SET_VIEWPORT_OFFSET_handler),
     (NV097_SET_POINT_PARAMS, 0, 8, 4, Inc (NV097_SET_POINT_PARAMS + 32), Pg pgraph_NV097_SET_POINT_PARAMS_handler),
     (NV097_SET_EYE_POSITION, 0, 4, 4, Inc (NV097_SET_EYE_POSITION + 16), Pg pgraph_NV097_SET_EYE_POSITION_handler),
     (NV097_SET_COMBINER_FACTOR0, 0, 8, 4, Inc (NV097_SET_COMBINER_FACTOR0 + 32), Pg pgraph_NV097_SET_COMBINER_FACTOR0_handler),
     (NV097_SET_COMBINER_FACTOR1, 0, 8, 4, Inc (NV097_SET_COMBINER_FACTOR1 + 32), Pg pgraph_NV097_SET_COMBINER_FACTOR1_handler),
     (NV097_SET_COMBINER_ALPHA_OCW, 0, 8, 4, Inc (NV097_SET_COMBINER_ALPHA_OCW + 32), Pg pgraph_NV097_SET_COMBINER_ALPHA_OCW_handler),
     (NV097_SET_COMBINER_COLOR_ICW, 0, 8, 4, Inc (NV097_SET_COMBINER_COLOR_ICW + 32), Pg pgraph_NV097_SET_COMBINER_COLOR_ICW_handler),
     (NV097_SET_COLOR_KEY_COLOR, 0, 4, 4, Inc (NV097_SET_COLOR_KEY_COLOR + 16), Pg pgraph_NV097_SET_COLOR_KEY_COLOR_handler),
     (NV097_SET_VIEWPORT_SCALE, 0, 4, 4, Inc (NV097_SET_VIEWPORT_SCALE + 16), Pg pgraph_NV097_SET_VIEWPORT_SCALE_handler),
     (NV097_SET_TRANSFORM_PROGRAM, 0, 32, 4, Inc (NV097_SET_TRANSFORM_PROGRAM + 128), Pg pgraph_NV097_SET_TRANSFORM_PROGRAM_handler),
     (NV097_SET_TRANSFORM_CONSTANT, 0, 32, 4, Inc (NV097_SET_TRANSFORM_CONSTANT + 128), Pg pgraph_NV097_SET_TRANSFORM_CONSTANT_handler),
     (NV097_SET_VERTEX3F, 0, 3, 4, Inc (NV097_SET_VERTEX3F + 12), Pg pgraph_NV097_SET_VERTEX3F_handler),
     (NV097_SET_BACK_LIGHT_AMBIENT_COLOR, 0, 128, 4, Inc (NV097_SET_BACK_LIGHT_AMBIENT_COLOR + 512), Pg pgraph_NV097_SET_BACK_LIGHT_AMBIENT_COLOR_handler),
     (NV097_SET_LIGHT_AMBIENT_COLOR, 0, 256, 4, Inc (NV097_SET_LIGHT_AMBIENT_COLOR + 1024), Pg pgraph_NV097_SET_LIGHT_AMBIENT_COLOR_handler),
     (NV097_SET_VERTEX4F, 0, 4, 4, Inc (NV097_SET_VERTEX4F + 16), Pg pgraph_NV097_SET_VERTEX4F_handler),
     (NV097_SET_NORMAL3F, 0, 3, 4, Inc (NV097_SET_NORMAL3F + 12), Pg pgraph_NV097_SET_NORMAL3F_handler),
     (NV097_SET_NORMAL3S, 0, 3, 4, Inc (NV097_SET_NORMAL3S + 12), Pg pgraph_NV097_SET_NORMAL3S_handler),
     (NV097_SET_DIFFUSE_COLOR4F, 0, 4, 4, Inc (NV097_SET_DIFFUSE_COLOR4F + 16), Pg pgraph_NV097_SET_DIFFUSE_COLOR4F_handler),
     (NV097_SET_DIFFUSE_COLOR3F, 0, 3, 4, Inc (NV097_SET_DIFFUSE_COLOR3F + 12), Pg pgraph_NV097_SET_DIFFUSE_COLOR3F_handler),
     (NV097_SET_DIFFUSE_COLOR4UB, 0, 1, 4, Inc (NV097_SET_DIFFUSE_COLOR4UB + 4), Pg pgraph_NV097_SET_DIFFUSE_COLOR4UB_handler),
     (NV097_SET_SPECULAR_COLOR4F, 0, 4, 4, Inc (NV097_SET_SPECULAR_COLOR4F + 16), Pg pgraph_NV097_SET_SPECULAR_COLOR4F_handler),
     (NV097_SET_SPECULAR_COLOR3F, 0, 3, 4, Inc (NV097_SET_SPECULAR_COLOR3F + 12), Pg pgraph_NV097_SET_SPECULAR_COLOR3F_handler),
     (NV097_SET_SPECULAR_COLOR4UB, 0, 1, 4, Inc (NV097_SET_SPECULAR_COLOR4UB + 4), Pg pgraph_NV097_SET_SPECULAR_COLOR4UB_handler),
     (NV097_SET_TEXCOORD0_2F, 0, 2, 4, Inc (NV097_SET_TEXCOORD0_2F + 8), Pg pgraph_NV097_SET_TEXCOORD0_2F_handler),
     (NV097_SET_TEXCOORD0_4F, 0, 4, 4, Inc (NV097_SET_TEXCOORD0_4F + 16), Pg pgraph_NV097_SET_TEXCOORD0_4F_handler),
     (NV097_SET_TEXCOORD0_2S, 0, 1, 4, Inc (NV097_SET_TEXCOORD0_2S + 4), Pg pgraph_NV097_SET_TEXCOORD0_2S_handler),
     (NV097_SET_TEXCOORD0_4S, 0, 2, 4, Inc (NV097_SET_TEXCOORD0_4S + 8), Pg pgraph_NV097_SET_TEXCOORD0_4S_handler),
     (NV097_SET_TEXCOORD1_2F, 0, 2, 4, Inc (NV097_SET_TEXCOORD1_2F + 8), Pg pgraph_NV097_SET_TEXCOORD1_2F_handler),
     (NV097_SET_TEXCOORD1_4F, 0, 4, 4, Inc (NV097_SET_TEXCOORD1_4F + 16), Pg pgraph_NV097_SET_TEXCOORD1_4F_handler),
     (NV097_SET_TEXCOORD1_2S, 0, 1, 4, Inc (NV097_SET_TEXCOORD1_2S + 4), Pg pgraph_NV097_SET_TEXCOORD1_2S_handler),
     (NV097_SET_TEXCOORD1_4S, 0, 2, 4, Inc (NV097_SET_TEXCOORD1_4S + 8), Pg pgraph_NV097_SET_TEXCOORD1_4S_handler),
     (NV097_SET_TEXCOORD2_2F, 0, 2, 4, Inc (NV097_SET_TEXCOORD2_2F + 8), Pg pgraph_NV097_SET_TEXCOORD2_2F_handler),
     (NV097_SET_TEXCOORD2_4F, 0, 4, 4, Inc (NV097_SET_TEXCOORD2_4F + 16), Pg pgraph_NV097_SET_TEXCOORD2_4F_handler),
     (NV097_SET_TEXCOORD2_2S, 0, 1, 4, Inc (NV097_SET_TEXCOORD2_2S + 4), Pg pgraph_NV097_SET_TEXCOORD2_2S_handler),
     (NV097_SET_TEXCOORD2_4S, 0, 2, 4, Inc (NV097_SET_TEXCOORD2_4S + 8), Pg pgraph_NV097_SET_TEXCOORD2_4S_handler),
     (NV097_SET_TEXCOORD3_2F, 0, 2, 4, Inc (NV097_SET_TEXCOORD3_2F + 8), Pg pgraph_NV097_SET_TEXCOORD3_2F_handler),
     (NV097_SET_TEXCOORD3_4F, 0, 4, 4, Inc (NV097_SET_TEXCOORD3_4F + 16), Pg pgraph_NV097_SET_TEXCOORD3_4F_handler),
     (NV097_SET_TEXCOORD3_2S, 0, 1, 4, Inc (NV097_SET_TEXCOORD3_2S + 4), Pg pgraph_NV097_SET_TEXCOORD3_2S_handler),
     (NV097_SET_TEXCOORD3_4S, 0, 2, 4, Inc (NV097_SET_TEXCOORD3_4S + 8), Pg pgraph_NV097_SET_TEXCOORD3_4S_handler)]"

definition kelvin_methods_3 :: "method_entry list" where
  "kelvin_methods_3 =
    [(NV097_SET_FOG_COORD, 0, 1, 4, Single, Pg pgraph_NV097_SET_FOG_COORD_handler),
     (NV097_SET_WEIGHT1F, 0, 1, 4, Single, Pg pgraph_NV097_SET_WEIGHT1F_handler),
     (NV097_SET_WEIGHT2F, 0, 2, 4, Inc (NV097_SET_WEIGHT2F + 8), Pg pgraph_NV097_SET_WEIGHT2F_handler),
     (NV097_SET_WEIGHT3F, 0, 3, 4, Inc (NV097_SET_WEIGHT3F + 12), Pg pgraph_NV097_SET_WEIGHT3F_handler),
     (NV097_SET_WEIGHT4F, 0, 4, 4, Inc (NV097_SET_WEIGHT4F + 16), Pg pgraph_NV097_SET_WEIGHT4F_handler),
     (NV097_SET_VERTEX_DATA_ARRAY_FORMAT, 0, 16, 4, Inc (NV097_SET_VERTEX_DATA_ARRAY_FORMAT + 64), Pg pgraph_NV097_SET_VERTEX_DATA_ARRAY_FORMAT_handler),
     (NV097_SET_VERTEX_DATA_ARRAY_OFFSET, 0, 16, 4, Inc (NV097_SET_VERTEX_DATA_ARRAY_OFFSET + 64), Pg pgraph_NV097_SET_VERTEX_DATA_ARRAY_OFFSET_handler),
     (NV097_SET_LOGIC_OP_ENABLE, 0, 1, 4, Single, Pg pgraph_NV097_SET_LOGIC_OP_ENABLE_handler),
     (NV097_SET_LOGIC_OP, 0, 1, 4, Single, Pg pgraph_NV097_SET_LOGIC_OP_handler),
     (NV097_CLEAR_REPORT_VALUE, 0, 1, 4, Single, Dev pgraph_NV097_CLEAR_REPORT_VALUE_handler),
     (NV097_SET_ZPASS_PIXEL_COUNT_ENABLE, 0, 1, 4, Single, Pg pgraph_NV097_SET_ZPASS_PIXEL_COUNT_ENABLE_handler),
     (NV097_GET_REPORT, 0, 1, 4, Single, Dev pgraph_NV097_GET_REPORT_handler),
     (NV097_SET_EYE_DIRECTION, 0, 3, 4, Inc (NV097_SET_EYE_DIRECTION + 12), Pg pgraph_NV097_SET_EYE_DIRECTION_handler),
     (NV097_SET_BEGIN_END, 0, 1, 4, Single, Dev pgraph_NV097_SET_BEGIN_END_handler),
     (NV097_SET_TEXTURE_OFFSET, 0, 4, 64, Single, Pg pgraph_NV097_SET_TEXTURE_OFFSET_handler),
     (NV097_SET_TEXTURE_FORMAT, 0, 4, 64, Single, Pg pgraph_NV097_SET_TEXTURE_FORMAT_handler),
     (NV097_SET_TEXTURE_CONTROL0, 0, 4, 64, Single, Pg pgraph_NV097_SET_TEXTURE_CONTROL0_handler),
     (NV097_SET_TEXTURE_CONTROL1, 0, 4, 64, Single, Pg pgraph_NV097_SET_TEXTURE_CONTROL1_handler),
     (NV097_SET_TEXTURE_FILTER, 0, 4, 64, Single, Pg pgraph_NV097_SET_TEXTURE_FILTER_handler),
     (NV097_SET_TEXTURE_IMAGE_RECT, 0, 4, 64, Single, Pg pgraph_NV097_SET_TEXTURE_IMAGE_RECT_handler),
     (NV097_SET_TEXTURE_PALETTE, 0, 4, 64, Single, Pg pgraph_NV097_SET_TEXTURE_PALETTE_handler),
     (NV097_SET_TEXTURE_BORDER_COLOR, 0, 4, 64, Single, Pg pgraph_NV097_SET_TEXTURE_BORDER_COLOR_handler),
     (NV097_SET_TEXTURE_SET_BUMP_ENV_MAT, 0, 4, 64, Single, Pg pgraph_NV097_SET_TEXTURE_SET_BUMP_ENV_MAT_handler),
     (NV097_SET_TEXTURE_SET_BUMP_ENV_MAT, 4, 4, 64, Single, Pg pgraph_NV097_SET_TEXTURE_SET_BUMP_ENV_MAT_handler),
     (NV097_SET_TEXTURE_SET_BUMP_ENV_MAT, 8, 4, 64, Single, Pg pgraph_NV097_SET_TEXTURE_SET_BUMP_ENV_MAT_handler),
     (NV097_SET_TEXTURE_SET_BUMP_ENV_MAT, 12, 4, 64, Single, Pg pgraph_NV097_SET_TEXTURE_SET_BUMP_ENV_MAT_handler),
     (NV097_SET_TEXTURE_SET_BUMP_ENV_SCALE, 0, 4, 64, Single, Pg pgraph_NV097_SET_TEXTURE_SET_BUMP_ENV_SCALE_handler),
     (NV097_SET_TEXTURE_SET_BUMP_ENV_OFFSET, 0, 4, 64, Single, Pg pgraph_NV097_SET_TEXTURE_SET_BUMP_ENV_OFFSET_handler),
     (NV097_ARRAY_ELEMENT16, 0, 1, 4, Non_inc, Dev pgraph_NV097_ARRAY_ELEMENT16_handler),
     (NV097_ARRAY_ELEMENT32, 0, 1, 4, Non_inc, Dev pgraph_NV097_ARRAY_ELEMENT32_handler),
     (NV097_DRAW_ARRAYS, 0, 1, 4, Single, Pg pgraph_NV097_DRAW_ARRAYS_handler),
     (NV097_INLINE_ARRAY, 0, 1, 4, Non_inc, Pg pgraph_NV097_INLINE_ARRAY_handler),
     (NV097_SET_EYE_VECTOR, 0, 3, 4, Inc (NV097_SET_EYE_VECTOR + 12), Pg pgraph_NV097_SET_EYE_VECTOR_handler),
     (NV097_SET_VERTEX_DATA2F_M, 0, 32, 4, Inc (NV097_SET_VERTEX_DATA2F_M + 128), Pg pgraph_NV097_SET_VERTEX_DATA2F_M_handler),
     (NV097_SET_VERTEX_DATA4F_M, 0, 64, 4, Inc (NV097_SET_VERTEX_DATA4F_M + 256), Pg pgraph_NV097_SET_VERTEX_DATA4F_M_handler),
     (NV097_SET_VERTEX_DATA2S, 0, 16, 4, Inc (NV097_SET_VERTEX_DATA2S + 64), Pg pgraph_NV097_SET_VERTEX_DATA2S_handler),
     (NV097_SET_VERTEX_DATA4UB, 0, 16, 4, Inc (NV097_SET_VERTEX_DATA4UB + 64), Pg pgraph_NV097_SET_VERTEX_DATA4UB_handler),
     (NV097_SET_VERTEX_DATA4S_M, 0, 32, 4, Inc (NV097_SET_VERTEX_DATA4S_M + 128), Pg pgraph_NV097_SET_VERTEX_DATA4S_M_handler),
     (NV097_SET_SEMAPHORE_OFFSET, 0, 1, 4, Single, Pg pgraph_NV097_SET_SEMAPHORE_OFFSET_handler),
     (NV097_BACK_END_WRITE_SEMAPHORE_RELEASE, 0, 1, 4, Single, Dev pgraph_NV097_BACK_END_WRITE_SEMAPHORE_RELEASE_handler),
     (NV097_SET_ZMIN_MAX_CONTROL, 0, 1, 4, Single, Pg pgraph_NV097_SET_ZMIN_MAX_CONTROL_handler),
     (NV097_SET_ANTI_ALIASING_CONTROL, 0, 1, 4, Single, Pg pgraph_NV097_SET_ANTI_ALIASING_CONTROL_handler),
     (NV097_SET_ZSTENCIL_CLEAR_VALUE, 0, 1, 4, Single, Pg pgraph_NV097_SET_ZSTENCIL_CLEAR_VALUE_handler),
     (NV097_SET_COLOR_CLEAR_VALUE, 0, 1, 4, Single, Pg pgraph_NV097_SET_COLOR_CLEAR_VALUE_handler),
     (NV097_CLEAR_SURFACE, 0, 1, 4, Single, Dev pgraph_NV097_CLEAR_SURFACE_handler),
     (NV097_SET_CLEAR_RECT_HORIZONTAL, 0, 1, 4, Single, Pg pgraph_NV097_SET_CLEAR_RECT_HORIZONTAL_handler),
     (NV097_SET_CLEAR_RECT_VERTICAL, 0, 1, 4, Single, Pg pgraph_NV097_SET_CLEAR_RECT_VERTICAL_handler),
     (NV097_SET_SPECULAR_FOG_FACTOR, 0, 2, 4, Inc (NV097_SET_SPECULAR_FOG_FACTOR + 8), Pg pgraph_NV097_SET_SPECULAR_FOG_FACTOR_handler),
     (NV097_SET_SPECULAR_PARAMS_BACK, 0, 6, 4, Inc (NV097_SET_SPECULAR_PARAMS_BACK + 24), Dev pgraph_NV097_SET_SPECULAR_PARAMS_BACK_handler),
     (NV097_SET_SHADER_CLIP_PLANE_MODE, 0, 1, 4, Single, Pg pgraph_NV097_SET_SHADER_CLIP_PLANE_MODE_handler),
     (NV097_SET_COMBINER_COLOR_OCW, 0, 8, 4, Inc (NV097_SET_COMBINER_COLOR_OCW + 32), Pg pgraph_NV097_SET_COMBINER_COLOR_OCW_handler),
     (NV097_SET_COMBINER_CONTROL, 0, 1, 4, Single, Pg pgraph_NV097_SET_COMBINER_CONTROL_handler),
     (NV097_SET_SHADOW_ZSLOPE_THRESHOLD, 0, 1, 4, Single, Pg pgraph_NV097_SET_SHADOW_ZSLOPE_THRESHOLD_handler),
     (NV097_SET_SHADOW_DEPTH_FUNC, 0, 1, 4, Single, Pg pgraph_NV097_SET_SHADOW_DEPTH_FUNC_handler),
     (NV097_SET_SHADER_STAGE_PROGRAM, 0, 1, 4, Single, Pg pgraph_NV097_SET_SHADER_STAGE_PROGRAM_handler),
     (NV097_SET_DOT_RGBMAPPING, 0, 1, 4, Single, Pg pgraph_NV097_SET_DOT_RGBMAPPING_handler),
     (NV097_SET_SHADER_OTHER_STAGE_INPUT, 0, 1, 4, Single, Pg pgraph_NV097_SET_SHADER_OTHER_STAGE_INPUT_handler),
     (NV097_SET_TRANSFORM_DATA, 0, 4, 4, Inc (NV097_SET_TRANSFORM_DATA + 16), Pg pgraph_NV097_SET_TRANSFORM_DATA_handler),
     (NV097_LAUNCH_TRANSFORM_PROGRAM, 0, 1, 4, Single, Dev pgraph_NV097_LAUNCH_TRANSFORM_PROGRAM_handler),
     (NV097_SET_TRANSFORM_EXECUTION_MODE, 0, 1, 4, Single, Pg pgraph_NV097_SET_TRANSFORM_EXECUTION_MODE_handler),
     (NV097_SET_TRANSFORM_PROGRAM_CXT_WRITE_EN, 0, 1, 4, Single, Pg pgraph_NV097_SET_TRANSFORM_PROGRAM_CXT_WRITE_EN_handler),
     (NV097_SET_TRANSFORM_PROGRAM_LOAD, 0, 1, 4, Single, Pg pgraph_NV097_SET_TRANSFORM_PROGRAM_LOAD_handler),
     (NV097_SET_TRANSFORM_PROGRAM_START, 0, 1, 4, Single, Pg pgraph_NV097_SET_TRANSFORM_PROGRAM_START_handler),
     (NV097_SET_TRANSFORM_CONSTANT_LOAD, 0, 1, 4, Single, Pg pgraph_NV097_SET_TRANSFORM_CONSTANT_LOAD_handler)]"

definition pgraph_kelvin_methods :: "method_entry list" where
  "pgraph_kelvin_methods = kelvin_methods_1 @ kelvin_methods_2 @ kelvin_methods_3"

fun entry_covers :: "u32 \<Rightarrow> method_entry \<Rightarrow> bool" where
  "entry_covers method (base, off, n, stride, k, f) =
    (let x = unat (method - (base + off)) in x < n * stride \<and> x mod stride = 0)"

definition kelvin_lookup :: "u32 \<Rightarrow> method_entry option" where
  "kelvin_lookup method = find (entry_covers (method AND NOT 3)) pgraph_kelvin_methods"

section \<open>Dispatch\<close>

definition call_handler :: "pgraph_env \<Rightarrow> method_func \<Rightarrow> u32 \<Rightarrow> u32 \<Rightarrow> u32 \<Rightarrow> NV2AState \<Rightarrow> NV2AState res" where
  "call_handler env f subchannel method parameter d =
    (case f of Pg h \<Rightarrow> on_pg (h method parameter) d | Dev h \<Rightarrow> h env subchannel method parameter d)"

definition pgraph_method_inc ::
  "pgraph_env \<Rightarrow> method_func \<Rightarrow> u32 \<Rightarrow> u32 \<Rightarrow> u32 \<Rightarrow> u32 \<Rightarrow> nat \<Rightarrow> nat \<Rightarrow> bool \<Rightarrow> NV2AState \<Rightarrow> (nat \<times> NV2AState) res" where
  "pgraph_method_inc env f range_end subchannel method parameter parameters num_words_available inc d =
    (if \<not> inc then res_bind (call_handler env f subchannel method parameter d) (\<lambda>d. Inr (1, d))
     else
       let count = min num_words_available (unat (range_end - method) div 4) in
       res_bind (fold_res (\<lambda>i d.
         res_bind (ldl_le (nv_vram d) (parameters + 4 * i)) (\<lambda>parameter.
           call_handler env f subchannel (method + of_nat (4 * i)) parameter d)) [0..<count] d) (\<lambda>d. Inr (count, d)))"

definition pgraph_method_non_inc ::
  "pgraph_env \<Rightarrow> method_func \<Rightarrow> u32 \<Rightarrow> u32 \<Rightarrow> u32 \<Rightarrow> nat \<Rightarrow> nat \<Rightarrow> bool \<Rightarrow> NV2AState \<Rightarrow> (nat \<times> NV2AState) res" where
  "pgraph_method_non_inc env f subchannel method parameter parameters num_words_available inc d =
    (if inc then res_bind (call_handler env f subchannel method parameter d) (\<lambda>d. Inr (1, d))
     else
       res_bind (fold_res (\<lambda>i d.
         res_bind (ldl_le (nv_vram d) (parameters + 4 * i)) (\<lambda>parameter.
           call_handler env f subchannel method parameter d)) [0..<num_words_available] d) (\<lambda>d. Inr (num_words_available, d)))"

text \<open>The look-ahead that joins a \<open>BEGIN\<close>, \<open>DRAW_ARRAYS\<close>, \<open>END\<close> sequence to the one that follows it.\<close>

definition and_res :: "bool res \<Rightarrow> bool res \<Rightarrow> bool res" where
  "and_res a b = res_bind a (\<lambda>x. if x then b else Inr False)"

definition LAM :: "NV2AState \<Rightarrow> nat \<Rightarrow> nat \<Rightarrow> u32 \<Rightarrow> bool res" where
  "LAM d parameters i mthd = res_bind (ldl_le (nv_vram d) (parameters + 4 * (i * 2 + 1))) (\<lambda>w. Inr (w AND 0x31fff = mthd))"

definition LAP :: "NV2AState \<Rightarrow> nat \<Rightarrow> nat \<Rightarrow> u32 \<Rightarrow> bool res" where
  "LAP d parameters i prm = res_bind (ldl_le (nv_vram d) (parameters + 4 * (i * 2 + 2))) (\<lambda>w. Inr (w = prm))"

definition LAMP :: "NV2AState \<Rightarrow> nat \<Rightarrow> nat \<Rightarrow> u32 \<Rightarrow> u32 \<Rightarrow> bool res" where
  "LAMP d parameters i mthd prm = and_res (LAM d parameters i mthd) (LAP d parameters i prm)"

definition squashes :: "NV2AState \<Rightarrow> u32 \<Rightarrow> nat \<Rightarrow> nat \<Rightarrow> bool res" where
  "squashes d method parameters max_lookahead_words =
    (if method = NV097_DRAW_ARRAYS \<and> max_lookahead_words \<ge> 7 \<and> pg_inline_elements_length (pgraph d) = 0 \<and>
        unat (pg_draw_arrays_length (pgraph d)) < NV2A_MAX_DRAW_ARRAYS - 1
     then and_res (LAMP d parameters 0 NV097_SET_BEGIN_END NV097_SET_BEGIN_END_OP_END)
       (and_res (LAMP d parameters 1 NV097_SET_BEGIN_END (pg_primitive_mode (pgraph d)))
         (LAM d parameters 2 NV097_DRAW_ARRAYS))
     else Inr False)"

definition kelvin_method ::
  "pgraph_env \<Rightarrow> u32 \<Rightarrow> u32 \<Rightarrow> u32 \<Rightarrow> nat \<Rightarrow> nat \<Rightarrow> nat \<Rightarrow> bool \<Rightarrow> NV2AState \<Rightarrow> (nat \<times> NV2AState) res" where
  "kelvin_method env subchannel method parameter parameters num_words_available max_lookahead_words inc d =
    (if unat method div 4 \<ge> 0x800 then Inl Out_of_bounds
     else case kelvin_lookup method of
       None \<Rightarrow> Inr (1, d)
     | Some (base, off, n, stride, k, f) \<Rightarrow>
         res_bind (case k of
             Single \<Rightarrow> res_bind (call_handler env f subchannel method parameter d) (\<lambda>d. Inr (1, d))
           | Inc range_end \<Rightarrow> pgraph_method_inc env f range_end subchannel method parameter parameters num_words_available inc d
           | Non_inc \<Rightarrow> pgraph_method_non_inc env f subchannel method parameter parameters num_words_available inc d) (\<lambda>(num, d).
         res_bind (squashes d method parameters max_lookahead_words) (\<lambda>sq.
           Inr (if sq then (num + 4, d\<lparr>pgraph := (pgraph d)\<lparr>pg_draw_arrays_prevent_connect := True\<rparr>\<rparr>) else (num, d)))))"

text \<open>The two-dimensional classes.\<close>

definition beta_method :: "u32 \<Rightarrow> u32 \<Rightarrow> PGRAPHState \<Rightarrow> PGRAPHState" where
  "beta_method method parameter pg =
    (if method = NV012_SET_OBJECT then pg\<lparr>pg_beta := (pg_beta pg)\<lparr>be_object_instance := ucast parameter\<rparr>\<rparr>
     else if method = NV012_SET_BETA then
       pg\<lparr>pg_beta := (pg_beta pg)\<lparr>be_beta := (if parameter AND 0x80000000 \<noteq> 0 then 0 else parameter AND 0x7f800000)\<rparr>\<rparr>
     else pg)"

definition context_pattern_method :: "u32 \<Rightarrow> u32 \<Rightarrow> PGRAPHState \<Rightarrow> PGRAPHState res" where
  "context_pattern_method method parameter pg =
    (if method = NV044_SET_MONOCHROME_COLOR0 then pgraph_reg_w NV_PGRAPH_PATT_COLOR0 parameter pg else Inr pg)"

definition context_surfaces_2d_method :: "u32 \<Rightarrow> u32 \<Rightarrow> ContextSurfaces2DState \<Rightarrow> ContextSurfaces2DState" where
  "context_surfaces_2d_method method parameter s =
    (if method = NV062_SET_OBJECT then s\<lparr>cs_object_instance := ucast parameter\<rparr>
     else if method = NV062_SET_CONTEXT_DMA_IMAGE_SOURCE then s\<lparr>cs_dma_image_source := ucast parameter\<rparr>
     else if method = NV062_SET_CONTEXT_DMA_IMAGE_DESTIN then s\<lparr>cs_dma_image_dest := ucast parameter\<rparr>
     else if method = NV062_SET_COLOR_FORMAT then s\<lparr>cs_color_format := parameter\<rparr>
     else if method = NV062_SET_PITCH then
       s\<lparr>cs_source_pitch := parameter AND 0xFFFF, cs_dest_pitch := drop_bit 16 parameter\<rparr>
     else if method = NV062_SET_OFFSET_SOURCE then s\<lparr>cs_source_offset := ucast (parameter AND 0x07FFFFFF)\<rparr>
     else if method = NV062_SET_OFFSET_DESTIN then s\<lparr>cs_dest_offset := ucast (parameter AND 0x07FFFFFF)\<rparr>
     else s)"

definition image_blit_method :: "u32 \<Rightarrow> u32 \<Rightarrow> ImageBlitState \<Rightarrow> ImageBlitState" where
  "image_blit_method method parameter s =
    (if method = NV09F_SET_OBJECT then s\<lparr>ib_object_instance := ucast parameter\<rparr>
     else if method = NV09F_SET_CONTEXT_SURFACES then s\<lparr>ib_context_surfaces := ucast parameter\<rparr>
     else if method = NV09F_SET_OPERATION then s\<lparr>ib_operation := parameter\<rparr>
     else if method = NV09F_CONTROL_POINT_IN then s\<lparr>ib_in_x := parameter AND 0xFFFF, ib_in_y := drop_bit 16 parameter\<rparr>
     else if method = NV09F_CONTROL_POINT_OUT then s\<lparr>ib_out_x := parameter AND 0xFFFF, ib_out_y := drop_bit 16 parameter\<rparr>
     else if method = NV09F_SIZE then s\<lparr>ib_width := parameter AND 0xFFFF, ib_height := drop_bit 16 parameter\<rparr>
     else s)"

definition image_blit_run :: "pgraph_env \<Rightarrow> u32 \<Rightarrow> u32 \<Rightarrow> NV2AState \<Rightarrow> NV2AState res" where
  "image_blit_run env method parameter d =
    (let s = image_blit_method method parameter (pg_image_blit (pgraph d));
         d = d\<lparr>pgraph := (pgraph d)\<lparr>pg_image_blit := s\<rparr>\<rparr>
     in if method = NV09F_SIZE \<and> ib_width s \<noteq> 0 \<and> ib_height s \<noteq> 0 then image_blit (renderer env) d else Inr d)"

text \<open>Loading an object into a subchannel's cache, and selecting the subchannel's context.\<close>

definition ctx_cache :: "nat \<Rightarrow> u32 \<Rightarrow> nat" where
  "ctx_cache k subchannel = [NV_PGRAPH_CTX_CACHE1, NV_PGRAPH_CTX_CACHE2, NV_PGRAPH_CTX_CACHE3, NV_PGRAPH_CTX_CACHE4,
     NV_PGRAPH_CTX_CACHE5] ! k + unat subchannel * 4"

definition ctx_switch :: "nat \<Rightarrow> nat" where
  "ctx_switch k = [NV_PGRAPH_CTX_SWITCH1, NV_PGRAPH_CTX_SWITCH2, NV_PGRAPH_CTX_SWITCH3, NV_PGRAPH_CTX_SWITCH4,
     NV_PGRAPH_CTX_SWITCH5] ! k"

definition set_object :: "u32 \<Rightarrow> u32 \<Rightarrow> NV2AState \<Rightarrow> NV2AState res" where
  "set_object subchannel parameter d =
    res_bind (assert_res (unat parameter < mem_size (nv_ramin d))) (\<lambda>_.
    res_bind (ldl_le (nv_ramin d) (unat parameter)) (\<lambda>ctx_1.
    res_bind (ldl_le (nv_ramin d) (unat parameter + 4)) (\<lambda>ctx_2.
    res_bind (ldl_le (nv_ramin d) (unat parameter + 8)) (\<lambda>ctx_3.
    res_bind (ldl_le (nv_ramin d) (unat parameter + 12)) (\<lambda>ctx_4.
      on_pg (steps
        [pgraph_reg_w (ctx_cache 0 subchannel) ctx_1,
         pgraph_reg_w (ctx_cache 1 subchannel) ctx_2,
         pgraph_reg_w (ctx_cache 2 subchannel) ctx_3,
         pgraph_reg_w (ctx_cache 3 subchannel) ctx_4,
         pgraph_reg_w (ctx_cache 4 subchannel) parameter]) d)))))"

definition select_context :: "u32 \<Rightarrow> PGRAPHState \<Rightarrow> PGRAPHState res" where
  "select_context subchannel = fold_res (\<lambda>k pg.
     res_bind (pgraph_reg_r pg (ctx_cache k subchannel)) (\<lambda>v. pgraph_reg_w (ctx_switch k) v pg)) [0..<5]"

definition class_method ::
  "pgraph_env \<Rightarrow> u32 \<Rightarrow> u32 \<Rightarrow> u32 \<Rightarrow> u32 \<Rightarrow> nat \<Rightarrow> nat \<Rightarrow> nat \<Rightarrow> bool \<Rightarrow> NV2AState \<Rightarrow> (nat \<times> NV2AState) res" where
  "class_method env graphics_class subchannel method parameter parameters num_words_available max_lookahead_words inc d =
    (if graphics_class = NV_BETA then Inr (1, d\<lparr>pgraph := beta_method method parameter (pgraph d)\<rparr>)
     else if graphics_class = NV_CONTEXT_PATTERN then
       res_bind (on_pg (context_pattern_method method parameter) d) (\<lambda>d. Inr (1, d))
     else if graphics_class = NV_CONTEXT_SURFACES_2D then
       Inr (1, d\<lparr>pgraph := (pgraph d)\<lparr>pg_context_surfaces_2d :=
         context_surfaces_2d_method method parameter (pg_context_surfaces_2d (pgraph d))\<rparr>\<rparr>)
     else if graphics_class = NV_IMAGE_BLIT then
       res_bind (image_blit_run env method parameter d) (\<lambda>d. Inr (1, d))
     else if graphics_class = NV_KELVIN_PRIMITIVE then
       kelvin_method env subchannel method parameter parameters num_words_available max_lookahead_words inc d
     else Inr (1, d))"

definition pgraph_method ::
  "pgraph_env \<Rightarrow> NV2AState \<Rightarrow> u32 \<Rightarrow> u32 \<Rightarrow> u32 \<Rightarrow> nat \<Rightarrow> nat \<Rightarrow> nat \<Rightarrow> bool \<Rightarrow> (nat \<times> NV2AState) res" where
  "pgraph_method env d subchannel method parameter parameters num_words_available max_lookahead_words inc =
    res_bind (PG_GET_MASK (pgraph d) NV_PGRAPH_CTX_CONTROL NV_PGRAPH_CTX_CONTROL_CHID) (\<lambda>channel_valid.
    res_bind (assert_res (channel_valid \<noteq> 0)) (\<lambda>_.
    res_bind (assert_res (subchannel < 8)) (\<lambda>_.
    res_bind (if method = NV_SET_OBJECT then set_object subchannel parameter d else Inr d) (\<lambda>d.
    res_bind (on_pg (select_context subchannel) d) (\<lambda>d.
    res_bind (PG_GET_MASK (pgraph d) NV_PGRAPH_CTX_SWITCH1 NV_PGRAPH_CTX_SWITCH1_GRCLASS) (\<lambda>graphics_class.
    res_bind (assert_res (subchannel \<noteq> 0 \<longrightarrow> graphics_class \<noteq> 0x97)) (\<lambda>_.
      class_method env graphics_class subchannel method parameter parameters num_words_available max_lookahead_words inc d)))))))"


end
