(* ===== verification/PGRAPH_Track.thy ===== *)
theory PGRAPH_Track
  imports PGRAPH
begin

text \<open>
  What holds of every entry of the method table: its handler stays inside the arrays of the engine
  state, keeps the batch invariant, and marks what it changes.  The renderers re-upload only
  registers and constants that are marked, so a change without its mark would not be drawn.
\<close>

section \<open>Marked changes\<close>

definition tracked :: "PGRAPHState \<Rightarrow> PGRAPHState \<Rightarrow> bool" where
  "tracked pg0 pg \<longleftrightarrow>
    (\<forall>r. pg_regs pg r \<noteq> pg_regs pg0 r \<longrightarrow> pg_regs_dirty pg (r div 4)) \<and>
    (\<forall>i j. pg_vsh_constants pg i j \<noteq> pg_vsh_constants pg0 i j \<longrightarrow> pg_vsh_constants_dirty pg i) \<and>
    (\<forall>i j. pg_ltctxa pg i j \<noteq> pg_ltctxa pg0 i j \<longrightarrow> pg_ltctxa_dirty pg i) \<and>
    (\<forall>i j. pg_ltctxb pg i j \<noteq> pg_ltctxb pg0 i j \<longrightarrow> pg_ltctxb_dirty pg i) \<and>
    (\<forall>i j. pg_ltc1 pg i j \<noteq> pg_ltc1 pg0 i j \<longrightarrow> pg_ltc1_dirty pg i) \<and>
    (\<forall>i j. pg_program_data pg i j \<noteq> pg_program_data pg0 i j \<longrightarrow> pg_program_data_dirty pg)"

definition ok :: "PGRAPHState \<Rightarrow> PGRAPHState \<Rightarrow> bool" where
  "ok pg0 pg \<longleftrightarrow> batch_inv pg \<and> tracked pg0 pg"

lemma ok_refl: "batch_inv pg \<Longrightarrow> ok pg pg"
  by (simp add: ok_def tracked_def)

lemma ok_update [simp]:
  "ok pg0 (pg\<lparr>pg_pending_interrupts := x0\<rparr>) = ok pg0 pg" "ok pg0 (pg\<lparr>pg_enabled_interrupts := x1\<rparr>) = ok pg0 pg"
  "ok pg0 (pg\<lparr>pg_frame_time := x2\<rparr>) = ok pg0 pg" "ok pg0 (pg\<lparr>pg_context_surfaces_2d := x3\<rparr>) = ok pg0 pg"
  "ok pg0 (pg\<lparr>pg_image_blit := x4\<rparr>) = ok pg0 pg" "ok pg0 (pg\<lparr>pg_kelvin_object_instance := x5\<rparr>) = ok pg0 pg"
  "ok pg0 (pg\<lparr>pg_beta := x6\<rparr>) = ok pg0 pg" "ok pg0 (pg\<lparr>pg_dma_color := x7\<rparr>) = ok pg0 pg"
  "ok pg0 (pg\<lparr>pg_dma_zeta := x8\<rparr>) = ok pg0 pg" "ok pg0 (pg\<lparr>pg_surface_color := x9\<rparr>) = ok pg0 pg"
  "ok pg0 (pg\<lparr>pg_surface_zeta := x10\<rparr>) = ok pg0 pg" "ok pg0 (pg\<lparr>pg_surface_type := x11\<rparr>) = ok pg0 pg"
  "ok pg0 (pg\<lparr>pg_surface_shape := x12\<rparr>) = ok pg0 pg" "ok pg0 (pg\<lparr>pg_dma_a := x13\<rparr>) = ok pg0 pg"
  "ok pg0 (pg\<lparr>pg_dma_b := x14\<rparr>) = ok pg0 pg" "ok pg0 (pg\<lparr>pg_texture_dirty := x15\<rparr>) = ok pg0 pg"
  "ok pg0 (pg\<lparr>pg_texture_matrix_enable := x16\<rparr>) = ok pg0 pg" "ok pg0 (pg\<lparr>pg_dma_state := x17\<rparr>) = ok pg0 pg"
  "ok pg0 (pg\<lparr>pg_dma_notifies := x18\<rparr>) = ok pg0 pg" "ok pg0 (pg\<lparr>pg_dma_semaphore := x19\<rparr>) = ok pg0 pg"
  "ok pg0 (pg\<lparr>pg_dma_report := x20\<rparr>) = ok pg0 pg" "ok pg0 (pg\<lparr>pg_zpass_pixel_count_enable := x21\<rparr>) = ok pg0 pg"
  "ok pg0 (pg\<lparr>pg_dma_vertex_a := x22\<rparr>) = ok pg0 pg" "ok pg0 (pg\<lparr>pg_dma_vertex_b := x23\<rparr>) = ok pg0 pg"
  "ok pg0 (pg\<lparr>pg_primitive_mode := x24\<rparr>) = ok pg0 pg" "ok pg0 (pg\<lparr>pg_enable_vertex_program_write := x25\<rparr>) = ok pg0 pg"
  "ok pg0 (pg\<lparr>pg_vertex_state_shader_v0 := x26\<rparr>) = ok pg0 pg" "ok pg0 (pg\<lparr>pg_material_alpha := x37\<rparr>) = ok pg0 pg"
  "ok pg0 (pg\<lparr>pg_light_infinite_half_vector := x38\<rparr>) = ok pg0 pg" "ok pg0 (pg\<lparr>pg_light_infinite_direction := x39\<rparr>) = ok pg0 pg"
  "ok pg0 (pg\<lparr>pg_light_local_position := x40\<rparr>) = ok pg0 pg" "ok pg0 (pg\<lparr>pg_light_local_attenuation := x41\<rparr>) = ok pg0 pg"
  "ok pg0 (pg\<lparr>pg_specular_params := x42\<rparr>) = ok pg0 pg" "ok pg0 (pg\<lparr>pg_specular_power := x43\<rparr>) = ok pg0 pg"
  "ok pg0 (pg\<lparr>pg_specular_params_back := x44\<rparr>) = ok pg0 pg" "ok pg0 (pg\<lparr>pg_specular_power_back := x45\<rparr>) = ok pg0 pg"
  "ok pg0 (pg\<lparr>pg_point_params := x46\<rparr>) = ok pg0 pg" "ok pg0 (pg\<lparr>pg_vertex_attributes := x47\<rparr>) = ok pg0 pg"
  "ok pg0 (pg\<lparr>pg_compressed_attrs := x48\<rparr>) = ok pg0 pg" "ok pg0 (pg\<lparr>pg_inline_array := x50\<rparr>) = ok pg0 pg"
  "ok pg0 (pg\<lparr>pg_inline_elements := x52\<rparr>) = ok pg0 pg" "ok pg0 (pg\<lparr>pg_draw_arrays_min_start := x55\<rparr>) = ok pg0 pg"
  "ok pg0 (pg\<lparr>pg_draw_arrays_max_count := x56\<rparr>) = ok pg0 pg" "ok pg0 (pg\<lparr>pg_draw_arrays_prevent_connect := x59\<rparr>) = ok pg0 pg"
  "ok pg0 (pg\<lparr>pg_waiting_for_nop := x62\<rparr>) = ok pg0 pg" "ok pg0 (pg\<lparr>pg_waiting_for_flip := x63\<rparr>) = ok pg0 pg"
  "ok pg0 (pg\<lparr>pg_waiting_for_context_switch := x64\<rparr>) = ok pg0 pg" "ok pg0 (pg\<lparr>pg_flush_pending := x65\<rparr>) = ok pg0 pg"
  "ok pg0 (pg\<lparr>pg_sync_pending := x66\<rparr>) = ok pg0 pg"
  by (simp_all add: ok_def batch_inv_def tracked_def)

section \<open>Rules for the building blocks of handlers\<close>

named_theorems handler_rules \<open>conditional rewrite rules that discharge the parts of a handler\<close>

lemma reg_r_rule [handler_rules]:
  "r < PGRAPH_REGS \<Longrightarrow> (\<And>v. guarded P (f v)) \<Longrightarrow> guarded P (res_bind (pgraph_reg_r pg r) f)"
  by (simp add: pgraph_reg_r_def res_bind_assoc guarded_assert)

lemma get_mask_rule [handler_rules]:
  "r < PGRAPH_REGS \<Longrightarrow> (\<And>v. guarded P (f v)) \<Longrightarrow> guarded P (res_bind (PG_GET_MASK pg r m) f)"
  by (simp add: PG_GET_MASK_def res_bind_assoc reg_r_rule)

lemma reg_w_rule [handler_rules]:
  assumes "ok pg0 pg" "r < PGRAPH_REGS" shows "guarded (ok pg0) (pgraph_reg_w r v pg)"
proof (cases "r mod 4 = 0")
  case True
  then show ?thesis using assms by (auto simp: pgraph_reg_w_def ok_def tracked_def batch_inv_def Let_def)
qed (simp add: pgraph_reg_w_def)

lemma set_mask_rule [handler_rules]:
  "ok pg0 pg \<Longrightarrow> r < PGRAPH_REGS \<Longrightarrow> guarded (ok pg0) (PG_SET_MASK r m v pg)"
  by (simp add: PG_SET_MASK_def reg_r_rule reg_w_rule)

lemma steps_rule [handler_rules]:
  assumes "ok pg0 pg" "\<forall>f \<in> set fs. \<forall>pg. ok pg0 pg \<longrightarrow> guarded (ok pg0) (f pg)" shows "guarded (ok pg0) (steps fs pg)"
  unfolding steps_def using assms by (intro guarded_fold) auto

lemma assert_rule [handler_rules]: "guarded P (res_bind (assert_res b) f) = (b \<longrightarrow> guarded P (f ()))"
  by (cases b) simp_all

lemma switch_rules [handler_rules]:
  "(\<And>y. guarded P (f y)) \<Longrightarrow> guarded P (res_bind (switch_assert tab x) f)"
  "(\<And>y. guarded (ok pg0) (g y pg)) \<Longrightarrow> ok pg0 pg \<Longrightarrow> guarded (ok pg0) (switch_discard tab x g pg)"
  by (simp_all add: switch_assert_def switch_discard_def split: option.split)

lemma table_rules [handler_rules]:
  assumes "ok pg0 pg" "j < 4"
  shows "i < NV2A_LTCTXA_COUNT \<Longrightarrow> guarded (ok pg0) (set_ltctxa i j v pg)"
    "i < NV2A_LTCTXB_COUNT \<Longrightarrow> guarded (ok pg0) (set_ltctxb i j v pg)"
    "i < NV2A_LTC1_COUNT \<Longrightarrow> guarded (ok pg0) (set_ltc1 i j v pg)"
    "i < NV2A_VERTEXSHADER_CONSTANTS \<Longrightarrow> guarded (ok pg0) (set_vsh_constant i j v pg)"
  using assms by (auto simp: set_ltctxa_def set_ltctxb_def set_ltc1_def set_vsh_constant_def arr2_set_def
      ok_def tracked_def batch_inv_def)

lemma light_rule [handler_rules]:
  "i < NV2A_MAX_LIGHTS \<Longrightarrow> j < 3 \<Longrightarrow> (\<And>a. ok pg0 (upd a)) \<Longrightarrow> guarded (ok pg0) (set_light3 upd a i j v)"
  by (simp add: set_light3_def arr2_set_def)

lemma texture_dirty_rule [handler_rules]:
  "ok pg0 pg \<Longrightarrow> slot < NV2A_MAX_TEXTURES \<Longrightarrow> guarded (ok pg0) (set_texture_dirty slot pg)"
  by (simp add: set_texture_dirty_def)

lemma map_rules [handler_rules]:
  "(\<And>v. guarded P (f v)) \<Longrightarrow> guarded P (res_bind (kelvin_map_stencil_op x) f)"
  "(\<And>v. guarded P (f v)) \<Longrightarrow> guarded P (res_bind (kelvin_map_polygon_mode x) f)"
  "(\<And>v. guarded P (f v)) \<Longrightarrow> guarded P (res_bind (kelvin_map_texgen x c) f)"
  "(\<And>v. guarded P (f v)) \<Longrightarrow> guarded P (res_bind (vertex_format_size x n) f)"
  by (simp_all add: kelvin_map_stencil_op_def kelvin_map_polygon_mode_def switch_rules kelvin_map_texgen_def
      vertex_format_size_def res_bind_assoc assert_rule)

lemma write_enabled_rules [handler_rules]:
  "(\<And>v. guarded P (f v)) \<Longrightarrow> guarded P (res_bind (pgraph_color_write_enabled pg) f)"
  "(\<And>v. guarded P (f v)) \<Longrightarrow> guarded P (res_bind (pgraph_zeta_write_enabled pg) f)"
  by (simp_all add: pgraph_color_write_enabled_def pgraph_zeta_write_enabled_def res_bind_assoc reg_r_rule)

lemma put_attr_ok [simp]: "ok pg0 (put_attr a x pg) = ok pg0 pg"
  by (simp add: put_attr_def)

lemma allocate_rule:
  assumes "ok pg0 pg" "a < NV2A_VERTEXSHADER_ATTRIBUTES"
  shows "guarded (ok pg0) (pgraph_allocate_inline_buffer_vertices a pg)"
proof -
  have "unat (pg_inline_buffer_length pg) \<le> NV2A_MAX_BATCH_LENGTH" using assms(1) by (simp add: ok_def batch_inv_def)
  from memcpy4_fold [OF this, of "va_inline_value (pg_vertex_attributes pg a)" "va_inline_buffer (pg_vertex_attributes pg a)"]
  show ?thesis using assms by (auto simp: pgraph_allocate_inline_buffer_vertices_def get_attr_def)
qed

lemma finish_rule:
  assumes "ok pg0 pg" shows "guarded (ok pg0) (pgraph_finish_inline_buffer_vertex pg)"
  unfolding pgraph_finish_inline_buffer_vertex_def assert_rule
proof
  assume l: "unat (pg_inline_buffer_length pg) < NV2A_MAX_BATCH_LENGTH"
  have "guarded (\<lambda>pg'. ok pg0 pg' \<and> pg_inline_buffer_length pg' = pg_inline_buffer_length pg)
      (fold_res finish_attr [0..<NV2A_VERTEXSHADER_ATTRIBUTES] pg)"
    using assms l by (intro guarded_fold) (auto simp: finish_attr_def memcpy4_def Let_def)
  then show "guarded (ok pg0) (res_bind (fold_res finish_attr [0..<NV2A_VERTEXSHADER_ATTRIBUTES] pg)
      (\<lambda>pg. Inr (pg\<lparr>pg_inline_buffer_length := pg_inline_buffer_length pg + 1\<rparr>)))"
    using unat_inc [OF l] l by (auto intro!: guarded_bind simp: ok_def batch_inv_def tracked_def)
qed

lemma vertex_write_rule [handler_rules]:
  assumes "ok pg0 pg" "a < NV2A_VERTEXSHADER_ATTRIBUTES" "\<forall>w \<in> set ws. fst w < 4"
  shows "guarded (ok pg0) (vertex_write a ws fin pg)"
  unfolding vertex_write_def
proof (rule guarded_bind [OF allocate_rule [OF assms(1,2)]])
  fix pg assume "ok pg0 pg"
  then show "guarded (ok pg0) (res_bind (get_attr pg a) (\<lambda>attribute.
      res_bind (fold_res (\<lambda>(c, v) val. arr_set 4 val c v) ws (va_inline_value attribute)) (\<lambda>val.
        let pg = put_attr a (attribute\<lparr>va_inline_value := val\<rparr>) pg in
        if fin then pgraph_finish_inline_buffer_vertex pg else Inr pg)))"
    using assms(2) by (simp add: get_attr_def set_components [OF assms(3)] Let_def finish_rule)
qed

section \<open>Every entry of the table\<close>

lemmas register_handler_defs =
  pgraph_NV097_SET_OBJECT_handler_def pgraph_NV097_SET_FLIP_READ_handler_def
  pgraph_NV097_SET_FLIP_WRITE_handler_def pgraph_NV097_SET_FLIP_MODULO_handler_def
  pgraph_NV097_FLIP_INCREMENT_WRITE_handler_def pgraph_NV097_SET_CONTEXT_DMA_NOTIFIES_handler_def
  pgraph_NV097_SET_CONTEXT_DMA_A_handler_def pgraph_NV097_SET_CONTEXT_DMA_B_handler_def
  pgraph_NV097_SET_CONTEXT_DMA_STATE_handler_def pgraph_NV097_SET_CONTEXT_DMA_ZETA_handler_def
  pgraph_NV097_SET_CONTEXT_DMA_VERTEX_A_handler_def pgraph_NV097_SET_CONTEXT_DMA_VERTEX_B_handler_def
  pgraph_NV097_SET_CONTEXT_DMA_SEMAPHORE_handler_def pgraph_NV097_SET_COMBINER_ALPHA_ICW_handler_def
  pgraph_NV097_SET_COMBINER_SPECULAR_FOG_CW0_handler_def
  pgraph_NV097_SET_COMBINER_SPECULAR_FOG_CW1_handler_def pgraph_NV097_SET_TEXTURE_ADDRESS_handler_def
  pgraph_NV097_SET_LIGHT_CONTROL_handler_def pgraph_NV097_SET_COLOR_MATERIAL_handler_def
  pgraph_NV097_SET_FOG_MODE_handler_def pgraph_NV097_SET_FOG_GEN_MODE_handler_def
  pgraph_NV097_SET_FOG_ENABLE_handler_def pgraph_NV097_SET_FOG_COLOR_handler_def
  pgraph_NV097_SET_WINDOW_CLIP_TYPE_handler_def pgraph_NV097_SET_WINDOW_CLIP_HORIZONTAL_handler_def
  pgraph_NV097_SET_WINDOW_CLIP_VERTICAL_handler_def pgraph_NV097_SET_ALPHA_TEST_ENABLE_handler_def
  pgraph_NV097_SET_BLEND_ENABLE_handler_def pgraph_NV097_SET_CULL_FACE_ENABLE_handler_def
  pgraph_NV097_SET_DEPTH_TEST_ENABLE_handler_def pgraph_NV097_SET_DITHER_ENABLE_handler_def
  pgraph_NV097_SET_LIGHTING_ENABLE_handler_def pgraph_NV097_SET_POINT_PARAMS_ENABLE_handler_def
  pgraph_NV097_SET_POINT_SMOOTH_ENABLE_handler_def pgraph_NV097_SET_LINE_SMOOTH_ENABLE_handler_def
  pgraph_NV097_SET_POLY_SMOOTH_ENABLE_handler_def pgraph_NV097_SET_SKIN_MODE_handler_def
  pgraph_NV097_SET_STENCIL_TEST_ENABLE_handler_def pgraph_NV097_SET_POLY_OFFSET_POINT_ENABLE_handler_def
  pgraph_NV097_SET_POLY_OFFSET_LINE_ENABLE_handler_def
  pgraph_NV097_SET_POLY_OFFSET_FILL_ENABLE_handler_def pgraph_NV097_SET_ALPHA_FUNC_handler_def
  pgraph_NV097_SET_ALPHA_REF_handler_def pgraph_NV097_SET_BLEND_FUNC_SFACTOR_handler_def
  pgraph_NV097_SET_BLEND_FUNC_DFACTOR_handler_def pgraph_NV097_SET_BLEND_COLOR_handler_def
  pgraph_NV097_SET_BLEND_EQUATION_handler_def pgraph_NV097_SET_DEPTH_FUNC_handler_def
  pgraph_NV097_SET_COLOR_MASK_handler_def pgraph_NV097_SET_DEPTH_MASK_handler_def
  pgraph_NV097_SET_STENCIL_MASK_handler_def pgraph_NV097_SET_STENCIL_FUNC_handler_def
  pgraph_NV097_SET_STENCIL_FUNC_REF_handler_def pgraph_NV097_SET_STENCIL_FUNC_MASK_handler_def
  pgraph_NV097_SET_STENCIL_OP_FAIL_handler_def pgraph_NV097_SET_STENCIL_OP_ZFAIL_handler_def
  pgraph_NV097_SET_STENCIL_OP_ZPASS_handler_def pgraph_NV097_SET_SHADE_MODE_handler_def
  pgraph_NV097_SET_PROVOKING_VERTEX_handler_def pgraph_NV097_SET_POLYGON_OFFSET_SCALE_FACTOR_handler_def
  pgraph_NV097_SET_POLYGON_OFFSET_BIAS_handler_def pgraph_NV097_SET_FRONT_POLYGON_MODE_handler_def
  pgraph_NV097_SET_BACK_POLYGON_MODE_handler_def pgraph_NV097_SET_CLIP_MIN_handler_def
  pgraph_NV097_SET_CLIP_MAX_handler_def pgraph_NV097_SET_CULL_FACE_handler_def
  pgraph_NV097_SET_FRONT_FACE_handler_def pgraph_NV097_SET_NORMALIZATION_ENABLE_handler_def
  pgraph_NV097_SET_MATERIAL_EMISSION_handler_def pgraph_NV097_SET_MATERIAL_ALPHA_handler_def
  pgraph_NV097_SET_SPECULAR_ENABLE_handler_def pgraph_NV097_SET_LIGHT_ENABLE_MASK_handler_def
  pgraph_NV097_SET_TEXGEN_S_handler_def pgraph_NV097_SET_TEXGEN_T_handler_def
  pgraph_NV097_SET_TEXGEN_R_handler_def pgraph_NV097_SET_TEXGEN_Q_handler_def
  pgraph_NV097_SET_TEXTURE_MATRIX_ENABLE_handler_def pgraph_NV097_SET_POINT_SIZE_handler_def
  pgraph_NV097_SET_PROJECTION_MATRIX_handler_def pgraph_NV097_SET_MODEL_VIEW_MATRIX_handler_def
  pgraph_NV097_SET_INVERSE_MODEL_VIEW_MATRIX_handler_def pgraph_NV097_SET_COMPOSITE_MATRIX_handler_def
  pgraph_NV097_SET_TEXTURE_MATRIX_handler_def pgraph_NV097_SET_FOG_PARAMS_handler_def
  pgraph_NV097_SET_TEXGEN_PLANE_S_handler_def pgraph_NV097_SET_TEXGEN_VIEW_MODEL_handler_def
  pgraph_NV097_SET_FOG_PLANE_handler_def pgraph_NV097_SET_SCENE_AMBIENT_COLOR_handler_def
  pgraph_NV097_SET_VIEWPORT_OFFSET_handler_def pgraph_NV097_SET_POINT_PARAMS_handler_def
  pgraph_NV097_SET_EYE_POSITION_handler_def pgraph_NV097_SET_COMBINER_FACTOR0_handler_def
  pgraph_NV097_SET_COMBINER_FACTOR1_handler_def pgraph_NV097_SET_COMBINER_ALPHA_OCW_handler_def
  pgraph_NV097_SET_COMBINER_COLOR_ICW_handler_def pgraph_NV097_SET_COLOR_KEY_COLOR_handler_def
  pgraph_NV097_SET_VIEWPORT_SCALE_handler_def pgraph_NV097_SET_TRANSFORM_PROGRAM_handler_def
  pgraph_NV097_SET_TRANSFORM_CONSTANT_handler_def pgraph_NV097_SET_BACK_LIGHT_AMBIENT_COLOR_handler_def
  pgraph_NV097_SET_LIGHT_AMBIENT_COLOR_handler_def pgraph_NV097_SET_VERTEX_DATA_ARRAY_FORMAT_handler_def
  pgraph_NV097_SET_VERTEX_DATA_ARRAY_OFFSET_handler_def pgraph_NV097_SET_LOGIC_OP_ENABLE_handler_def
  pgraph_NV097_SET_LOGIC_OP_handler_def pgraph_NV097_SET_ZPASS_PIXEL_COUNT_ENABLE_handler_def
  pgraph_NV097_SET_EYE_DIRECTION_handler_def pgraph_NV097_SET_TEXTURE_OFFSET_handler_def
  pgraph_NV097_SET_TEXTURE_FORMAT_handler_def pgraph_NV097_SET_TEXTURE_CONTROL0_handler_def
  pgraph_NV097_SET_TEXTURE_CONTROL1_handler_def pgraph_NV097_SET_TEXTURE_FILTER_handler_def
  pgraph_NV097_SET_TEXTURE_IMAGE_RECT_handler_def pgraph_NV097_SET_TEXTURE_PALETTE_handler_def
  pgraph_NV097_SET_TEXTURE_BORDER_COLOR_handler_def pgraph_NV097_SET_TEXTURE_SET_BUMP_ENV_MAT_handler_def
  pgraph_NV097_SET_TEXTURE_SET_BUMP_ENV_SCALE_handler_def
  pgraph_NV097_SET_TEXTURE_SET_BUMP_ENV_OFFSET_handler_def pgraph_NV097_SET_EYE_VECTOR_handler_def
  pgraph_NV097_SET_SEMAPHORE_OFFSET_handler_def pgraph_NV097_SET_ZMIN_MAX_CONTROL_handler_def
  pgraph_NV097_SET_ANTI_ALIASING_CONTROL_handler_def pgraph_NV097_SET_ZSTENCIL_CLEAR_VALUE_handler_def
  pgraph_NV097_SET_COLOR_CLEAR_VALUE_handler_def pgraph_NV097_SET_CLEAR_RECT_HORIZONTAL_handler_def
  pgraph_NV097_SET_CLEAR_RECT_VERTICAL_handler_def pgraph_NV097_SET_SPECULAR_FOG_FACTOR_handler_def
  pgraph_NV097_SET_SHADER_CLIP_PLANE_MODE_handler_def pgraph_NV097_SET_COMBINER_COLOR_OCW_handler_def
  pgraph_NV097_SET_COMBINER_CONTROL_handler_def pgraph_NV097_SET_SHADOW_ZSLOPE_THRESHOLD_handler_def
  pgraph_NV097_SET_SHADOW_DEPTH_FUNC_handler_def pgraph_NV097_SET_SHADER_STAGE_PROGRAM_handler_def
  pgraph_NV097_SET_DOT_RGBMAPPING_handler_def pgraph_NV097_SET_SHADER_OTHER_STAGE_INPUT_handler_def
  pgraph_NV097_SET_TRANSFORM_DATA_handler_def pgraph_NV097_SET_TRANSFORM_EXECUTION_MODE_handler_def
  pgraph_NV097_SET_TRANSFORM_PROGRAM_CXT_WRITE_EN_handler_def
  pgraph_NV097_SET_TRANSFORM_PROGRAM_LOAD_handler_def
  pgraph_NV097_SET_TRANSFORM_PROGRAM_START_handler_def
  pgraph_NV097_SET_TRANSFORM_CONSTANT_LOAD_handler_def pgraph_NV097_INLINE_ARRAY_handler_def

lemmas vertex_handler_defs =
  pgraph_NV097_SET_VERTEX3F_handler_def pgraph_NV097_SET_VERTEX4F_handler_def
  pgraph_NV097_SET_FOG_COORD_handler_def pgraph_NV097_SET_WEIGHT1F_handler_def
  pgraph_NV097_SET_NORMAL3S_handler_def pgraph_NV097_SET_TEXCOORD0_4S_handler_def
  pgraph_NV097_SET_TEXCOORD1_4S_handler_def pgraph_NV097_SET_TEXCOORD2_4S_handler_def
  pgraph_NV097_SET_TEXCOORD3_4S_handler_def pgraph_NV097_SET_TEXCOORD0_2S_handler_def
  pgraph_NV097_SET_TEXCOORD1_2S_handler_def pgraph_NV097_SET_TEXCOORD2_2S_handler_def
  pgraph_NV097_SET_TEXCOORD3_2S_handler_def pgraph_NV097_SET_DIFFUSE_COLOR3F_handler_def
  pgraph_NV097_SET_SPECULAR_COLOR3F_handler_def pgraph_NV097_SET_NORMAL3F_handler_def
  pgraph_NV097_SET_DIFFUSE_COLOR4F_handler_def pgraph_NV097_SET_SPECULAR_COLOR4F_handler_def
  pgraph_NV097_SET_TEXCOORD0_4F_handler_def pgraph_NV097_SET_TEXCOORD1_4F_handler_def
  pgraph_NV097_SET_TEXCOORD2_4F_handler_def pgraph_NV097_SET_TEXCOORD3_4F_handler_def
  pgraph_NV097_SET_WEIGHT4F_handler_def pgraph_NV097_SET_WEIGHT2F_handler_def
  pgraph_NV097_SET_WEIGHT3F_handler_def pgraph_NV097_SET_TEXCOORD0_2F_handler_def
  pgraph_NV097_SET_TEXCOORD1_2F_handler_def pgraph_NV097_SET_TEXCOORD2_2F_handler_def
  pgraph_NV097_SET_TEXCOORD3_2F_handler_def pgraph_NV097_SET_DIFFUSE_COLOR4UB_handler_def
  pgraph_NV097_SET_SPECULAR_COLOR4UB_handler_def pgraph_NV097_SET_VERTEX_DATA2F_M_handler_def
  pgraph_NV097_SET_VERTEX_DATA4F_M_handler_def pgraph_NV097_SET_VERTEX_DATA2S_handler_def
  pgraph_NV097_SET_VERTEX_DATA4UB_handler_def pgraph_NV097_SET_VERTEX_DATA4S_M_handler_def
  SET_VERTEX_ATTRIBUTE_4S_def SET_VERTEX_ATRIBUTE_TEX_2S_def SET_VERTEX_COLOR_3F_def
  SET_VERTEX_ATTRIBUTE_F_def SET_VERTEX_ATRIBUTE_TEX_2F_def SET_VERTEX_ATTRIBUTE_4UB_def

definition entry_ok :: "method_entry \<Rightarrow> bool" where
  "entry_ok e \<longleftrightarrow> (case e of (base, off, n, stride, k, f) \<Rightarrow>
    (case f of Pg h \<Rightarrow> base \<noteq> NV097_FLIP_INCREMENT_WRITE \<longrightarrow>
        (\<forall>m p pg0 pg. entry_covers m e \<longrightarrow> ok pg0 pg \<longrightarrow> guarded (ok pg0) (h m p pg))
      | Dev h \<Rightarrow> True))"

lemma entry_ok_dev: "entry_ok (base, off, n, stride, k, Dev h)"
  by (simp add: entry_ok_def)

lemma entry_ok_slots:
  assumes "\<And>m p pg0 pg. slot_of base stride m < n \<Longrightarrow> ok pg0 pg \<Longrightarrow> guarded (ok pg0) (h m p pg)"
  shows "entry_ok (base, 0, n, stride, k, Pg h)"
  using assms by (auto simp: entry_ok_def slot_of_def Let_def less_mult_imp_div_less)

lemma entry_ok_bytes:
  assumes "\<And>m p pg0 pg. unat (m - base) < unat off + n * stride \<Longrightarrow> ok pg0 pg \<Longrightarrow> guarded (ok pg0) (h m p pg)"
    and "unat off + n * stride < 2 ^ 32"
  shows "entry_ok (base, off, n, stride, k, Pg h)"
proof -
  have "unat (m - base) < unat off + n * stride" if "unat (m - (base + off)) < n * stride" for m
  proof -
    have "unat (m - (base + off) + off) = unat (m - (base + off)) + unat off"
      by (rule unat_add_lem [THEN iffD1]) (use that assms(2) in simp)
    with that show ?thesis by simp
  qed
  with assms(1) show ?thesis by (auto simp: entry_ok_def Let_def)
qed

named_theorems entry_rules \<open>table entries whose handlers need an argument of their own\<close>

lemma flip_increment_entry [entry_rules]:
  "entry_ok (NV097_FLIP_INCREMENT_WRITE, 0, 1, 4, k, Pg pgraph_NV097_FLIP_INCREMENT_WRITE_handler)"
  by (simp add: entry_ok_def)

lemma window_clip_entries [entry_rules]:
  "entry_ok (NV097_SET_WINDOW_CLIP_HORIZONTAL, 0, 8, 4, k, Pg pgraph_NV097_SET_WINDOW_CLIP_HORIZONTAL_handler)"
  "entry_ok (NV097_SET_WINDOW_CLIP_VERTICAL, 0, 8, 4, k, Pg pgraph_NV097_SET_WINDOW_CLIP_VERTICAL_handler)"
  by (rule entry_ok_slots, simp add: register_handler_defs, rule guarded_fold, simp, simp add: reg_w_rule)+

lemma bump_env_entry [entry_rules]:
  "off \<in> {0, 4, 8, 12} \<Longrightarrow> entry_ok (NV097_SET_TEXTURE_SET_BUMP_ENV_MAT, off, 4, 64, k, Pg pgraph_NV097_SET_TEXTURE_SET_BUMP_ENV_MAT_handler)"
proof (rule entry_ok_bytes)
  fix m p pg0 pg
  assume off: "off \<in> {0, 4, 8, 12 :: u32}" and m: "unat (m - NV097_SET_TEXTURE_SET_BUMP_ENV_MAT) < unat off + 4 * 64" and ok: "ok pg0 pg"
  let ?s = "slot_of NV097_SET_TEXTURE_SET_BUMP_ENV_MAT 4 m"
  have s: "?s < 100" using off m by (auto simp: slot_of_def)
  let ?regs = "[NV_PGRAPH_BUMPMAT00, NV_PGRAPH_BUMPMAT01, NV_PGRAPH_BUMPMAT11, NV_PGRAPH_BUMPMAT10] :: nat list"
  have "?regs ! ((?s - 16) mod 4) \<in> set ?regs" by (rule nth_mem) simp
  then have "?regs ! ((?s - 16) mod 4) < 0x1f00" by auto
  with s ok show "guarded (ok pg0) (pgraph_NV097_SET_TEXTURE_SET_BUMP_ENV_MAT_handler m p pg)"
    by (auto simp: register_handler_defs Let_def intro!: reg_w_rule)
qed auto

lemma shadow_entry [entry_rules]:
  "entry_ok (NV097_SET_SHADOW_ZSLOPE_THRESHOLD, 0, 1, 4, k, Pg pgraph_NV097_SET_SHADOW_ZSLOPE_THRESHOLD_handler)"
  by (rule entry_ok_slots, simp add: register_handler_defs, rule guarded_bind [OF reg_w_rule]) (auto simp: assert_rule)

lemma fog_params_entry [entry_rules]:
  "entry_ok (NV097_SET_FOG_PARAMS, 0, 3, 4, k, Pg pgraph_NV097_SET_FOG_PARAMS_handler)"
  by (rule entry_ok_slots, simp add: register_handler_defs Let_def, intro conjI impI)
    (auto intro!: guarded_bind [OF reg_w_rule] table_rules)

lemma transform_entries [entry_rules]:
  "entry_ok (NV097_SET_TRANSFORM_PROGRAM, 0, 32, 4, k, Pg pgraph_NV097_SET_TRANSFORM_PROGRAM_handler)"
  "entry_ok (NV097_SET_TRANSFORM_CONSTANT, 0, 32, 4, k, Pg pgraph_NV097_SET_TRANSFORM_CONSTANT_handler)"
proof -
  have p: "ok pg0 (pg\<lparr>pg_program_data := a, pg_program_data_dirty := True\<rparr>)" if "ok pg0 pg" for pg0 pg a
    using that by (simp add: ok_def tracked_def batch_inv_def)
  have c: "ok pg0 (pg\<lparr>pg_vsh_constants_dirty := (pg_vsh_constants_dirty pg)(i := pg_vsh_constants_dirty pg i \<or> v \<noteq> pg_vsh_constants pg i j),
      pg_vsh_constants := (pg_vsh_constants pg)(i := (pg_vsh_constants pg i)(j := v))\<rparr>)" if "ok pg0 pg" for pg0 pg i j v
    using that by (auto simp: ok_def tracked_def batch_inv_def)
  show "entry_ok (NV097_SET_TRANSFORM_PROGRAM, 0, 32, 4, k, Pg pgraph_NV097_SET_TRANSFORM_PROGRAM_handler)"
    by (rule entry_ok_slots) (simp add: register_handler_defs Let_def, auto intro!: get_mask_rule set_mask_rule p simp: assert_rule arr2_set_def)
  show "entry_ok (NV097_SET_TRANSFORM_CONSTANT, 0, 32, 4, k, Pg pgraph_NV097_SET_TRANSFORM_CONSTANT_handler)"
    by (rule entry_ok_slots) (simp add: register_handler_defs Let_def, auto intro!: get_mask_rule set_mask_rule c simp: assert_rule arr2_set_def)
qed


lemma tracked_batch [simp]:
  "tracked pg0 (pg\<lparr>pg_draw_arrays_min_start := w\<rparr>) = tracked pg0 pg"
  "tracked pg0 (pg\<lparr>pg_draw_arrays_max_count := w\<rparr>) = tracked pg0 pg"
  "tracked pg0 (pg\<lparr>pg_draw_arrays_start := a\<rparr>) = tracked pg0 pg"
  "tracked pg0 (pg\<lparr>pg_draw_arrays_count := a\<rparr>) = tracked pg0 pg"
  "tracked pg0 (pg\<lparr>pg_draw_arrays_length := w\<rparr>) = tracked pg0 pg"
  "tracked pg0 (pg\<lparr>pg_draw_arrays_prevent_connect := b\<rparr>) = tracked pg0 pg"
  "tracked pg0 (pg\<lparr>pg_inline_elements := a\<rparr>) = tracked pg0 pg"
  "tracked pg0 (pg\<lparr>pg_inline_elements_length := w\<rparr>) = tracked pg0 pg"
  by (simp_all add: tracked_def)

lemma tracked_elements: "tracked pg0 pg \<Longrightarrow> push_element v pg = Inr pg' \<Longrightarrow> tracked pg0 pg'"
  by (auto simp: push_element_def arr_set_def split: if_splits)

lemma draw_arrays_tracked:
  assumes "tracked pg0 pg" "pgraph_NV097_DRAW_ARRAYS_handler m p pg = Inr pg'"
  shows "tracked pg0 pg'"
proof (cases "pg_inline_elements_length pg = 0")
  case True
  with assms show ?thesis
    by (auto simp: pgraph_NV097_DRAW_ARRAYS_handler_def Let_def res_bind_eq_Inr split: if_splits)
next
  case False
  let ?s = "GET_MASK p NV097_DRAW_ARRAYS_START_INDEX" and ?c = "GET_MASK p NV097_DRAW_ARRAYS_COUNT + 1"
  from False assms(2) have "fold_res (\<lambda>i. push_element (?s + of_nat i)) [0..<unat ?c] pg = Inr pg'"
    by (auto simp: pgraph_NV097_DRAW_ARRAYS_handler_def Let_def res_bind_eq_Inr)
  then show ?thesis
    by (rule fold_res_invariant [where P = "tracked pg0"]) (use assms(1) tracked_elements in blast)+
qed

lemma draw_arrays_entry [entry_rules]:
  "entry_ok (NV097_DRAW_ARRAYS, 0, 1, 4, k, Pg pgraph_NV097_DRAW_ARRAYS_handler)"
proof (rule entry_ok_slots)
  fix m p pg0 pg assume o: "ok pg0 pg"
  then have "guarded batch_inv (pgraph_NV097_DRAW_ARRAYS_handler m p pg)"
    by (intro guarded_mono [OF draw_arrays_guarded]) (simp_all add: ok_def)
  with o draw_arrays_tracked [of pg0 pg m p] show "guarded (ok pg0) (pgraph_NV097_DRAW_ARRAYS_handler m p pg)"
    by (cases "pgraph_NV097_DRAW_ARRAYS_handler m p pg") (simp_all add: ok_def)
qed

lemma inline_array_entry [entry_rules]:
  "entry_ok (NV097_INLINE_ARRAY, 0, 1, 4, k, Pg pgraph_NV097_INLINE_ARRAY_handler)"
proof (rule entry_ok_slots)
  fix m p pg0 pg assume "ok pg0 pg"
  then show "guarded (ok pg0) (pgraph_NV097_INLINE_ARRAY_handler m p pg)"
    using unat_inc [of "pg_inline_array_length pg" NV2A_MAX_BATCH_LENGTH]
    by (auto simp: pgraph_NV097_INLINE_ARRAY_handler_def assert_rule ok_def batch_inv_def tracked_def)
qed

lemma kelvin_methods_ok:
  "list_all entry_ok kelvin_methods_1" "list_all entry_ok kelvin_methods_2" "list_all entry_ok kelvin_methods_3"
  unfolding kelvin_methods_1_def kelvin_methods_2_def kelvin_methods_3_def list.pred_inject
  by (intro conjI list.pred_inject(1);
      (rule entry_ok_dev | (rule entry_rules; simp; fail) |
       rule entry_ok_slots, simp add: register_handler_defs vertex_handler_defs handler_rules Let_def del: steps_simps))+




end
