(* ===== verification/PFIFO.thy ===== *)
theory PFIFO
  imports PGRAPH
begin

text \<open>
  The command FIFO of \<open>hw/xbox/nv2a/pfifo.c\<close>: the object hash table in instance memory, the puller that
  hands methods to the graphics engine, and the pusher that fetches the command buffer.  The pusher runs in one
  thread; its state is the device state between two statements of that thread, and a fetch loop that
  never ends is \<^const>\<open>None\<close>.
\<close>

section \<open>The object hash table\<close>

abbreviation (input) ENGINE_GRAPHICS :: u32 where "ENGINE_GRAPHICS \<equiv> 1"

record RAMHTEntry =
  ht_handle :: u32
  ht_instance :: u64
  ht_engine :: u32
  ht_channel_id :: "5 word"
  ht_valid :: bool

definition ramht_size :: "NV2AState \<Rightarrow> u32" where
  "ramht_size d = push_bit (unat (GET_MASK (pfifo_regs d NV_PFIFO_RAMHT) NV_PFIFO_RAMHT_SIZE) + 12) 1"

lemma unat_drop_bit: "unat (drop_bit n w) = unat w div 2 ^ n" for w :: u32
  unfolding unat_drop_bit_eq by (rule drop_bit_eq_div)

text \<open>The loop of \<open>ramht_hash\<close> on chunks of \<open>Suc b\<close> bits: the table has at least 4096 bytes, so the chunk is never empty.\<close>

function ramht_loop :: "nat \<Rightarrow> u32 \<Rightarrow> u32 \<Rightarrow> u32" where
  "ramht_loop b handle hash =
    (if handle = 0 then hash
     else ramht_loop b (drop_bit (Suc b) handle) (hash XOR (handle AND (push_bit (Suc b) 1 - 1))))"
  by auto
termination
proof (relation "measure (\<lambda>(b, handle, hash). unat handle)")
  fix b and handle hash :: u32
  assume "handle \<noteq> 0"
  moreover have "(1::nat) < 2 ^ Suc b" by (rule one_less_power) simp_all
  ultimately have "unat handle div 2 ^ Suc b < unat handle" by (intro div_less_dividend) (auto simp: unat_gt_0)
  then show "((b, drop_bit (Suc b) handle, hash XOR (handle AND (push_bit (Suc b) 1 - 1))), b, handle, hash)
      \<in> measure (\<lambda>(b, handle, hash). unat handle)"
    by (simp add: unat_drop_bit)
qed simp

declare ramht_loop.simps [simp del]

definition ramht_hash :: "NV2AState \<Rightarrow> u32 \<Rightarrow> u32" where
  "ramht_hash d handle =
    (let bits = ctz32 (ramht_size d) - 1;
         hash = ramht_loop (bits - 1) handle 0;
         channel_id = GET_MASK (pfifo_regs d NV_PFIFO_CACHE1_PUSH1) NV_PFIFO_CACHE1_PUSH1_CHID
     in hash XOR push_bit (bits - 4) channel_id)"

definition ramht_lookup :: "NV2AState \<Rightarrow> u32 \<Rightarrow> RAMHTEntry res" where
  "ramht_lookup d handle =
    (let hash = ramht_hash d handle;
         ramht_address = push_bit 12 (GET_MASK (pfifo_regs d NV_PFIFO_RAMHT) NV_PFIFO_RAMHT_BASE_ADDRESS)
     in res_bind (assert_res (hash * 8 < ramht_size d)) (\<lambda>_.
        res_bind (assert_res (unat (ucast ramht_address + ucast (hash * 8) :: u64) < mem_size (nv_ramin d))) (\<lambda>_.
        let entry_ptr = unat ramht_address + unat (hash * 8) in
        res_bind (ldl_le (nv_ramin d) entry_ptr) (\<lambda>entry_handle.
        res_bind (ldl_le (nv_ramin d) (entry_ptr + 4)) (\<lambda>entry_context.
          Inr \<lparr>ht_handle = entry_handle,
            ht_instance = ucast (push_bit 4 (entry_context AND NV_RAMHT_INSTANCE)),
            ht_engine = drop_bit 16 (entry_context AND NV_RAMHT_ENGINE),
            ht_channel_id = ucast (drop_bit 24 (entry_context AND NV_RAMHT_CHID)),
            ht_valid = (entry_context AND NV_RAMHT_STATUS \<noteq> 0)\<rparr>)))))"

section \<open>The puller\<close>

definition fifo_set :: "nat \<Rightarrow> u32 \<Rightarrow> NV2AState \<Rightarrow> NV2AState" where
  "fifo_set r v d = d\<lparr>pfifo_regs := (pfifo_regs d)(r := v)\<rparr>"

definition fifo_set_mask :: "nat \<Rightarrow> u32 \<Rightarrow> u32 \<Rightarrow> NV2AState \<Rightarrow> NV2AState" where
  "fifo_set_mask r m v d = fifo_set r (SET_MASK (pfifo_regs d r) m v) d"

definition can_fifo_access :: "NV2AState \<Rightarrow> bool" where
  "can_fifo_access d \<longleftrightarrow> pg_regs (pgraph d) NV_PGRAPH_FIFO AND NV_PGRAPH_FIFO_ACCESS \<noteq> 0"

definition is_flip_stall_complete :: "NV2AState \<Rightarrow> bool res" where
  "is_flip_stall_complete d =
    res_bind (pgraph_reg_r (pgraph d) NV_PGRAPH_SURFACE) (\<lambda>s.
      Inr (GET_MASK s NV_PGRAPH_SURFACE_READ_3D \<noteq> GET_MASK s NV_PGRAPH_SURFACE_WRITE_3D))"

definition pfifo_stall_for_flip :: "NV2AState \<Rightarrow> (bool \<times> NV2AState) res" where
  "pfifo_stall_for_flip d =
    (if pg_waiting_for_flip (pgraph d) then
       res_bind (is_flip_stall_complete d) (\<lambda>complete.
         if \<not> complete then Inr (True, d)
         else Inr (False, d\<lparr>pgraph := (pgraph d)\<lparr>pg_waiting_for_flip := False\<rparr>\<rparr>))
     else Inr (False, d))"

definition pfifo_puller_should_stall :: "NV2AState \<Rightarrow> (bool \<times> NV2AState) res" where
  "pfifo_puller_should_stall d =
    res_bind (pfifo_stall_for_flip d) (\<lambda>(flip, d).
      Inr (flip \<or> pg_waiting_for_nop (pgraph d) \<or> pg_waiting_for_context_switch (pgraph d) \<or> \<not> can_fifo_access d, d))"

text \<open>The number of words processed; \<^const>\<open>None\<close> is -1.\<close>

definition pull_object ::
  "pgraph_env \<Rightarrow> u32 \<Rightarrow> u32 \<Rightarrow> nat \<Rightarrow> nat \<Rightarrow> nat \<Rightarrow> bool \<Rightarrow> NV2AState \<Rightarrow> (nat option \<times> NV2AState) res" where
  "pull_object env subchannel parameter parameters num_words_available max_lookahead_words inc d =
    res_bind (ramht_lookup d parameter) (\<lambda>entry.
    res_bind (assert_res (ht_valid entry)) (\<lambda>_.
    res_bind (assert_res (ht_engine entry = ENGINE_GRAPHICS)) (\<lambda>_.
    res_bind (assert_res (subchannel < 8)) (\<lambda>_.
      let d = fifo_set_mask NV_PFIFO_CACHE1_ENGINE (push_bit (4 * unat subchannel) 3) (ht_engine entry) d;
          d = fifo_set_mask NV_PFIFO_CACHE1_PULL1 NV_PFIFO_CACHE1_PULL1_ENGINE (ht_engine entry) d
      in if can_fifo_access d then
           res_bind (pgraph_context_switch d (ucast (ht_channel_id entry))) (\<lambda>d.
             if pg_waiting_for_context_switch (pgraph d) then Inr (None, d)
             else res_bind (pgraph_method env d subchannel 0 (ucast (ht_instance entry)) parameters
                num_words_available max_lookahead_words inc) (\<lambda>(n, d). Inr (Some n, d)))
         else Inr (None, d)))))"

definition pull_method ::
  "pgraph_env \<Rightarrow> u32 \<Rightarrow> u32 \<Rightarrow> u32 \<Rightarrow> nat \<Rightarrow> nat \<Rightarrow> nat \<Rightarrow> bool \<Rightarrow> NV2AState \<Rightarrow> (nat option \<times> NV2AState) res" where
  "pull_method env subchannel method parameter parameters num_words_available max_lookahead_words inc d =
    res_bind (if 0x180 \<le> method \<and> method < 0x200
        then res_bind (ramht_lookup d parameter) (\<lambda>entry.
          res_bind (assert_res (ht_valid entry)) (\<lambda>_. Inr (ucast (ht_instance entry))))
        else Inr parameter) (\<lambda>parameter.
    let engine = GET_MASK (pfifo_regs d NV_PFIFO_CACHE1_ENGINE) (push_bit (4 * unat subchannel) 3) in
    res_bind (assert_res (engine = ENGINE_GRAPHICS)) (\<lambda>_.
      let d = fifo_set_mask NV_PFIFO_CACHE1_PULL1 NV_PFIFO_CACHE1_PULL1_ENGINE engine d in
      if can_fifo_access d then
        res_bind (pgraph_method env d subchannel method parameter parameters
          num_words_available max_lookahead_words inc) (\<lambda>(n, d). Inr (Some n, d))
      else Inr (None, d)))"

definition pfifo_run_puller ::
  "pgraph_env \<Rightarrow> NV2AState \<Rightarrow> u32 \<Rightarrow> u32 \<Rightarrow> nat \<Rightarrow> nat \<Rightarrow> nat \<Rightarrow> (nat option \<times> NV2AState) res" where
  "pfifo_run_puller env d method_entry parameter parameters num_words_available max_lookahead_words =
    res_bind (pfifo_puller_should_stall d) (\<lambda>(stall, d).
      if stall then Inr (None, d)
      else if GET_MASK (pfifo_regs d NV_PFIFO_CACHE1_PULL0) NV_PFIFO_CACHE1_PULL0_ACCESS = 0 \<or>
              pfifo_regs d NV_PFIFO_CACHE1_STATUS AND NV_PFIFO_CACHE1_STATUS_LOW_MARK \<noteq> 0
      then Inr (None, d)
      else
        let method = method_entry AND 0x1FFC;
            subchannel = GET_MASK method_entry NV_PFIFO_CACHE1_METHOD_SUBCHANNEL;
            inc = (GET_MASK method_entry NV_PFIFO_CACHE1_METHOD_TYPE = 0)
        in res_bind
          (if method = 0 then pull_object env subchannel parameter parameters num_words_available max_lookahead_words inc d
           else if 0x100 \<le> method then
             pull_method env subchannel method parameter parameters num_words_available max_lookahead_words inc d
           else Inl Assertion) (\<lambda>(num_proc, d).
          Inr (num_proc,
            if num_proc = None \<or> num_proc = Some 0 then d
            else fifo_set NV_PFIFO_CACHE1_STATUS (pfifo_regs d NV_PFIFO_CACHE1_STATUS OR NV_PFIFO_CACHE1_STATUS_LOW_MARK) d)))"

section \<open>The pusher\<close>

definition pfifo_pusher_should_stall :: "NV2AState \<Rightarrow> bool" where
  "pfifo_pusher_should_stall d \<longleftrightarrow> \<not> can_fifo_access d \<or> pg_waiting_for_nop (pgraph d)"

definition dma_state_field :: "NV2AState \<Rightarrow> u32 \<Rightarrow> u32" where
  "dma_state_field d m = GET_MASK (pfifo_regs d NV_PFIFO_CACHE1_DMA_STATE) m"

definition set_dma_state :: "u32 \<Rightarrow> u32 \<Rightarrow> NV2AState \<Rightarrow> NV2AState" where
  "set_dma_state m v = fifo_set_mask NV_PFIFO_CACHE1_DMA_STATE m v"

text \<open>The entry that the pusher puts together for the puller.\<close>

definition fifo_method_entry :: "NV2AState \<Rightarrow> u32" where
  "fifo_method_entry d =
    (let method = push_bit 2 (dma_state_field d NV_PFIFO_CACHE1_DMA_STATE_METHOD);
         method_entry = SET_MASK 0 NV_PFIFO_CACHE1_METHOD_ADDRESS (drop_bit 2 method);
         method_entry = SET_MASK method_entry NV_PFIFO_CACHE1_METHOD_TYPE (dma_state_field d NV_PFIFO_CACHE1_DMA_STATE_METHOD_TYPE)
     in SET_MASK method_entry NV_PFIFO_CACHE1_METHOD_SUBCHANNEL (dma_state_field d NV_PFIFO_CACHE1_DMA_STATE_SUBCHANNEL))"

text \<open>
  A data word of a methods command.  The result is the new get pointer, or \<^const>\<open>None\<close> where the
  loop is left before the pointer is written back.
\<close>

definition pusher_data :: "pgraph_env \<Rightarrow> nat \<Rightarrow> nat \<Rightarrow> u32 \<Rightarrow> u32 \<Rightarrow> NV2AState \<Rightarrow> (u32 option \<times> NV2AState) res" where
  "pusher_data env word_ptr num_words_available word dma_get_v d =
    (let method_type = dma_state_field d NV_PFIFO_CACHE1_DMA_STATE_METHOD_TYPE;
         method = push_bit 2 (dma_state_field d NV_PFIFO_CACHE1_DMA_STATE_METHOD);
         method_count = dma_state_field d NV_PFIFO_CACHE1_DMA_STATE_METHOD_COUNT;
         d = fifo_set NV_PFIFO_CACHE1_DMA_DATA_SHADOW word d
     in res_bind (assert_res (method AND 3 = 0)) (\<lambda>_.
        let method_entry = fifo_method_entry d;
            d = fifo_set NV_PFIFO_CACHE1_STATUS (pfifo_regs d NV_PFIFO_CACHE1_STATUS AND NOT NV_PFIFO_CACHE1_STATUS_LOW_MARK) d
        in res_bind (pfifo_run_puller env d method_entry word word_ptr
             (min (unat method_count) num_words_available) num_words_available) (\<lambda>(num_words_processed, d).
           case num_words_processed of
             None \<Rightarrow> Inr (None, d)
           | Some n \<Rightarrow>
               let dma_get_v = dma_get_v + (of_nat n - 1) * 4;
                   d = (if method_type = NV_PFIFO_CACHE1_DMA_STATE_METHOD_TYPE_INC
                        then set_dma_state NV_PFIFO_CACHE1_DMA_STATE_METHOD (drop_bit 2 (method + 4 * of_nat n)) d else d);
                   d = set_dma_state NV_PFIFO_CACHE1_DMA_STATE_METHOD_COUNT (method_count - of_nat (min (unat method_count) n)) d;
                   d = fifo_set NV_PFIFO_CACHE1_DMA_DCOUNT (pfifo_regs d NV_PFIFO_CACHE1_DMA_DCOUNT + of_nat n) d
               in Inr (Some dma_get_v, d))))"

definition methods_header :: "u32 \<Rightarrow> u32 \<Rightarrow> NV2AState \<Rightarrow> NV2AState" where
  "methods_header word method_type d =
    (let d = set_dma_state NV_PFIFO_CACHE1_DMA_STATE_METHOD (drop_bit 2 (word AND 0x1fff)) d;
         d = set_dma_state NV_PFIFO_CACHE1_DMA_STATE_SUBCHANNEL (drop_bit 13 word AND 7) d;
         d = set_dma_state NV_PFIFO_CACHE1_DMA_STATE_METHOD_COUNT (drop_bit 18 word AND 0x7ff) d;
         d = set_dma_state NV_PFIFO_CACHE1_DMA_STATE_METHOD_TYPE method_type d
     in fifo_set NV_PFIFO_CACHE1_DMA_DCOUNT 0 d)"

text \<open>The first word of a command.\<close>

definition pusher_command :: "u32 \<Rightarrow> u32 \<Rightarrow> NV2AState \<Rightarrow> (u32 option \<times> NV2AState) res" where
  "pusher_command word dma_get_v d =
    (let subroutine_state = GET_MASK (pfifo_regs d NV_PFIFO_CACHE1_DMA_SUBROUTINE) NV_PFIFO_CACHE1_DMA_SUBROUTINE_STATE;
         d = fifo_set NV_PFIFO_CACHE1_DMA_RSVD_SHADOW word d
     in if word AND 0xe0000003 = 0x20000000 then
          Inr (Some (word AND 0x1fffffff), fifo_set NV_PFIFO_CACHE1_DMA_GET_JMP_SHADOW dma_get_v d)
        else if word AND 3 = 1 then
          Inr (Some (word AND 0xfffffffc), fifo_set NV_PFIFO_CACHE1_DMA_GET_JMP_SHADOW dma_get_v d)
        else if word AND 3 = 2 then
          if subroutine_state \<noteq> 0 then
            Inr (None, set_dma_state NV_PFIFO_CACHE1_DMA_STATE_ERROR NV_PFIFO_CACHE1_DMA_STATE_ERROR_CALL d)
          else
            Inr (Some (word AND 0xfffffffc),
              fifo_set_mask NV_PFIFO_CACHE1_DMA_SUBROUTINE NV_PFIFO_CACHE1_DMA_SUBROUTINE_STATE 1
                (fifo_set NV_PFIFO_CACHE1_DMA_SUBROUTINE dma_get_v d))
        else if word = 0x00020000 then
          if subroutine_state = 0 then
            Inr (Some dma_get_v, set_dma_state NV_PFIFO_CACHE1_DMA_STATE_ERROR NV_PFIFO_CACHE1_DMA_STATE_ERROR_RETURN d)
          else
            Inr (Some (pfifo_regs d NV_PFIFO_CACHE1_DMA_SUBROUTINE AND 0xfffffffc),
              fifo_set_mask NV_PFIFO_CACHE1_DMA_SUBROUTINE NV_PFIFO_CACHE1_DMA_SUBROUTINE_STATE 0 d)
        else if word AND 0xe0030003 = 0 then
          Inr (Some dma_get_v, methods_header word NV_PFIFO_CACHE1_DMA_STATE_METHOD_TYPE_INC d)
        else if word AND 0xe0030003 = 0x40000000 then
          Inr (Some dma_get_v, methods_header word NV_PFIFO_CACHE1_DMA_STATE_METHOD_TYPE_NON_INC d)
        else Inl Assertion)"

text \<open>One round of the fetch loop; the flag says whether the loop goes on.\<close>

definition pusher_step :: "pgraph_env \<Rightarrow> nat \<Rightarrow> u64 \<Rightarrow> NV2AState \<Rightarrow> (bool \<times> NV2AState) res" where
  "pusher_step env dma dma_len d =
    (let dma_get_v = pfifo_regs d NV_PFIFO_CACHE1_DMA_GET;
         dma_put_v = pfifo_regs d NV_PFIFO_CACHE1_DMA_PUT
     in if dma_get_v = dma_put_v then Inr (False, d)
        else
          res_bind (assert_res (ucast dma_get_v < dma_len)) (\<lambda>_.
          let num_bytes_available = unat (dma_put_v - dma_get_v) in
          res_bind (assert_res (num_bytes_available mod 4 = 0)) (\<lambda>_.
          let word_ptr = dma + unat dma_get_v in
          res_bind (ldl_le (nv_vram d) word_ptr) (\<lambda>word.
          res_bind
            (if dma_state_field d NV_PFIFO_CACHE1_DMA_STATE_METHOD_COUNT \<noteq> 0
             then pusher_data env word_ptr (num_bytes_available div 4) word (dma_get_v + 4) d
             else pusher_command word (dma_get_v + 4) d) (\<lambda>(next_get, d).
          case next_get of
            None \<Rightarrow> Inr (False, d)
          | Some dma_get_v \<Rightarrow>
              let d = fifo_set NV_PFIFO_CACHE1_DMA_GET dma_get_v d in
              Inr (dma_state_field d NV_PFIFO_CACHE1_DMA_STATE_ERROR = 0, d))))))"

partial_function (option) pusher_loop :: "pgraph_env \<Rightarrow> nat \<Rightarrow> u64 \<Rightarrow> NV2AState \<Rightarrow> NV2AState run" where
  [code]: "pusher_loop env dma dma_len d =
    (if pfifo_pusher_should_stall d then Some (Inr d)
     else run_bind (Some (pusher_step env dma dma_len d)) (\<lambda>s.
       if fst s then pusher_loop env dma dma_len (snd s) else Some (Inr (snd s))))"

definition pfifo_run_pusher :: "pgraph_env \<Rightarrow> NV2AState \<Rightarrow> NV2AState run" where
  "pfifo_run_pusher env d =
    (let push0 = pfifo_regs d NV_PFIFO_CACHE1_PUSH0;
         push1 = pfifo_regs d NV_PFIFO_CACHE1_PUSH1;
         dma_push = pfifo_regs d NV_PFIFO_CACHE1_DMA_PUSH
     in if GET_MASK push0 NV_PFIFO_CACHE1_PUSH0_ACCESS = 0 \<or> GET_MASK dma_push NV_PFIFO_CACHE1_DMA_PUSH_ACCESS = 0 \<or>
           GET_MASK dma_push NV_PFIFO_CACHE1_DMA_PUSH_STATUS \<noteq> 0
        then Some (Inr d)
        else
          run_bind (Some (
            res_bind (assert_res (bit (pfifo_regs d NV_PFIFO_MODE) (unat (GET_MASK push1 NV_PFIFO_CACHE1_PUSH1_CHID)))) (\<lambda>_.
            res_bind (assert_res (GET_MASK push1 NV_PFIFO_CACHE1_PUSH1_MODE = NV_PFIFO_CACHE1_PUSH1_MODE_DMA)) (\<lambda>_.
            res_bind (assert_res (dma_state_field d NV_PFIFO_CACHE1_DMA_STATE_ERROR = NV_PFIFO_CACHE1_DMA_STATE_ERROR_NONE)) (\<lambda>_.
              nv_dma_map d (ucast (push_bit 4 (GET_MASK (pfifo_regs d NV_PFIFO_CACHE1_DMA_INSTANCE)
                NV_PFIFO_CACHE1_DMA_INSTANCE_ADDRESS)))))))) (\<lambda>(dma, dma_len).
          run_bind (pusher_loop env dma dma_len d) (\<lambda>d.
            Some (res_bind (assert_res (dma_state_field d NV_PFIFO_CACHE1_DMA_STATE_ERROR = 0)) (\<lambda>_. Inr d)))))"

text \<open>One round of the thread's loop; the flag says whether it then waits to be kicked.\<close>

definition pfifo_thread_round :: "pgraph_env \<Rightarrow> NV2AState \<Rightarrow> (bool \<times> NV2AState) run" where
  "pfifo_thread_round env d =
    run_bind (Some (process_pending (renderer env) (d\<lparr>pfifo_fifo_kick := False\<rparr>))) (\<lambda>d.
    run_bind (if pfifo_halt d then Some (Inr d) else pfifo_run_pusher env d) (\<lambda>d.
    run_bind (Some (process_pending_reports (renderer env) d)) (\<lambda>d.
      Some (Inr (\<not> pfifo_fifo_kick d, d)))))"

section \<open>Hashing\<close>

lemma ctz32_exp: "k < 32 \<Longrightarrow> ctz32 (2 ^ k) = k"
proof -
  assume k: "k < 32"
  have "[0..<32] = [0..<k] @ k # [Suc k..<32]"
    using k upt_add_eq_append [of 0 k "32 - k"] by (simp add: upt_conv_Cons)
  then show ?thesis using k by (simp add: ctz32_def takeWhile_append bit_simps)
qed

abbreviation (input) ramht_log :: "NV2AState \<Rightarrow> nat" where
  "ramht_log d \<equiv> unat (GET_MASK (pfifo_regs d NV_PFIFO_RAMHT) NV_PFIFO_RAMHT_SIZE)"

lemma ramht_log_le: "ramht_log d \<le> 3"
proof -
  have "GET_MASK NV_PFIFO_RAMHT_SIZE NV_PFIFO_RAMHT_SIZE = 3" by code_simp
  then show ?thesis
    using GET_MASK_le [of "pfifo_regs d NV_PFIFO_RAMHT" NV_PFIFO_RAMHT_SIZE] by (simp add: word_le_nat_alt)
qed

lemma ramht_bits: "ctz32 (ramht_size d) = ramht_log d + 12"
  using ramht_log_le [of d] by (simp add: ramht_size_def ctz32_exp)

lemma ramht_size_unat: "unat (ramht_size d) = 2 ^ (ramht_log d + 12)"
proof -
  have "ramht_log d + 12 < 32" using ramht_log_le [of d] by simp
  from unat_exp_u32 [OF this] show ?thesis by (simp add: ramht_size_def push_bit_eq_mult)
qed

lemma take_bit_bound: "take_bit n w = w \<longleftrightarrow> unat w < 2 ^ n" for w :: u32
  by (metis take_bit_nat_eq_self_iff unsigned_take_bit_eq word_unat_eq_iff)

lemma xor_bound: "unat a < 2 ^ n \<Longrightarrow> unat b < 2 ^ n \<Longrightarrow> unat (a XOR b) < 2 ^ n" for a b :: u32
  by (simp flip: take_bit_bound)

lemma and_chunk: "w AND (push_bit n 1 - 1) = take_bit n w" for w :: u32
  by (simp add: take_bit_eq_mask mask_eq_exp_minus_1)

lemma unat_take_bit_less: "unat (take_bit n w) < 2 ^ n" for w :: u32
  by (simp add: unsigned_take_bit_eq)

lemma ramht_loop_bound: "unat hash < 2 ^ Suc b \<Longrightarrow> unat (ramht_loop b handle hash) < 2 ^ Suc b"
proof (induction b handle hash rule: ramht_loop.induct)
  case (1 b handle hash)
  have "unat (hash XOR take_bit (Suc b) handle) < 2 ^ Suc b"
    by (rule xor_bound [OF "1.prems" unat_take_bit_less])
  then show ?case
    using "1.IH" "1.prems" by (subst ramht_loop.simps) (simp only: and_chunk if_split, simp)
qed

lemma ramht_loop_short: "unat handle < 2 ^ Suc b \<Longrightarrow> ramht_loop b handle hash = hash XOR handle"
proof -
  assume h: "unat handle < 2 ^ Suc b"
  then have z: "drop_bit (Suc b) handle = 0" by (intro word_unat_eq_iff [THEN iffD2]) (simp only: unat_drop_bit, simp)
  have t: "take_bit (Suc b) handle = handle" using h by (simp only: take_bit_bound)
  have "ramht_loop b 0 x = x" for x by (subst ramht_loop.simps) simp
  then show ?thesis using z t by (subst ramht_loop.simps) (simp only: and_chunk if_split, simp)
qed

abbreviation (input) ramht_chid :: "NV2AState \<Rightarrow> u32" where
  "ramht_chid d \<equiv> GET_MASK (pfifo_regs d NV_PFIFO_CACHE1_PUSH1) NV_PFIFO_CACHE1_PUSH1_CHID"

abbreviation (input) ramht_base :: "NV2AState \<Rightarrow> u32" where
  "ramht_base d \<equiv> push_bit 12 (GET_MASK (pfifo_regs d NV_PFIFO_RAMHT) NV_PFIFO_RAMHT_BASE_ADDRESS)"

lemma ramht_hash_alt:
  "ramht_hash d handle = ramht_loop (ramht_log d + 10) handle 0 XOR push_bit (ramht_log d + 7) (ramht_chid d)"
  by (simp add: ramht_hash_def ramht_bits add.commute)

lemma GET_MASK_bound: "GET_MASK m m = c \<Longrightarrow> unat c < n \<Longrightarrow> unat (GET_MASK v m) < n"
  using GET_MASK_le [of v m] by (simp add: word_le_nat_alt)

lemma ramht_chid_bound: "unat (ramht_chid d) < 2 ^ 5"
  by (rule GET_MASK_bound [where c = "0x1F"]) (code_simp, simp)

lemma push_bit_bound: "unat w < 2 ^ n \<Longrightarrow> k + n \<le> 32 \<Longrightarrow> unat (push_bit k w) < 2 ^ (k + n)" for w :: u32
proof -
  assume w: "unat w < 2 ^ n" "k + n \<le> 32"
  then have "take_bit (k + n) (push_bit k w) = push_bit k w"
    by (simp add: take_bit_push_bit flip: take_bit_bound)
  then show ?thesis by (simp add: take_bit_bound)
qed

lemma ramht_hash_bound: "unat (ramht_hash d handle) < 2 ^ (ramht_log d + 12)"
proof -
  have "unat (ramht_loop (ramht_log d + 10) handle 0) < 2 ^ Suc (ramht_log d + 10)" by (rule ramht_loop_bound) simp
  also have "\<dots> \<le> (2::nat) ^ (ramht_log d + 12)" by (intro power_increasing) simp_all
  finally have "unat (ramht_loop (ramht_log d + 10) handle 0) < 2 ^ (ramht_log d + 12)" .
  moreover have "unat (push_bit (ramht_log d + 7) (ramht_chid d)) < 2 ^ (ramht_log d + 7 + 5)"
    using ramht_log_le [of d] by (intro push_bit_bound ramht_chid_bound) simp
  then have "unat (push_bit (ramht_log d + 7) (ramht_chid d)) < 2 ^ (ramht_log d + 12)" by (simp add: ac_simps)
  ultimately show ?thesis unfolding ramht_hash_alt by (rule xor_bound)
qed

lemma ramht_base_bound: "unat (ramht_base d) \<le> 0x1F000"
proof -
  have "unat (GET_MASK (pfifo_regs d NV_PFIFO_RAMHT) NV_PFIFO_RAMHT_BASE_ADDRESS) < 2 ^ 5"
    by (rule GET_MASK_bound [where c = "0x1F"]) (code_simp, simp)
  then show ?thesis by (simp add: push_bit_eq_mult unat_word_ariths(2))
qed

text \<open>The entry in slot \<open>i\<close> of the table.\<close>

definition ramht_slot :: "NV2AState \<Rightarrow> nat \<Rightarrow> RAMHTEntry res" where
  "ramht_slot d i =
    res_bind (ldl_le (nv_ramin d) (unat (ramht_base d) + 8 * i)) (\<lambda>handle.
    res_bind (ldl_le (nv_ramin d) (unat (ramht_base d) + 8 * i + 4)) (\<lambda>context.
      Inr \<lparr>ht_handle = handle, ht_instance = ucast (push_bit 4 (take_bit 16 context)),
        ht_engine = drop_bit 16 context AND 3, ht_channel_id = ucast (drop_bit 24 context),
        ht_valid = bit context 31\<rparr>))"

lemma ramht_fields:
  fixes c :: u32
  shows "c AND NV_RAMHT_INSTANCE = take_bit 16 c" "drop_bit 16 (c AND NV_RAMHT_ENGINE) = drop_bit 16 c AND 3"
    "(ucast (drop_bit 24 c AND 0x1F) :: 5 word) = ucast (drop_bit 24 c)"
    "c AND NV_RAMHT_STATUS \<noteq> 0 \<longleftrightarrow> bit c 31"
proof -
  show "c AND NV_RAMHT_INSTANCE = take_bit 16 c"
    by (simp add: take_bit_eq_mask mask_eq_exp_minus_1)
  show "drop_bit 16 (c AND NV_RAMHT_ENGINE) = drop_bit 16 c AND 3" by (simp add: drop_bit_and)
  show "(ucast (drop_bit 24 c AND 0x1F) :: 5 word) = ucast (drop_bit 24 c)"
    by (rule bit_word_eqI) (auto simp: bit_simps less_Suc_eq numeral_eq_Suc)
  show "c AND NV_RAMHT_STATUS \<noteq> 0 \<longleftrightarrow> bit c 31"
    by (simp add: bit_iff_and_push_bit_not_eq_0)
qed

abbreviation (input) ramht_entries :: "NV2AState \<Rightarrow> nat" where
  "ramht_entries d \<equiv> 2 ^ (ramht_log d + 9)"

lemma ramht_offset: "unat (ramht_hash d handle * 8) = 8 * unat (ramht_hash d handle)"
proof -
  have "(2::nat) ^ (ramht_log d + 12) \<le> 2 ^ 15" using ramht_log_le [of d] by (intro power_increasing) simp_all
  then have "unat (ramht_hash d handle) < 2 ^ 15" using ramht_hash_bound [of d handle] by simp
  then show ?thesis using unat_mult_small [of "ramht_hash d handle" 8] by simp
qed

lemma ramht_window:
  assumes "0x27000 \<le> mem_size (nv_ramin d)" and "i < ramht_entries d"
  shows "unat (ramht_base d) + 8 * i + 8 \<le> mem_size (nv_ramin d)"
proof -
  have "(2::nat) ^ (ramht_log d + 9) \<le> 2 ^ 12" using ramht_log_le [of d] by (intro power_increasing) simp_all
  then have "8 * i + 8 \<le> 0x8000" using assms(2) by simp
  then show ?thesis using ramht_base_bound [of d] assms(1) by simp
qed

lemma ramht_lookup_alt:
  assumes "0x27000 \<le> mem_size (nv_ramin d)"
  shows "ramht_lookup d handle =
    (if unat (ramht_hash d handle) < ramht_entries d then ramht_slot d (unat (ramht_hash d handle)) else Inl Assertion)"
proof -
  let ?h = "ramht_hash d handle"
  have inside: "?h * 8 < ramht_size d \<longleftrightarrow> unat ?h < ramht_entries d"
    by (simp add: word_less_nat_alt ramht_size_unat ramht_offset power_add mult.commute)
  have sum: "unat (ucast (ramht_base d) + ucast (?h * 8) :: u64) = unat (ramht_base d) + 8 * unat ?h"
    using unat_u32_less [of "ramht_base d"] unat_u32_less [of "?h * 8"]
    by (simp add: unat_word_ariths(1) ramht_offset)
  show ?thesis
  proof (cases "unat ?h < ramht_entries d")
    case True
    then have "unat (ramht_base d) + 8 * unat ?h < mem_size (nv_ramin d)" using ramht_window [OF assms True] by simp
    then show ?thesis using True
      by (simp add: ramht_lookup_def ramht_slot_def Let_def inside sum ramht_offset ramht_fields drop_bit_and)
  qed (simp add: ramht_lookup_def Let_def inside)
qed

lemma ramht_slot_ok:
  assumes "0x27000 \<le> mem_size (nv_ramin d)" and "i < ramht_entries d"
  shows "\<exists>e. ramht_slot d i = Inr e"
  using ramht_window [OF assms] by (simp add: ramht_slot_def ldl_le_def)

text \<open>
  C23.  With instance memory of the console's size, looking up an object handle never leaves instance memory: it
  returns the table entry in the slot that the handle hashes to, or stops at the assertion exactly when the
  hash is not below the number of entries.  The hash is wider than the table: on channel 0 a handle of up to
  \<open>log + 11\<close> bits hashes to itself, while the table has \<open>2 ^ (log + 9)\<close> entries, so three
  quarters of these handles stop the emulator.
\<close>

theorem ramht_lookup_range:
  assumes "0x27000 \<le> mem_size (nv_ramin d)"
  shows "ramht_lookup d handle =
      (if unat (ramht_hash d handle) < ramht_entries d then ramht_slot d (unat (ramht_hash d handle)) else Inl Assertion) \<and>
    (unat (ramht_hash d handle) < ramht_entries d \<longrightarrow> (\<exists>e. ramht_lookup d handle = Inr e)) \<and>
    (ramht_chid d = 0 \<and> unat handle < 4 * ramht_entries d \<longrightarrow>
      ramht_hash d handle = handle \<and> (ramht_entries d \<le> unat handle \<longrightarrow> ramht_lookup d handle = Inl Assertion))"
proof (intro conjI impI)
  show alt: "ramht_lookup d handle =
      (if unat (ramht_hash d handle) < ramht_entries d then ramht_slot d (unat (ramht_hash d handle)) else Inl Assertion)"
    by (rule ramht_lookup_alt [OF assms])
  show "\<exists>e. ramht_lookup d handle = Inr e" if "unat (ramht_hash d handle) < ramht_entries d"
    using that ramht_slot_ok [OF assms that] by (simp add: alt)
  assume short: "ramht_chid d = 0 \<and> unat handle < 4 * ramht_entries d"
  then have "unat handle < 2 ^ Suc (ramht_log d + 10)" by (simp add: power_add)
  then show h: "ramht_hash d handle = handle" using short by (simp add: ramht_hash_alt ramht_loop_short)
  show "ramht_lookup d handle = Inl Assertion" if "ramht_entries d \<le> unat handle"
    using that h by (simp add: alt)
qed

theorem ramht_lookup_range_witness:
  "ramht_lookup (nv2a_blank 64 0x100000) 0x200 = Inl Assertion \<and>
   (\<exists>e. ramht_lookup (nv2a_blank 64 0x100000) 0x1FF = Inr e)"
proof -
  have l: "ramht_log (nv2a_blank 64 0x100000) = 0" "ramht_chid (nv2a_blank 64 0x100000) = 0"
    by (simp_all add: nv2a_blank_def GET_MASK_def)
  have m: "0x27000 \<le> mem_size (nv_ramin (nv2a_blank 64 0x100000))" by (simp add: nv2a_blank_def)
  have "ramht_hash (nv2a_blank 64 0x100000) 0x1FF = 0x1FF" using ramht_lookup_range [OF m, of "0x1FF"] l by simp
  then show ?thesis
    using ramht_lookup_range [OF m, of "0x200"] ramht_lookup_range [OF m, of "0x1FF", THEN conjunct2, THEN conjunct1] l
    by simp
qed

section \<open>Decoding commands\<close>

definition methods_word :: "bool \<Rightarrow> u32 \<Rightarrow> u32 \<Rightarrow> u32 \<Rightarrow> u32" where
  "methods_word inc subchannel method count =
    push_bit 30 (of_bool (\<not> inc)) OR push_bit 18 count OR push_bit 13 subchannel OR push_bit 2 method"

lemma bit_small: "w < 2 ^ n \<Longrightarrow> n < 32 \<Longrightarrow> bit w k \<Longrightarrow> k < n" for w :: u32
  by (metis bit_take_bit_iff take_bit_bound unat_exp_u32 word_less_nat_alt)

lemma and_low: "w AND 0x1fff = take_bit 13 w" "w AND 7 = take_bit 3 w" "w AND 0x7ff = take_bit 11 w" for w :: u32
  by (simp_all add: take_bit_eq_mask mask_eq_exp_minus_1)

lemma command_masks:
  "(0xe0030003 :: u32) = push_bit 29 (mask 3) OR push_bit 16 (mask 2) OR mask 2" "(3 :: u32) = mask 2"
  by (simp_all add: mask_eq_exp_minus_1)

lemma methods_word_fields:
  assumes "subchannel < 8" "method < 0x800" "count < 0x800"
  shows "drop_bit 2 (methods_word inc subchannel method count AND 0x1fff) = method"
    "drop_bit 13 (methods_word inc subchannel method count) AND 7 = subchannel"
    "drop_bit 18 (methods_word inc subchannel method count) AND 0x7ff = count"
    "methods_word inc subchannel method count AND 0xe0030003 = (if inc then 0 else 0x40000000)"
    "methods_word inc subchannel method count AND 3 = 0"
proof -
  have b: "bit subchannel k \<Longrightarrow> k < 3" "bit method k \<Longrightarrow> k < 11" "bit count k \<Longrightarrow> k < 11" for k
    using assms bit_small [of subchannel 3 k] bit_small [of "method" 11 k] bit_small [of count 11 k] by simp_all
  show "drop_bit 2 (methods_word inc subchannel method count AND 0x1fff) = method"
    unfolding and_low by (rule bit_word_eqI) (auto simp: methods_word_def bit_simps dest: b)
  show "drop_bit 13 (methods_word inc subchannel method count) AND 7 = subchannel"
    unfolding and_low by (rule bit_word_eqI) (auto simp: methods_word_def bit_simps dest: b)
  show "drop_bit 18 (methods_word inc subchannel method count) AND 0x7ff = count"
    unfolding and_low by (rule bit_word_eqI) (auto simp: methods_word_def bit_simps dest: b)
  show "methods_word inc subchannel method count AND 3 = 0"
    unfolding command_masks(2) by (rule bit_word_eqI) (auto simp: methods_word_def bit_simps)
  have "methods_word inc subchannel method count AND 0xe0030003 = push_bit 30 (of_bool (\<not> inc))"
    unfolding command_masks(1) by (rule bit_word_eqI) (auto simp: methods_word_def bit_simps dest: b)
  then show "methods_word inc subchannel method count AND 0xe0030003 = (if inc then 0 else 0x40000000)" by simp
qed

lemma fifo_set_simps [simp]:
  "pfifo_regs (fifo_set r v d) = (pfifo_regs d)(r := v)" "pgraph (fifo_set r v d) = pgraph d"
  "nv_vram (fifo_set r v d) = nv_vram d" "nv_ramin (fifo_set r v d) = nv_ramin d"
  by (simp_all add: fifo_set_def)

lemma fifo_set_mask_simps [simp]:
  "pfifo_regs (fifo_set_mask r m v d) = (pfifo_regs d)(r := SET_MASK (pfifo_regs d r) m v)"
  "pgraph (fifo_set_mask r m v d) = pgraph d" "nv_vram (fifo_set_mask r m v d) = nv_vram d"
  "nv_ramin (fifo_set_mask r m v d) = nv_ramin d"
  by (simp_all add: fifo_set_mask_def)

lemma set_dma_state_simps [simp]:
  "pfifo_regs (set_dma_state m v d) = (pfifo_regs d)(NV_PFIFO_CACHE1_DMA_STATE := SET_MASK (pfifo_regs d NV_PFIFO_CACHE1_DMA_STATE) m v)"
  "pgraph (set_dma_state m v d) = pgraph d" "nv_vram (set_dma_state m v d) = nv_vram d"
  by (simp_all add: set_dma_state_def)

lemma GET_MASK_full [simp]:
  "GET_MASK 0x1FFC 0x1FFC = 0x7ff" "GET_MASK 0xE000 0xE000 = 7" "GET_MASK 0x1FFC0000 0x1FFC0000 = 0x7ff" "GET_MASK 1 1 = 1"
  by code_simp+

lemma and_mask_push: "v AND m = push_bit (ctz32 m) (GET_MASK v m)"
proof (rule bit_word_eqI)
  fix n assume n: "n < LENGTH(32)"
  show "bit (v AND m) n \<longleftrightarrow> bit (push_bit (ctz32 m) (GET_MASK v m)) n"
    using n ctz32_below [of n m] by (cases "n < ctz32 m") (auto simp: GET_MASK_def bit_simps)
qed

lemma and_small: "w < 8 \<Longrightarrow> w AND 7 = w" "w < 0x800 \<Longrightarrow> w AND 0x7ff = w" for w :: u32
  by (simp_all only: and_low take_bit_bound) (simp_all add: word_less_nat_alt)

lemma fifo_method_entry_decode:
  "fifo_method_entry d AND 0x1FFC = push_bit 2 (dma_state_field d NV_PFIFO_CACHE1_DMA_STATE_METHOD)"
  "GET_MASK (fifo_method_entry d) NV_PFIFO_CACHE1_METHOD_SUBCHANNEL = dma_state_field d NV_PFIFO_CACHE1_DMA_STATE_SUBCHANNEL"
  "GET_MASK (fifo_method_entry d) NV_PFIFO_CACHE1_METHOD_TYPE = dma_state_field d NV_PFIFO_CACHE1_DMA_STATE_METHOD_TYPE"
proof -
  have le: "dma_state_field d m AND GET_MASK m m = dma_state_field d m" for m
    unfolding dma_state_field_def by (rule bit_word_eqI) (auto simp: GET_MASK_def bit_simps)
  have "ctz32 0x1FFC = 2" by code_simp
  moreover have "bit (dma_state_field d 0x1FFC) k \<Longrightarrow> k < 11" for k
    using le [of "0x1FFC"] by (metis GET_MASK_full(1) and_low(3) bit_take_bit_iff)
  then have "drop_bit 2 (push_bit 2 (dma_state_field d 0x1FFC)) = dma_state_field d 0x1FFC"
    by (intro bit_word_eqI) (force simp: bit_simps)
  ultimately show "fifo_method_entry d AND 0x1FFC = push_bit 2 (dma_state_field d NV_PFIFO_CACHE1_DMA_STATE_METHOD)"
    using le [of "0x1FFC"] by (subst and_mask_push) (simp add: fifo_method_entry_def Let_def mask_simps)
  show "GET_MASK (fifo_method_entry d) NV_PFIFO_CACHE1_METHOD_SUBCHANNEL = dma_state_field d NV_PFIFO_CACHE1_DMA_STATE_SUBCHANNEL"
    using le [of "0xE000"] by (simp add: fifo_method_entry_def Let_def mask_simps)
  show "GET_MASK (fifo_method_entry d) NV_PFIFO_CACHE1_METHOD_TYPE = dma_state_field d NV_PFIFO_CACHE1_DMA_STATE_METHOD_TYPE"
    using le [of 1] by (simp add: fifo_method_entry_def Let_def mask_simps)
qed

lemma methods_header_fields:
  fixes d :: NV2AState and inc :: bool
  assumes "subchannel < 8" "method < 0x800" "count < 0x800" and t: "t = 0 \<or> t = 1"
  defines "d' \<equiv> methods_header (methods_word inc subchannel method count) t d"
  shows "dma_state_field d' NV_PFIFO_CACHE1_DMA_STATE_METHOD = method"
    "dma_state_field d' NV_PFIFO_CACHE1_DMA_STATE_SUBCHANNEL = subchannel"
    "dma_state_field d' NV_PFIFO_CACHE1_DMA_STATE_METHOD_COUNT = count"
    "dma_state_field d' NV_PFIFO_CACHE1_DMA_STATE_METHOD_TYPE = t"
    "dma_state_field d' NV_PFIFO_CACHE1_DMA_STATE_ERROR = dma_state_field d NV_PFIFO_CACHE1_DMA_STATE_ERROR"
  using t and_small assms(1-3)
  by (auto simp: d'_def methods_header_def dma_state_field_def methods_word_fields [OF assms(1-3)]
    methods_word_fields(1) [OF assms(1-3), simplified drop_bit_and, simplified] mask_simps)

text \<open>
  C24.  Commands round-trip through the pusher: the header word of a methods command, increasing or not, is
  decoded into a state from which the puller is given exactly that method, subchannel and type, with the
  parameter count to fetch; the fetch continues at the next word and nothing else of the FIFO changes.
\<close>

theorem methods_command_roundtrip:
  assumes "subchannel < 8" "method < 0x800" "count < 0x800"
  shows "\<exists>d'. pusher_command (methods_word inc subchannel method count) dma_get_v d = Inr (Some dma_get_v, d') \<and>
    dma_state_field d' NV_PFIFO_CACHE1_DMA_STATE_METHOD_COUNT = count \<and>
    fifo_method_entry d' AND 0x1FFC = push_bit 2 method \<and>
    GET_MASK (fifo_method_entry d') NV_PFIFO_CACHE1_METHOD_SUBCHANNEL = subchannel \<and>
    (GET_MASK (fifo_method_entry d') NV_PFIFO_CACHE1_METHOD_TYPE = 0 \<longleftrightarrow> inc) \<and>
    dma_state_field d' NV_PFIFO_CACHE1_DMA_STATE_ERROR = dma_state_field d NV_PFIFO_CACHE1_DMA_STATE_ERROR \<and>
    pfifo_regs d' NV_PFIFO_CACHE1_DMA_DCOUNT = 0 \<and> pgraph d' = pgraph d \<and> nv_vram d' = nv_vram d \<and>
    (\<forall>r. r \<notin> {NV_PFIFO_CACHE1_DMA_STATE, NV_PFIFO_CACHE1_DMA_DCOUNT, NV_PFIFO_CACHE1_DMA_RSVD_SHADOW} \<longrightarrow>
      pfifo_regs d' r = pfifo_regs d r)"
proof -
  let ?w = "methods_word inc subchannel method count"
  let ?d = "fifo_set NV_PFIFO_CACHE1_DMA_RSVD_SHADOW ?w d"
  let ?d' = "methods_header ?w (of_bool (\<not> inc)) ?d"
  have e: "?w AND 0xe0000003 \<noteq> 0x20000000"
  proof
    assume "?w AND 0xe0000003 = 0x20000000"
    then have "bit (?w AND 0xe0000003) 29" by simp
    then have "bit (?w AND 0xe0030003) 29" by (simp add: bit_simps)
    then show False using methods_word_fields(4) [OF assms, of inc] by (simp split: if_splits)
  qed
  have r: "?w \<noteq> 0x00020000"
    using methods_word_fields(4) [OF assms, of inc] by (auto split: if_splits)
  have "pusher_command ?w dma_get_v d = Inr (Some dma_get_v, ?d')"
    using e r methods_word_fields(4,5) [OF assms, of inc] by (simp add: pusher_command_def Let_def)
  moreover note methods_header_fields [OF assms, of "of_bool (\<not> inc)" inc ?d]
  moreover have "dma_state_field ?d m = dma_state_field d m" for m by (simp add: dma_state_field_def)
  moreover have "pfifo_regs ?d' NV_PFIFO_CACHE1_DMA_DCOUNT = 0" "pgraph ?d' = pgraph d" "nv_vram ?d' = nv_vram d"
    "\<forall>r. r \<notin> {NV_PFIFO_CACHE1_DMA_STATE, NV_PFIFO_CACHE1_DMA_DCOUNT, NV_PFIFO_CACHE1_DMA_RSVD_SHADOW} \<longrightarrow>
      pfifo_regs ?d' r = pfifo_regs d r"
    by (simp_all add: methods_header_def)
  ultimately show ?thesis by (simp add: fifo_method_entry_decode)
qed

theorem methods_command_roundtrip_witness:
  "\<exists>d'. pusher_command 0x40102100 8 (nv2a_blank 64 64) = Inr (Some 8, d') \<and>
    dma_state_field d' NV_PFIFO_CACHE1_DMA_STATE_METHOD_COUNT = 4 \<and> fifo_method_entry d' AND 0x1FFC = 0x100"
proof -
  have "methods_word False 1 0x40 4 = 0x40102100" by code_simp
  then show ?thesis using methods_command_roundtrip [of 1 "0x40" 4 False 8 "nv2a_blank 64 64"] by auto
qed

lemma aligned_bits:
  assumes "w AND 3 = (0 :: u32)" shows "\<not> bit w 0" "\<not> bit w (Suc 0)"
  using arg_cong [where f = "\<lambda>w. bit w 0", OF assms] arg_cong [where f = "\<lambda>w. bit w 1", OF assms]
  by (simp_all add: bit_simps)

lemma call_word:
  assumes "target AND 3 = 0"
  shows "(target OR 2) AND 3 = (2 :: u32)" "(target OR 2) AND 0xfffffffc = target" "(target OR 2) AND 0xe0000003 \<noteq> 0x20000000"
proof -
  note z = aligned_bits [OF assms]
  show "(target OR 2) AND 3 = (2 :: u32)" using assms by (simp add: bit.conj_disj_distrib2)
  have m: "(0xfffffffc :: u32) = NOT (mask 2)" by (simp add: mask_eq_exp_minus_1)
  show "(target OR 2) AND 0xfffffffc = target"
  proof (rule bit_word_eqI)
    fix n assume "n < LENGTH(32)"
    moreover have "(2 :: u32) = 2 ^ 1" by simp
    ultimately show "bit ((target OR 2) AND 0xfffffffc) n = bit target n"
      unfolding m using z by (cases "n = 0"; cases "n = 1") (auto simp: bit_simps)
  qed
  show "(target OR 2) AND 0xe0000003 \<noteq> 0x20000000"
  proof
    assume "(target OR 2) AND 0xe0000003 = 0x20000000"
    from arg_cong [where f = "\<lambda>w. bit w 1", OF this] show False by (simp add: bit_simps)
  qed
qed

lemma low_bit_mask:
  assumes "g AND 3 = (0 :: u32)"
  shows "SET_MASK g 1 1 AND 0xfffffffc = g" "GET_MASK (SET_MASK g 1 1) 1 = 1"
proof -
  note z = aligned_bits [OF assms]
  have m: "(0xfffffffc :: u32) = NOT (mask 2)" by (simp add: mask_eq_exp_minus_1)
  have c: "ctz32 1 = 0" by code_simp
  show "SET_MASK g 1 1 AND 0xfffffffc = g"
  proof (rule bit_word_eqI)
    fix n assume "n < LENGTH(32)"
    then show "bit (SET_MASK g 1 1 AND 0xfffffffc) n = bit g n"
      unfolding m SET_MASK_def c using z by (cases "n = 0"; cases "n = 1") (auto simp: bit_simps)
  qed
  show "GET_MASK (SET_MASK g 1 1) 1 = 1" by (simp add: mask_simps)
qed

text \<open>
  C25.  Subroutines: a call jumps to its target and a return, after any commands that leave the subroutine register
  alone, continues at the word after the call; a call inside a subroutine and a return outside one do not
  transfer control but set the error field, the nested call without advancing past the word.
\<close>

theorem subroutine_roundtrip:
  assumes "dma_get_v AND 3 = 0" and "target AND 3 = 0"
    and "GET_MASK (pfifo_regs d NV_PFIFO_CACHE1_DMA_SUBROUTINE) NV_PFIFO_CACHE1_DMA_SUBROUTINE_STATE = 0"
  shows "(\<exists>d1. pusher_command (target OR 2) dma_get_v d = Inr (Some target, d1) \<and>
      (\<forall>d2. pfifo_regs d2 NV_PFIFO_CACHE1_DMA_SUBROUTINE = pfifo_regs d1 NV_PFIFO_CACHE1_DMA_SUBROUTINE \<longrightarrow>
        (\<exists>d3. pusher_command 0x00020000 g d2 = Inr (Some dma_get_v, d3) \<and>
          GET_MASK (pfifo_regs d3 NV_PFIFO_CACHE1_DMA_SUBROUTINE) NV_PFIFO_CACHE1_DMA_SUBROUTINE_STATE = 0) \<and>
        (\<exists>d3. pusher_command (target OR 2) g d2 = Inr (None, d3) \<and>
          dma_state_field d3 NV_PFIFO_CACHE1_DMA_STATE_ERROR = NV_PFIFO_CACHE1_DMA_STATE_ERROR_CALL))) \<and>
    (\<exists>d1. pusher_command 0x00020000 dma_get_v d = Inr (Some dma_get_v, d1) \<and>
      dma_state_field d1 NV_PFIFO_CACHE1_DMA_STATE_ERROR = NV_PFIFO_CACHE1_DMA_STATE_ERROR_RETURN)"
proof -
  note w = call_word [OF assms(2)] and l = low_bit_mask [OF assms(1)]
  have e: "GET_MASK 0xE0000000 0xE0000000 = 7" by code_simp
  show ?thesis
    using assms(3) w l
    by (auto simp: pusher_command_def Let_def dma_state_field_def mask_simps e)
qed

theorem subroutine_roundtrip_witness:
  "\<exists>d1. pusher_command 0x102 8 (nv2a_blank 64 64) = Inr (Some 0x100, d1) \<and>
    (\<exists>d3. pusher_command 0x00020000 0x10C d1 = Inr (Some 8, d3))"
proof -
  have "GET_MASK (pfifo_regs (nv2a_blank 64 64) NV_PFIFO_CACHE1_DMA_SUBROUTINE) NV_PFIFO_CACHE1_DMA_SUBROUTINE_STATE = 0"
    by (simp add: nv2a_blank_def GET_MASK_def)
  then show ?thesis using subroutine_roundtrip [of 8 "0x100" "nv2a_blank 64 64" "0x10C"] by auto
qed

section \<open>Stalls\<close>

text \<open>The engine's state apart from its registers, pending interrupts and wait flags.\<close>

definition engine_work :: "PGRAPHState \<Rightarrow> PGRAPHState" where
  "engine_work pg = pg\<lparr>pg_regs := (\<lambda>_. 0), pg_regs_dirty := (\<lambda>_. False), pg_pending_interrupts := 0,
    pg_waiting_for_flip := False, pg_waiting_for_context_switch := False\<rparr>"

text \<open>
  What a stall may change: the engine and pull registers, the trapped address, interrupts and the wait flags.
\<close>

definition stall_frame :: "NV2AState \<Rightarrow> NV2AState \<Rightarrow> bool" where
  "stall_frame d d' \<longleftrightarrow>
    nv_vram d' = nv_vram d \<and> nv_ramin d' = nv_ramin d \<and>
    (\<forall>r. r \<notin> {NV_PFIFO_CACHE1_ENGINE, NV_PFIFO_CACHE1_PULL1, NV_PFIFO_CACHE1_DMA_DATA_SHADOW, NV_PFIFO_CACHE1_STATUS} \<longrightarrow>
      pfifo_regs d' r = pfifo_regs d r) \<and>
    (\<forall>r. r \<noteq> NV_PGRAPH_TRAPPED_ADDR \<longrightarrow> pg_regs (pgraph d') r = pg_regs (pgraph d) r) \<and>
    engine_work (pgraph d') = engine_work (pgraph d)"

lemma stall_frame_refl: "stall_frame d d"
  by (simp add: stall_frame_def)

lemma stall_frame_trans: "stall_frame d d' \<Longrightarrow> stall_frame d' d'' \<Longrightarrow> stall_frame d d''"
  by (simp add: stall_frame_def)

lemma stall_frame_fifo [simp]:
  assumes "r \<in> {NV_PFIFO_CACHE1_ENGINE, NV_PFIFO_CACHE1_PULL1, NV_PFIFO_CACHE1_DMA_DATA_SHADOW, NV_PFIFO_CACHE1_STATUS}"
  shows "stall_frame d (fifo_set r v d)" "stall_frame d (fifo_set_mask r m v d)"
  using assms by (auto simp: stall_frame_def)

lemma stall_frame_irq: "stall_frame d d' \<Longrightarrow> stall_frame d (nv2a_update_irq d')"
  by (simp add: stall_frame_def nv2a_update_irq_def Let_def)

lemma context_switch_frame:
  assumes "pgraph_context_switch d c = Inr d'" shows "stall_frame d d'"
  using assms
  by (auto simp: pgraph_context_switch_def PG_GET_MASK_def PG_SET_MASK_def pgraph_reg_r_def pgraph_reg_w_def on_pg_def
    res_bind_eq_Inr Let_def intro!: stall_frame_irq split: if_splits)
    (auto simp: stall_frame_def engine_work_def)

lemma should_stall_frame:
  assumes "pfifo_puller_should_stall d = Inr (b, d')" shows "stall_frame d d'"
  using assms
  by (auto simp: pfifo_puller_should_stall_def pfifo_stall_for_flip_def res_bind_eq_Inr stall_frame_def engine_work_def
    split: if_splits prod.splits)

lemma pull_object_stall:
  assumes "pull_object env subchannel parameter ptr n l inc d = Inr (None, d')" shows "stall_frame d d'"
proof -
  let ?d = "\<lambda>e. fifo_set_mask NV_PFIFO_CACHE1_PULL1 NV_PFIFO_CACHE1_PULL1_ENGINE e
    (fifo_set_mask NV_PFIFO_CACHE1_ENGINE (push_bit (4 * unat subchannel) 3) e d)"
  have s: "stall_frame d (?d e)" for e
    by (rule stall_frame_trans [of _ "fifo_set_mask NV_PFIFO_CACHE1_ENGINE (push_bit (4 * unat subchannel) 3) e d"]) simp_all
  from assms obtain e where "d' = ?d e \<or> (\<exists>c. pgraph_context_switch (?d e) c = Inr d')"
    by (auto simp: pull_object_def res_bind_eq_Inr Let_def split: if_splits prod.splits)
  then show ?thesis using s [of e] context_switch_frame [of "?d e"] stall_frame_trans [of d "?d e" d'] by auto
qed

lemma pull_method_stall:
  assumes "pull_method env subchannel method parameter ptr n l inc d = Inr (None, d')" shows "stall_frame d d'"
  using assms by (auto simp: pull_method_def res_bind_eq_Inr Let_def split: if_splits prod.splits)

lemma finish_stall:
  assumes "res_bind m (\<lambda>(num, d). Inr (num, if num = None \<or> c num then d else f d)) = Inr (None, d')"
  shows "m = Inr (None, d')"
  using assms by (auto simp: res_bind_eq_Inr)

lemma run_puller_stall:
  assumes "pfifo_run_puller env d entry parameter ptr n l = Inr (None, d')" shows "stall_frame d d'"
proof -
  from assms obtain b d1 where d1: "pfifo_puller_should_stall d = Inr (b, d1)"
    by (auto simp: pfifo_run_puller_def res_bind_eq_Inr)
  have "stall_frame d1 d'"
    using assms unfolding pfifo_run_puller_def d1
    by (auto simp: Let_def stall_frame_refl dest!: finish_stall dest: pull_object_stall pull_method_stall split: if_splits)
  then show ?thesis by (rule stall_frame_trans [OF should_stall_frame [OF d1]])
qed



lemma flip_advances:
  fixes r m :: u32
  assumes "2 \<le> m" "m < 8" "r < 8"
  shows "(r + 1) mod m \<noteq> r" "((r + 1) mod m) AND 7 = (r + 1) mod m"
proof -
  have n: "unat ((r + 1) mod m) = (unat r + 1) mod unat m"
    using assms unat_Suc_u32 [of r] by (simp add: unat_mod word_less_nat_alt)
  have "(unat r + 1) mod unat m \<noteq> unat r"
  proof
    assume eq: "(unat r + 1) mod unat m = unat r"
    have "unat r < unat m" using assms(1) eq mod_less_divisor [of "unat m" "unat r + 1"] by (simp add: word_le_nat_alt)
    then show False using eq assms(1) by (cases "unat r + 1 = unat m") (auto simp: word_le_nat_alt)
  qed
  then show "(r + 1) mod m \<noteq> r" using n by auto
  have "(unat r + 1) mod unat m < unat m" using assms(1) by (intro mod_less_divisor) (simp add: word_le_nat_alt)
  then have "unat ((r + 1) mod m) < 8" using assms(2) by (simp add: n word_less_nat_alt)
  then show "((r + 1) mod m) AND 7 = (r + 1) mod m" by (intro and_small) (simp add: word_less_nat_alt)
qed

lemma surface_fields:
  "GET_MASK s NV_PGRAPH_SURFACE_READ_3D < 8" "GET_MASK s NV_PGRAPH_SURFACE_MODULO_3D < 8"
  "GET_MASK NV_PGRAPH_SURFACE_READ_3D NV_PGRAPH_SURFACE_READ_3D = 7"
proof -
  have f: "GET_MASK NV_PGRAPH_SURFACE_READ_3D NV_PGRAPH_SURFACE_READ_3D = 7"
    "GET_MASK NV_PGRAPH_SURFACE_MODULO_3D NV_PGRAPH_SURFACE_MODULO_3D = 7" by code_simp+
  then show "GET_MASK NV_PGRAPH_SURFACE_READ_3D NV_PGRAPH_SURFACE_READ_3D = 7" by simp
  show "GET_MASK s NV_PGRAPH_SURFACE_READ_3D < 8" "GET_MASK s NV_PGRAPH_SURFACE_MODULO_3D < 8"
    unfolding word_less_nat_alt using f by (auto intro: GET_MASK_bound)
qed

text \<open>
  C27.  A flip stall ends: while the engine waits for a flip with equal read and write buffers, the puller takes no
  word and changes nothing; with at least two buffers, the guest's next write of the increment register
  advances the read buffer, wakes the FIFO thread and releases the stall.
\<close>

theorem flip_stall_released:
  assumes "pg_waiting_for_flip (pgraph d)"
    and "GET_MASK (pg_regs (pgraph d) NV_PGRAPH_SURFACE) NV_PGRAPH_SURFACE_READ_3D =
      GET_MASK (pg_regs (pgraph d) NV_PGRAPH_SURFACE) NV_PGRAPH_SURFACE_WRITE_3D"
    and "2 \<le> GET_MASK (pg_regs (pgraph d) NV_PGRAPH_SURFACE) NV_PGRAPH_SURFACE_MODULO_3D"
    and "ucast val AND NV_PGRAPH_INCREMENT_READ_3D \<noteq> 0"
  shows "pfifo_run_puller env d entry parameter ptr n l = Inr (None, d) \<and>
    (\<exists>d'. pgraph_write d NV_PGRAPH_INCREMENT val = Inr d' \<and> pfifo_fifo_kick d' \<and>
      pfifo_stall_for_flip d' = Inr (False, d'\<lparr>pgraph := (pgraph d')\<lparr>pg_waiting_for_flip := False\<rparr>\<rparr>))"
proof -
  let ?s = "pg_regs (pgraph d) NV_PGRAPH_SURFACE"
  let ?r = "GET_MASK ?s NV_PGRAPH_SURFACE_READ_3D" and ?m = "GET_MASK ?s NV_PGRAPH_SURFACE_MODULO_3D"
  note f = flip_advances [OF assms(3) surface_fields(2) surface_fields(1) [of ?s], unfolded assms(2)]
  have "?m \<noteq> 0" using assms(3) by auto
  then show ?thesis
    using assms f surface_fields(3)
    by (auto simp: pfifo_run_puller_def pfifo_puller_should_stall_def pfifo_stall_for_flip_def is_flip_stall_complete_def
      pgraph_write_def pgraph_increment_read_def PG_GET_MASK_def PG_SET_MASK_def pgraph_reg_r_def pgraph_reg_w_def on_pg_def
      Let_def pfifo_kick_def mask_simps)
qed

definition flip_demo :: NV2AState where
  "flip_demo = (let d = nv2a_blank 64 64 in d\<lparr>pgraph := (pgraph d)\<lparr>pg_waiting_for_flip := True,
    pg_regs := (\<lambda>_. 0)(NV_PGRAPH_SURFACE := 0x20000000)\<rparr>\<rparr>)"

theorem flip_stall_released_witness:
  "pfifo_run_puller null_env flip_demo 0x100 0 0 1 1 = Inr (None, flip_demo) \<and>
    (\<exists>d'. pgraph_write flip_demo NV_PGRAPH_INCREMENT 2 = Inr d' \<and>
      pfifo_stall_for_flip d' = Inr (False, d'\<lparr>pgraph := (pgraph d')\<lparr>pg_waiting_for_flip := False\<rparr>\<rparr>))"
proof -
  have m: "GET_MASK 0x20000000 NV_PGRAPH_SURFACE_MODULO_3D = 2" "GET_MASK 0x20000000 NV_PGRAPH_SURFACE_READ_3D = 0"
    "GET_MASK 0x20000000 NV_PGRAPH_SURFACE_WRITE_3D = 0" by code_simp+
  show ?thesis
    using flip_stall_released [of flip_demo 2 null_env "0x100" 0 0 1 1] m by (auto simp: flip_demo_def Let_def)
qed

end
