(* ===== verification/PFIFO_Progress.thy ===== *)
theory PFIFO_Progress
  imports PFIFO
begin

text \<open>
  Progress of the command FIFO.  The pusher, the puller, the method dispatch and the handlers run over a
  renderer that the engine only knows through its operations; the locale \<open>renderer_frame\<close> states what the FIFO relies
  on, that no operation touches the FIFO's registers.  Inside it the fetch loop is shown to consume the
  command buffer; it is interpreted on the null renderer.
\<close>

section \<open>What the FIFO relies on\<close>

definition fifo_frame :: "(NV2AState \<Rightarrow> NV2AState res) \<Rightarrow> bool" where
  "fifo_frame f \<longleftrightarrow> (\<forall>d d'. f d = Inr d' \<longrightarrow> pfifo_regs d' = pfifo_regs d)"

lemma fifo_frameI: "(\<And>d d'. f d = Inr d' \<Longrightarrow> pfifo_regs d' = pfifo_regs d) \<Longrightarrow> fifo_frame f"
  by (simp add: fifo_frame_def)

lemma fifo_frameD: "fifo_frame f \<Longrightarrow> f d = Inr d' \<Longrightarrow> pfifo_regs d' = pfifo_regs d"
  by (simp add: fifo_frame_def)

lemma on_pg_frame: "on_pg f d = Inr d' \<Longrightarrow> pfifo_regs d' = pfifo_regs d"
  by (auto simp: on_pg_def res_bind_eq_Inr)

lemma update_irq_frame [simp]: "pfifo_regs (nv2a_update_irq d) = pfifo_regs d"
  by (simp add: nv2a_update_irq_def Let_def)

lemma res_bind_pairE:
  assumes "res_bind m (\<lambda>(a, b). g a b) = Inr y"
  obtains a b where "m = Inr (a, b)" "g a b = Inr y"
  using assms by (auto simp: res_bind_eq_Inr)

section \<open>Words consumed by a method\<close>

text \<open>An increasing command stays inside the method's range, which lies above its first method.\<close>

fun inc_range_ok :: "method_entry \<Rightarrow> bool" where
  "inc_range_ok (base, off, n, stride, k, f) \<longleftrightarrow>
    (case k of Inc e \<Rightarrow> off = 0 \<and> stride = 4 \<and> n < 0x1000 \<and> e = base + of_nat (4 * n) | _ \<Rightarrow> True)"

lemma kelvin_inc_ranges: "list_all inc_range_ok pgraph_kelvin_methods"
  by (simp add: pgraph_kelvin_methods_def kelvin_methods_1_def kelvin_methods_2_def kelvin_methods_3_def)

lemma inc_range_count:
  assumes "inc_range_ok (base, off, n, stride, Inc e, f)" and "entry_covers m (base, off, n, stride, Inc e, f)"
  shows "1 \<le> unat (e - m) div 4"
proof -
  let ?x = "unat (m - base)"
  from assms have e: "e = base + of_nat (4 * n)" "n < 0x1000" and x: "?x < n * 4" "?x mod 4 = 0"
    by (simp_all add: Let_def)
  define w :: u32 where "w = of_nat (4 * n)"
  have w: "unat w = 4 * n" unfolding w_def using e by (intro unat_of_nat_small) simp
  have "e - m = w - (m - base)" by (simp add: e w_def)
  moreover have "m - base \<le> w" using x w by (simp add: word_le_nat_alt)
  ultimately have "unat (e - m) = 4 * n - ?x" by (simp only: unat_sub w)
  moreover have "?x + 4 \<le> 4 * n" using x by presburger
  ultimately show ?thesis by simp
qed

lemma and_not_disjoint: "m AND k = 0 \<Longrightarrow> m AND NOT k = m" for m k :: u32
proof (rule bit_word_eqI)
  fix n assume z: "m AND k = 0" and n: "n < LENGTH(32)"
  have "\<not> (bit m n \<and> bit k n)" unfolding bit_and_iff [symmetric] z by simp
  then show "bit (m AND NOT k) n = bit m n" using n by (auto simp: bit_and_iff bit_not_iff)
qed

lemma kelvin_lookup_inc:
  assumes "kelvin_lookup m = Some (base, off, n, stride, Inc e, f)" and "m AND 3 = 0"
  shows "1 \<le> unat (e - m) div 4"
proof -
  note a = and_not_disjoint [OF assms(2)]
  have "(base, off, n, stride, Inc e, f) \<in> set pgraph_kelvin_methods" "entry_covers m (base, off, n, stride, Inc e, f)"
    using assms(1) unfolding kelvin_lookup_def a find_Some_iff by (metis nth_mem)+
  then show ?thesis using kelvin_inc_ranges inc_range_count by (simp only: list_all_iff) blast
qed

lemma draw_arrays_single:
  "list_all (\<lambda>e. entry_covers (NV097_DRAW_ARRAYS AND NOT 3) e \<longrightarrow> fst (snd (snd (snd (snd e)))) = Single) pgraph_kelvin_methods"
  by (simp add: pgraph_kelvin_methods_def kelvin_methods_1_def kelvin_methods_2_def kelvin_methods_3_def Let_def)

lemma kelvin_lookup_draw_arrays:
  "kelvin_lookup NV097_DRAW_ARRAYS = Some (base, off, n, stride, k, f) \<Longrightarrow> k = Single"
  using draw_arrays_single unfolding kelvin_lookup_def find_Some_iff list_all_length by (metis fst_conv snd_conv)

section \<open>Rounds of the fetch loop\<close>

text \<open>The registers that a method handed to the engine may change.\<close>

definition fifo_same :: "NV2AState \<Rightarrow> NV2AState \<Rightarrow> bool" where
  "fifo_same d d' \<longleftrightarrow> (\<forall>r. r \<notin> {NV_PFIFO_CACHE1_ENGINE, NV_PFIFO_CACHE1_PULL1, NV_PFIFO_CACHE1_STATUS} \<longrightarrow>
    pfifo_regs d' r = pfifo_regs d r)"

text \<open>The word at the get pointer starts a jump, a call or a return.\<close>

definition transfers :: "u32 \<Rightarrow> bool" where
  "transfers word \<longleftrightarrow> word AND 0xe0000003 = 0x20000000 \<or> word AND 3 = 1 \<or> word AND 3 = 2 \<or> word = 0x00020000"

abbreviation (input) get_ptr :: "NV2AState \<Rightarrow> u32" where "get_ptr d \<equiv> pfifo_regs d NV_PFIFO_CACHE1_DMA_GET"
abbreviation (input) put_ptr :: "NV2AState \<Rightarrow> u32" where "put_ptr d \<equiv> pfifo_regs d NV_PFIFO_CACHE1_DMA_PUT"

definition control_word :: "nat \<Rightarrow> NV2AState \<Rightarrow> bool" where
  "control_word dma d \<longleftrightarrow> dma_state_field d NV_PFIFO_CACHE1_DMA_STATE_METHOD_COUNT = 0 \<and>
    (case ldl_le (nv_vram d) (dma + unat (get_ptr d)) of Inl e \<Rightarrow> False | Inr word \<Rightarrow> transfers word)"

text \<open>\<open>n\<close> rounds of the loop without a control transfer.\<close>

inductive fetches :: "pgraph_env \<Rightarrow> nat \<Rightarrow> u64 \<Rightarrow> nat \<Rightarrow> NV2AState \<Rightarrow> NV2AState \<Rightarrow> bool"
  for env dma dma_len where
  none: "fetches env dma dma_len 0 d d"
| more: "\<not> pfifo_pusher_should_stall d \<Longrightarrow> \<not> control_word dma d \<Longrightarrow> pusher_step env dma dma_len d = Inr (True, d1) \<Longrightarrow>
    fetches env dma dma_len n d1 d2 \<Longrightarrow> fetches env dma dma_len (Suc n) d d2"

definition straight :: "pgraph_env \<Rightarrow> nat \<Rightarrow> u64 \<Rightarrow> NV2AState \<Rightarrow> bool" where
  "straight env dma dma_len d \<longleftrightarrow> (\<forall>n d'. fetches env dma dma_len n d d' \<longrightarrow> \<not> control_word dma d')"

abbreviation (input) pusher_instance :: "NV2AState \<Rightarrow> u64" where
  "pusher_instance d \<equiv> ucast (push_bit 4 (GET_MASK (pfifo_regs d NV_PFIFO_CACHE1_DMA_INSTANCE)
    NV_PFIFO_CACHE1_DMA_INSTANCE_ADDRESS))"

lemma straight_next:
  assumes "straight env dma dma_len d" and "\<not> pfifo_pusher_should_stall d" and "pusher_step env dma dma_len d = Inr (True, d1)"
  shows "\<not> control_word dma d" "straight env dma dma_len d1"
proof -
  show c: "\<not> control_word dma d" using assms(1) fetches.none unfolding straight_def by blast
  show "straight env dma dma_len d1"
    using assms(1) fetches.more [OF assms(2) c assms(3)] unfolding straight_def by blast
qed

lemma pusher_command_header:
  assumes "pusher_command word g d = Inr (next_get, d')" and "\<not> transfers word"
  shows "next_get = Some g \<and> pfifo_regs d' NV_PFIFO_CACHE1_DMA_PUT = put_ptr d"
  using assms unfolding transfers_def
  by (auto simp: pusher_command_def methods_header_def Let_def split: if_splits)

lemma context_switch_regs: "pgraph_context_switch d c = Inr d' \<Longrightarrow> pfifo_regs d' = pfifo_regs d"
  by (auto simp: pgraph_context_switch_def res_bind_eq_Inr dest!: on_pg_frame split: if_splits)

lemma should_stall_regs: "pfifo_puller_should_stall d = Inr (b, d') \<Longrightarrow> pfifo_regs d' = pfifo_regs d"
  by (auto simp: pfifo_puller_should_stall_def pfifo_stall_for_flip_def res_bind_eq_Inr split: if_splits)

lemma aligned_method: "(entry AND 0x1FFC) AND 3 = (0 :: u32)"
  by (simp add: and.assoc)

lemma finish_Some:
  assumes "res_bind m (\<lambda>(num, d). Inr (num, if num = None \<or> c num then d else f d)) = Inr (Some n, d')"
  shows "\<exists>d1. m = Inr (Some n, d1) \<and> (d' = d1 \<or> d' = f d1)"
  using assms by (auto simp: res_bind_eq_Inr split: if_splits)

section \<open>The renderer contract\<close>

definition func_frame :: "pgraph_env \<Rightarrow> method_func \<Rightarrow> bool" where
  "func_frame env f \<longleftrightarrow> (case f of Pg h \<Rightarrow> True | Dev h \<Rightarrow> \<forall>s m p. fifo_frame (h env s m p))"

locale renderer_frame =
  fixes env :: pgraph_env
  assumes clear_report_frame: "fifo_frame (clear_report_value (renderer env))"
    and clear_surface_frame: "fifo_frame (\<lambda>d. clear_surface (renderer env) d p)"
    and draw_begin_frame: "fifo_frame (draw_begin (renderer env))"
    and draw_end_frame: "fifo_frame (draw_end (renderer env))"
    and flip_stall_frame: "fifo_frame (flip_stall (renderer env))"
    and flush_draw_frame: "fifo_frame (flush_draw (renderer env))"
    and get_report_frame: "fifo_frame (\<lambda>d. get_report (renderer env) d p)"
    and image_blit_frame: "fifo_frame (image_blit (renderer env))"
    and pending_reports_frame: "fifo_frame (process_pending_reports (renderer env))"
    and surface_update_frame: "fifo_frame (\<lambda>d. surface_update (renderer env) d u c z)"
begin

lemmas op_frames = clear_report_frame [THEN fifo_frameD] clear_surface_frame [THEN fifo_frameD]
  draw_begin_frame [THEN fifo_frameD] draw_end_frame [THEN fifo_frameD] flip_stall_frame [THEN fifo_frameD]
  flush_draw_frame [THEN fifo_frameD] get_report_frame [THEN fifo_frameD] image_blit_frame [THEN fifo_frameD]
  pending_reports_frame [THEN fifo_frameD] surface_update_frame [THEN fifo_frameD]

lemmas dev_defs = pgraph_NV097_NO_OPERATION_handler_def pgraph_NV097_WAIT_FOR_IDLE_handler_def
  pgraph_NV097_FLIP_STALL_handler_def pgraph_NV097_SET_CONTEXT_DMA_COLOR_handler_def
  pgraph_NV097_SET_CONTEXT_DMA_REPORT_handler_def pgraph_NV097_SET_SURFACE_CLIP_HORIZONTAL_handler_def
  pgraph_NV097_SET_SURFACE_CLIP_VERTICAL_handler_def pgraph_NV097_SET_SURFACE_FORMAT_handler_def
  pgraph_NV097_SET_SURFACE_PITCH_handler_def pgraph_NV097_SET_SURFACE_COLOR_OFFSET_handler_def
  pgraph_NV097_SET_SURFACE_ZETA_OFFSET_handler_def pgraph_NV097_SET_CONTROL0_handler_def
  pgraph_NV097_CLEAR_REPORT_VALUE_handler_def pgraph_NV097_GET_REPORT_handler_def
  pgraph_NV097_BACK_END_WRITE_SEMAPHORE_RELEASE_handler_def pgraph_NV097_CLEAR_SURFACE_handler_def
  pgraph_NV097_SET_SPECULAR_PARAMS_handler_def pgraph_NV097_SET_SPECULAR_PARAMS_BACK_handler_def
  pgraph_NV097_LAUNCH_TRANSFORM_PROGRAM_handler_def

lemma expand_frame: "expand_if_draw_arrays env d = Inr d' \<Longrightarrow> pfifo_regs d' = pfifo_regs d"
  by (auto simp: expand_if_draw_arrays_def pgraph_expand_draw_arrays_def Let_def res_bind_eq_Inr
    dest!: on_pg_frame op_frames split: if_splits)

lemma dev_frames:
  shows
    "fifo_frame (pgraph_NV097_NO_OPERATION_handler env s m p)"
    "fifo_frame (pgraph_NV097_WAIT_FOR_IDLE_handler env s m p)"
    "fifo_frame (pgraph_NV097_FLIP_STALL_handler env s m p)"
    "fifo_frame (pgraph_NV097_SET_CONTEXT_DMA_COLOR_handler env s m p)"
    "fifo_frame (pgraph_NV097_SET_CONTEXT_DMA_REPORT_handler env s m p)"
    "fifo_frame (pgraph_NV097_SET_SURFACE_CLIP_HORIZONTAL_handler env s m p)"
    "fifo_frame (pgraph_NV097_SET_SURFACE_CLIP_VERTICAL_handler env s m p)"
    "fifo_frame (pgraph_NV097_SET_SURFACE_FORMAT_handler env s m p)"
    "fifo_frame (pgraph_NV097_SET_SURFACE_PITCH_handler env s m p)"
    "fifo_frame (pgraph_NV097_SET_SURFACE_COLOR_OFFSET_handler env s m p)"
    "fifo_frame (pgraph_NV097_SET_SURFACE_ZETA_OFFSET_handler env s m p)"
    "fifo_frame (pgraph_NV097_SET_CONTROL0_handler env s m p)"
    "fifo_frame (pgraph_NV097_CLEAR_REPORT_VALUE_handler env s m p)"
    "fifo_frame (pgraph_NV097_GET_REPORT_handler env s m p)"
    "fifo_frame (pgraph_NV097_BACK_END_WRITE_SEMAPHORE_RELEASE_handler env s m p)"
    "fifo_frame (pgraph_NV097_CLEAR_SURFACE_handler env s m p)"
    "fifo_frame (pgraph_NV097_SET_SPECULAR_PARAMS_handler env s m p)"
    "fifo_frame (pgraph_NV097_SET_SPECULAR_PARAMS_BACK_handler env s m p)"
    "fifo_frame (pgraph_NV097_LAUNCH_TRANSFORM_PROGRAM_handler env s m p)"
  by (auto simp: dev_defs res_bind_eq_Inr intro!: fifo_frameI dest!: on_pg_frame op_frames split: if_splits)

lemma draw_frames:
  shows
    "fifo_frame (pgraph_NV097_SET_BEGIN_END_handler env s m p)"
    "fifo_frame (pgraph_NV097_ARRAY_ELEMENT16_handler env s m p)"
    "fifo_frame (pgraph_NV097_ARRAY_ELEMENT32_handler env s m p)"
  by (auto simp: pgraph_NV097_SET_BEGIN_END_handler_def pgraph_NV097_ARRAY_ELEMENT16_handler_def
    pgraph_NV097_ARRAY_ELEMENT32_handler_def res_bind_eq_Inr intro!: fifo_frameI
    dest!: on_pg_frame op_frames expand_frame split: if_splits)

lemma entry_frames:
  "list_all (\<lambda>(base, off, n, stride, k, f). func_frame env f) pgraph_kelvin_methods"
  by (simp add: pgraph_kelvin_methods_def kelvin_methods_1_def kelvin_methods_2_def kelvin_methods_3_def func_frame_def
    dev_frames draw_frames)

lemma call_handler_frame:
  "func_frame env f \<Longrightarrow> call_handler env f s m p d = Inr d' \<Longrightarrow> pfifo_regs d' = pfifo_regs d"
  by (auto simp: func_frame_def call_handler_def split: method_func.splits dest: on_pg_frame fifo_frameD)

lemma kelvin_lookup_frame: "kelvin_lookup m = Some (base, off, n, stride, k, f) \<Longrightarrow> func_frame env f"
  using entry_frames by (auto simp: kelvin_lookup_def find_Some_iff list_all_length split: prod.splits) (metis)

lemma method_inc_words:
  assumes "pgraph_method_inc env f e s m p ptr avail inc d = Inr (n, d')" and f: "func_frame env f"
    and "1 \<le> avail" and "1 \<le> unat (e - m) div 4"
  shows "pfifo_regs d' = pfifo_regs d \<and> 1 \<le> n \<and> n \<le> avail"
proof (cases inc)
  case True
  let ?count = "min avail (unat (e - m) div 4)"
  let ?body = "\<lambda>i d. res_bind (ldl_le (nv_vram d) (ptr + 4 * i)) (\<lambda>parameter.
    call_handler env f s (m + of_nat (4 * i)) parameter d)"
  from assms(1) True have n: "n = ?count" and r: "fold_res ?body [0..<?count] d = Inr d'"
    by (auto simp: pgraph_method_inc_def Let_def res_bind_eq_Inr)
  have "pfifo_regs d' = pfifo_regs d"
    by (rule fold_res_invariant [OF r, where P = "\<lambda>x. pfifo_regs x = pfifo_regs d"])
      (auto simp: res_bind_eq_Inr dest: call_handler_frame [OF f])
  then show ?thesis using n assms(3,4) by simp
next
  case False
  then show ?thesis using assms(1,3) by (auto simp: pgraph_method_inc_def res_bind_eq_Inr dest: call_handler_frame [OF f])
qed

lemma method_non_inc_words:
  assumes "pgraph_method_non_inc env f s m p ptr avail inc d = Inr (n, d')" and f: "func_frame env f"
    and "1 \<le> avail"
  shows "pfifo_regs d' = pfifo_regs d \<and> 1 \<le> n \<and> n \<le> avail"
proof (cases inc)
  case False
  let ?body = "\<lambda>i d. res_bind (ldl_le (nv_vram d) (ptr + 4 * i)) (\<lambda>parameter. call_handler env f s m parameter d)"
  from assms(1) False have n: "n = avail" and r: "fold_res ?body [0..<avail] d = Inr d'"
    by (auto simp: pgraph_method_non_inc_def Let_def res_bind_eq_Inr)
  have "pfifo_regs d' = pfifo_regs d"
    by (rule fold_res_invariant [OF r, where P = "\<lambda>x. pfifo_regs x = pfifo_regs d"])
      (auto simp: res_bind_eq_Inr dest: call_handler_frame [OF f])
  then show ?thesis using n assms(3) by simp
next
  case True
  then show ?thesis using assms(1,3) by (auto simp: pgraph_method_non_inc_def res_bind_eq_Inr dest: call_handler_frame [OF f])
qed

lemma squashes_only:
  assumes "squashes d m ptr look = Inr True" shows "m = NV097_DRAW_ARRAYS \<and> 7 \<le> look"
proof (rule ccontr)
  assume "\<not> ?thesis"
  then have "squashes d m ptr look = Inr False" unfolding squashes_def by (intro if_not_P) blast
  then show False using assms by simp
qed

lemma kelvin_method_words:
  assumes r: "kelvin_method env s m p ptr avail look inc d = Inr (n, d')"
    and m: "m AND 3 = 0" and avail: "1 \<le> avail" "avail \<le> look"
  shows "pfifo_regs d' = pfifo_regs d \<and> 1 \<le> n \<and> n \<le> look"
proof (cases "kelvin_lookup m")
  case None
  then show ?thesis using r avail by (auto simp: kelvin_method_def split: if_splits)
next
  case (Some e)
  obtain base off c stride k f where e: "e = (base, off, c, stride, k, f)" by (cases e) auto
  note L = Some [unfolded e] and F = kelvin_lookup_frame [OF Some [unfolded e]]
  let ?run = "case k of
      Single \<Rightarrow> res_bind (call_handler env f s m p d) (\<lambda>d. Inr (1, d))
    | Inc range_end \<Rightarrow> pgraph_method_inc env f range_end s m p ptr avail inc d
    | Non_inc \<Rightarrow> pgraph_method_non_inc env f s m p ptr avail inc d"
  have "res_bind ?run (\<lambda>(num, d). res_bind (squashes d m ptr look) (\<lambda>sq.
      Inr (if sq then (num + 4, d\<lparr>pgraph := (pgraph d)\<lparr>pg_draw_arrays_prevent_connect := True\<rparr>\<rparr>) else (num, d)))) = Inr (n, d')"
    using r unfolding kelvin_method_def L option.case prod.case by (meson Inl_Inr_False)
  then obtain i d1 where run: "?run = Inr (i, d1)" and fin: "res_bind (squashes d1 m ptr look) (\<lambda>sq.
      Inr (if sq then (i + 4, d1\<lparr>pgraph := (pgraph d1)\<lparr>pg_draw_arrays_prevent_connect := True\<rparr>\<rparr>) else (i, d1))) = Inr (n, d')"
    by (rule res_bind_pairE)
  from fin obtain sq where sq: "squashes d1 m ptr look = Inr sq"
    and d': "pfifo_regs d' = pfifo_regs d1" "n = (if sq then i + 4 else i)"
    by (cases "squashes d1 m ptr look") (auto split: if_splits)
  have i: "pfifo_regs d1 = pfifo_regs d \<and> 1 \<le> i \<and> i \<le> avail"
  proof (cases k)
    case Single
    then show ?thesis using run avail by (auto simp: res_bind_eq_Inr dest: call_handler_frame [OF F])
  next
    case (Inc e)
    from run Inc have "pgraph_method_inc env f e s m p ptr avail inc d = Inr (i, d1)" by simp
    from method_inc_words [OF this F avail(1) kelvin_lookup_inc [OF L [unfolded Inc] m]] show ?thesis .
  next
    case Non_inc
    from run Non_inc have "pgraph_method_non_inc env f s m p ptr avail inc d = Inr (i, d1)" by simp
    from method_non_inc_words [OF this F avail(1)] show ?thesis .
  qed
  have "n \<le> look"
  proof (cases sq)
    case True
    then have "m = NV097_DRAW_ARRAYS" "7 \<le> look" using squashes_only sq by auto
    moreover from this have "k = Single" using kelvin_lookup_draw_arrays L by blast
    ultimately show ?thesis using run d'(2) by (auto simp: res_bind_eq_Inr)
  qed (use i avail d' in simp)
  then show ?thesis using i d' by (auto split: if_splits)
qed

lemma class_method_words:
  assumes "class_method env c s m p ptr avail look inc d = Inr (n, d')"
    and m: "m AND 3 = 0" and avail: "1 \<le> avail" "avail \<le> look"
  shows "pfifo_regs d' = pfifo_regs d \<and> 1 \<le> n \<and> n \<le> look"
  using assms kelvin_method_words [of s m p ptr avail look inc d n d']
  by (auto simp: class_method_def image_blit_run_def Let_def res_bind_eq_Inr dest!: on_pg_frame op_frames split: if_splits)

lemma pgraph_method_words:
  assumes "pgraph_method env d s m p ptr avail look inc = Inr (n, d')"
    and m: "m AND 3 = 0" and avail: "1 \<le> avail" "avail \<le> look"
  shows "pfifo_regs d' = pfifo_regs d \<and> 1 \<le> n \<and> n \<le> look"
proof -
  from assms(1) obtain d1 d2 c where d1: "(if m = NV_SET_OBJECT then set_object s p d else Inr d) = Inr d1"
    and d2: "on_pg (select_context s) d1 = Inr d2" and c: "class_method env c s m p ptr avail look inc d2 = Inr (n, d')"
    unfolding pgraph_method_def res_bind_eq_Inr by blast
  have "pfifo_regs d1 = pfifo_regs d"
    using d1 by (auto simp: set_object_def res_bind_eq_Inr dest!: on_pg_frame split: if_splits)
  then show ?thesis using class_method_words [OF c m avail] on_pg_frame [OF d2] by simp
qed

lemma pull_object_words:
  assumes "pull_object env s p ptr avail look inc d = Inr (Some n, d')" and avail: "1 \<le> avail" "avail \<le> look"
  shows "fifo_same d d' \<and> 1 \<le> n \<and> n \<le> look"
proof -
  let ?d = "\<lambda>e. fifo_set_mask NV_PFIFO_CACHE1_PULL1 NV_PFIFO_CACHE1_PULL1_ENGINE e
    (fifo_set_mask NV_PFIFO_CACHE1_ENGINE (push_bit (4 * unat s) 3) e d)"
  from assms(1) obtain e c d1 q where d1: "pgraph_context_switch (?d e) c = Inr d1"
    and r: "pgraph_method env d1 s 0 q ptr avail look inc = Inr (n, d')"
    by (auto simp: pull_object_def res_bind_eq_Inr Let_def split: if_splits)
  show ?thesis
    using context_switch_regs [OF d1] pgraph_method_words [OF r _ avail] by (simp add: fifo_same_def)
qed

lemma pull_method_words:
  assumes "pull_method env s m p ptr avail look inc d = Inr (Some n, d')" and m: "m AND 3 = 0"
    and avail: "1 \<le> avail" "avail \<le> look"
  shows "fifo_same d d' \<and> 1 \<le> n \<and> n \<le> look"
proof -
  let ?d = "\<lambda>e. fifo_set_mask NV_PFIFO_CACHE1_PULL1 NV_PFIFO_CACHE1_PULL1_ENGINE e d"
  from assms(1) obtain e q where r: "pgraph_method env (?d e) s m q ptr avail look inc = Inr (n, d')"
    unfolding pull_method_def Let_def by (auto simp: res_bind_eq_Inr split: if_splits)
  show ?thesis using pgraph_method_words [OF r m avail] by (simp add: fifo_same_def)
qed

lemma run_puller_words:
  assumes "pfifo_run_puller env d entry p ptr avail look = Inr (Some n, d')" and avail: "1 \<le> avail" "avail \<le> look"
  shows "fifo_same d d' \<and> 1 \<le> n \<and> n \<le> look"
proof -
  from assms(1) obtain b d1 where d1: "pfifo_puller_should_stall d = Inr (b, d1)"
    by (auto simp: pfifo_run_puller_def res_bind_eq_Inr)
  let ?m = "entry AND 0x1FFC" and ?s = "GET_MASK entry NV_PFIFO_CACHE1_METHOD_SUBCHANNEL"
  let ?inc = "GET_MASK entry NV_PFIFO_CACHE1_METHOD_TYPE = 0"
  from assms(1) obtain d2 f where
    r: "pull_object env ?s p ptr avail look ?inc d1 = Inr (Some n, d2) \<or>
      pull_method env ?s ?m p ptr avail look ?inc d1 = Inr (Some n, d2)" and f: "d' = d2 \<or> d' = fifo_set NV_PFIFO_CACHE1_STATUS f d2"
    unfolding pfifo_run_puller_def d1 Let_def by (auto dest!: finish_Some split: if_splits)
  have "fifo_same d1 d2 \<and> 1 \<le> n \<and> n \<le> look"
    using r pull_object_words [OF _ avail] pull_method_words [OF _ aligned_method avail] by blast
  then show ?thesis using should_stall_regs [OF d1] f by (auto simp: fifo_same_def)
qed

lemma pusher_data_words:
  assumes "pusher_data env ptr words word g d = Inr (Some g', d')" and "1 \<le> words"
    and "dma_state_field d NV_PFIFO_CACHE1_DMA_STATE_METHOD_COUNT \<noteq> 0"
  shows "\<exists>n. 1 \<le> n \<and> n \<le> words \<and> g' = g + (of_nat n - 1) * 4 \<and> put_ptr d' = put_ptr d"
proof -
  let ?c = "dma_state_field d NV_PFIFO_CACHE1_DMA_STATE_METHOD_COUNT"
  let ?d0 = "fifo_set NV_PFIFO_CACHE1_DMA_DATA_SHADOW word d"
  let ?d1 = "fifo_set NV_PFIFO_CACHE1_STATUS (pfifo_regs ?d0 NV_PFIFO_CACHE1_STATUS AND NOT NV_PFIFO_CACHE1_STATUS_LOW_MARK) ?d0"
  from assms(1) obtain n d2 e where r: "pfifo_run_puller env ?d1 e word ptr (min (unat ?c) words) words = Inr (Some n, d2)"
    and g': "g' = g + (of_nat n - 1) * 4" and d': "put_ptr d' = put_ptr d2"
    unfolding pusher_data_def Let_def by (auto simp: res_bind_eq_Inr split: option.splits if_splits)
  have "1 \<le> min (unat ?c) words" using assms(2,3) by (simp add: unat_gt_0 Suc_le_eq)
  from run_puller_words [OF r this] show ?thesis using g' d' by (auto simp: fifo_same_def)
qed

lemma pusher_step_advances:
  assumes step: "pusher_step env dma dma_len d = Inr (True, d')" and c: "\<not> control_word dma d"
  shows "put_ptr d' = put_ptr d \<and> unat (put_ptr d' - get_ptr d') + 4 \<le> unat (put_ptr d - get_ptr d)"
proof -
  let ?b = "unat (put_ptr d - get_ptr d)"
  have ne: "get_ptr d \<noteq> put_ptr d" using step by (auto simp: pusher_step_def)
  from step ne obtain word g' d1 where a: "?b mod 4 = 0" and w: "ldl_le (nv_vram d) (dma + unat (get_ptr d)) = Inr word"
    and r: "(if dma_state_field d NV_PFIFO_CACHE1_DMA_STATE_METHOD_COUNT \<noteq> 0
             then pusher_data env (dma + unat (get_ptr d)) (?b div 4) word (get_ptr d + 4) d
             else pusher_command word (get_ptr d + 4) d) = Inr (Some g', d1)"
    and d': "d' = fifo_set NV_PFIFO_CACHE1_DMA_GET g' d1"
    unfolding pusher_step_def Let_def by (auto simp: res_bind_eq_Inr split: option.splits)
  have "?b \<noteq> 0" using ne by (simp add: unat_eq_0)
  then have b: "4 \<le> ?b" using a by presburger
  have "\<exists>n. 1 \<le> n \<and> n \<le> ?b div 4 \<and> g' = get_ptr d + 4 + (of_nat n - 1) * 4 \<and> put_ptr d1 = put_ptr d"
  proof (cases "dma_state_field d NV_PFIFO_CACHE1_DMA_STATE_METHOD_COUNT = 0")
    case True
    then have "\<not> transfers word" using c w by (simp add: control_word_def)
    then have "g' = get_ptr d + 4 \<and> put_ptr d1 = put_ptr d" using r True pusher_command_header by fastforce
    then show ?thesis using b by (intro exI [of _ 1]) auto
  next
    case False
    then show ?thesis using r b pusher_data_words [of "dma + unat (get_ptr d)" "?b div 4" word "get_ptr d + 4" d g' d1] by simp
  qed
  then obtain n where n: "1 \<le> n" "n \<le> ?b div 4" and g': "g' = get_ptr d + 4 + (of_nat n - 1) * 4"
    and put: "put_ptr d1 = put_ptr d" by blast
  define k :: u32 where "k = of_nat (4 * n)"
  have small: "4 * n \<le> ?b" using n by simp
  have k: "unat k = 4 * n"
    unfolding k_def using small unat_u32_less [of "put_ptr d - get_ptr d"] by (intro unat_of_nat_small) simp
  have "put_ptr d - g' = (put_ptr d - get_ptr d) - k" by (simp add: g' k_def algebra_simps)
  moreover have "k \<le> put_ptr d - get_ptr d" using small k by (simp add: word_le_nat_alt)
  ultimately have "unat (put_ptr d - g') = ?b - 4 * n" by (simp only: unat_sub k)
  then show ?thesis using d' put n small by simp
qed

lemma fetches_bound:
  "fetches env dma dma_len n d d' \<Longrightarrow>
    put_ptr d' = put_ptr d \<and> unat (put_ptr d' - get_ptr d') + 4 * n \<le> unat (put_ptr d - get_ptr d)"
proof (induction rule: fetches.induct)
  case (more d d1 n d2)
  then show ?case using pusher_step_advances [OF more.hyps(3,2)] by auto
qed simp

lemma pusher_loop_returns:
  "straight env dma dma_len d \<Longrightarrow> \<exists>r. pusher_loop env dma dma_len d = Some r"
proof (induction "unat (put_ptr d - get_ptr d)" arbitrary: d rule: less_induct)
  case less
  show ?case
  proof (cases "pfifo_pusher_should_stall d")
    case True
    then show ?thesis by (subst pusher_loop.simps) simp
  next
    case False
    show ?thesis
    proof (cases "\<exists>d1. pusher_step env dma dma_len d = Inr (True, d1)")
      case True
      then obtain d1 where d1: "pusher_step env dma dma_len d = Inr (True, d1)" by blast
      note n = straight_next [OF less.prems False d1]
      have "unat (put_ptr d1 - get_ptr d1) < unat (put_ptr d - get_ptr d)" using pusher_step_advances [OF d1 n(1)] by auto
      from less.hyps [OF this n(2)] show ?thesis using False d1 by (subst pusher_loop.simps) simp
    next
      case no: False
      show ?thesis
      proof (cases "pusher_step env dma dma_len d")
        case (Inr p)
        then obtain d1 where "pusher_step env dma dma_len d = Inr (False, d1)" using no by (cases p) auto
        then show ?thesis using False by (subst pusher_loop.simps) simp
      qed (use False in \<open>subst pusher_loop.simps, simp\<close>)
    qed
  qed
qed

lemma run_pusher_returns:
  assumes "\<And>dma dma_len. nv_dma_map d (pusher_instance d) = Inr (dma, dma_len) \<Longrightarrow> straight env dma dma_len d"
  shows "\<exists>r. pfifo_run_pusher env d = Some r"
proof -
  have "\<exists>r. run_bind (Some m) (\<lambda>(dma, dma_len). run_bind (pusher_loop env dma dma_len d) (\<lambda>d. Some (g d))) = Some r"
    if m: "\<And>x. m = Inr x \<Longrightarrow> nv_dma_map d (pusher_instance d) = Inr x" for m and g :: "NV2AState \<Rightarrow> NV2AState res"
  proof (cases m)
    case (Inr x)
    then obtain r where "pusher_loop env (fst x) (snd x) d = Some r"
      using pusher_loop_returns [OF assms] m by (metis prod.collapse)
    then show ?thesis using Inr by (cases r) (auto simp: split_beta)
  qed simp
  note run = this
  let ?off = "GET_MASK (pfifo_regs d NV_PFIFO_CACHE1_PUSH0) NV_PFIFO_CACHE1_PUSH0_ACCESS = 0 \<or>
    GET_MASK (pfifo_regs d NV_PFIFO_CACHE1_DMA_PUSH) NV_PFIFO_CACHE1_DMA_PUSH_ACCESS = 0 \<or>
    GET_MASK (pfifo_regs d NV_PFIFO_CACHE1_DMA_PUSH) NV_PFIFO_CACHE1_DMA_PUSH_STATUS \<noteq> 0"
  show ?thesis
  proof (cases ?off)
    case True
    then show ?thesis unfolding pfifo_run_pusher_def Let_def if_P [OF True] by blast
  next
    case False
    show ?thesis unfolding pfifo_run_pusher_def Let_def if_not_P [OF False]
      by (rule run) (simp only: res_bind_eq_Inr, blast)
  qed
qed

end

interpretation null: renderer_frame "env\<lparr>renderer := pgraph_null_renderer\<rparr>" for env
  by unfold_locales
    (auto simp: pgraph_null_renderer_def pgraph_null_get_report_def pgraph_write_zpass_pixel_cnt_report_def Let_def
      res_bind_eq_Inr intro!: fifo_frameI)

text \<open>
  C28.  The fetch loop makes progress.  With the null renderer and any vertex-program interpreter, every round that is not a
  control transfer consumes at least one of the words between the get and the put pointer and never passes the put
  pointer, increasing, non-increasing and squashed commands included; so the pusher returns on every buffer in which it
  meets no jump, call or return.
\<close>

theorem pusher_terminates:
  assumes "\<And>dma dma_len. nv_dma_map d (pusher_instance d) = Inr (dma, dma_len) \<Longrightarrow>
    straight (env\<lparr>renderer := pgraph_null_renderer\<rparr>) dma dma_len d"
  shows "(\<exists>r. pfifo_run_pusher (env\<lparr>renderer := pgraph_null_renderer\<rparr>) d = Some r) \<and>
    (\<forall>dma dma_len n d'. fetches (env\<lparr>renderer := pgraph_null_renderer\<rparr>) dma dma_len n d d' \<longrightarrow>
      put_ptr d' = put_ptr d \<and> unat (put_ptr d' - get_ptr d') + 4 * n \<le> unat (put_ptr d - get_ptr d))"
  using null.run_pusher_returns [OF assms] null.fetches_bound by blast

text \<open>A command buffer with two commands that have no parameters.\<close>

definition push_demo :: NV2AState where
  "push_demo = (nv2a_blank 64 64)
    \<lparr>pfifo_regs := (\<lambda>_. 0)(NV_PFIFO_CACHE1_DMA_PUT := 8, NV_PFIFO_CACHE1_PUSH0 := 1, NV_PFIFO_CACHE1_DMA_PUSH := 1,
       NV_PFIFO_CACHE1_PUSH1 := 0x100, NV_PFIFO_MODE := 1),
     nv_ramin := \<lparr>mem_size = 64, mem_byte = (\<lambda>_. 0)(4 := 63)\<rparr>,
     nv_vram := \<lparr>mem_size = 64, mem_byte = (\<lambda>_. 0)(1 := 0x23, 5 := 0x24)\<rparr>,
     pgraph := zero_PGRAPHState\<lparr>pg_regs := (\<lambda>_. 0)(NV_PGRAPH_FIFO := 1)\<rparr>\<rparr>"

definition push_demo_1 :: NV2AState where
  "push_demo_1 = fifo_set NV_PFIFO_CACHE1_DMA_GET 4 (methods_header 0x2300 0 (fifo_set NV_PFIFO_CACHE1_DMA_RSVD_SHADOW 0x2300 push_demo))"

definition push_demo_2 :: NV2AState where
  "push_demo_2 = fifo_set NV_PFIFO_CACHE1_DMA_GET 8 (methods_header 0x2400 0 (fifo_set NV_PFIFO_CACHE1_DMA_RSVD_SHADOW 0x2400 push_demo_1))"

lemma demo_masks:
  "ctz32 1 = 0" "ctz32 0x1FFC = 2" "ctz32 0xE000 = 13" "ctz32 0x1FFC0000 = 18" "ctz32 0xE0000000 = 29"
  by code_simp+

lemmas demo_evals = dma_state_field_def GET_MASK_def SET_MASK_def demo_masks ldl_le_def methods_header_def

lemma push_demo_vram [simp]: "nv_vram push_demo = \<lparr>mem_size = 64, mem_byte = (\<lambda>_. 0)(1 := 0x23, 5 := 0x24)\<rparr>"
  by (simp add: push_demo_def)

lemma push_demo_state:
  "dma_state_field push_demo NV_PFIFO_CACHE1_DMA_STATE_METHOD_COUNT = 0"
  "dma_state_field push_demo_1 NV_PFIFO_CACHE1_DMA_STATE_METHOD_COUNT = 0"
  "dma_state_field push_demo_2 NV_PFIFO_CACHE1_DMA_STATE_METHOD_COUNT = 0"
  "dma_state_field push_demo_1 NV_PFIFO_CACHE1_DMA_STATE_ERROR = 0"
  "dma_state_field push_demo_2 NV_PFIFO_CACHE1_DMA_STATE_ERROR = 0"
  by (simp_all add: push_demo_2_def push_demo_1_def push_demo_def demo_evals)

lemma push_demo_ptrs:
  "get_ptr push_demo = 0" "put_ptr push_demo = 8" "get_ptr push_demo_1 = 4" "put_ptr push_demo_1 = 8"
  "get_ptr push_demo_2 = 8" "put_ptr push_demo_2 = 8"
  "nv_vram push_demo_1 = nv_vram push_demo" "nv_vram push_demo_2 = nv_vram push_demo"
  by (simp_all add: push_demo_2_def push_demo_1_def push_demo_def methods_header_def)

lemma push_demo_steps:
  "pusher_step env 0 63 push_demo = Inr (True, push_demo_1)"
  "pusher_step env 0 63 push_demo_1 = Inr (True, push_demo_2)"
  "pusher_step env 0 63 push_demo_2 = Inr (False, push_demo_2)"
  using push_demo_state push_demo_ptrs
  by (simp_all add: pusher_step_def pusher_command_def Let_def ldl_le_def push_demo_1_def [symmetric] push_demo_2_def [symmetric])

lemma push_demo_words: "\<not> control_word 0 push_demo" "\<not> control_word 0 push_demo_1" "\<not> control_word 0 push_demo_2"
  by (simp_all add: control_word_def push_demo_ptrs transfers_def ldl_le_def)

inductive_cases fetchesE: "fetches env dma dma_len n d d'"

lemma push_demo_fetches:
  "fetches env 0 63 n push_demo_2 d' \<Longrightarrow> d' = push_demo_2"
  "fetches env 0 63 n push_demo_1 d' \<Longrightarrow> d' \<in> {push_demo_1, push_demo_2}"
  "fetches env 0 63 n push_demo d' \<Longrightarrow> d' \<in> {push_demo, push_demo_1, push_demo_2}"
proof -
  show f2: "fetches env 0 63 n push_demo_2 d' \<Longrightarrow> d' = push_demo_2" for n d'
    by (erule fetchesE) (simp_all add: push_demo_steps)
  show f1: "fetches env 0 63 n push_demo_1 d' \<Longrightarrow> d' \<in> {push_demo_1, push_demo_2}" for n d'
    by (erule fetchesE) (auto simp: push_demo_steps dest: f2)
  show "fetches env 0 63 n push_demo d' \<Longrightarrow> d' \<in> {push_demo, push_demo_1, push_demo_2}"
    by (erule fetchesE) (auto simp: push_demo_steps dest: f1)
qed

lemma push_demo_straight: "straight env 0 63 push_demo"
  using push_demo_fetches(3) push_demo_words by (fastforce simp: straight_def)

lemma push_demo_map: "nv_dma_map push_demo (pusher_instance push_demo) = Inr (0, 63)"
  by (simp add: push_demo_def nv_dma_map_def nv_dma_load_def ldl_le_def GET_MASK_def Let_def)

theorem pusher_terminates_witness: "\<exists>r. pfifo_run_pusher (null_env\<lparr>renderer := pgraph_null_renderer\<rparr>) push_demo = Some r"
  using pusher_terminates [of push_demo null_env] push_demo_straight push_demo_map by auto

end
