(* ===== verification/S3TC.thy ===== *)
theory S3TC
  imports Registers
begin

text \<open>
  Decompression of S3TC textures, \<open>nv2a/pgraph/s3tc.c\<close>.  The build wraps signed arithmetic, so an \<open>int\<close> is a number
  reduced to 32 bits after each operation.  A block is the list of its bytes, the output the array of \<open>n\<close> bytes that
  \<open>g_malloc\<close> returned.
\<close>

section \<open>Signed arithmetic\<close>

definition wrap32 :: "int \<Rightarrow> int" where
  "wrap32 z = (z + 2 ^ 31) mod 2 ^ 32 - 2 ^ 31"

section \<open>Palettes\<close>

datatype S3TC_DECOMPRESS_FORMAT = S3TC_DECOMPRESS_FORMAT_DXT1 | S3TC_DECOMPRESS_FORMAT_DXT3 | S3TC_DECOMPRESS_FORMAT_DXT5

type_synonym palette = "u8 list \<times> u8 list \<times> u8 list \<times> u8 list"

definition decode_bc1_colors :: "u16 \<Rightarrow> u16 \<Rightarrow> bool \<Rightarrow> palette" where
  "decode_bc1_colors c0 c1 transparent =
    (let red = \<lambda>c :: u16. unat (drop_bit 8 (c AND 0xF800)) * 0xFF div 0xF8;
         green = \<lambda>c :: u16. unat (drop_bit 3 (c AND 0x07E0)) * 0xFF div 0xFC;
         blue = \<lambda>c :: u16. unat (push_bit 3 (c AND 0x001F)) * 0xFF div 0xF8;
         fill = \<lambda>f. let v0 = unat (of_nat (f c0) :: u8); v1 = unat (of_nat (f c1) :: u8) in
           map of_nat (if transparent then [v0, v1, (v0 + v1) div 2, 0]
             else [v0, v1, (2 * v0 + v1) div 3, (v0 + 2 * v1) div 3])
     in (fill red, fill green, fill blue, if transparent then [255, 255, 255, 0] else [255, 255, 255, 255]))"

definition read16 :: "u8 list \<Rightarrow> nat \<Rightarrow> u16" where
  "read16 blk k = ucast (blk ! (2 * k)) OR push_bit 8 (ucast (blk ! (2 * k + 1)))"

definition read32 :: "u8 list \<Rightarrow> nat \<Rightarrow> u32" where
  "read32 blk k = ucast (read16 blk (2 * k)) OR push_bit 16 (ucast (read16 blk (2 * k + 1)))"

definition read64 :: "u8 list \<Rightarrow> nat \<Rightarrow> u64" where
  "read64 blk k = ucast (read32 blk (2 * k)) OR push_bit 32 (ucast (read32 blk (2 * k + 1)))"

definition dxt3_alpha :: "u8 list \<Rightarrow> u8 list" where
  "dxt3_alpha blk =
    (let alpha = read64 blk 0 in map (\<lambda>a_i. of_nat (unat (push_bit 4 (drop_bit (4 * a_i) alpha AND 0x0F)) * 0xFF div 0xF0)) [0..<16])"

definition dxt5_alpha :: "u8 list \<Rightarrow> u8 list" where
  "dxt5_alpha blk =
    (let alpha = read64 blk 0; a0 = unat (blk ! 0); a1 = unat (blk ! 1);
         a_palette = (if a0 > a1
           then [a0, a1, (6 * a0 + 1 * a1) div 7, (5 * a0 + 2 * a1) div 7, (4 * a0 + 3 * a1) div 7, (3 * a0 + 4 * a1) div 7,
             (2 * a0 + 5 * a1) div 7, (1 * a0 + 6 * a1) div 7]
           else [a0, a1, (4 * a0 + 1 * a1) div 5, (3 * a0 + 2 * a1) div 5, (2 * a0 + 3 * a1) div 5, (1 * a0 + 4 * a1) div 5, 0, 255])
     in map (\<lambda>a_i. of_nat (a_palette ! unat (drop_bit (16 + 3 * a_i) alpha AND 0x07))) [0..<16])"

section \<open>Blocks\<close>

definition put_byte :: "nat \<Rightarrow> (nat \<Rightarrow> u8) \<Rightarrow> int \<Rightarrow> u8 \<Rightarrow> (nat \<Rightarrow> u8) res" where
  "put_byte n buf off v = (if off < 0 then Inl Out_of_bounds else arr_set n buf (nat off) v)"

definition write_texel :: "nat \<Rightarrow> int \<Rightarrow> nat \<Rightarrow> nat \<Rightarrow> palette \<Rightarrow> (nat \<Rightarrow> u8) \<Rightarrow> (nat \<Rightarrow> u8) res" where
  "write_texel n p index alpha_index pal buf =
    (case pal of (r, g, b, a) \<Rightarrow>
      res_bind (get_at r index) (\<lambda>v. res_bind (put_byte n buf p v) (\<lambda>buf.
      res_bind (get_at g index) (\<lambda>v. res_bind (put_byte n buf (p + 1) v) (\<lambda>buf.
      res_bind (get_at b index) (\<lambda>v. res_bind (put_byte n buf (p + 2) v) (\<lambda>buf.
      res_bind (get_at a alpha_index) (\<lambda>v. put_byte n buf (p + 3) v))))))))"

definition write_block_to_texture ::
  "nat \<Rightarrow> u32 \<Rightarrow> int \<Rightarrow> int \<Rightarrow> int \<Rightarrow> int \<Rightarrow> int \<Rightarrow> palette \<Rightarrow> bool \<Rightarrow> (nat \<Rightarrow> u8) \<Rightarrow> (nat \<Rightarrow> u8) res" where
  "write_block_to_texture n indices i j width height z_pos_factor pal separate_alpha =
    (let x0 = wrap32 (i * 4); y0 = wrap32 (j * 4); x1 = wrap32 (x0 + 4); y1 = wrap32 (y0 + 4)
     in fold_res (\<lambda>y.
       let y_index = 4 * (y - y0); z_plus_y_pos_factor = wrap32 (z_pos_factor + wrap32 (y * width))
       in fold_res (\<lambda>x.
         let xy_index = nat (y_index + x - x0);
             index = unat (drop_bit (2 * xy_index) indices AND 0x03);
             alpha_index = if separate_alpha then xy_index else index
         in write_texel n (wrap32 (wrap32 (z_plus_y_pos_factor + x) * 4)) index alpha_index pal)
         [x0..min x1 width - 1])
       [y0..min y1 height - 1])"

definition decompress_dxt1_block :: "nat \<Rightarrow> u8 list \<Rightarrow> int \<Rightarrow> int \<Rightarrow> int \<Rightarrow> int \<Rightarrow> int \<Rightarrow> (nat \<Rightarrow> u8) \<Rightarrow> (nat \<Rightarrow> u8) res" where
  "decompress_dxt1_block n blk i j width height z_pos_factor =
    (let c0 = read16 blk 0; c1 = read16 blk 1
     in write_block_to_texture n (read32 blk 1) i j width height z_pos_factor (decode_bc1_colors c0 c1 (c0 \<le> c1)) False)"

definition decompress_dxt3_block :: "nat \<Rightarrow> u8 list \<Rightarrow> int \<Rightarrow> int \<Rightarrow> int \<Rightarrow> int \<Rightarrow> int \<Rightarrow> (nat \<Rightarrow> u8) \<Rightarrow> (nat \<Rightarrow> u8) res" where
  "decompress_dxt3_block n blk i j width height z_pos_factor =
    (case decode_bc1_colors (read16 blk 4) (read16 blk 5) False of (r, g, b, _) \<Rightarrow>
      write_block_to_texture n (read32 blk 3) i j width height z_pos_factor (r, g, b, dxt3_alpha blk) True)"

definition decompress_dxt5_block :: "nat \<Rightarrow> u8 list \<Rightarrow> int \<Rightarrow> int \<Rightarrow> int \<Rightarrow> int \<Rightarrow> int \<Rightarrow> (nat \<Rightarrow> u8) \<Rightarrow> (nat \<Rightarrow> u8) res" where
  "decompress_dxt5_block n blk i j width height z_pos_factor =
    (case decode_bc1_colors (read16 blk 4) (read16 blk 5) False of (r, g, b, _) \<Rightarrow>
      write_block_to_texture n (read32 blk 3) i j width height z_pos_factor (r, g, b, dxt5_alpha blk) True)"

text \<open>\<open>data + sz * index\<close>, of which a block decoder reads \<open>sz\<close> bytes.\<close>

definition block_at :: "u8 list \<Rightarrow> nat \<Rightarrow> int \<Rightarrow> u8 list res" where
  "block_at bs sz index =
    (let off = wrap32 (int sz * index)
     in if 0 \<le> off \<and> nat off + sz \<le> length bs then Inr (take sz (drop (nat off) bs)) else Inl Out_of_bounds)"

definition decompress_block ::
  "S3TC_DECOMPRESS_FORMAT \<Rightarrow> nat \<Rightarrow> u8 list \<Rightarrow> int \<Rightarrow> int \<Rightarrow> int \<Rightarrow> int \<Rightarrow> int \<Rightarrow> int \<Rightarrow> (nat \<Rightarrow> u8) \<Rightarrow> (nat \<Rightarrow> u8) res" where
  "decompress_block color_format n bs index i j width height z_pos_factor buf =
    (case color_format of
      S3TC_DECOMPRESS_FORMAT_DXT1 \<Rightarrow>
        res_bind (block_at bs 8 index) (\<lambda>blk. decompress_dxt1_block n blk i j width height z_pos_factor buf)
    | S3TC_DECOMPRESS_FORMAT_DXT3 \<Rightarrow>
        res_bind (block_at bs 16 index) (\<lambda>blk. decompress_dxt3_block n blk i j width height z_pos_factor buf)
    | S3TC_DECOMPRESS_FORMAT_DXT5 \<Rightarrow>
        res_bind (block_at bs 16 index) (\<lambda>blk. decompress_dxt5_block n blk i j width height z_pos_factor buf))"

section \<open>Textures\<close>

text \<open>\<open>junk\<close> is what the allocated memory holds.  The width and height become \<open>int\<close> where a block is decoded.\<close>

definition s3tc_decompress_3d ::
  "(nat \<Rightarrow> u8) \<Rightarrow> S3TC_DECOMPRESS_FORMAT \<Rightarrow> u8 list \<Rightarrow> u32 \<Rightarrow> u32 \<Rightarrow> u32 \<Rightarrow> (nat \<Rightarrow> u8) res" where
  "s3tc_decompress_3d junk color_format bs width height depth =
    res_bind (assert_res (width > 0)) (\<lambda>_.
    res_bind (assert_res (height > 0)) (\<lambda>_.
    res_bind (assert_res (depth > 0)) (\<lambda>_.
    let physical_width = (width + 3) AND NOT 3; physical_height = (height + 3) AND NOT 3;
        num_blocks_x = uint (physical_width div 4); num_blocks_y = uint (physical_height div 4);
        num_blocks_z = uint ((depth + 3) div 4);
        n = unat (width * height * depth * 4)
    in res_bind (fold_res (\<lambda>k (buf, sub_block_index, cur_depth).
         let residual_depth = wrap32 (uint depth - cur_depth); block_depth = min residual_depth 4
         in res_bind (fold_res (\<lambda>j. fold_res (\<lambda>i. fold_res (\<lambda>s (buf, sub_block_index).
              let z_pos_factor = wrap32 ((cur_depth + s) * uint width * uint height)
              in res_bind (decompress_block color_format n bs sub_block_index i j (wrap32 (uint width)) (wrap32 (uint height))
                   z_pos_factor buf) (\<lambda>buf. Inr (buf, wrap32 (sub_block_index + 1))))
              [0..block_depth - 1]) [0..num_blocks_x - 1]) [0..num_blocks_y - 1] (buf, sub_block_index))
            (\<lambda>(buf, sub_block_index). Inr (buf, sub_block_index, wrap32 (cur_depth + block_depth))))
       [0..num_blocks_z - 1] (junk, 0, 0)) (\<lambda>(buf, _). Inr buf))))"

definition s3tc_decompress_2d :: "(nat \<Rightarrow> u8) \<Rightarrow> S3TC_DECOMPRESS_FORMAT \<Rightarrow> u8 list \<Rightarrow> u32 \<Rightarrow> u32 \<Rightarrow> (nat \<Rightarrow> u8) res" where
  "s3tc_decompress_2d junk color_format bs width height =
    res_bind (assert_res (width > 0)) (\<lambda>_.
    res_bind (assert_res (height > 0)) (\<lambda>_.
    let physical_width = (width + 3) AND NOT 3; physical_height = (height + 3) AND NOT 3;
        num_blocks_x = uint (physical_width div 4); num_blocks_y = uint (physical_height div 4);
        n = unat (width * height * 4)
    in fold_res (\<lambda>j. fold_res (\<lambda>i buf.
         let block_index = wrap32 (wrap32 (j * num_blocks_x) + i)
         in decompress_block color_format n bs block_index i j (wrap32 (uint width)) (wrap32 (uint height)) 0 buf)
         [0..num_blocks_x - 1]) [0..num_blocks_y - 1] junk))"

section \<open>Wrap-around\<close>

lemma wrap32_id: "- (2 ^ 31) \<le> z \<Longrightarrow> z < 2 ^ 31 \<Longrightarrow> wrap32 z = z"
  by (simp add: wrap32_def)

lemma wrap32_nonneg [simp]: "0 \<le> z \<Longrightarrow> z < 2147483648 \<Longrightarrow> wrap32 z = z"
  by (rule wrap32_id) simp_all

lemma wrap32_add [simp]: "wrap32 (wrap32 a + b) = wrap32 (a + b)"
  by (simp add: wrap32_def mod_simps algebra_simps)

section \<open>Counting loops\<close>

lemma res_bind_Inr [simp]: "res_bind m Inr = m"
  by (cases m) simp_all

lemma fold_res_Nil: "fold_res f [] = Inr"
  by (rule ext) simp

text \<open>A loop that decodes with a running index is a loop over indices computed from the counter.\<close>

lemma fold_counter:
  assumes "\<And>i b t. body i (b, wrap32 t) = res_bind (g i t b) (\<lambda>b. Inr (b, wrap32 (t + c)))" and "0 \<le> m"
  shows "fold_res body [0..m - 1] (b, wrap32 t) =
    res_bind (fold_res (\<lambda>i. g i (t + i * c)) [0..m - 1] b) (\<lambda>b. Inr (b, wrap32 (t + m * c)))"
proof -
  have "fold_res body [0..int n - 1] (b, wrap32 t) =
    res_bind (fold_res (\<lambda>i. g i (t + i * c)) [0..int n - 1] b) (\<lambda>b. Inr (b, wrap32 (t + int n * c)))" for n
  proof (induction n)
    case (Suc n)
    have u: "[0..int (Suc n) - 1] = [0..int n - 1] @ [int n]" by (simp add: upto_rec2)
    have e: "t + int n * c + c = t + int (Suc n) * c" by (simp add: algebra_simps)
    show ?case unfolding u fold_res_append Suc res_bind_assoc by (simp add: assms(1) e fold_res_Nil res_bind_assoc)
  qed simp
  note this [of "nat m"]
  then show ?thesis using assms(2) by simp
qed

text \<open>The three inner loops of a group of slices.\<close>

definition group_loops ::
  "(int \<Rightarrow> int \<Rightarrow> int \<Rightarrow> int \<Rightarrow> (nat \<Rightarrow> u8) \<Rightarrow> (nat \<Rightarrow> u8) res) \<Rightarrow> int \<Rightarrow> int \<Rightarrow> int \<Rightarrow> int \<Rightarrow> (nat \<Rightarrow> u8) \<Rightarrow> (nat \<Rightarrow> u8) res" where
  "group_loops dec nbx nby bd t = fold_res (\<lambda>j. fold_res (\<lambda>i. fold_res (\<lambda>s.
    dec (wrap32 (t + j * (nbx * bd) + i * bd + s)) i j s) [0..bd - 1]) [0..nbx - 1]) [0..nby - 1]"

lemma group_loops_counter:
  assumes "0 \<le> nbx" and "0 \<le> nby" and "0 \<le> bd"
  shows "fold_res (\<lambda>j. fold_res (\<lambda>i. fold_res (\<lambda>s (buf, sub_block_index).
      res_bind (dec sub_block_index i j s buf) (\<lambda>buf. Inr (buf, wrap32 (sub_block_index + 1))))
      [0..bd - 1]) [0..nbx - 1]) [0..nby - 1] (buf, wrap32 t) =
    res_bind (group_loops dec nbx nby bd t buf) (\<lambda>buf. Inr (buf, wrap32 (t + nby * (nbx * bd))))"
proof -
  let ?body = "\<lambda>i j s (buf, sub_block_index).
      res_bind (dec sub_block_index i j s buf) (\<lambda>buf. Inr (buf, wrap32 (sub_block_index + 1)))"
  have 1: "fold_res (?body i j) [0..bd - 1] (b, wrap32 t) =
      res_bind (fold_res (\<lambda>s. dec (wrap32 (t + s)) i j s) [0..bd - 1] b) (\<lambda>b. Inr (b, wrap32 (t + bd)))" for i j b t
    using fold_counter [of "?body i j" "\<lambda>s t. dec (wrap32 t) i j s" 1 bd b t] assms by simp
  have 2: "fold_res (\<lambda>i. fold_res (?body i j) [0..bd - 1]) [0..nbx - 1] (b, wrap32 t) =
      res_bind (fold_res (\<lambda>i. fold_res (\<lambda>s. dec (wrap32 (t + i * bd + s)) i j s) [0..bd - 1]) [0..nbx - 1] b)
        (\<lambda>b. Inr (b, wrap32 (t + nbx * bd)))" for j b t
    by (rule fold_counter [OF 1 assms(1)])
  show ?thesis unfolding group_loops_def by (rule fold_counter [OF 2 assms(2)])
qed

section \<open>Painting\<close>

definition set_texel :: "int \<Rightarrow> u8 list \<Rightarrow> (nat \<Rightarrow> u8) \<Rightarrow> nat \<Rightarrow> u8" where
  "set_texel p v buf = (\<lambda>k. if int k div 4 = p then v ! (k mod 4) else buf k)"

definition paint :: "(int \<times> u8 list) list \<Rightarrow> (nat \<Rightarrow> u8) \<Rightarrow> nat \<Rightarrow> u8" where
  "paint ws = fold (\<lambda>(p, v). set_texel p v) ws"

lemma fold_res_paint:
  assumes "\<And>x b. x \<in> set xs \<Longrightarrow> f x b = Inr (paint (g x) b)"
  shows "fold_res f xs b = Inr (paint (concat (map g xs)) b)"
  using assms by (induction xs arbitrary: b) (simp_all add: paint_def)

lemma paint_value:
  assumes "\<And>p v. (p, v) \<in> set ws \<Longrightarrow> v = ref p"
  shows "paint ws buf k = (if int k div 4 \<in> fst ` set ws then ref (int k div 4) ! (k mod 4) else buf k)"
  using assms
proof (induction ws arbitrary: buf)
  case (Cons w ws)
  obtain p v where w: "w = (p, v)" by fastforce
  have "v = ref p" using Cons.prems [of p v] w by simp
  moreover have "paint (w # ws) buf k = paint ws (set_texel p v buf) k" by (simp add: paint_def w)
  moreover have "paint ws (set_texel p v buf) k =
      (if int k div 4 \<in> fst ` set ws then ref (int k div 4) ! (k mod 4) else set_texel p v buf k)"
    using Cons by (intro Cons.IH) simp
  ultimately show ?case by (auto simp: w set_texel_def)
qed (simp add: paint_def)

lemma write_texel_paint:
  assumes "0 \<le> p" and "4 * p + 3 < int n" and "index < length r" "index < length g" "index < length b" "alpha_index < length a"
  shows "write_texel n (p * 4) index alpha_index (r, g, b, a) buf = Inr (paint [(p, [r ! index, g ! index, b ! index, a ! alpha_index])] buf)"
proof -
  obtain q where p: "p = int q" using assms(1) nonneg_int_cases by blast
  have n: "4 * q + 3 < n" using assms(2) p by simp
  have off: "nat (int q * 4) = 4 * q" "nat (int q * 4 + 1) = 4 * q + 1" "nat (int q * 4 + 2) = 4 * q + 2" "nat (int q * 4 + 3) = 4 * q + 3"
    by simp_all
  have "(buf(4 * q := r ! index, 4 * q + 1 := g ! index, 4 * q + 2 := b ! index, 4 * q + 3 := a ! alpha_index)) k =
      set_texel p [r ! index, g ! index, b ! index, a ! alpha_index] buf k" for k
  proof (cases "k div 4 = q")
    case True
    then have "k \<in> {4 * q, 4 * q + 1, 4 * q + 2, 4 * q + 3}" by force
    moreover have "Suc (Suc (4 * q)) mod 4 = 2" by presburger
    ultimately show ?thesis by (auto simp: set_texel_def p)
  next
    case False
    then have "k \<notin> {4 * q, 4 * q + 1, 4 * q + 2, 4 * q + 3}" by auto
    then show ?thesis using False by (auto simp: set_texel_def p)
  qed
  then show ?thesis using assms(3-) n by (simp add: write_texel_def put_byte_def p off paint_def fun_eq_iff)
qed

section \<open>The reference\<close>

definition texel_of :: "palette \<Rightarrow> u32 \<Rightarrow> bool \<Rightarrow> nat \<Rightarrow> u8 list" where
  "texel_of pal indices separate_alpha t =
    (case pal of (r, g, b, a) \<Rightarrow>
      let c = unat (drop_bit (2 * t) indices AND 3) in [r ! c, g ! c, b ! c, a ! (if separate_alpha then t else c)])"

text \<open>The texel number \<open>t\<close>, row by row, of a block.\<close>

definition block_texel :: "S3TC_DECOMPRESS_FORMAT \<Rightarrow> u8 list \<Rightarrow> nat \<Rightarrow> u8 list" where
  "block_texel fmt blk t =
    (case fmt of
      S3TC_DECOMPRESS_FORMAT_DXT1 \<Rightarrow>
        texel_of (decode_bc1_colors (read16 blk 0) (read16 blk 1) (read16 blk 0 \<le> read16 blk 1)) (read32 blk 1) False t
    | S3TC_DECOMPRESS_FORMAT_DXT3 \<Rightarrow>
        (case decode_bc1_colors (read16 blk 4) (read16 blk 5) False of (r, g, b, _) \<Rightarrow>
          texel_of (r, g, b, dxt3_alpha blk) (read32 blk 3) True t)
    | S3TC_DECOMPRESS_FORMAT_DXT5 \<Rightarrow>
        (case decode_bc1_colors (read16 blk 4) (read16 blk 5) False of (r, g, b, _) \<Rightarrow>
          texel_of (r, g, b, dxt5_alpha blk) (read32 blk 3) True t))"

definition block_size :: "S3TC_DECOMPRESS_FORMAT \<Rightarrow> nat" where
  "block_size fmt = (if fmt = S3TC_DECOMPRESS_FORMAT_DXT1 then 8 else 16)"

definition block_list :: "(nat \<Rightarrow> u8 list) \<Rightarrow> int \<Rightarrow> int \<Rightarrow> int \<Rightarrow> int \<Rightarrow> int \<Rightarrow> (int \<times> u8 list) list" where
  "block_list texel i j w h z_pos = concat (map (\<lambda>y. map (\<lambda>x. (z_pos + y * w + x, texel (nat (4 * (y - 4 * j) + (x - 4 * i)))))
    [4 * i..min (4 * i + 4) w - 1]) [4 * j..min (4 * j + 4) h - 1])"

lemma low_two_bits: "unat (x AND 3 :: u32) < 4"
proof -
  have "x AND 3 = take_bit 2 x" by (simp add: take_bit_eq_mask mask_eq_exp_minus_1)
  then have "x AND 3 = x mod 4" by (simp add: take_bit_eq_mod)
  then show ?thesis by (simp add: unat_mod)
qed

definition palette_ok :: "bool \<Rightarrow> palette \<Rightarrow> bool" where
  "palette_ok separate_alpha pal \<longleftrightarrow>
    (case pal of (r, g, b, a) \<Rightarrow> length r = 4 \<and> length g = 4 \<and> length b = 4 \<and> length a = (if separate_alpha then 16 else 4))"

lemma write_block_paint:
  assumes ij: "0 \<le> i" "0 \<le> j" "4 * i < w" "4 * j < h" and z: "0 \<le> z"
    and n: "4 * (z + w * h) \<le> int n" "n < 2 ^ 31" and pal: "palette_ok separate_alpha pal"
  shows "write_block_to_texture n indices i j w h z pal separate_alpha buf =
    Inr (paint (block_list (texel_of pal indices separate_alpha) i j w h z) buf)"
proof -
  obtain r g b a where p: "pal = (r, g, b, a)" by (cases pal) auto
  have pos: "0 \<le> y * w + x" "y * w + x < w * h" if "0 \<le> x" "x < w" "0 \<le> y" "y < h" for x y
  proof -
    show "0 \<le> y * w + x" using that by simp
    have "(y + 1) * w \<le> h * w" using that by (intro mult_right_mono) auto
    then show "y * w + x < w * h" using that by (simp add: algebra_simps)
  qed
  have dim: "w \<le> w * h" "h \<le> w * h" using ij by (simp_all add: mult_le_cancel_left1 mult_le_cancel_right1)
  have texel: "write_texel n (wrap32 (wrap32 (wrap32 (z + wrap32 (y * w)) + x) * 4))
      (unat (drop_bit (2 * t) indices AND 3)) (if separate_alpha then t else unat (drop_bit (2 * t) indices AND 3)) pal b' =
      Inr (paint [(z + y * w + x, texel_of pal indices separate_alpha t)] b')"
    if "0 \<le> x" "x < w" "0 \<le> y" "y < h" "t < 16" for x y t b'
  proof -
    note q = pos [OF that(1-4)]
    have "y * w < w * h" "0 \<le> y * w" using that q by auto
    then have "wrap32 (wrap32 (wrap32 (z + wrap32 (y * w)) + x) * 4) = (z + y * w + x) * 4"
      using q z n that by simp
    then show ?thesis
      using write_texel_paint [of "z + y * w + x" n "unat (drop_bit (2 * t) indices AND 3)" r g b
          "if separate_alpha then t else unat (drop_bit (2 * t) indices AND 3)" a b'] q z n pal that low_two_bits
      by (simp add: p palette_ok_def texel_of_def Let_def)
  qed
  have lim: "int n < 2147483648" using n(2) by simp
  define area where "area = w * h"
  have lim': "4 * (z + area) \<le> int n" "w \<le> area" "h \<le> area" using n(1) dim by (simp_all add: area_def)
  have bi: "4 * i + 4 < 2147483648" using lim lim' ij(3) z by presburger
  have bj: "4 * j + 4 < 2147483648" using lim lim' ij(4) z by presburger
  have w: "wrap32 (i * 4) = 4 * i" "wrap32 (j * 4) = 4 * j" "wrap32 (4 * i + 4) = 4 * i + 4" "wrap32 (4 * j + 4) = 4 * j + 4"
    using bi bj ij by (simp_all add: mult.commute)
  show ?thesis
    unfolding write_block_to_texture_def w Let_def block_list_def
  proof (rule fold_res_paint)
    fix y b' assume "y \<in> set [4 * j..min (4 * j + 4) h - 1]"
    then have y: "0 \<le> y" "y < h" "4 * j \<le> y" "y < 4 * j + 4" using ij by auto
    let ?t = "\<lambda>x. nat (4 * (y - 4 * j) + (x - 4 * i))"
    have e: "concat (map (\<lambda>x. [(z + y * w + x, texel_of pal indices separate_alpha (?t x))]) xs) =
      map (\<lambda>x. (z + y * w + x, texel_of pal indices separate_alpha (?t x))) xs" for xs by simp
    show "fold_res (\<lambda>x. write_texel n (wrap32 (wrap32 (wrap32 (z + wrap32 (y * w)) + x) * 4))
        (unat (drop_bit (2 * nat (4 * (y - 4 * j) + x - 4 * i)) indices AND 3))
        (if separate_alpha then nat (4 * (y - 4 * j) + x - 4 * i)
         else unat (drop_bit (2 * nat (4 * (y - 4 * j) + x - 4 * i)) indices AND 3)) pal)
        [4 * i..min (4 * i + 4) w - 1] b' =
      Inr (paint (map (\<lambda>x. (z + y * w + x, texel_of pal indices separate_alpha (?t x))) [4 * i..min (4 * i + 4) w - 1]) b')"
      unfolding e [symmetric]
    proof (rule fold_res_paint)
      fix x b'' assume "x \<in> set [4 * i..min (4 * i + 4) w - 1]"
      then have x: "0 \<le> x" "x < w" "4 * i \<le> x" "x < 4 * i + 4" using ij by auto
      have t: "nat (4 * (y - 4 * j) + x - 4 * i) = ?t x" "?t x < 16" using x y by simp_all
      show "write_texel n (wrap32 (wrap32 (wrap32 (z + wrap32 (y * w)) + x) * 4))
        (unat (drop_bit (2 * nat (4 * (y - 4 * j) + x - 4 * i)) indices AND 3))
        (if separate_alpha then nat (4 * (y - 4 * j) + x - 4 * i)
         else unat (drop_bit (2 * nat (4 * (y - 4 * j) + x - 4 * i)) indices AND 3)) pal b'' =
        Inr (paint [(z + y * w + x, texel_of pal indices separate_alpha (?t x))] b'')"
        unfolding t(1) by (rule texel [OF x(1,2) y(1,2) t(2)])
    qed
  qed
qed

lemma decode_palette: "palette_ok False (decode_bc1_colors c0 c1 transparent)"
  by (simp add: decode_bc1_colors_def palette_ok_def Let_def)

lemma alpha_palette:
  "decode_bc1_colors c0 c1 transparent = (r, g, b, a) \<Longrightarrow> length a' = 16 \<Longrightarrow> palette_ok True (r, g, b, a')"
  using decode_palette [of c0 c1 transparent] by (simp add: palette_ok_def)

definition nth_block :: "S3TC_DECOMPRESS_FORMAT \<Rightarrow> u8 list \<Rightarrow> nat \<Rightarrow> u8 list" where
  "nth_block fmt bs k = take (block_size fmt) (drop (block_size fmt * k) bs)"

lemma decompress_block_paint:
  assumes bs: "0 \<le> index" "int (block_size fmt) * (index + 1) \<le> int (length bs)" "length bs < 2 ^ 31"
    and ij: "0 \<le> i" "0 \<le> j" "4 * i < w" "4 * j < h" and z: "0 \<le> z" and n: "4 * (z + w * h) \<le> int n" "n < 2 ^ 31"
  shows "decompress_block fmt n bs index i j w h z buf =
    Inr (paint (block_list (block_texel fmt (nth_block fmt bs (nat index))) i j w h z) buf)"
proof -
  let ?sz = "block_size fmt"
  have pos: "0 \<le> int ?sz * index" using bs(1) by simp
  have le: "int ?sz * index + int ?sz \<le> int (length bs)" using bs(2) by (simp add: algebra_simps)
  have wr: "wrap32 (int ?sz * index) = int ?sz * index" using pos le bs(3) by simp
  have nat: "nat (int ?sz * index) = ?sz * nat index" using bs(1) by (simp add: nat_mult_distrib)
  have "?sz * nat index + ?sz \<le> length bs" using le nat pos by linarith
  then have blk: "block_at bs ?sz index = Inr (nth_block fmt bs (nat index))"
    unfolding block_at_def Let_def wr nat nth_block_def using pos by simp
  note paint = write_block_paint [OF ij z n]
  show ?thesis
  proof (cases fmt)
    case S3TC_DECOMPRESS_FORMAT_DXT1
    then show ?thesis
      using blk paint [OF decode_palette]
      by (simp add: decompress_block_def block_size_def decompress_dxt1_block_def block_texel_def [abs_def] Let_def)
  next
    case S3TC_DECOMPRESS_FORMAT_DXT3
    let ?blk = "nth_block fmt bs (nat index)"
    obtain r g b a where d: "decode_bc1_colors (read16 ?blk 4) (read16 ?blk 5) False = (r, g, b, a)" by (rule prod_cases4)
    have "length (dxt3_alpha ?blk) = 16" by (simp add: dxt3_alpha_def Let_def)
    then show ?thesis
      using S3TC_DECOMPRESS_FORMAT_DXT3 blk d paint [OF alpha_palette [OF d]]
      by (simp add: decompress_block_def block_size_def decompress_dxt3_block_def block_texel_def [abs_def])
  next
    case S3TC_DECOMPRESS_FORMAT_DXT5
    let ?blk = "nth_block fmt bs (nat index)"
    obtain r g b a where d: "decode_bc1_colors (read16 ?blk 4) (read16 ?blk 5) False = (r, g, b, a)" by (rule prod_cases4)
    have "length (dxt5_alpha ?blk) = 16" by (simp add: dxt5_alpha_def Let_def)
    then show ?thesis
      using S3TC_DECOMPRESS_FORMAT_DXT5 blk d paint [OF alpha_palette [OF d]]
      by (simp add: decompress_block_def block_size_def decompress_dxt5_block_def block_texel_def [abs_def])
  qed
qed

section \<open>Volumes\<close>

lemma pair_index:
  fixes a b A B :: int
  assumes "0 \<le> a" "a < A" "0 \<le> b" "b < B"
  shows "0 \<le> a * B + b" "a * B + b < A * B"
proof -
  show "0 \<le> a * B + b" using assms by simp
  have "(a + 1) * B \<le> A * B" using assms by (intro mult_right_mono) auto
  then show "a * B + b < A * B" using assms by (simp add: algebra_simps)
qed

lemma area_bound:
  fixes a b n m :: int
  assumes "4 * (b + a) \<le> n" and "0 \<le> b" and "0 \<le> a" and "n < m"
  shows "a < m \<and> b < m"
  using assms by simp

text \<open>All texels of the group of slices that starts at slice \<open>cd\<close>.\<close>

definition group_list :: "(int \<Rightarrow> nat \<Rightarrow> u8 list) \<Rightarrow> int \<Rightarrow> int \<Rightarrow> int \<Rightarrow> int \<Rightarrow> int \<Rightarrow> int \<Rightarrow> (int \<times> u8 list) list" where
  "group_list texel w h nbx nby cd bd = concat (map (\<lambda>j. concat (map (\<lambda>i. concat (map (\<lambda>s.
    block_list (texel (nbx * nby * cd + j * (nbx * bd) + i * bd + s)) i j w h ((cd + s) * w * h)) [0..bd - 1])) [0..nbx - 1])) [0..nby - 1])"

lemma group_paint:
  assumes dims: "0 < w" "0 < h" "0 \<le> cd" "0 < bd" "cd + bd \<le> d" "nbx = (w + 3) div 4" "nby = (h + 3) div 4"
    and n: "4 * (w * h * d) \<le> int n" "n < 2 ^ 31"
    and bs: "int (block_size fmt) * (nbx * nby * d) \<le> int (length bs)" "length bs < 2 ^ 31"
  shows "group_loops (\<lambda>index i j s. decompress_block fmt n bs index i j (wrap32 w) (wrap32 h) (wrap32 ((cd + s) * w * h)))
      nbx nby bd (nbx * nby * cd) buf =
    Inr (paint (group_list (\<lambda>index. block_texel fmt (nth_block fmt bs (nat index))) w h nbx nby cd bd) buf)"
  unfolding group_loops_def group_list_def
proof (intro fold_res_paint)
  fix j i s b assume "j \<in> set [0..nby - 1]" "i \<in> set [0..nbx - 1]" "s \<in> set [0..bd - 1]"
  then have r: "0 \<le> j" "j < nby" "0 \<le> i" "i < nbx" "0 \<le> s" "s < bd" by auto
  let ?t = "nbx * nby * cd + j * (nbx * bd) + i * bd + s"
  note in1 = pair_index [OF r(3-6)] 
  note in2 = pair_index [OF r(1,2) in1]
  have nb: "0 < nbx" "0 < nby" using dims by simp_all
  have "0 \<le> nbx * nby * cd" using nb dims(3) by simp
  then have t: "0 \<le> ?t" using in2(1) by linarith
  have "nbx * nby * cd + nby * (nbx * bd) = nbx * nby * (cd + bd)" by (simp add: algebra_simps)
  also have "\<dots> \<le> nbx * nby * d" using nb dims by (intro mult_left_mono) auto
  finally have td: "?t + 1 \<le> nbx * nby * d" using in2 by linarith
  have "int (block_size fmt) * (?t + 1) \<le> int (block_size fmt) * (nbx * nby * d)" using td by (intro mult_left_mono) auto
  then have blk: "int (block_size fmt) * (?t + 1) \<le> int (length bs)" using bs(1) by linarith
  have "1 * (?t + 1) \<le> int (block_size fmt) * (?t + 1)" using t by (intro mult_right_mono) (auto simp: block_size_def)
  from order_trans [OF this blk] have "?t < 2147483648" using bs(2) by simp
  then have wt: "wrap32 ?t = ?t" by (rule wrap32_nonneg [OF t])
  have "(cd + s + 1) * (w * h) \<le> d * (w * h)" using dims r by (intro mult_right_mono) auto
  then have z: "(cd + s) * w * h + w * h \<le> w * h * d" by (simp add: algebra_simps)
  have z0: "0 \<le> (cd + s) * w * h" using dims r by simp
  have wh: "w \<le> w * h" "h \<le> w * h" using dims by (simp_all add: mult_le_cancel_left1 mult_le_cancel_right1)
  from order_trans [OF _ n(1)] z have zn: "4 * ((cd + s) * w * h + w * h) \<le> int n" by simp
  define area base where "area = w * h" and "base = (cd + s) * w * h"
  have lim: "4 * (base + area) \<le> int n" "0 \<le> base" "w \<le> area" "h \<le> area" "int n < 2147483648"
    using zn z0 wh n(2) by (simp_all add: area_def base_def)
  from area_bound [OF lim(1,2) _ lim(5)] lim have "w < 2147483648" "h < 2147483648" "base < 2147483648" using dims(1,2) by simp_all
  then have wr: "wrap32 w = w" "wrap32 h = h" "wrap32 ((cd + s) * w * h) = (cd + s) * w * h"
    using z0 dims by (simp_all add: base_def)
  have ij: "4 * i < w" "4 * j < h" using r dims by simp_all
  show "decompress_block fmt n bs (wrap32 ?t) i j (wrap32 w) (wrap32 h) (wrap32 ((cd + s) * w * h)) b =
      Inr (paint (block_list (block_texel fmt (nth_block fmt bs (nat ?t))) i j w h ((cd + s) * w * h)) b)"
    unfolding wt wr using decompress_block_paint [OF t blk bs(2) r(3,1) ij z0 zn n(2)] by simp
qed

lemma block_count:
  fixes width :: u32
  assumes "uint width < 2147483648"
  shows "uint (((width + 3) AND NOT 3) div 4) = (uint width + 3) div 4"
proof -
  have "drop_bit 2 (x AND NOT (mask 2)) = drop_bit 2 x" for x :: u32
    by (rule bit_eqI) (auto simp: bit_drop_bit_eq bit_and_iff bit_not_iff bit_mask_iff dest: bit_imp_le_length)
  moreover have "mask 2 = (3 :: u32)" by (simp add: mask_eq_exp_minus_1)
  ultimately have "drop_bit 2 ((width + 3) AND NOT 3) = drop_bit 2 (width + 3)" by metis
  then have "((width + 3) AND NOT 3) div 4 = (width + 3) div 4" by (simp add: drop_bit_eq_div)
  moreover have "uint (width + 3) = uint width + 3" using assms by (simp add: uint_word_ariths)
  ultimately show ?thesis by (simp add: uint_div)
qed

text \<open>The groups of four slices, with the running index and the slices done.\<close>

definition volume_body ::
  "S3TC_DECOMPRESS_FORMAT \<Rightarrow> nat \<Rightarrow> u8 list \<Rightarrow> int \<Rightarrow> int \<Rightarrow> int \<Rightarrow> int \<Rightarrow> int \<Rightarrow> int \<Rightarrow>
    (nat \<Rightarrow> u8) \<times> int \<times> int \<Rightarrow> ((nat \<Rightarrow> u8) \<times> int \<times> int) res" where
  "volume_body fmt n bs w h d nbx nby = (\<lambda>k (buf, sub_block_index, cur_depth).
    let residual_depth = wrap32 (d - cur_depth); block_depth = min residual_depth 4
    in res_bind (fold_res (\<lambda>j. fold_res (\<lambda>i. fold_res (\<lambda>s (buf, sub_block_index).
         let z_pos_factor = wrap32 ((cur_depth + s) * w * h)
         in res_bind (decompress_block fmt n bs sub_block_index i j (wrap32 w) (wrap32 h)
              z_pos_factor buf) (\<lambda>buf. Inr (buf, wrap32 (sub_block_index + 1))))
         [0..block_depth - 1]) [0..nbx - 1]) [0..nby - 1] (buf, sub_block_index))
       (\<lambda>(buf, sub_block_index). Inr (buf, sub_block_index, wrap32 (cur_depth + block_depth))))"

lemma volume_body_step:
  assumes "0 \<le> min (wrap32 (d - cd)) 4" and "0 \<le> nbx" and "0 \<le> nby"
  shows "volume_body fmt n bs w h d nbx nby k (buf, wrap32 t, cd) =
    res_bind (group_loops (\<lambda>index i j s. decompress_block fmt n bs index i j (wrap32 w) (wrap32 h) (wrap32 ((cd + s) * w * h)))
        nbx nby (min (wrap32 (d - cd)) 4) t buf)
      (\<lambda>buf. Inr (buf, wrap32 (t + nby * (nbx * min (wrap32 (d - cd)) 4)), wrap32 (cd + min (wrap32 (d - cd)) 4)))"
  unfolding volume_body_def prod.case Let_def group_loops_counter [OF assms(2,3,1)] res_bind_assoc by simp

definition volume_list :: "(int \<Rightarrow> nat \<Rightarrow> u8 list) \<Rightarrow> int \<Rightarrow> int \<Rightarrow> int \<Rightarrow> int \<Rightarrow> (int \<times> u8 list) list" where
  "volume_list texel w h d m = concat (map (\<lambda>k.
    group_list texel w h ((w + 3) div 4) ((h + 3) div 4) (4 * k) (min (d - 4 * k) 4)) [0..m - 1])"

lemma volume_paint:
  assumes dims: "0 < w" "0 < h" "0 < d" "d < 2147483648" and m: "int m \<le> (d + 3) div 4"
    and n: "4 * (w * h * d) \<le> int n" "n < 2 ^ 31"
    and bs: "int (block_size fmt) * ((w + 3) div 4 * ((h + 3) div 4) * d) \<le> int (length bs)" "length bs < 2 ^ 31"
  shows "fold_res (volume_body fmt n bs w h d ((w + 3) div 4) ((h + 3) div 4)) [0..int m - 1] (junk, 0, 0) =
    Inr (paint (volume_list (\<lambda>index. block_texel fmt (nth_block fmt bs (nat index))) w h d (int m)) junk,
      wrap32 ((w + 3) div 4 * ((h + 3) div 4) * min (4 * int m) d), min (4 * int m) d)"
  using m
proof (induction m)
  case 0
  then show ?case using dims by (simp add: volume_list_def paint_def)
next
  case (Suc m)
  let ?nbx = "(w + 3) div 4" and ?nby = "(h + 3) div 4" and ?cd = "4 * int m"
  let ?bd = "min (d - ?cd) 4"
  have lt: "?cd < d" using Suc.prems by simp
  have cd: "min ?cd d = ?cd" using lt by simp
  have res: "wrap32 (d - ?cd) = d - ?cd" using lt dims by simp
  have bd: "0 < ?bd" "?cd + ?bd \<le> d" "0 \<le> min (wrap32 (d - ?cd)) 4" using lt res by auto
  have nb: "0 \<le> ?nbx" "0 \<le> ?nby" using dims by simp_all
  have u: "[0..int (Suc m) - 1] = [0..int m - 1] @ [int m]" by (simp add: upto_rec2)
  have next_cd: "wrap32 (?cd + ?bd) = min (4 * int (Suc m)) d" using lt dims by auto
  have e: "?nbx * ?nby * ?cd + ?nby * (?nbx * ?bd) = ?nbx * ?nby * min (4 * int (Suc m)) d"
  proof -
    have "?cd + ?bd = min (4 * int (Suc m)) d" by simp
    moreover have "a * b * c + b * (a * e) = a * b * (c + e)" for a b c e :: int by (simp add: algebra_simps)
    ultimately show ?thesis by metis
  qed
  note IH = Suc.IH [unfolded cd]
  have IH': "fold_res (volume_body fmt n bs w h d ?nbx ?nby) [0..int m - 1] (junk, 0, 0) =
    Inr (paint (volume_list (\<lambda>index. block_texel fmt (nth_block fmt bs (nat index))) w h d (int m)) junk,
      wrap32 (?nbx * ?nby * ?cd), ?cd)" using IH Suc.prems by simp
  note step = volume_body_step [OF bd(3) nb, of fmt n bs w h "int m", unfolded res]
  note grp = group_paint [OF dims(1,2) _ bd(1,2) refl refl n bs]
  show ?case
    unfolding u fold_res_append IH' res_bind_simps fold_res.simps step
    by (simp add: grp next_cd e volume_list_def upto_rec2 paint_def)
qed

text \<open>The number of the block that holds a texel: groups of four slices, and inside a group block by block and slice by slice.\<close>

definition block_number :: "int \<Rightarrow> int \<Rightarrow> int \<Rightarrow> int \<Rightarrow> int \<Rightarrow> int \<Rightarrow> int" where
  "block_number w h d x y z =
    (let nbx = (w + 3) div 4; nby = (h + 3) div 4; bd = min (d - 4 * (z div 4)) 4
     in nbx * nby * (4 * (z div 4)) + y div 4 * (nbx * bd) + x div 4 * bd + z mod 4)"

definition volume_texel :: "(int \<Rightarrow> nat \<Rightarrow> u8 list) \<Rightarrow> int \<Rightarrow> int \<Rightarrow> int \<Rightarrow> int \<Rightarrow> int \<Rightarrow> int \<Rightarrow> u8 list" where
  "volume_texel texel w h d x y z = texel (block_number w h d x y z) (nat (4 * (y mod 4) + x mod 4))"

lemma in_four:
  fixes x i :: int
  assumes "4 * i \<le> x" and "x < 4 * i + 4"
  shows "x div 4 = i" "x mod 4 = x - 4 * i"
  using assms by presburger+

lemma volume_list_sound:
  assumes "(p, v) \<in> set (volume_list texel w h d ((d + 3) div 4))"
  shows "\<exists>x y z. 0 \<le> x \<and> x < w \<and> 0 \<le> y \<and> y < h \<and> 0 \<le> z \<and> z < d \<and> p = (z * h + y) * w + x \<and>
    v = volume_texel texel w h d x y z"
proof -
  obtain k j i s y x where r: "0 \<le> k" "0 \<le> j" "0 \<le> i" "0 \<le> s" "s < min (d - 4 * k) 4"
    and y: "4 * j \<le> y" "y < min (4 * j + 4) h" and x: "4 * i \<le> x" "x < min (4 * i + 4) w"
    and p: "p = (4 * k + s) * w * h + y * w + x"
    and v: "v = texel ((w + 3) div 4 * ((h + 3) div 4) * (4 * k) + j * ((w + 3) div 4 * min (d - 4 * k) 4) +
      i * min (d - 4 * k) 4 + s) (nat (4 * (y - 4 * j) + (x - 4 * i)))"
    using assms unfolding volume_list_def group_list_def block_list_def by auto
  have z: "(4 * k + s) div 4 = k" "(4 * k + s) mod 4 = s" using r by presburger+
  have xi: "x div 4 = i" "x mod 4 = x - 4 * i" and yj: "y div 4 = j" "y mod 4 = y - 4 * j"
    using x y by (simp_all add: in_four)
  have "v = volume_texel texel w h d x y (4 * k + s)"
    unfolding v volume_texel_def block_number_def Let_def z xi yj by simp
  moreover have "p = ((4 * k + s) * h + y) * w + x" unfolding p by (simp add: algebra_simps)
  ultimately show ?thesis using r x y by (intro exI [of _ x] exI [of _ y] exI [of _ "4 * k + s"]) auto
qed

lemma concat_mapI: "x \<in> set xs \<Longrightarrow> e \<in> set (f x) \<Longrightarrow> e \<in> set (concat (map f xs))"
  by auto

lemma volume_list_complete:
  assumes "0 \<le> x" "x < w" "0 \<le> y" "y < h" "0 \<le> z" "z < d"
  shows "(z * h + y) * w + x \<in> fst ` set (volume_list texel w h d ((d + 3) div 4))"
proof -
  let ?i = "x div 4" and ?j = "y div 4" and ?k = "z div 4" and ?s = "z mod 4"
  have m: "?k \<in> set [0..(d + 3) div 4 - 1]" "?j \<in> set [0..(h + 3) div 4 - 1]" "?i \<in> set [0..(w + 3) div 4 - 1]"
    "?s \<in> set [0..min (d - 4 * ?k) 4 - 1]" "y \<in> set [4 * ?j..min (4 * ?j + 4) h - 1]" "x \<in> set [4 * ?i..min (4 * ?i + 4) w - 1]"
    using assms by (auto; presburger)+
  have "4 * ?k + ?s = z" by simp
  then have p: "(4 * ?k + ?s) * w * h + y * w + x = (z * h + y) * w + x" by (simp only: algebra_simps)
  have "((4 * ?k + ?s) * w * h + y * w + x, texel ((w + 3) div 4 * ((h + 3) div 4) * (4 * ?k) + ?j * ((w + 3) div 4 *
      min (d - 4 * ?k) 4) + ?i * min (d - 4 * ?k) 4 + ?s) (nat (4 * (y - 4 * ?j) + (x - 4 * ?i))))
      \<in> set (volume_list texel w h d ((d + 3) div 4))"
    unfolding volume_list_def group_list_def block_list_def
    by (intro concat_mapI [OF m(1)] concat_mapI [OF m(2)] concat_mapI [OF m(3)] concat_mapI [OF m(4)] concat_mapI [OF m(5)])
      (use m(6) in auto)
  then show ?thesis unfolding p by force
qed

lemma s3tc_decompress_3d_volume:
  "s3tc_decompress_3d junk fmt bs width height depth =
    res_bind (assert_res (width > 0)) (\<lambda>_. res_bind (assert_res (height > 0)) (\<lambda>_. res_bind (assert_res (depth > 0)) (\<lambda>_.
      res_bind (fold_res (volume_body fmt (unat (width * height * depth * 4)) bs (uint width) (uint height) (uint depth)
          (uint (((width + 3) AND NOT 3) div 4)) (uint (((height + 3) AND NOT 3) div 4)))
        [0..uint ((depth + 3) div 4) - 1] (junk, 0, 0)) (\<lambda>(buf, _). Inr buf))))"
  unfolding s3tc_decompress_3d_def volume_body_def Let_def ..

lemma length_block_texel: "length (block_texel fmt blk t) = 4"
  by (simp add: block_texel_def texel_of_def Let_def split: S3TC_DECOMPRESS_FORMAT.split prod.split)

definition texel_at :: "(nat \<Rightarrow> u8) \<Rightarrow> nat \<Rightarrow> u8 list" where
  "texel_at buf p = map (\<lambda>c. buf (4 * p + c)) [0..<4]"

lemma volume_texel_at:
  assumes "0 \<le> x" "x < w" "0 \<le> y" "y < h" "0 \<le> z" "z < d" and len: "\<And>k t. length (texel k t) = 4"
  shows "texel_at (paint (volume_list texel w h d ((d + 3) div 4)) buf) (nat ((z * h + y) * w + x)) = volume_texel texel w h d x y z"
proof (rule nth_equalityI)
  let ?ref = "\<lambda>p. volume_texel texel w h d (p mod w) (p div w mod h) (p div w div h)"
  let ?p = "(z * h + y) * w + x"
  have dec: "((z * h + y) * w + x) mod w = x" "((z * h + y) * w + x) div w mod h = y" "((z * h + y) * w + x) div w div h = z"
    if "0 \<le> x" "x < w" "0 \<le> y" "y < h" for x y z using that by simp_all
  have ref: "v = ?ref p" if "(p, v) \<in> set (volume_list texel w h d ((d + 3) div 4))" for p v
    using volume_list_sound [OF that] dec by auto
  have val: "paint (volume_list texel w h d ((d + 3) div 4)) buf k =
      (if int k div 4 \<in> fst ` set (volume_list texel w h d ((d + 3) div 4)) then ?ref (int k div 4) ! (k mod 4) else buf k)" for k
    by (rule paint_value) (rule ref)
  show "length (texel_at (paint (volume_list texel w h d ((d + 3) div 4)) buf) (nat ?p)) = length (volume_texel texel w h d x y z)"
    by (simp add: texel_at_def volume_texel_def len)
  fix c assume "c < length (texel_at (paint (volume_list texel w h d ((d + 3) div 4)) buf) (nat ?p))"
  then have c: "c < 4" by (simp add: texel_at_def)
  have "0 \<le> ?p" using assms by simp
  then have k: "int (4 * nat ?p + c) div 4 = ?p" "(4 * nat ?p + c) mod 4 = c" using c by simp_all
  have "paint (volume_list texel w h d ((d + 3) div 4)) buf (4 * nat ?p + c) = ?ref ?p ! c"
    unfolding val k using volume_list_complete [OF assms(1-6)] by simp
  then show "texel_at (paint (volume_list texel w h d ((d + 3) div 4)) buf) (nat ?p) ! c = volume_texel texel w h d x y z ! c"
    using c dec [OF assms(1-4)] by (simp add: texel_at_def)
qed

lemma volume_ge:
  fixes w h d :: int
  assumes "0 < w" "0 < h" "0 < d"
  shows "w \<le> w * h * d" "h \<le> w * h * d" "d \<le> w * h * d"
proof -
  have a: "w \<le> w * h" "h \<le> w * h" "0 < w * h" using assms by (simp_all add: mult_le_cancel_left1 mult_le_cancel_right1)
  have "w * h \<le> w * h * d" using a(3) assms(3) mult_le_cancel_left1 [of "w * h" d] by simp
  then show "w \<le> w * h * d" "h \<le> w * h * d" using a by simp_all
  show "d \<le> w * h * d" using a(3) assms(3) mult_le_cancel_right1 [of d "w * h"] by simp
qed

lemma volume_size:
  fixes width height depth :: u32
  assumes "4 * (uint width * uint height * uint depth) < 2 ^ 31"
  shows "int (unat (width * height * depth * 4)) = 4 * (uint width * uint height * uint depth)"
proof -
  let ?v = "uint width * uint height * uint depth"
  have e: "width * height * depth * 4 = word_of_int (4 * ?v)" by (simp add: mult.commute)
  have "4 * ?v mod 2 ^ 32 = 4 * ?v" using assms by (intro mod_pos_pos_trivial) simp_all
  then have "uint (word_of_int (4 * ?v) :: u32) = 4 * ?v" by (simp only: uint_word_of_int) simp
  then show ?thesis unfolding e by (simp only: int_nat_eq of_nat_unat)
qed

text \<open>
  C32.  Decompression decodes every texel: on a non-empty texture whose decoded size and whose data stay below two gigabytes, with data for all its
  blocks, no byte is read outside the data or written outside the allocated texture, and each texel of the result is the
  one that the format defines for its place in its block, where the blocks are stored in groups of up to four slices.
\<close>

theorem s3tc_volume_decoded:
  assumes "0 < width" and "0 < height" and "0 < depth" and small: "4 * (uint width * uint height * uint depth) < 2 ^ 31"
    and bs: "int (block_size fmt) * ((uint width + 3) div 4 * ((uint height + 3) div 4) * uint depth) \<le> int (length bs)"
      "length bs < 2 ^ 31"
  shows "\<exists>buf. s3tc_decompress_3d junk fmt bs width height depth = Inr buf \<and>
    (\<forall>x y z. 0 \<le> x \<and> x < uint width \<and> 0 \<le> y \<and> y < uint height \<and> 0 \<le> z \<and> z < uint depth \<longrightarrow>
      texel_at buf (nat ((z * uint height + y) * uint width + x)) =
      block_texel fmt (nth_block fmt bs (nat (block_number (uint width) (uint height) (uint depth) x y z))) (nat (4 * (y mod 4) + x mod 4)))"
proof -
  let ?w = "uint width" and ?h = "uint height" and ?d = "uint depth"
  have pos: "0 < ?w" "0 < ?h" "0 < ?d" using assms(1-3) by (simp_all add: word_less_def)
  have "4 * v < 2 ^ 31 \<Longrightarrow> v < 2147483648" for v :: int by simp
  from this [OF small] have "?w * ?h * ?d < 2147483648" .
  then have lt: "?w < 2147483648" "?h < 2147483648" "?d < 2147483648" using volume_ge [OF pos] by (blast intro: le_less_trans)+
  have n: "int (unat (width * height * depth * 4)) = 4 * (?w * ?h * ?d)"
    by (rule volume_size [OF small])
  have cnt: "uint ((depth + 3) div 4) = (?d + 3) div 4" using lt by (simp add: uint_div uint_word_ariths)
  let ?texel = "\<lambda>index. block_texel fmt (nth_block fmt bs (nat index))"
  let ?m = "nat ((?d + 3) div 4)"
  have m: "int ?m = (?d + 3) div 4" using pos by simp
  have n_le: "4 * (?w * ?h * ?d) \<le> int (unat (width * height * depth * 4))" by (simp only: n order_refl)
  have "int (unat (width * height * depth * 4)) < 2 ^ 31" unfolding n by (rule small)
  then have n_lt: "unat (width * height * depth * 4) < 2 ^ 31" by (simp only: of_nat_less_iff [symmetric, where ?'a = int] of_nat_power of_nat_numeral)
  note vp = volume_paint [OF pos lt(3) eq_refl [OF m] n_le n_lt bs, of junk, unfolded m]
  have "s3tc_decompress_3d junk fmt bs width height depth = Inr (paint (volume_list ?texel ?w ?h ?d ((?d + 3) div 4)) junk)"
    unfolding s3tc_decompress_3d_volume block_count [OF lt(1)] block_count [OF lt(2)] cnt vp using assms(1-3) by simp
  moreover have "texel_at (paint (volume_list ?texel ?w ?h ?d ((?d + 3) div 4)) junk) (nat ((z * ?h + y) * ?w + x)) =
      block_texel fmt (nth_block fmt bs (nat (block_number ?w ?h ?d x y z))) (nat (4 * (y mod 4) + x mod 4))"
    if "0 \<le> x" "x < ?w" "0 \<le> y" "y < ?h" "0 \<le> z" "z < ?d" for x y z
    using volume_texel_at [OF that, of ?texel junk] length_block_texel by (simp add: volume_texel_def)
  ultimately show ?thesis by blast
qed

theorem s3tc_volume_decoded_witness:
  "\<exists>buf. s3tc_decompress_3d (\<lambda>_. 0) S3TC_DECOMPRESS_FORMAT_DXT1 [0, 0xF8, 0, 0, 0, 0, 0, 0] 1 1 1 = Inr buf \<and>
    texel_at buf 0 = [255, 0, 0, 255]"
proof -
  let ?bs = "[0, 0xF8, 0, 0, 0, 0, 0, 0] :: u8 list"
  have "\<exists>buf. s3tc_decompress_3d (\<lambda>_. 0) S3TC_DECOMPRESS_FORMAT_DXT1 ?bs 1 1 1 = Inr buf \<and>
    (\<forall>x y z. 0 \<le> x \<and> x < uint (1 :: u32) \<and> 0 \<le> y \<and> y < uint (1 :: u32) \<and> 0 \<le> z \<and> z < uint (1 :: u32) \<longrightarrow>
      texel_at buf (nat ((z * uint (1 :: u32) + y) * uint (1 :: u32) + x)) = block_texel S3TC_DECOMPRESS_FORMAT_DXT1
        (nth_block S3TC_DECOMPRESS_FORMAT_DXT1 ?bs (nat (block_number (uint (1 :: u32)) (uint (1 :: u32)) (uint (1 :: u32)) x y z)))
        (nat (4 * (y mod 4) + x mod 4)))"
    by (rule s3tc_volume_decoded) (simp_all add: block_size_def)
  then obtain buf where b: "s3tc_decompress_3d (\<lambda>_. 0) S3TC_DECOMPRESS_FORMAT_DXT1 ?bs 1 1 1 = Inr buf"
    "texel_at buf 0 = block_texel S3TC_DECOMPRESS_FORMAT_DXT1
        (nth_block S3TC_DECOMPRESS_FORMAT_DXT1 ?bs (nat (block_number 1 1 1 0 0 0))) 0" by fastforce
  have "block_texel S3TC_DECOMPRESS_FORMAT_DXT1 (nth_block S3TC_DECOMPRESS_FORMAT_DXT1 ?bs (nat (block_number 1 1 1 0 0 0))) 0 =
      [255, 0, 0, 255]"
    by (simp add: block_number_def nth_block_def block_size_def block_texel_def texel_of_def decode_bc1_colors_def
        read32_def read16_def Let_def)
  then show ?thesis using b by auto
qed

text \<open>C33.  A flat texture is decoded as a volume of one slice, for all sizes, data and formats, failures included.\<close>

theorem s3tc_2d_is_3d:
  "s3tc_decompress_2d junk fmt bs width height = s3tc_decompress_3d junk fmt bs width height 1"
proof -
  let ?nbx = "uint (((width + 3) AND NOT 3) div 4)" and ?nby = "uint (((height + 3) AND NOT 3) div 4)"
  let ?n = "unat (width * height * 4)"
  have z: "wrap32 0 = 0" "min (wrap32 (1 - 0)) 4 = 1" by simp_all
  have "volume_body fmt ?n bs (uint width) (uint height) 1 ?nbx ?nby 0 (junk, 0, 0) =
      res_bind (group_loops (\<lambda>index i j s. decompress_block fmt ?n bs index i j (wrap32 (uint width)) (wrap32 (uint height))
        (wrap32 ((0 + s) * uint width * uint height))) ?nbx ?nby 1 0 junk)
      (\<lambda>buf. Inr (buf, wrap32 (0 + ?nby * (?nbx * 1)), wrap32 (0 + 1)))"
    using volume_body_step [of 1 0 ?nbx ?nby fmt ?n bs "uint width" "uint height" 0 junk 0] unfolding z by simp
  moreover have "group_loops (\<lambda>index i j s. decompress_block fmt ?n bs index i j (wrap32 (uint width)) (wrap32 (uint height))
        (wrap32 ((0 + s) * uint width * uint height))) ?nbx ?nby 1 0 junk =
      fold_res (\<lambda>j. fold_res (\<lambda>i. decompress_block fmt ?n bs (wrap32 (wrap32 (j * ?nbx) + i)) i j (wrap32 (uint width))
        (wrap32 (uint height)) 0) [0..?nbx - 1]) [0..?nby - 1] junk"
    unfolding group_loops_def by (intro fold_res_cong) (simp add: fold_res_Nil)
  ultimately show ?thesis
    unfolding s3tc_decompress_3d_volume s3tc_decompress_2d_def Let_def by (simp add: res_bind_assoc)
qed

section \<open>Colours\<close>

lemma unat_push_bit_u16:
  fixes w :: u16
  assumes "unat w * 2 ^ k < 2 ^ 16"
  shows "unat (push_bit k w) = unat w * 2 ^ k"
proof -
  have "push_bit k w = of_nat (unat w * 2 ^ k)" by (simp add: push_bit_eq_mult)
  moreover have "unat (of_nat m :: u16) = m" if "m < 2 ^ 16" for m
    using that by (simp only: unat_of_nat) (simp add: take_bit_eq_mod)
  ultimately show ?thesis using assms by metis
qed

text \<open>The fields of a colour word, and their place in it.\<close>

lemma colour_fields:
  fixes c :: u16
  shows "unat (drop_bit 8 (c AND 0xF800)) = 8 * (unat c div 2048)"
    and "unat (drop_bit 3 (c AND 0x07E0)) = 4 * (unat c div 32 mod 64)"
    and "unat (push_bit 3 (c AND 0x001F)) = 8 * (unat c mod 32)"
proof -
  have drop: "unat (drop_bit k c) = unat c div 2 ^ k" for k unfolding unat_drop_bit_eq by (rule drop_bit_eq_div)
  have masks: "push_bit 11 (mask 5) = (0xF800 :: u16)" "push_bit 5 (mask 6) = (0x07E0 :: u16)" "mask 5 = (0x001F :: u16)"
    by (simp_all add: mask_eq_exp_minus_1)
  have "drop_bit 8 (c AND push_bit 11 (mask 5)) = push_bit 3 (drop_bit 11 c)"
    by (rule bit_eqI) (auto simp: bit_simps dest: bit_imp_le_length)
  moreover have "unat c < 65536" using unsigned_less [of c, where ?'a = nat] by simp
  then have "unat (drop_bit 11 c) = unat c div 2048" "unat c div 2048 < 32"
    using drop [of 11] by simp_all
  ultimately show "unat (drop_bit 8 (c AND 0xF800)) = 8 * (unat c div 2048)"
    unfolding masks using unat_push_bit_u16 [of "drop_bit 11 c" 3] by simp
  have "drop_bit 3 (c AND push_bit 5 (mask 6)) = push_bit 2 (take_bit 6 (drop_bit 5 c))"
    by (rule bit_eqI) (auto simp: bit_simps dest: bit_imp_le_length)
  moreover have "unat (take_bit 6 (drop_bit 5 c)) = unat c div 32 mod 64"
    unfolding unsigned_take_bit_eq drop by (simp add: take_bit_eq_mod)
  ultimately show "unat (drop_bit 3 (c AND 0x07E0)) = 4 * (unat c div 32 mod 64)"
    unfolding masks using unat_push_bit_u16 [of "take_bit 6 (drop_bit 5 c)" 2] by simp
  have "push_bit 3 (c AND mask 5) = push_bit 3 (take_bit 5 c)" by (simp only: take_bit_eq_mask)
  moreover have "unat (take_bit 5 c) = unat c mod 32"
    unfolding unsigned_take_bit_eq by (simp add: take_bit_eq_mod)
  ultimately show "unat (push_bit 3 (c AND 0x001F)) = 8 * (unat c mod 32)"
    unfolding masks using unat_push_bit_u16 [of "take_bit 5 c" 3] by simp
qed

text \<open>A channel of \<open>k\<close> bits scaled to a byte.\<close>

definition scaled :: "nat \<Rightarrow> nat \<Rightarrow> nat" where
  "scaled k v = 255 * v div (2 ^ k - 1)"

lemma scaled_le: "v \<le> 2 ^ k - 1 \<Longrightarrow> 0 < k \<Longrightarrow> scaled k v \<le> 255"
proof -
  assume "v \<le> 2 ^ k - 1" "0 < k"
  moreover from this have "0 < 2 ^ k - (1 :: nat)" using one_less_power [of "2 :: nat" k] by simp
  ultimately show ?thesis using div_le_mono [of "255 * v" "255 * (2 ^ k - 1)" "2 ^ k - 1"] by (simp add: scaled_def)
qed

text \<open>
  C34.  The palette of a colour block: each channel of the two endpoints is the five or six bit field scaled to a
  byte, rounded down, the other two opaque entries lie one third and two thirds of the way, and with a transparent
  fourth entry the third is the mean.  No sum overflows a byte.
\<close>

theorem bc1_palette_values:
  assumes "decode_bc1_colors c0 c1 transparent = (r, g, b, a)"
    and "(chan, f) \<in> {(r, \<lambda>c. scaled 5 (unat c div 2048)), (g, \<lambda>c. scaled 6 (unat c div 32 mod 64)), (b, \<lambda>c. scaled 5 (unat c mod 32))}"
  shows "map unat chan = (if transparent then [f c0, f c1, (f c0 + f c1) div 2, 0]
      else [f c0, f c1, (2 * f c0 + f c1) div 3, (f c0 + 2 * f c1) div 3]) \<and>
    a = [255, 255, 255, if transparent then 0 else 255]"
proof -
  have byte: "unat (of_nat n :: u8) = n" if "n \<le> 255" for n
    using that by (simp only: unat_of_nat) (simp add: take_bit_eq_mod)
  define entries where "entries v0 v1 = (if transparent then [v0, v1, (v0 + v1) div 2, 0]
    else [v0, v1, (2 * v0 + v1) div 3, (v0 + 2 * v1) div 3])" for v0 v1 :: nat
  have fill: "map unat (map of_nat (entries (unat (of_nat v0 :: u8)) (unat (of_nat v1 :: u8))) :: u8 list) = entries v0 v1"
    if "v0 \<le> 255" "v1 \<le> 255" for v0 v1
    using that byte by (simp add: entries_def)
  have c: "unat c < 65536" for c :: u16 using unsigned_less [of c, where ?'a = nat] by simp
  have le: "scaled 5 (unat c div 2048) \<le> 255" "scaled 6 (unat c div 32 mod 64) \<le> 255" "scaled 5 (unat c mod 32) \<le> 255" for c :: u16
    using c [of c] by (auto intro!: scaled_le)
  have eq: "unat (drop_bit 8 (c AND 0xF800)) * 0xFF div 0xF8 = scaled 5 (unat c div 2048)"
    "unat (drop_bit 3 (c AND 0x07E0)) * 0xFF div 0xFC = scaled 6 (unat c div 32 mod 64)"
    "unat (push_bit 3 (c AND 0x001F)) * 0xFF div 0xF8 = scaled 5 (unat c mod 32)" for c :: u16
    unfolding colour_fields scaled_def by simp_all
  have pal: "r = map of_nat (entries (unat (of_nat (scaled 5 (unat c0 div 2048)) :: u8)) (unat (of_nat (scaled 5 (unat c1 div 2048)) :: u8)))"
    "g = map of_nat (entries (unat (of_nat (scaled 6 (unat c0 div 32 mod 64)) :: u8)) (unat (of_nat (scaled 6 (unat c1 div 32 mod 64)) :: u8)))"
    "b = map of_nat (entries (unat (of_nat (scaled 5 (unat c0 mod 32)) :: u8)) (unat (of_nat (scaled 5 (unat c1 mod 32)) :: u8)))"
    "a = (if transparent then [255, 255, 255, 0] else [255, 255, 255, 255])"
    using assms(1) [symmetric] unfolding decode_bc1_colors_def Let_def eq entries_def by (simp_all only: prod.inject)
  from assms(2) consider "chan = r" "f = (\<lambda>c. scaled 5 (unat c div 2048))" | "chan = g" "f = (\<lambda>c. scaled 6 (unat c div 32 mod 64))"
    | "chan = b" "f = (\<lambda>c. scaled 5 (unat c mod 32))" by blast
  then have "map unat chan = entries (f c0) (f c1)" by cases (simp_all only: pal fill le)
  then show ?thesis by (simp add: entries_def pal(4))
qed

theorem bc1_palette_values_witness:
  "decode_bc1_colors 0xF800 0x001F False = ([255, 0, 170, 85], [0, 0, 0, 0], [0, 255, 85, 170], [255, 255, 255, 255]) \<and>
   map unat [255, 0, 170, 85 :: u8] = [scaled 5 31, scaled 5 0, (2 * scaled 5 31 + scaled 5 0) div 3, (scaled 5 31 + 2 * scaled 5 0) div 3]"
proof -
  have d: "decode_bc1_colors 0xF800 0x001F False = ([255, 0, 170, 85], [0, 0, 0, 0], [0, 255, 85, 170], [255, 255, 255, 255])"
    by (simp add: decode_bc1_colors_def Let_def)
  have "map unat [255, 0, 170, 85 :: u8] = [scaled 5 31, scaled 5 0, (2 * scaled 5 31 + scaled 5 0) div 3, (scaled 5 31 + 2 * scaled 5 0) div 3]"
    using bc1_palette_values [OF d insertI1] by simp
  with d show ?thesis by (rule conjI)
qed

end
