(* ===== verification/NvNet.thy ===== *)
theory NvNet
  imports Registers
begin

text \<open>
  The nForce Ethernet controller, \<open>mcpx/nvnet/nvnet.c\<close>: byte-addressed registers, descriptor rings in guest memory,
  gathering of outgoing frames, reception with its address filter, the PHY behind the management interface and link
  negotiation.  Guest memory as the bus presents it, the frames handed to the network, the interrupt line, the link state of
  the network client and the negotiation timer are part of the state.
\<close>

section \<open>Registers\<close>

abbreviation (input) "NVNET_IRQ_STATUS \<equiv> 0x000 :: nat"
abbreviation (input) "NVNET_IRQ_MASK \<equiv> 0x004 :: nat"
abbreviation (input) "NVNET_TRANSMITTER_CONTROL \<equiv> 0x084 :: nat"
abbreviation (input) "NVNET_PACKET_FILTER \<equiv> 0x08C :: nat"
abbreviation (input) "NVNET_RECEIVER_CONTROL \<equiv> 0x094 :: nat"
abbreviation (input) "NVNET_MAC_ADDR_A \<equiv> 0x0A8 :: nat"
abbreviation (input) "NVNET_MULTICAST_ADDR_A \<equiv> 0x0B0 :: nat"
abbreviation (input) "NVNET_MULTICAST_MASK_A \<equiv> 0x0B8 :: nat"
abbreviation (input) "NVNET_TX_RING_PHYS_ADDR \<equiv> 0x100 :: nat"
abbreviation (input) "NVNET_RX_RING_PHYS_ADDR \<equiv> 0x104 :: nat"
abbreviation (input) "NVNET_RING_SIZE \<equiv> 0x108 :: nat"
abbreviation (input) "NVNET_TX_RING_CURRENT_DESC_PHYS_ADDR \<equiv> 0x11C :: nat"
abbreviation (input) "NVNET_RX_RING_CURRENT_DESC_PHYS_ADDR \<equiv> 0x120 :: nat"
abbreviation (input) "NVNET_UNKNOWN_SETUP_REG5 \<equiv> 0x130 :: nat"
abbreviation (input) "NVNET_TX_RING_NEXT_DESC_PHYS_ADDR \<equiv> 0x134 :: nat"
abbreviation (input) "NVNET_RX_RING_NEXT_DESC_PHYS_ADDR \<equiv> 0x138 :: nat"
abbreviation (input) "NVNET_TX_RX_CONTROL \<equiv> 0x144 :: nat"
abbreviation (input) "NVNET_MII_STATUS \<equiv> 0x180 :: nat"
abbreviation (input) "NVNET_ADAPTER_CONTROL \<equiv> 0x188 :: nat"
abbreviation (input) "NVNET_MDIO_ADDR \<equiv> 0x190 :: nat"
abbreviation (input) "NVNET_MDIO_DATA \<equiv> 0x194 :: nat"

abbreviation (input) "MMIO_SIZE \<equiv> 0x400 :: nat"
abbreviation (input) "PHY_ADDR \<equiv> 1 :: u8"
abbreviation (input) "AUTONEG_DURATION_MS \<equiv> 250 :: nat"
abbreviation (input) "TX_ALLOC_BUFSIZE \<equiv> 1628 :: nat"
abbreviation (input) "RX_ALLOC_BUFSIZE \<equiv> 1628 :: nat"

abbreviation (input) "MII_BMCR \<equiv> 0 :: nat"
abbreviation (input) "MII_BMSR \<equiv> 1 :: nat"
abbreviation (input) "MII_ANAR \<equiv> 4 :: nat"
abbreviation (input) "MII_ANLPAR \<equiv> 5 :: nat"

record RingDesc =
  rd_buffer_addr :: u32
  rd_length :: u16
  rd_flags :: u16

text \<open>The device, and from \<open>nn_irq\<close> on what lies around it.\<close>

record NvNetState =
  nn_regs :: "nat \<Rightarrow> u8"
  phy_regs :: "nat \<Rightarrow> u32"
  tx_dma_buf_offset :: u32
  tx_dma_buf :: "nat \<Rightarrow> u8"
  rx_dma_buf :: "nat \<Rightarrow> u8"
  tx_ring_index :: u8
  rx_ring_index :: u8
  nn_irq :: bool
  nn_mem :: "nat \<Rightarrow> u8"
  nn_sent :: "u8 list list"
  nn_link_down :: bool
  nn_timer :: "nat option"
  nn_clock :: nat

definition le_read16 :: "(nat \<Rightarrow> u8) \<Rightarrow> nat \<Rightarrow> u16" where
  "le_read16 m a = ucast (m a) OR push_bit 8 (ucast (m (a + 1)))"

definition le_read32 :: "(nat \<Rightarrow> u8) \<Rightarrow> nat \<Rightarrow> u32" where
  "le_read32 m a = ucast (m a) OR push_bit 8 (ucast (m (a + 1))) OR push_bit 16 (ucast (m (a + 2))) OR push_bit 24 (ucast (m (a + 3)))"

definition le_write16 :: "nat \<Rightarrow> u16 \<Rightarrow> (nat \<Rightarrow> u8) \<Rightarrow> nat \<Rightarrow> u8" where
  "le_write16 a v m = m(a := ucast v, a + 1 := ucast (drop_bit 8 v))"

definition le_write32 :: "nat \<Rightarrow> u32 \<Rightarrow> (nat \<Rightarrow> u8) \<Rightarrow> nat \<Rightarrow> u8" where
  "le_write32 a v m = m(a := ucast v, a + 1 := ucast (drop_bit 8 v), a + 2 := ucast (drop_bit 16 v), a + 3 := ucast (drop_bit 24 v))"

definition get_reg_ext :: "NvNetState \<Rightarrow> nat \<Rightarrow> nat \<Rightarrow> u32 res" where
  "get_reg_ext s addr sz =
    res_bind (assert_res (addr < MMIO_SIZE)) (\<lambda>_.
    res_bind (assert_res (addr AND (sz - 1) = 0)) (\<lambda>_.
      if sz = 4 then Inr (le_read32 (nn_regs s) addr)
      else if sz = 2 then Inr (ucast (le_read16 (nn_regs s) addr))
      else if sz = 1 then Inr (ucast (nn_regs s addr))
      else Inl Assertion))"

definition set_reg_ext :: "nat \<Rightarrow> u32 \<Rightarrow> nat \<Rightarrow> NvNetState \<Rightarrow> NvNetState res" where
  "set_reg_ext addr val sz s =
    res_bind (assert_res (addr < MMIO_SIZE)) (\<lambda>_.
    res_bind (assert_res (addr AND (sz - 1) = 0)) (\<lambda>_.
      if sz = 4 then Inr (s\<lparr>nn_regs := le_write32 addr val (nn_regs s)\<rparr>)
      else if sz = 2 then Inr (s\<lparr>nn_regs := le_write16 addr (ucast val) (nn_regs s)\<rparr>)
      else if sz = 1 then Inr (s\<lparr>nn_regs := (nn_regs s)(addr := ucast val)\<rparr>)
      else Inl Assertion))"

text \<open>
  The device names its own registers by constants, which are aligned and inside the block; the two assertions hold for them
  (\<open>reg_access_total\<close>).
\<close>

definition get_reg :: "NvNetState \<Rightarrow> nat \<Rightarrow> u32" where
  "get_reg s addr = le_read32 (nn_regs s) addr"

definition set_reg :: "nat \<Rightarrow> u32 \<Rightarrow> NvNetState \<Rightarrow> NvNetState" where
  "set_reg addr val s = s\<lparr>nn_regs := le_write32 addr val (nn_regs s)\<rparr>"

definition or_reg :: "nat \<Rightarrow> u32 \<Rightarrow> NvNetState \<Rightarrow> NvNetState" where
  "or_reg addr val s = set_reg addr (get_reg s addr OR val) s"

definition and_reg :: "nat \<Rightarrow> u32 \<Rightarrow> NvNetState \<Rightarrow> NvNetState" where
  "and_reg addr val s = set_reg addr (get_reg s addr AND val) s"

definition set_reg_with_mask :: "nat \<Rightarrow> u32 \<Rightarrow> u32 \<Rightarrow> NvNetState \<Rightarrow> NvNetState" where
  "set_reg_with_mask addr val w_mask s =
    set_reg addr ((get_reg s addr AND (val OR NOT w_mask)) OR (val AND w_mask)) s"

section \<open>Interrupts\<close>

definition update_irq :: "NvNetState \<Rightarrow> NvNetState" where
  "update_irq s = s\<lparr>nn_irq := (get_reg s NVNET_IRQ_MASK AND get_reg s NVNET_IRQ_STATUS \<noteq> 0)\<rparr>"

definition set_intr_status :: "u32 \<Rightarrow> NvNetState \<Rightarrow> NvNetState" where
  "set_intr_status status s = update_irq (or_reg NVNET_IRQ_STATUS status s)"

definition set_mii_intr_status :: "u32 \<Rightarrow> NvNetState \<Rightarrow> NvNetState" where
  "set_mii_intr_status status s = set_intr_status 0x40 (or_reg NVNET_MII_STATUS status s)"

definition send_packet :: "u8 list \<Rightarrow> NvNetState \<Rightarrow> NvNetState" where
  "send_packet bs s = s\<lparr>nn_sent := nn_sent s @ [bs]\<rparr>"

section \<open>Rings\<close>

definition get_tx_ring_size :: "NvNetState \<Rightarrow> u16" where
  "get_tx_ring_size s = ucast (GET_MASK (get_reg s NVNET_RING_SIZE) 0x0000FFFF + 1)"

definition get_rx_ring_size :: "NvNetState \<Rightarrow> u16" where
  "get_rx_ring_size s = ucast (GET_MASK (get_reg s NVNET_RING_SIZE) 0xFFFF0000 + 1)"

definition reset_descriptor_ring_pointers :: "NvNetState \<Rightarrow> NvNetState" where
  "reset_descriptor_ring_pointers s =
    (let base_desc_addr = get_reg s NVNET_TX_RING_PHYS_ADDR;
         s = set_reg NVNET_TX_RING_CURRENT_DESC_PHYS_ADDR base_desc_addr s;
         s = set_reg NVNET_TX_RING_NEXT_DESC_PHYS_ADDR base_desc_addr s;
         base_desc_addr = get_reg s NVNET_RX_RING_PHYS_ADDR;
         s = set_reg NVNET_RX_RING_CURRENT_DESC_PHYS_ADDR base_desc_addr s
     in set_reg NVNET_RX_RING_NEXT_DESC_PHYS_ADDR base_desc_addr s)"

definition link_up :: "NvNetState \<Rightarrow> bool" where
  "link_up s \<longleftrightarrow> phy_regs s MII_BMSR AND 4 \<noteq> 0"

definition dma_enabled :: "NvNetState \<Rightarrow> bool" where
  "dma_enabled s \<longleftrightarrow> get_reg s NVNET_TX_RX_CONTROL AND 4 = 0"

definition set_dma_idle :: "bool \<Rightarrow> NvNetState \<Rightarrow> NvNetState" where
  "set_dma_idle idle s = (if idle then or_reg NVNET_TX_RX_CONTROL 8 s else and_reg NVNET_TX_RX_CONTROL (NOT 8) s)"

definition rx_enabled :: "NvNetState \<Rightarrow> bool" where
  "rx_enabled s \<longleftrightarrow> get_reg s NVNET_RECEIVER_CONTROL AND 1 \<noteq> 0"

text \<open>The sum in the range test is computed in 64 bits, the end of the ring is stored in 32.\<close>

definition update_current_rx_ring_desc_addr :: "NvNetState \<Rightarrow> u32 \<times> NvNetState" where
  "update_current_rx_ring_desc_addr s =
    (let base_desc_addr = get_reg s NVNET_RX_RING_PHYS_ADDR;
         max_desc_addr = base_desc_addr + ucast (get_rx_ring_size s) * 8;
         cur_desc_addr = get_reg s NVNET_RX_RING_NEXT_DESC_PHYS_ADDR;
         cur_desc_addr = (if cur_desc_addr < base_desc_addr \<or> unat cur_desc_addr + 8 > unat max_desc_addr
           then base_desc_addr else cur_desc_addr)
     in (cur_desc_addr, set_reg NVNET_RX_RING_CURRENT_DESC_PHYS_ADDR cur_desc_addr s))"

definition advance_next_rx_ring_desc_addr :: "NvNetState \<Rightarrow> NvNetState" where
  "advance_next_rx_ring_desc_addr s =
    (let base_desc_addr = get_reg s NVNET_RX_RING_PHYS_ADDR;
         max_desc_addr = base_desc_addr + ucast (get_rx_ring_size s) * 8;
         cur_desc_addr = get_reg s NVNET_RX_RING_CURRENT_DESC_PHYS_ADDR;
         next_desc_addr = cur_desc_addr + 8;
         next_desc_addr = (if next_desc_addr \<ge> max_desc_addr then base_desc_addr else next_desc_addr)
     in set_reg NVNET_RX_RING_NEXT_DESC_PHYS_ADDR next_desc_addr s)"

definition dma_read :: "NvNetState \<Rightarrow> nat \<Rightarrow> nat \<Rightarrow> u8 list" where
  "dma_read s a len = map (\<lambda>i. nn_mem s (a + i)) [0..<len]"

definition dma_write :: "nat \<Rightarrow> u8 list \<Rightarrow> NvNetState \<Rightarrow> NvNetState" where
  "dma_write a bs s = s\<lparr>nn_mem := \<lambda>i. if a \<le> i \<and> i < a + length bs then bs ! (i - a) else nn_mem s i\<rparr>"

definition load_ring_desc :: "NvNetState \<Rightarrow> u32 \<Rightarrow> RingDesc" where
  "load_ring_desc s desc_addr =
    \<lparr>rd_buffer_addr = le_read32 (nn_mem s) (unat desc_addr),
     rd_length = le_read16 (nn_mem s) (unat desc_addr + 4),
     rd_flags = le_read16 (nn_mem s) (unat desc_addr + 6)\<rparr>"

definition store_ring_desc :: "u32 \<Rightarrow> RingDesc \<Rightarrow> NvNetState \<Rightarrow> NvNetState" where
  "store_ring_desc desc_addr desc s =
    s\<lparr>nn_mem := le_write16 (unat desc_addr + 6) (rd_flags desc) (le_write16 (unat desc_addr + 4) (rd_length desc)
      (le_write32 (unat desc_addr) (rd_buffer_addr desc) (nn_mem s)))\<rparr>"

section \<open>Reception\<close>

definition rx_buf_available :: "NvNetState \<Rightarrow> bool \<times> NvNetState" where
  "rx_buf_available s =
    (let (cur_desc_addr, s) = update_current_rx_ring_desc_addr s
     in (rd_flags (load_ring_desc s cur_desc_addr) AND 0x8000 \<noteq> 0, s))"

definition nvnet_can_receive :: "NvNetState \<Rightarrow> bool \<times> NvNetState" where
  "nvnet_can_receive s =
    (let rx_en = rx_enabled s; dma_en = dma_enabled s; link_en = link_up s; (buf_avail, s) = rx_buf_available s
     in (rx_en \<and> dma_en \<and> link_en \<and> buf_avail, s))"

definition dma_packet_to_guest :: "u8 list \<Rightarrow> NvNetState \<Rightarrow> (int \<times> NvNetState) res" where
  "dma_packet_to_guest bs s =
    (let (can_rx, s) = nvnet_can_receive s
     in if \<not> can_rx then Inr (-1, s)
     else
       let s = set_dma_idle False s; (cur_desc_addr, s) = update_current_rx_ring_desc_addr s; desc = load_ring_desc s cur_desc_addr
       in if rd_flags desc AND 0x8000 \<noteq> 0
       then
         res_bind (assert_res (unat (rd_length desc) + 1 \<ge> length bs)) (\<lambda>_.
           let s = dma_write (unat (rd_buffer_addr desc)) bs s;
               s = store_ring_desc cur_desc_addr (desc\<lparr>rd_length := of_nat (length bs), rd_flags := 0x0010 OR 0x0001\<rparr>) s;
               s = set_intr_status 0x2 s;
               s = advance_next_rx_ring_desc_addr s
           in Inr (int (length bs), set_dma_idle True s))
       else Inr (-1, set_dma_idle True s))"

section \<open>Transmission\<close>

definition tx_enabled :: "NvNetState \<Rightarrow> bool" where
  "tx_enabled s \<longleftrightarrow> get_reg s NVNET_TRANSMITTER_CONTROL AND 1 \<noteq> 0"

definition can_transmit :: "NvNetState \<Rightarrow> bool" where
  "can_transmit s \<longleftrightarrow> tx_enabled s \<and> dma_enabled s \<and> link_up s"

definition update_current_tx_ring_desc_addr :: "NvNetState \<Rightarrow> u32 \<times> NvNetState" where
  "update_current_tx_ring_desc_addr s =
    (let base_desc_addr = get_reg s NVNET_TX_RING_PHYS_ADDR;
         max_desc_addr = base_desc_addr + ucast (get_tx_ring_size s) * 8;
         cur_desc_addr = get_reg s NVNET_TX_RING_NEXT_DESC_PHYS_ADDR;
         cur_desc_addr = (if cur_desc_addr < base_desc_addr \<or> unat cur_desc_addr + 8 > unat max_desc_addr
           then base_desc_addr else cur_desc_addr)
     in (cur_desc_addr, set_reg NVNET_TX_RING_CURRENT_DESC_PHYS_ADDR cur_desc_addr s))"

definition advance_next_tx_ring_desc_addr :: "NvNetState \<Rightarrow> NvNetState" where
  "advance_next_tx_ring_desc_addr s =
    (let base_desc_addr = get_reg s NVNET_TX_RING_PHYS_ADDR;
         max_desc_addr = base_desc_addr + ucast (get_tx_ring_size s) * 8;
         cur_desc_addr = get_reg s NVNET_TX_RING_CURRENT_DESC_PHYS_ADDR;
         next_desc_addr = cur_desc_addr + 8;
         next_desc_addr = (if next_desc_addr \<ge> max_desc_addr then base_desc_addr else next_desc_addr)
     in set_reg NVNET_TX_RING_NEXT_DESC_PHYS_ADDR next_desc_addr s)"

text \<open>
  One round of the gathering loop; the results say whether the loop goes on and whether a frame was sent.  The flags
  cleared are \<open>NV_TX_VALID\<close> and the error bits.
\<close>

definition tx_round :: "NvNetState \<Rightarrow> (bool \<times> bool \<times> NvNetState) res" where
  "tx_round s =
    (let (cur_desc_addr, s) = update_current_tx_ring_desc_addr s;
         desc = load_ring_desc s cur_desc_addr;
         len = rd_length desc + 1
     in if rd_flags desc AND 0x8000 = 0 then Inr (False, False, s)
     else
       res_bind (assert_res (unat (tx_dma_buf_offset s + ucast len) \<le> TX_ALLOC_BUFSIZE)) (\<lambda>_.
         let off = unat (tx_dma_buf_offset s); bs = dma_read s (unat (rd_buffer_addr desc)) (unat len);
             s = s\<lparr>tx_dma_buf := \<lambda>i. if off \<le> i \<and> i < off + unat len then bs ! (i - off) else tx_dma_buf s i,
               tx_dma_buf_offset := tx_dma_buf_offset s + ucast len\<rparr>;
             is_last_packet = (rd_flags desc AND 1 \<noteq> 0);
             s = (if is_last_packet
               then (send_packet (map (tx_dma_buf s) [0..<unat (tx_dma_buf_offset s)]) s)\<lparr>tx_dma_buf_offset := 0\<rparr> else s);
             desc = desc\<lparr>rd_flags := rd_flags desc AND NOT (0x8000 OR 0x0008 OR 0x0400 OR 0x0800 OR 0x1000 OR 0x2000 OR 0x4000)\<rparr>;
             s = store_ring_desc cur_desc_addr desc s;
             s = advance_next_tx_ring_desc_addr s
         in Inr (\<not> is_last_packet, is_last_packet, s)))"

function tx_loop :: "nat \<Rightarrow> NvNetState \<Rightarrow> (bool \<times> NvNetState) res" where
  "tx_loop i s =
    (if i < unat (get_tx_ring_size s)
     then res_bind (tx_round s) (\<lambda>(continue, packet_sent, s). if continue then tx_loop (i + 1) s else Inr (packet_sent, s))
     else Inr (False, s))"
  by auto
termination
proof (relation "measure (\<lambda>(i, s). 65536 - i)")
  fix i :: nat and s x xa y xb ya
  assume "i < unat (get_tx_ring_size s)"
  moreover have "unat (get_tx_ring_size s) < 65536" using unsigned_less [of "get_tx_ring_size s", where ?'a = nat] by simp
  ultimately show "((i + 1, ya), i, s) \<in> measure (\<lambda>(i, s). 65536 - i)" by simp
qed simp

declare tx_loop.simps [simp del]

definition dma_packet_from_guest :: "NvNetState \<Rightarrow> NvNetState res" where
  "dma_packet_from_guest s =
    (if \<not> can_transmit s then Inr s
     else res_bind (tx_loop 0 (set_dma_idle False s)) (\<lambda>(packet_sent, s).
       let s = set_dma_idle True s in Inr (if packet_sent then set_intr_status 0x10 s else s)))"

section \<open>The network side\<close>

definition is_packet_oversized :: "nat \<Rightarrow> bool" where
  "is_packet_oversized sz \<longleftrightarrow> sz > RX_ALLOC_BUFSIZE"

definition is_broadcast_ether_addr :: "u8 list \<Rightarrow> bool" where
  "is_broadcast_ether_addr a \<longleftrightarrow> a ! 0 AND a ! 1 AND a ! 2 AND a ! 3 AND a ! 4 AND a ! 5 = 0xFF"

text \<open>Two neighbouring registers as the first six of their bytes in memory.\<close>

definition reg_mac :: "NvNetState \<Rightarrow> nat \<Rightarrow> u8 list" where
  "reg_mac s addr = map (\<lambda>i. nn_regs s (addr + i)) [0..<6]"

definition receive_filter :: "NvNetState \<Rightarrow> u8 list \<Rightarrow> bool" where
  "receive_filter s bs =
    (if length bs < 6 then False
     else
       let rctl = get_reg s NVNET_PACKET_FILTER; dest = take 6 bs
       in if is_broadcast_ether_addr dest then True
       else if rctl AND 0x20 = 0 then True
       else if \<not> is_broadcast_ether_addr (reg_mac s NVNET_MULTICAST_ADDR_A) \<and>
           map2 (AND) dest (reg_mac s NVNET_MULTICAST_MASK_A) = reg_mac s NVNET_MULTICAST_ADDR_A then True
       else dest = reg_mac s NVNET_MAC_ADDR_A)"

definition nvnet_receive_iov :: "u8 list list \<Rightarrow> NvNetState \<Rightarrow> (int \<times> NvNetState) res" where
  "nvnet_receive_iov iov s =
    (let bs = concat iov; sz = length bs
     in if is_packet_oversized sz then Inr (int sz, s)
     else
       let s = s\<lparr>rx_dma_buf := \<lambda>i. if i < sz then bs ! i else rx_dma_buf s i\<rparr>
       in if \<not> receive_filter s (map (rx_dma_buf s) [0..<sz]) then Inr (int sz, s)
       else dma_packet_to_guest (map (rx_dma_buf s) [0..<sz]) s)"

definition nvnet_receive :: "u8 list \<Rightarrow> NvNetState \<Rightarrow> (int \<times> NvNetState) res" where
  "nvnet_receive bs = nvnet_receive_iov [bs]"

section \<open>Link\<close>

definition update_regs_on_link_down :: "NvNetState \<Rightarrow> NvNetState" where
  "update_regs_on_link_down s =
    (let s = s\<lparr>phy_regs := (phy_regs s)(MII_BMSR := phy_regs s MII_BMSR AND NOT 4)\<rparr>;
         s = s\<lparr>phy_regs := (phy_regs s)(MII_BMSR := phy_regs s MII_BMSR AND NOT 0x20)\<rparr>;
         s = s\<lparr>phy_regs := (phy_regs s)(MII_ANLPAR := phy_regs s MII_ANLPAR AND NOT 0x4000)\<rparr>
     in and_reg NVNET_ADAPTER_CONTROL (NOT 4) s)"

definition set_link_down :: "NvNetState \<Rightarrow> NvNetState" where
  "set_link_down s = set_mii_intr_status 8 (update_regs_on_link_down s)"

definition update_regs_on_link_up :: "NvNetState \<Rightarrow> NvNetState" where
  "update_regs_on_link_up s =
    or_reg NVNET_ADAPTER_CONTROL 4 (s\<lparr>phy_regs := (phy_regs s)(MII_BMSR := phy_regs s MII_BMSR OR 4)\<rparr>)"

definition set_link_up :: "NvNetState \<Rightarrow> NvNetState" where
  "set_link_up s = set_mii_intr_status 8 (update_regs_on_link_up s)"

definition restart_autoneg :: "NvNetState \<Rightarrow> NvNetState" where
  "restart_autoneg s = s\<lparr>nn_timer := Some (nn_clock s + AUTONEG_DURATION_MS)\<rparr>"

definition autoneg_done :: "NvNetState \<Rightarrow> NvNetState" where
  "autoneg_done s = set_link_up (s\<lparr>phy_regs := (phy_regs s)(MII_ANLPAR := phy_regs s MII_ANLPAR OR 0x4000,
    MII_BMSR := phy_regs s MII_BMSR OR 0x20)\<rparr>)"

definition autoneg_timer :: "NvNetState \<Rightarrow> NvNetState" where
  "autoneg_timer s = (if \<not> nn_link_down s then autoneg_done s else s)"

definition have_autoneg :: "NvNetState \<Rightarrow> bool" where
  "have_autoneg s \<longleftrightarrow> phy_regs s MII_BMCR AND 0x1000 \<noteq> 0"

definition nvnet_set_link_status :: "NvNetState \<Rightarrow> NvNetState" where
  "nvnet_set_link_status s =
    (if nn_link_down s then set_link_down s
     else if have_autoneg s \<and> phy_regs s MII_BMSR AND 0x20 = 0 then restart_autoneg s
     else set_link_up s)"

section \<open>The management interface\<close>

definition phy_reg_read :: "NvNetState \<Rightarrow> u8 \<Rightarrow> u16" where
  "phy_reg_read s reg = (if unat reg < 6 then ucast (phy_regs s (unat reg)) else 0)"

definition phy_reg_write :: "u8 \<Rightarrow> u16 \<Rightarrow> NvNetState \<Rightarrow> NvNetState" where
  "phy_reg_write reg v s = (if unat reg < 6 then s\<lparr>phy_regs := (phy_regs s)(unat reg := ucast v)\<rparr> else s)"

definition mdio_read :: "NvNetState \<Rightarrow> NvNetState" where
  "mdio_read s =
    (let mdio_addr = get_reg s NVNET_MDIO_ADDR;
         phy_addr = ucast (GET_MASK mdio_addr 0x3E0) :: u8; phy_reg = ucast (GET_MASK mdio_addr 0x1F) :: u8;
         mdio_data = (if phy_addr = PHY_ADDR then ucast (phy_reg_read s phy_reg) else -1)
     in and_reg NVNET_MDIO_ADDR (NOT 0x8000) (set_reg NVNET_MDIO_DATA mdio_data s))"

definition mdio_write :: "NvNetState \<Rightarrow> NvNetState" where
  "mdio_write s =
    (let mdio_addr = get_reg s NVNET_MDIO_ADDR; mdio_data = get_reg s NVNET_MDIO_DATA;
         phy_addr = ucast (GET_MASK mdio_addr 0x3E0) :: u8; phy_reg = ucast (GET_MASK mdio_addr 0x1F) :: u8;
         s = (if phy_addr = PHY_ADDR then phy_reg_write phy_reg (ucast mdio_data) s else s)
     in and_reg NVNET_MDIO_ADDR (NOT 0x8000) s)"

section \<open>The register block\<close>

definition nvnet_mmio_read :: "NvNetState \<Rightarrow> nat \<Rightarrow> nat \<Rightarrow> u32 res" where
  "nvnet_mmio_read s addr sz = get_reg_ext s addr sz"

definition tx_rx_control_write :: "u32 \<Rightarrow> NvNetState \<Rightarrow> NvNetState res" where
  "tx_rx_control_write val s =
    (let s = set_reg_with_mask NVNET_TX_RX_CONTROL val (NOT 8) s
     in res_bind (if val AND 1 \<noteq> 0 then dma_packet_from_guest s else Inr s) (\<lambda>s.
       let s = (if val AND 0x10 \<noteq> 0 then (reset_descriptor_ring_pointers s)\<lparr>tx_dma_buf_offset := 0\<rparr> else s)
       in Inr (if val AND 2 \<noteq> 0 then set_reg NVNET_IRQ_STATUS 0 s
               else if val = 0 then set_reg NVNET_UNKNOWN_SETUP_REG5 0x80000000 s else s)))"

text \<open>An access has at most four bytes, so the value fits 32 bits.\<close>

definition nvnet_mmio_write :: "nat \<Rightarrow> u32 \<Rightarrow> nat \<Rightarrow> NvNetState \<Rightarrow> NvNetState res" where
  "nvnet_mmio_write addr val sz s =
    res_bind (assert_res (addr AND 3 = 0)) (\<lambda>_.
      if addr = NVNET_MDIO_ADDR then
        res_bind (assert_res (sz = 4)) (\<lambda>_.
        res_bind (set_reg_ext addr val sz s) (\<lambda>s. Inr (if val AND 0x400 \<noteq> 0 then mdio_write s else mdio_read s)))
      else if addr = NVNET_TX_RX_CONTROL then tx_rx_control_write val s
      else if addr = NVNET_IRQ_STATUS \<or> addr = NVNET_MII_STATUS then
        res_bind (get_reg_ext s addr sz) (\<lambda>r. res_bind (set_reg_ext addr (r AND NOT val) sz s) (\<lambda>s. Inr (update_irq s)))
      else if addr = NVNET_IRQ_MASK then res_bind (set_reg_ext addr val sz s) (\<lambda>s. Inr (update_irq s))
      else set_reg_ext addr val sz s)"

section \<open>Reset and restore\<close>

definition phy_reg_init :: "nat \<Rightarrow> u32" where
  "phy_reg_init = (\<lambda>_. 0)(MII_BMCR := 0x100 OR 0x1000, MII_BMSR := 0x8 OR 0x20 OR 0x4,
    MII_ANAR := 0x20 OR 0x40 OR 0x80 OR 0x100 OR 0x200, MII_ANLPAR := 0x20 OR 0x40 OR 0x80 OR 0x100 OR 0x200)"

definition reset_phy_regs :: "NvNetState \<Rightarrow> NvNetState" where
  "reset_phy_regs s = s\<lparr>phy_regs := phy_reg_init\<rparr>"

definition nvnet_reset :: "NvNetState \<Rightarrow> NvNetState" where
  "nvnet_reset s =
    (let s = or_reg NVNET_TX_RX_CONTROL 8 (s\<lparr>nn_regs := \<lambda>_. 0\<rparr>);
         s = (reset_phy_regs s)\<lparr>tx_dma_buf := \<lambda>_. 0, rx_dma_buf := \<lambda>_. 0, tx_dma_buf_offset := 0, nn_timer := None\<rparr>;
         s = (if nn_link_down s then update_regs_on_link_down s else s)
     in s\<lparr>tx_ring_index := 0, rx_ring_index := 0\<rparr>)"

definition nvnet_post_load :: "nat \<Rightarrow> NvNetState \<Rightarrow> NvNetState res" where
  "nvnet_post_load version_id s =
    res_bind
      (if version_id < 2 then
         let s = reset_phy_regs s
         in if get_tx_ring_size s = 0 then Inl Div_by_zero
         else
           let s = set_reg NVNET_TX_RING_NEXT_DESC_PHYS_ADDR (get_reg s NVNET_TX_RING_PHYS_ADDR +
                 ucast (ucast (tx_ring_index s) mod get_tx_ring_size s) * 8) s;
               s = s\<lparr>tx_ring_index := 0\<rparr>
           in if get_rx_ring_size s = 0 then Inl Div_by_zero
           else
             let s = set_reg NVNET_RX_RING_NEXT_DESC_PHYS_ADDR (get_reg s NVNET_RX_RING_PHYS_ADDR +
                   ucast (ucast (rx_ring_index s) mod get_rx_ring_size s) * 8) s
             in Inr (s\<lparr>rx_ring_index := 0\<rparr>)
       else Inr s) (\<lambda>s.
    let s = s\<lparr>nn_link_down := (phy_regs s MII_BMSR AND 4 = 0)\<rparr>
    in Inr (if have_autoneg s \<and> phy_regs s MII_BMSR AND 0x20 = 0 then restart_autoneg (s\<lparr>nn_link_down := False\<rparr>) else s))"

section \<open>Events\<close>

text \<open>What the guest, the network and the timer can do to the device; an expired timer is no longer pending when it is run.\<close>

datatype nvnet_event = Mmio_write nat u32 nat | Packet "u8 list list" | Poll_receive | Link_change bool | Timer_expired

definition nvnet_step :: "nvnet_event \<Rightarrow> NvNetState \<Rightarrow> NvNetState res" where
  "nvnet_step e s =
    (case e of
      Mmio_write addr val sz \<Rightarrow> nvnet_mmio_write addr val sz s
    | Packet iov \<Rightarrow> res_bind (nvnet_receive_iov iov s) (\<lambda>(_, s). Inr s)
    | Poll_receive \<Rightarrow> Inr (snd (nvnet_can_receive s))
    | Link_change down \<Rightarrow> Inr (nvnet_set_link_status (s\<lparr>nn_link_down := down\<rparr>))
    | Timer_expired \<Rightarrow> Inr (autoneg_timer (s\<lparr>nn_timer := None\<rparr>)))"

section \<open>Register laws\<close>

lemma le32_bytes:
  "(ucast (ucast v :: u8) :: u32) OR push_bit 8 (ucast (ucast (drop_bit 8 v) :: u8)) OR
    push_bit 16 (ucast (ucast (drop_bit 16 v) :: u8)) OR push_bit 24 (ucast (ucast (drop_bit 24 v) :: u8)) = v"
  (is "?w = v")
proof (rule bit_word_eqI)
  fix n assume "n < LENGTH(32)"
  then consider "n < 8" | "8 \<le> n" "n < 16" | "16 \<le> n" "n < 24" | "24 \<le> n" "n < 32" by force
  then show "bit ?w n \<longleftrightarrow> bit v n" by cases (auto simp: bit_simps)
qed

lemma le16_bytes: "(ucast (ucast v :: u8) :: u16) OR push_bit 8 (ucast (ucast (drop_bit 8 v) :: u8)) = v" (is "?w = v")
proof (rule bit_word_eqI)
  fix n assume "n < LENGTH(16)"
  then consider "n < 8" | "8 \<le> n" "n < 16" by force
  then show "bit ?w n \<longleftrightarrow> bit v n" by cases (auto simp: bit_simps)
qed

lemma le_read_same [simp]:
  "le_read32 (le_write32 a v m) a = v" "le_read16 (le_write16 a w m) a = w"
  by (simp_all add: le_read32_def le_write32_def le_read16_def le_write16_def le32_bytes [simplified] le16_bytes)

lemma le_read32_cong: "(\<And>i. a \<le> i \<Longrightarrow> i < a + 4 \<Longrightarrow> m i = m' i) \<Longrightarrow> le_read32 m a = le_read32 m' a"
  by (simp add: le_read32_def)

lemma le_read16_cong: "(\<And>i. a \<le> i \<Longrightarrow> i < a + 2 \<Longrightarrow> m i = m' i) \<Longrightarrow> le_read16 m a = le_read16 m' a"
  by (simp add: le_read16_def)

lemma le_write_other:
  "i < a \<or> a + 4 \<le> i \<Longrightarrow> le_write32 a v m i = m i" "i < a \<or> a + 2 \<le> i \<Longrightarrow> le_write16 a w m i = m i"
  by (auto simp: le_write32_def le_write16_def)

lemma get_set_reg [simp]:
  "get_reg (set_reg a v s) a = v" "b + 4 \<le> a \<or> a + 4 \<le> b \<Longrightarrow> get_reg (set_reg a v s) b = get_reg s b"
  by (auto simp: get_reg_def set_reg_def intro!: le_read32_cong le_write_other)

lemma get_reg_cong: "nn_regs s = nn_regs s' \<Longrightarrow> get_reg s a = get_reg s' a"
  by (simp add: get_reg_def)

lemma get_reg_update [simp]:
  "get_reg (s\<lparr>phy_regs := x1\<rparr>) a = get_reg s a" "get_reg (s\<lparr>tx_dma_buf_offset := x2\<rparr>) a = get_reg s a"
  "get_reg (s\<lparr>tx_dma_buf := x3\<rparr>) a = get_reg s a" "get_reg (s\<lparr>rx_dma_buf := x4\<rparr>) a = get_reg s a"
  "get_reg (s\<lparr>nn_irq := x5\<rparr>) a = get_reg s a" "get_reg (s\<lparr>nn_mem := x6\<rparr>) a = get_reg s a"
  "get_reg (s\<lparr>nn_sent := x7\<rparr>) a = get_reg s a" "get_reg (s\<lparr>nn_link_down := x8\<rparr>) a = get_reg s a"
  "get_reg (s\<lparr>nn_timer := x9\<rparr>) a = get_reg s a" "get_reg (s\<lparr>tx_ring_index := x10\<rparr>) a = get_reg s a"
  "get_reg (s\<lparr>rx_ring_index := x11\<rparr>) a = get_reg s a"
  by (simp_all add: get_reg_def)

lemma set_reg_frame [simp]:
  "phy_regs (set_reg a v s) = phy_regs s" "tx_dma_buf_offset (set_reg a v s) = tx_dma_buf_offset s"
  "tx_dma_buf (set_reg a v s) = tx_dma_buf s" "rx_dma_buf (set_reg a v s) = rx_dma_buf s" "nn_irq (set_reg a v s) = nn_irq s"
  "nn_mem (set_reg a v s) = nn_mem s" "nn_sent (set_reg a v s) = nn_sent s" "nn_link_down (set_reg a v s) = nn_link_down s"
  "nn_timer (set_reg a v s) = nn_timer s"
  by (simp_all add: set_reg_def)

lemmas reg_ops = or_reg_def and_reg_def set_reg_with_mask_def

lemma nat_and_3: "a AND 3 = a mod 4" for a :: nat
  using take_bit_eq_mask [of 2 a] by (simp add: take_bit_eq_mod mask_eq_exp_minus_1)

lemma reg_access_total:
  assumes "addr < MMIO_SIZE" and "addr mod 4 = 0"
  shows "get_reg_ext s addr 4 = Inr (get_reg s addr)" "set_reg_ext addr v 4 s = Inr (set_reg addr v s)"
  using assms by (simp_all add: get_reg_ext_def set_reg_ext_def get_reg_def set_reg_def nat_and_3)

text \<open>A register write of any width changes its own word only.\<close>

lemma set_reg_ext_cases:
  assumes "set_reg_ext addr v sz s = Inr s'" and "addr mod 4 = 0"
  obtains m where "s' = s\<lparr>nn_regs := m\<rparr>" "\<And>i. i < addr \<or> addr + 4 \<le> i \<Longrightarrow> m i = nn_regs s i"
proof
  let ?m = "nn_regs s'"
  show "s' = s\<lparr>nn_regs := ?m\<rparr>" using assms by (auto simp: set_reg_ext_def res_bind_eq_Inr split: if_splits)
  show "?m i = nn_regs s i" if "i < addr \<or> addr + 4 \<le> i" for i
    using assms that by (auto simp: set_reg_ext_def res_bind_eq_Inr le_write32_def le_write16_def split: if_splits)
qed

lemma set_reg_ext_other:
  assumes "set_reg_ext addr v sz s = Inr s'" and "addr mod 4 = 0" and "b + 4 \<le> addr \<or> addr + 4 \<le> b"
  shows "get_reg s' b = get_reg s b" "nn_irq s' = nn_irq s" "tx_dma_buf_offset s' = tx_dma_buf_offset s"
proof -
  obtain m where m: "s' = s\<lparr>nn_regs := m\<rparr>" "\<And>i. i < addr \<or> addr + 4 \<le> i \<Longrightarrow> m i = nn_regs s i"
    using set_reg_ext_cases [OF assms(1,2)] by metis
  show "get_reg s' b = get_reg s b" unfolding get_reg_def m(1) using assms(3) m(2) by (auto intro!: le_read32_cong)
  show "nn_irq s' = nn_irq s" "tx_dma_buf_offset s' = tx_dma_buf_offset s" by (simp_all add: m(1))
qed

section \<open>The interrupt line\<close>

definition irq_pending :: "NvNetState \<Rightarrow> bool" where
  "irq_pending s \<longleftrightarrow> get_reg s NVNET_IRQ_MASK AND get_reg s NVNET_IRQ_STATUS \<noteq> 0"

text \<open>
  A relation between the line and the pending interrupts that holds whenever they agree.  It is kept by everything that
  leaves the two interrupt registers and the line alone, and established by \<open>update_irq\<close>.
\<close>

locale irq_contract =
  fixes rel :: "bool \<Rightarrow> bool \<Rightarrow> bool"
  assumes agree: "rel b b"
begin

definition holds :: "NvNetState \<Rightarrow> bool" where
  "holds s \<longleftrightarrow> rel (nn_irq s) (irq_pending s)"

lemma holds_frame: "nn_irq s' = nn_irq s \<Longrightarrow> get_reg s' 0 = get_reg s 0 \<Longrightarrow> get_reg s' 4 = get_reg s 4 \<Longrightarrow> holds s' = holds s"
  by (simp add: holds_def irq_pending_def)

lemma holds_set_reg [simp]: "8 \<le> a \<Longrightarrow> holds (set_reg a v s) = holds s"
  by (rule holds_frame) simp_all

lemma holds_reg_ops [simp]:
  "8 \<le> a \<Longrightarrow> holds (or_reg a v s) = holds s" "8 \<le> a \<Longrightarrow> holds (and_reg a v s) = holds s"
  "8 \<le> a \<Longrightarrow> holds (set_reg_with_mask a v k s) = holds s"
  by (simp_all add: reg_ops)

lemma holds_update_irq [simp]: "holds (update_irq s)"
  by (simp add: holds_def irq_pending_def update_irq_def agree)

lemma holds_intr [simp]: "holds (set_intr_status v s)" "holds (set_mii_intr_status v s)"
  by (simp_all add: set_intr_status_def set_mii_intr_status_def)

lemma holds_update [simp]:
  "holds (s\<lparr>phy_regs := x1\<rparr>) = holds s" "holds (s\<lparr>tx_dma_buf_offset := x2\<rparr>) = holds s"
  "holds (s\<lparr>tx_dma_buf := x3\<rparr>) = holds s" "holds (s\<lparr>rx_dma_buf := x4\<rparr>) = holds s"
  "holds (s\<lparr>nn_mem := x6\<rparr>) = holds s" "holds (s\<lparr>nn_sent := x7\<rparr>) = holds s"
  "holds (s\<lparr>nn_link_down := x8\<rparr>) = holds s" "holds (s\<lparr>nn_timer := x9\<rparr>) = holds s"
  by (rule holds_frame; simp)+

lemma holds_dma [simp]:
  "holds (dma_write a bs s) = holds s" "holds (store_ring_desc addr d s) = holds s" "holds (send_packet bs s) = holds s"
  "holds (set_dma_idle b s) = holds s" "holds (reset_descriptor_ring_pointers s) = holds s"
  by (simp_all add: dma_write_def store_ring_desc_def send_packet_def set_dma_idle_def reset_descriptor_ring_pointers_def Let_def)

lemma holds_ring [simp]:
  "holds (snd (update_current_rx_ring_desc_addr s)) = holds s" "holds (advance_next_rx_ring_desc_addr s) = holds s"
  "holds (snd (update_current_tx_ring_desc_addr s)) = holds s" "holds (advance_next_tx_ring_desc_addr s) = holds s"
  by (simp_all add: update_current_rx_ring_desc_addr_def advance_next_rx_ring_desc_addr_def
      update_current_tx_ring_desc_addr_def advance_next_tx_ring_desc_addr_def Let_def)

lemma holds_can_receive [simp]: "holds (snd (nvnet_can_receive s)) = holds s"
  by (simp add: nvnet_can_receive_def rx_buf_available_def split_beta Let_def)

lemma holds_to_guest: "dma_packet_to_guest bs s = Inr (r, s') \<Longrightarrow> holds s \<Longrightarrow> holds s'"
  by (auto simp: dma_packet_to_guest_def split_beta Let_def res_bind_eq_Inr split: if_splits)

lemma holds_receive: "nvnet_receive_iov iov s = Inr (r, s') \<Longrightarrow> holds s \<Longrightarrow> holds s'"
  by (auto simp: nvnet_receive_iov_def Let_def dest!: holds_to_guest split: if_splits)

lemma holds_tx_round: "tx_round s = Inr (c, p, s') \<Longrightarrow> holds s \<Longrightarrow> holds s'"
  by (auto simp: tx_round_def split_beta Let_def res_bind_eq_Inr split: if_splits)

lemma holds_tx_loop: "tx_loop i s = Inr (p, s') \<Longrightarrow> holds s \<Longrightarrow> holds s'"
proof (induction i s rule: tx_loop.induct)
  case (1 i s)
  show ?case
  proof (cases "i < unat (get_tx_ring_size s)")
    case True
    with "1.prems"(1) obtain c q s1 where r: "tx_round s = Inr (c, q, s1)"
      and k: "(if c then tx_loop (i + 1) s1 else Inr (q, s1)) = Inr (p, s')"
      by (subst (asm) tx_loop.simps) (auto simp: res_bind_eq_Inr)
    have "holds s1" using holds_tx_round [OF r "1.prems"(2)] .
    then show ?thesis using k "1.IH" [OF True r refl refl] by (cases c) auto
  next
    case False
    then show ?thesis using "1.prems" by (subst (asm) tx_loop.simps) auto
  qed
qed

lemma holds_from_guest: "dma_packet_from_guest s = Inr s' \<Longrightarrow> holds s \<Longrightarrow> holds s'"
  by (auto simp: dma_packet_from_guest_def Let_def res_bind_eq_Inr dest!: holds_tx_loop split: if_splits)

lemma holds_link: "holds s \<Longrightarrow> holds (nvnet_set_link_status s)" "holds s \<Longrightarrow> holds (autoneg_timer s)"
  by (simp_all add: nvnet_set_link_status_def set_link_down_def set_link_up_def restart_autoneg_def autoneg_timer_def autoneg_done_def)

lemma holds_mdio [simp]: "holds (mdio_read s) = holds s" "holds (mdio_write s) = holds s"
  by (simp_all add: mdio_read_def mdio_write_def phy_reg_write_def Let_def)

lemma holds_control:
  assumes "tx_rx_control_write val s = Inr s'" and "holds s" and "val AND 2 \<noteq> 0 \<Longrightarrow> \<forall>b. rel b False"
  shows "holds s'"
proof -
  let ?s = "set_reg_with_mask NVNET_TX_RX_CONTROL val (NOT 8) s"
  obtain s1 where s1: "(if val AND 1 \<noteq> 0 then dma_packet_from_guest ?s else Inr ?s) = Inr s1"
    and s': "s' = (let s2 = (if val AND 0x10 \<noteq> 0 then (reset_descriptor_ring_pointers s1)\<lparr>tx_dma_buf_offset := 0\<rparr> else s1)
       in if val AND 2 \<noteq> 0 then set_reg NVNET_IRQ_STATUS 0 s2
               else if val = 0 then set_reg NVNET_UNKNOWN_SETUP_REG5 0x80000000 s2 else s2)"
    using assms(1) unfolding tx_rx_control_write_def Let_def res_bind_eq_Inr by blast
  have "holds s1" using s1 assms(2) holds_from_guest [of ?s s1] by (auto split: if_splits)
  moreover have "holds (set_reg 0 0 s2)" if "\<forall>b. rel b False" for s2
    using that by (simp add: holds_def irq_pending_def)
  ultimately show ?thesis using assms(3) unfolding s' Let_def by auto
qed

lemma holds_mmio:
  assumes w: "nvnet_mmio_write addr val sz s = Inr s'" and "holds s"
    and "addr = NVNET_TX_RX_CONTROL \<Longrightarrow> val AND 2 \<noteq> 0 \<Longrightarrow> \<forall>b. rel b False"
  shows "holds s'"
proof -
  have a: "addr mod 4 = 0" using w by (auto simp: nvnet_mmio_write_def res_bind_eq_Inr nat_and_3)
  have other: "holds s1 = holds s" if "set_reg_ext addr v sz s = Inr s1" "addr \<noteq> 0" "addr \<noteq> 4" for s1 v
  proof -
    have "8 \<le> addr" using a that(2,3) by presburger
    then show ?thesis using set_reg_ext_other [OF that(1) a, of 0] set_reg_ext_other [OF that(1) a, of 4] by (intro holds_frame) auto
  qed
  show ?thesis
  proof (cases "addr = NVNET_TX_RX_CONTROL")
    case True
    then show ?thesis using w assms(2,3) holds_control [of val s s'] by (auto simp: nvnet_mmio_write_def res_bind_eq_Inr)
  next
    case False
    then show ?thesis using w assms(2) other by (auto simp: nvnet_mmio_write_def res_bind_eq_Inr split: if_splits)
  qed
qed

lemma holds_step:
  assumes "nvnet_step e s = Inr s'" and "holds s"
    and "\<And>val sz. e = Mmio_write NVNET_TX_RX_CONTROL val sz \<Longrightarrow> val AND 2 \<noteq> 0 \<Longrightarrow> \<forall>b. rel b False"
  shows "holds s'"
  using assms by (cases e)
    (auto simp: nvnet_step_def res_bind_eq_Inr intro: holds_mmio holds_receive holds_link)

end

interpretation line_exact: irq_contract "(=)"
  by unfold_locales simp

interpretation line_raised: irq_contract "\<lambda>line pending. pending \<longrightarrow> line"
  by unfold_locales simp

definition clears_status :: "nvnet_event \<Rightarrow> bool" where
  "clears_status e \<longleftrightarrow> (case e of Mmio_write addr val _ \<Rightarrow> addr = NVNET_TX_RX_CONTROL \<and> val AND 2 \<noteq> 0 | _ \<Rightarrow> False)"

lemma line_exact_run:
  assumes "fold_res nvnet_step es s = Inr s'" and "line_exact.holds s" and "\<forall>e \<in> set es. \<not> clears_status e"
  shows "line_exact.holds s'"
proof (rule fold_res_invariant [OF assms(1), where P = line_exact.holds, OF assms(2)])
  fix x s s' assume x: "x \<in> set es" "line_exact.holds s" "nvnet_step x s = Inr s'"
  have "\<not> clears_status x" using x(1) assms(3) by blast
  then show "line_exact.holds s'" by (intro line_exact.holds_step [OF x(3,2)]) (simp add: clears_status_def)
qed

lemma line_raised_run:
  assumes "fold_res nvnet_step es s = Inr s'" and "line_raised.holds s"
  shows "line_raised.holds s'"
  by (rule fold_res_invariant [OF assms(1), where P = line_raised.holds, OF assms(2)]) (auto intro: line_raised.holds_step)

text \<open>The event that clears the status is the one case in which the line goes stale.\<close>

lemma clear_leaves_line:
  "\<exists>s'. nvnet_step (Mmio_write NVNET_TX_RX_CONTROL 2 4) s = Inr s' \<and> nn_irq s' = nn_irq s \<and> \<not> irq_pending s'"
  by (simp add: nvnet_step_def nvnet_mmio_write_def tx_rx_control_write_def nat_and_3 irq_pending_def reg_ops Let_def)

definition nvnet_blank :: NvNetState where
  "nvnet_blank = \<lparr>nn_regs = \<lambda>_. 0, phy_regs = \<lambda>_. 0, tx_dma_buf_offset = 0, tx_dma_buf = \<lambda>_. 0, rx_dma_buf = \<lambda>_. 0,
    tx_ring_index = 0, rx_ring_index = 0, nn_irq = False, nn_mem = \<lambda>_. 0, nn_sent = [], nn_link_down = False, nn_timer = None,
    nn_clock = 0\<rparr>"

text \<open>
  C35.  The interrupt line follows the interrupt registers.  From a state in which the line agrees with the enabled pending
  interrupts, after any sequence of register writes, packets, link changes and timer expiries an enabled pending
  interrupt always has the line raised; and unless the sequence writes the status-clearing bit of the control register, the
  line is raised exactly then.  That write clears the status and leaves the line as it was.
\<close>

theorem irq_line_follows:
  assumes "fold_res nvnet_step es s = Inr s'" and "nn_irq s = irq_pending s"
  shows "(irq_pending s' \<longrightarrow> nn_irq s') \<and>
    ((\<forall>e \<in> set es. \<not> clears_status e) \<longrightarrow> nn_irq s' = irq_pending s') \<and>
    (\<exists>s2. nvnet_step (Mmio_write NVNET_TX_RX_CONTROL 2 4) s' = Inr s2 \<and> nn_irq s2 = nn_irq s' \<and> \<not> irq_pending s2)"
  using line_raised_run [OF assms(1)] line_exact_run [OF assms(1)] assms(2) clear_leaves_line [of s']
  by (simp add: line_exact.holds_def line_raised.holds_def)

theorem irq_line_follows_witness:
  "\<exists>s'. fold_res nvnet_step [Mmio_write NVNET_IRQ_MASK 0x40 4, Link_change True] nvnet_blank = Inr s' \<and> irq_pending s' \<and> nn_irq s'"
proof -
  let ?es = "[Mmio_write NVNET_IRQ_MASK 0x40 4, Link_change True]"
  obtain s' where s': "fold_res nvnet_step ?es nvnet_blank = Inr s'" "irq_pending s'"
    by (simp add: nvnet_step_def nvnet_mmio_write_def reg_access_total nat_and_3 nvnet_blank_def nvnet_set_link_status_def
        set_link_down_def set_mii_intr_status_def set_intr_status_def update_irq_def irq_pending_def
        update_regs_on_link_down_def reg_ops Let_def)
  moreover have "nn_irq nvnet_blank = irq_pending nvnet_blank"
    by (simp add: nvnet_blank_def irq_pending_def get_reg_def le_read32_def)
  ultimately show ?thesis using irq_line_follows [of ?es nvnet_blank s'] by blast
qed

section \<open>Well-formed states\<close>

text \<open>Between events the gathered bytes fit their buffer and the transfer engine reports idle.\<close>

definition nvnet_wf :: "NvNetState \<Rightarrow> bool" where
  "nvnet_wf s \<longleftrightarrow> unat (tx_dma_buf_offset s) \<le> TX_ALLOC_BUFSIZE \<and> get_reg s NVNET_TX_RX_CONTROL AND 8 \<noteq> 0"

lemma offset_frame [simp]:
  "tx_dma_buf_offset (or_reg a v s) = tx_dma_buf_offset s" "tx_dma_buf_offset (and_reg a v s) = tx_dma_buf_offset s"
  "tx_dma_buf_offset (set_reg_with_mask a v k s) = tx_dma_buf_offset s" "tx_dma_buf_offset (update_irq s) = tx_dma_buf_offset s"
  "tx_dma_buf_offset (set_intr_status v s) = tx_dma_buf_offset s" "tx_dma_buf_offset (set_mii_intr_status v s) = tx_dma_buf_offset s"
  "tx_dma_buf_offset (send_packet bs s) = tx_dma_buf_offset s" "tx_dma_buf_offset (set_dma_idle b s) = tx_dma_buf_offset s"
  "tx_dma_buf_offset (snd (update_current_rx_ring_desc_addr s)) = tx_dma_buf_offset s"
  "tx_dma_buf_offset (snd (update_current_tx_ring_desc_addr s)) = tx_dma_buf_offset s"
  "tx_dma_buf_offset (advance_next_rx_ring_desc_addr s) = tx_dma_buf_offset s"
  "tx_dma_buf_offset (advance_next_tx_ring_desc_addr s) = tx_dma_buf_offset s"
  "tx_dma_buf_offset (dma_write n bs s) = tx_dma_buf_offset s" "tx_dma_buf_offset (store_ring_desc d r s) = tx_dma_buf_offset s"
  "tx_dma_buf_offset (snd (nvnet_can_receive s)) = tx_dma_buf_offset s"
  by (simp_all add: reg_ops update_irq_def set_intr_status_def set_mii_intr_status_def send_packet_def set_dma_idle_def
      update_current_rx_ring_desc_addr_def update_current_tx_ring_desc_addr_def advance_next_rx_ring_desc_addr_def
      advance_next_tx_ring_desc_addr_def dma_write_def store_ring_desc_def nvnet_can_receive_def rx_buf_available_def
      split_beta Let_def)

lemma control_frame [simp]:
  "0x148 \<le> a \<or> a + 4 \<le> 0x144 \<Longrightarrow> get_reg (or_reg a v s) 0x144 = get_reg s 0x144"
  "0x148 \<le> a \<or> a + 4 \<le> 0x144 \<Longrightarrow> get_reg (and_reg a v s) 0x144 = get_reg s 0x144"
  "get_reg (update_irq s) b = get_reg s b"
  "get_reg (set_intr_status v s) 0x144 = get_reg s 0x144" "get_reg (set_mii_intr_status v s) 0x144 = get_reg s 0x144"
  "get_reg (send_packet bs s) b = get_reg s b"
  "get_reg (snd (update_current_rx_ring_desc_addr s)) 0x144 = get_reg s 0x144"
  "get_reg (snd (update_current_tx_ring_desc_addr s)) 0x144 = get_reg s 0x144"
  "get_reg (advance_next_rx_ring_desc_addr s) 0x144 = get_reg s 0x144"
  "get_reg (advance_next_tx_ring_desc_addr s) 0x144 = get_reg s 0x144"
  "get_reg (dma_write n bs s) b = get_reg s b" "get_reg (store_ring_desc d r s) b = get_reg s b"
  "get_reg (snd (nvnet_can_receive s)) 0x144 = get_reg s 0x144"
  "get_reg (reset_descriptor_ring_pointers s) 0x144 = get_reg s 0x144"
  by (simp_all add: reg_ops update_irq_def set_intr_status_def set_mii_intr_status_def send_packet_def
      update_current_rx_ring_desc_addr_def update_current_tx_ring_desc_addr_def advance_next_rx_ring_desc_addr_def
      advance_next_tx_ring_desc_addr_def dma_write_def store_ring_desc_def nvnet_can_receive_def rx_buf_available_def
      reset_descriptor_ring_pointers_def split_beta Let_def)

lemma or_8: "(x OR 8) AND 8 \<noteq> (0 :: u32)"
proof
  assume "(x OR 8) AND 8 = (0 :: u32)"
  then have "bit ((x OR 8) AND 8) 3 = bit (0 :: u32) 3" by simp
  then show False by (simp add: bit_simps)
qed

lemma set_idle_wf: "nvnet_wf (set_dma_idle True s) \<longleftrightarrow> unat (tx_dma_buf_offset s) \<le> TX_ALLOC_BUFSIZE"
  by (simp add: nvnet_wf_def set_dma_idle_def or_reg_def or_8)

lemma set_intr_wf [simp]: "nvnet_wf (set_intr_status v s) = nvnet_wf s" "nvnet_wf (set_mii_intr_status v s) = nvnet_wf s"
  by (simp_all add: nvnet_wf_def)

lemma masked_idle: "((x AND (v OR NOT (NOT 8))) OR (v AND NOT 8)) AND 8 = x AND (8 :: u32)"
  by (rule bit_word_eqI) (auto simp: bit_simps)

lemma to_guest_wf: "nvnet_wf s \<Longrightarrow> guarded (\<lambda>(r, s). nvnet_wf s) (dma_packet_to_guest bs s)"
  unfolding dma_packet_to_guest_def split_beta Let_def
  by (intro guarded_intros) (auto simp: set_idle_wf, simp_all add: nvnet_wf_def)

lemma receive_wf: "nvnet_wf s \<Longrightarrow> guarded (\<lambda>(r, s). nvnet_wf s) (nvnet_receive_iov iov s)"
  unfolding nvnet_receive_iov_def Let_def
  by (intro guarded_intros to_guest_wf) (simp_all add: nvnet_wf_def)

lemma tx_round_wf:
  "unat (tx_dma_buf_offset s) \<le> TX_ALLOC_BUFSIZE \<Longrightarrow>
    guarded (\<lambda>(c, p, s). unat (tx_dma_buf_offset s) \<le> TX_ALLOC_BUFSIZE) (tx_round s)"
  unfolding tx_round_def split_beta Let_def by (intro guarded_intros) auto

lemma tx_loop_wf:
  "unat (tx_dma_buf_offset s) \<le> TX_ALLOC_BUFSIZE \<Longrightarrow> guarded (\<lambda>(p, s). unat (tx_dma_buf_offset s) \<le> TX_ALLOC_BUFSIZE) (tx_loop i s)"
proof (induction i s rule: tx_loop.induct)
  case (1 i s)
  show ?case
  proof (cases "i < unat (get_tx_ring_size s)")
    case True
    have "guarded (\<lambda>(p, s). unat (tx_dma_buf_offset s) \<le> TX_ALLOC_BUFSIZE)
        (res_bind (tx_round s) (\<lambda>(continue, packet_sent, s). if continue then tx_loop (i + 1) s else Inr (packet_sent, s)))"
      using tx_round_wf [OF "1.prems"] "1.IH" [OF True] by (cases "tx_round s") auto
    then show ?thesis using True by (subst tx_loop.simps) simp
  qed (use 1 in \<open>simp add: tx_loop.simps\<close>)
qed

lemma from_guest_wf: "nvnet_wf s \<Longrightarrow> guarded nvnet_wf (dma_packet_from_guest s)"
proof -
  assume wf: "nvnet_wf s"
  then have "guarded (\<lambda>(p, s). unat (tx_dma_buf_offset s) \<le> TX_ALLOC_BUFSIZE) (tx_loop 0 (set_dma_idle False s))"
    by (intro tx_loop_wf) (simp add: nvnet_wf_def)
  then show ?thesis using wf by (cases "tx_loop 0 (set_dma_idle False s)") (auto simp: dma_packet_from_guest_def Let_def set_idle_wf)
qed

lemma control_wf: "nvnet_wf s \<Longrightarrow> guarded nvnet_wf (tx_rx_control_write val s)"
proof -
  assume "nvnet_wf s"
  then have "nvnet_wf (set_reg_with_mask NVNET_TX_RX_CONTROL val (NOT 8) s)"
    unfolding nvnet_wf_def set_reg_with_mask_def get_set_reg(1) masked_idle by simp
  then have "guarded nvnet_wf (if val AND 1 \<noteq> 0 then dma_packet_from_guest (set_reg_with_mask NVNET_TX_RX_CONTROL val (NOT 8) s)
      else Inr (set_reg_with_mask NVNET_TX_RX_CONTROL val (NOT 8) s))" by (simp add: from_guest_wf)
  then show ?thesis unfolding tx_rx_control_write_def Let_def by (rule guarded_bind) (auto simp: nvnet_wf_def)
qed

lemma set_reg_ext_guarded:
  assumes "nvnet_wf s" and "addr mod 4 = 0" and "addr \<noteq> NVNET_TX_RX_CONTROL"
  shows "guarded nvnet_wf (set_reg_ext addr v sz s)"
proof (cases "set_reg_ext addr v sz s")
  case (Inl e)
  then show ?thesis by (auto simp: set_reg_ext_def assert_res_def split: if_splits)
next
  case (Inr s')
  have "NVNET_TX_RX_CONTROL + 4 \<le> addr \<or> addr + 4 \<le> NVNET_TX_RX_CONTROL" using assms(2,3) by presburger
  then show ?thesis using assms(1) Inr set_reg_ext_other [OF Inr assms(2), of NVNET_TX_RX_CONTROL] by (simp add: nvnet_wf_def)
qed

lemma mmio_wf: "nvnet_wf s \<Longrightarrow> guarded nvnet_wf (nvnet_mmio_write addr val sz s)"
proof -
  assume wf: "nvnet_wf s"
  have md: "nvnet_wf (mdio_read s) = nvnet_wf s" "nvnet_wf (mdio_write s) = nvnet_wf s" for s
    by (simp_all add: nvnet_wf_def mdio_read_def mdio_write_def phy_reg_write_def Let_def)
  have upd: "nvnet_wf (update_irq s) = nvnet_wf s" for s by (simp add: nvnet_wf_def update_irq_def)
  have get: "guarded (\<lambda>_. True) (get_reg_ext s addr sz)"
    by (simp add: get_reg_ext_def guarded_assert)
  show ?thesis
    unfolding nvnet_mmio_write_def
    by (intro guarded_intros guarded_bind [OF get] guarded_bind [OF set_reg_ext_guarded [OF wf]] control_wf set_reg_ext_guarded wf)
      (auto simp: md upd nat_and_3)
qed

lemma step_wf: "nvnet_wf s \<Longrightarrow> guarded nvnet_wf (nvnet_step e s)"
proof (cases e)
  case (Packet iov)
  assume "nvnet_wf s"
  from receive_wf [OF this, of iov] show ?thesis
    unfolding nvnet_step_def Packet nvnet_event.case by (rule guarded_bind) auto
next
  case (Link_change down)
  assume "nvnet_wf s"
  then show ?thesis
    by (simp add: Link_change nvnet_step_def nvnet_set_link_status_def set_link_down_def set_link_up_def restart_autoneg_def
        update_regs_on_link_down_def update_regs_on_link_up_def Let_def) (simp add: nvnet_wf_def)
qed (auto simp: nvnet_step_def mmio_wf autoneg_timer_def autoneg_done_def set_link_up_def update_regs_on_link_up_def nvnet_wf_def)


section \<open>The management interface\<close>

lemma five_bits:
  fixes reg :: "5 word"
  shows "(ucast reg :: u32) AND 0x1F = ucast reg" "0x1F AND m = 0 \<Longrightarrow> (ucast reg :: u32) AND m = 0"
proof -
  have m: "(0x1F :: u32) = mask 5" by (simp add: mask_eq_exp_minus_1)
  show r: "(ucast reg :: u32) AND 0x1F = ucast reg"
    unfolding m by (rule bit_word_eqI) (auto simp: bit_simps dest: bit_imp_le_length)
  assume z: "0x1F AND m = 0"
  have "((ucast reg :: u32) AND 0x1F) AND m = ucast reg AND (0x1F AND m)" by (simp only: and.assoc)
  then show "(ucast reg :: u32) AND m = 0" unfolding r z by simp
qed

lemma mdio_fields:
  fixes reg :: "5 word"
  assumes "x AND 0x1F = (0 :: u32)" and "x AND 0x3E0 = 0x20"
  shows "(ucast (GET_MASK (x OR ucast reg) 0x1F) :: u8) = ucast reg" "(ucast (GET_MASK (x OR ucast reg) 0x3E0) :: u8) = 1"
proof -
  have ctz: "ctz32 0x1F = 0" "ctz32 0x3E0 = 5" by code_simp+
  have r: "(ucast reg :: u32) AND 0x1F = ucast reg" by (rule five_bits)
  have z: "(ucast reg :: u32) AND 0x3E0 = 0" by (rule five_bits) simp
  have "GET_MASK (x OR ucast reg) 0x1F = ucast reg" by (simp add: GET_MASK_def ctz word_ao_dist assms r)
  moreover have "(ucast (ucast reg :: u32) :: u8) = ucast reg" by (rule bit_word_eqI) (auto simp: bit_simps)
  ultimately show "(ucast (GET_MASK (x OR ucast reg) 0x1F) :: u8) = ucast reg" by simp
  show "(ucast (GET_MASK (x OR ucast reg) 0x3E0) :: u8) = 1" by (simp add: GET_MASK_def ctz word_ao_dist assms z)
qed

text \<open>
  C37.  A PHY register written through the management interface reads back through it: after the driver stores a
  value in the data register and starts a write and then a read of the same PHY register, the data register holds the
  low 16 bits of the value, or zero for a register that the PHY does not have, both transactions are complete, and no other PHY
  register changed.
\<close>

theorem mdio_roundtrip:
  fixes reg :: "5 word"
  shows "\<exists>s'. fold_res nvnet_step
      [Mmio_write NVNET_MDIO_DATA v 4, Mmio_write NVNET_MDIO_ADDR (0x8420 OR ucast reg) 4, Mmio_write NVNET_MDIO_ADDR (0x8020 OR ucast reg) 4]
      s = Inr s' \<and>
    nvnet_mmio_read s' NVNET_MDIO_DATA 4 = Inr (if unat reg < 6 then ucast (ucast v :: u16) else 0) \<and>
    get_reg s' NVNET_MDIO_ADDR AND 0x8000 = 0 \<and> (\<forall>r. r \<noteq> unat reg \<longrightarrow> phy_regs s' r = phy_regs s r)"
proof -
  have w: "(0x8420 OR ucast reg :: u32) AND 0x400 \<noteq> 0"
  proof
    assume "(0x8420 OR ucast reg :: u32) AND 0x400 = 0"
    then have "bit ((0x8420 OR ucast reg :: u32) AND 0x400) 10 = bit (0 :: u32) 10" by simp
    then show False by (simp add: bit_simps)
  qed
  have r: "(0x8020 OR ucast reg :: u32) AND 0x400 = 0"
  proof -
    have "(ucast reg :: u32) AND 0x400 = 0" by (rule five_bits) simp
    then show ?thesis by (simp add: word_ao_dist)
  qed
  have clear: "(x AND NOT 0x8000) AND 0x8000 = 0" for x :: u32 by (rule bit_word_eqI) (auto simp: bit_simps)
  have u: "unat (ucast reg :: u8) = unat reg"
    using unsigned_less [of reg, where ?'a = nat] by (simp add: unsigned_ucast_eq take_bit_nat_eq_self)
  have f: "(ucast (GET_MASK (0x8420 OR ucast reg) 0x1F) :: u8) = ucast reg" "(ucast (GET_MASK (0x8420 OR ucast reg) 0x3E0) :: u8) = 1"
    "(ucast (GET_MASK (0x8020 OR ucast reg) 0x1F) :: u8) = ucast reg" "(ucast (GET_MASK (0x8020 OR ucast reg) 0x3E0) :: u8) = 1"
    by (rule mdio_fields; simp)+
  let ?s1 = "set_reg NVNET_MDIO_DATA v s"
  let ?s2 = "mdio_write (set_reg NVNET_MDIO_ADDR (0x8420 OR ucast reg) ?s1)"
  let ?s3 = "mdio_read (set_reg NVNET_MDIO_ADDR (0x8020 OR ucast reg) ?s2)"
  have run: "fold_res nvnet_step
      [Mmio_write NVNET_MDIO_DATA v 4, Mmio_write NVNET_MDIO_ADDR (0x8420 OR ucast reg) 4, Mmio_write NVNET_MDIO_ADDR (0x8020 OR ucast reg) 4]
      s = Inr ?s3"
    using w r by (simp add: nvnet_step_def nvnet_mmio_write_def reg_access_total nat_and_3)
  have "phy_regs ?s2 = (if unat reg < 6 then (phy_regs s)(unat reg := ucast (ucast v :: u16)) else phy_regs s)"
    by (simp add: mdio_write_def f u phy_reg_write_def and_reg_def Let_def)
  moreover have "(ucast (ucast x :: u32) :: u16) = x" for x :: u16 by (rule bit_word_eqI) (auto simp: bit_simps)
  ultimately have "get_reg ?s3 NVNET_MDIO_DATA = (if unat reg < 6 then ucast (ucast v :: u16) else 0)"
    "get_reg ?s3 NVNET_MDIO_ADDR AND 0x8000 = 0" "\<forall>r. r \<noteq> unat reg \<longrightarrow> phy_regs ?s3 r = phy_regs s r"
    by (simp_all add: mdio_read_def f u phy_reg_read_def and_reg_def clear [simplified] Let_def)
  with run show ?thesis
    by (intro exI [of _ ?s3]) (simp add: nvnet_mmio_read_def reg_access_total)
qed

theorem mdio_roundtrip_witness:
  "\<exists>s'. fold_res nvnet_step
      [Mmio_write NVNET_MDIO_DATA 0xABCD1234 4, Mmio_write NVNET_MDIO_ADDR 0x8424 4, Mmio_write NVNET_MDIO_ADDR 0x8024 4]
      nvnet_blank = Inr s' \<and>
    nvnet_mmio_read s' NVNET_MDIO_DATA 4 = Inr 0x1234 \<and> phy_regs s' 1 = phy_regs nvnet_blank 1"
proof -
  have n: "(0x8420 OR ucast (4 :: 5 word) :: u32) = 0x8424" "(0x8020 OR ucast (4 :: 5 word) :: u32) = 0x8024" by simp_all
  show ?thesis
    using mdio_roundtrip [where v = "0xABCD1234" and reg = 4 and s = nvnet_blank] unfolding n by auto
qed

end
