(* ===== verification/NvNet_Rings.thy ===== *)
theory NvNet_Rings
  imports NvNet
begin

text \<open>
  The descriptor rings of the Ethernet controller.  The locale \<open>desc_ring\<close> states what fetching a descriptor and
  advancing promise; both rings of the device are instances, and the transmit and receive properties rest on it.
\<close>

section \<open>Ring geometry\<close>

definition ring_fits :: "u32 \<Rightarrow> nat \<Rightarrow> bool" where
  "ring_fits b n \<longleftrightarrow> 0 < n \<and> unat b + 8 * n < 2 ^ 32"

definition slot_addr :: "u32 \<Rightarrow> nat \<Rightarrow> u32" where
  "slot_addr b k = of_nat (8 * k) + b"

lemma unat_slot: "ring_fits b n \<Longrightarrow> k \<le> n \<Longrightarrow> unat (slot_addr b k) = unat b + 8 * k"
  unfolding slot_addr_def ring_fits_def using unat_of_nat_add [of "8 * k" b] by simp

lemma ring_end: "b + ucast (c :: u16) * 8 = slot_addr b (unat c)"
  by (simp add: slot_addr_def mult.commute)

text \<open>The choice of the current descriptor and of the next one, common to both rings.\<close>

lemma current_choice:
  assumes fit: "ring_fits b n" and c: "c = (if p < b \<or> unat p + 8 > unat (slot_addr b n) then b else p)"
  shows "unat b \<le> unat c \<and> unat c + 8 \<le> unat b + 8 * n" "k < n \<Longrightarrow> p = slot_addr b k \<Longrightarrow> c = slot_addr b k"
proof -
  have e: "unat (slot_addr b n) = unat b + 8 * n" by (rule unat_slot [OF fit order_refl])
  show "unat b \<le> unat c \<and> unat c + 8 \<le> unat b + 8 * n"
    using fit c unfolding e by (auto simp: ring_fits_def word_less_nat_alt not_less)
  assume k: "k < n" "p = slot_addr b k"
  then have "unat p = unat b + 8 * k" using unat_slot [OF fit, of k] by simp
  then show "c = slot_addr b k" using k unfolding c e by (simp add: word_less_nat_alt)
qed

lemma next_choice:
  assumes fit: "ring_fits b n" and k: "k < n"
  shows "(if slot_addr b k + 8 \<ge> slot_addr b n then b else slot_addr b k + 8) = slot_addr b (Suc k mod n)"
proof -
  have s: "slot_addr b k + 8 = slot_addr b (Suc k)" by (simp add: slot_addr_def)
  have "slot_addr b n \<le> slot_addr b (Suc k) \<longleftrightarrow> Suc k = n"
    using k unat_slot [OF fit, of "Suc k"] unat_slot [OF fit, of n] by (auto simp: word_le_nat_alt)
  moreover have "slot_addr b 0 = b" by (simp add: slot_addr_def)
  ultimately show ?thesis using k unfolding s by (auto simp: mod_if)
qed

locale desc_ring =
  fixes base :: "NvNetState \<Rightarrow> u32" and count :: "NvNetState \<Rightarrow> nat" and next_ptr :: "NvNetState \<Rightarrow> u32"
    and current :: "NvNetState \<Rightarrow> u32" and fetch :: "NvNetState \<Rightarrow> u32 \<times> NvNetState" and advance :: "NvNetState \<Rightarrow> NvNetState"
  assumes fetch_in_ring: "ring_fits (base s) (count s) \<Longrightarrow>
      unat (base s) \<le> unat (fst (fetch s)) \<and> unat (fst (fetch s)) + 8 \<le> unat (base s) + 8 * count s"
    and fetch_slot: "ring_fits (base s) (count s) \<Longrightarrow> k < count s \<Longrightarrow> next_ptr s = slot_addr (base s) k \<Longrightarrow>
      fst (fetch s) = slot_addr (base s) k"
    and fetch_frame: "base (snd (fetch s)) = base s" "count (snd (fetch s)) = count s" "next_ptr (snd (fetch s)) = next_ptr s"
      "current (snd (fetch s)) = fst (fetch s)"
    and advance_slot: "ring_fits (base s) (count s) \<Longrightarrow> k < count s \<Longrightarrow> current s = slot_addr (base s) k \<Longrightarrow>
      next_ptr (advance s) = slot_addr (base s) (Suc k mod count s)"
    and advance_frame: "base (advance s) = base s" "count (advance s) = count s"
begin

text \<open>The ring lies in the address space and its next descriptor is in slot \<open>k\<close>.\<close>

definition at_slot :: "u32 \<Rightarrow> nat \<Rightarrow> nat \<Rightarrow> NvNetState \<Rightarrow> bool" where
  "at_slot b n k s \<longleftrightarrow> base s = b \<and> count s = n \<and> ring_fits b n \<and> k < n \<and> next_ptr s = slot_addr b k"

lemma fetch_at: "at_slot b n k s \<Longrightarrow> fst (fetch s) = slot_addr b k"
  using fetch_slot [of s k] by (auto simp: at_slot_def)

lemma fetch_keeps: "at_slot b n k s \<Longrightarrow> at_slot b n k (snd (fetch s))"
  by (simp add: at_slot_def fetch_frame)

lemma refetch: "at_slot b n k s \<Longrightarrow> base s' = base s \<Longrightarrow> count s' = count s \<Longrightarrow> next_ptr s' = next_ptr s \<Longrightarrow> at_slot b n k s'"
  by (simp add: at_slot_def)

lemma next_slot:
  assumes "at_slot b n k s" and "base s' = base s" "count s' = count s" "current s' = fst (fetch s)"
  shows "at_slot b n (Suc k mod n) (advance s')"
proof -
  have s: "base s = b" "count s = n" "ring_fits b n" "k < n" using assms(1) by (simp_all add: at_slot_def)
  have "current s' = slot_addr b k" using assms(4) fetch_at [OF assms(1)] by simp
  from advance_slot [of s' k] this show ?thesis
    using s assms(2,3) advance_frame [of s'] by (simp add: at_slot_def)
qed

end

lemma ring_size_frame [simp]:
  "0x10C \<le> a \<or> a + 4 \<le> 0x108 \<Longrightarrow> get_tx_ring_size (set_reg a v s) = get_tx_ring_size s"
  "0x10C \<le> a \<or> a + 4 \<le> 0x108 \<Longrightarrow> get_rx_ring_size (set_reg a v s) = get_rx_ring_size s"
  by (simp_all add: get_tx_ring_size_def get_rx_ring_size_def)

interpretation tx: desc_ring "\<lambda>s. get_reg s NVNET_TX_RING_PHYS_ADDR" "\<lambda>s. unat (get_tx_ring_size s)"
  "\<lambda>s. get_reg s NVNET_TX_RING_NEXT_DESC_PHYS_ADDR" "\<lambda>s. get_reg s NVNET_TX_RING_CURRENT_DESC_PHYS_ADDR"
  update_current_tx_ring_desc_addr advance_next_tx_ring_desc_addr
  by unfold_locales (auto simp: update_current_tx_ring_desc_addr_def advance_next_tx_ring_desc_addr_def ring_end Let_def
      current_choice(1) [OF _ refl] current_choice(2) [OF _ refl] next_choice)

interpretation rx: desc_ring "\<lambda>s. get_reg s NVNET_RX_RING_PHYS_ADDR" "\<lambda>s. unat (get_rx_ring_size s)"
  "\<lambda>s. get_reg s NVNET_RX_RING_NEXT_DESC_PHYS_ADDR" "\<lambda>s. get_reg s NVNET_RX_RING_CURRENT_DESC_PHYS_ADDR"
  update_current_rx_ring_desc_addr advance_next_rx_ring_desc_addr
  by unfold_locales (auto simp: update_current_rx_ring_desc_addr_def advance_next_rx_ring_desc_addr_def ring_end Let_def
      current_choice(1) [OF _ refl] current_choice(2) [OF _ refl] next_choice)

section \<open>Guest memory\<close>

lemma le_read_write_other [simp]:
  "a + 4 \<le> b \<or> b + 2 \<le> a \<Longrightarrow> le_read32 (le_write16 b w m) a = le_read32 m a"
  "a + 2 \<le> b \<or> b + 2 \<le> a \<Longrightarrow> le_read16 (le_write16 b w m) a = le_read16 m a"
  "a + 2 \<le> b \<or> b + 4 \<le> a \<Longrightarrow> le_read16 (le_write32 b v m) a = le_read16 m a"
  by (auto intro!: le_read32_cong le_read16_cong le_write_other)

lemma load_store_desc [simp]: "load_ring_desc (store_ring_desc a d s) a = d"
  by (simp add: load_ring_desc_def store_ring_desc_def)

lemma store_desc_mem: "i < unat a \<or> unat a + 8 \<le> i \<Longrightarrow> nn_mem (store_ring_desc a d s) i = nn_mem s i"
  by (auto simp: store_ring_desc_def le_write_other)

lemma load_desc_cong: "(\<And>i. unat a \<le> i \<Longrightarrow> i < unat a + 8 \<Longrightarrow> nn_mem s i = nn_mem s' i) \<Longrightarrow> load_ring_desc s a = load_ring_desc s' a"
  by (auto simp: load_ring_desc_def intro!: le_read32_cong le_read16_cong)

lemma dma_read_cong: "(\<And>i. a \<le> i \<Longrightarrow> i < a + n \<Longrightarrow> nn_mem s i = nn_mem s' i) \<Longrightarrow> dma_read s a n = dma_read s' a n"
  by (simp add: dma_read_def)

lemma dma_write_mem: "nn_mem (dma_write a bs s) i = (if a \<le> i \<and> i < a + length bs then bs ! (i - a) else nn_mem s i)"
  by (simp add: dma_write_def)

lemma dma_read_write: "dma_read (dma_write a bs s) a (length bs) = bs"
  by (rule nth_equalityI) (simp_all add: dma_read_def dma_write_mem)

definition apart :: "nat \<Rightarrow> nat \<Rightarrow> nat \<Rightarrow> nat \<Rightarrow> bool" where
  "apart a m b n \<longleftrightarrow> a + m \<le> b \<or> b + n \<le> a"

section \<open>Reception\<close>

lemma mem_frame [simp]:
  "nn_mem (or_reg a v s) = nn_mem s" "nn_mem (and_reg a v s) = nn_mem s" "nn_mem (update_irq s) = nn_mem s"
  "nn_mem (set_intr_status v s) = nn_mem s" "nn_mem (set_dma_idle b s) = nn_mem s" "nn_mem (send_packet bs s) = nn_mem s"
  "nn_mem (snd (update_current_rx_ring_desc_addr s)) = nn_mem s" "nn_mem (snd (update_current_tx_ring_desc_addr s)) = nn_mem s"
  "nn_mem (advance_next_rx_ring_desc_addr s) = nn_mem s" "nn_mem (advance_next_tx_ring_desc_addr s) = nn_mem s"
  by (simp_all add: reg_ops update_irq_def set_intr_status_def set_dma_idle_def send_packet_def update_current_rx_ring_desc_addr_def
      update_current_tx_ring_desc_addr_def advance_next_rx_ring_desc_addr_def advance_next_tx_ring_desc_addr_def Let_def)

lemma sent_frame [simp]:
  "nn_sent (or_reg a v s) = nn_sent s" "nn_sent (and_reg a v s) = nn_sent s" "nn_sent (update_irq s) = nn_sent s"
  "nn_sent (set_intr_status v s) = nn_sent s" "nn_sent (set_dma_idle b s) = nn_sent s"
  "nn_sent (dma_write n bs s) = nn_sent s" "nn_sent (store_ring_desc d r s) = nn_sent s"
  "nn_sent (snd (update_current_rx_ring_desc_addr s)) = nn_sent s" "nn_sent (snd (update_current_tx_ring_desc_addr s)) = nn_sent s"
  "nn_sent (advance_next_rx_ring_desc_addr s) = nn_sent s" "nn_sent (advance_next_tx_ring_desc_addr s) = nn_sent s"
  by (simp_all add: reg_ops update_irq_def set_intr_status_def set_dma_idle_def dma_write_def store_ring_desc_def
      update_current_rx_ring_desc_addr_def update_current_tx_ring_desc_addr_def advance_next_rx_ring_desc_addr_def
      advance_next_tx_ring_desc_addr_def Let_def)

lemma load_desc_frame: "nn_mem s = nn_mem s' \<Longrightarrow> load_ring_desc s a = load_ring_desc s' a"
  by (simp add: load_ring_desc_def)

text \<open>The registers that the rings consist of, unchanged by interrupts and the idle flag.\<close>

lemma ring_reg_frame [simp]:
  assumes "0x100 \<le> a" "a \<le> 0x138"
  shows "get_reg (set_intr_status v s) a = get_reg s a" "get_reg (set_dma_idle b s) a = get_reg s a"
    "get_reg (dma_write n bs s) a = get_reg s a" "get_reg (store_ring_desc d r s) a = get_reg s a"
  using assms by (simp_all add: set_intr_status_def update_irq_def set_dma_idle_def reg_ops dma_write_def store_ring_desc_def)

lemma ring_size_ops [simp]:
  "get_tx_ring_size (set_intr_status v s) = get_tx_ring_size s" "get_tx_ring_size (set_dma_idle b s) = get_tx_ring_size s"
  "get_tx_ring_size (dma_write n bs s) = get_tx_ring_size s" "get_tx_ring_size (store_ring_desc d r s) = get_tx_ring_size s"
  "get_rx_ring_size (set_intr_status v s) = get_rx_ring_size s" "get_rx_ring_size (set_dma_idle b s) = get_rx_ring_size s"
  "get_rx_ring_size (dma_write n bs s) = get_rx_ring_size s" "get_rx_ring_size (store_ring_desc d r s) = get_rx_ring_size s"
  "get_rx_ring_size (s\<lparr>rx_dma_buf := f\<rparr>) = get_rx_ring_size s" "get_tx_ring_size (s\<lparr>tx_dma_buf := f\<rparr>) = get_tx_ring_size s"
  "get_tx_ring_size (s\<lparr>tx_dma_buf_offset := z\<rparr>) = get_tx_ring_size s" "get_tx_ring_size (send_packet bs s) = get_tx_ring_size s"
  by (simp_all add: get_tx_ring_size_def get_rx_ring_size_def)

definition rx_ready :: "NvNetState \<Rightarrow> u32 \<Rightarrow> bool" where
  "rx_ready s a \<longleftrightarrow> rx_enabled s \<and> dma_enabled s \<and> link_up s \<and> rd_flags (load_ring_desc s a) AND 0x8000 \<noteq> 0"

lemma can_receive_at:
  assumes "rx.at_slot b n k s"
  shows "fst (nvnet_can_receive s) = rx_ready s (slot_addr b k)" "snd (nvnet_can_receive s) = snd (update_current_rx_ring_desc_addr s)"
  using rx.fetch_at [OF assms] load_desc_frame [of "snd (update_current_rx_ring_desc_addr s)" s "slot_addr b k"]
  by (simp_all add: nvnet_can_receive_def rx_buf_available_def rx_ready_def split_beta Let_def)

lemma to_guest_delivers:
  assumes at: "rx.at_slot b n k s" and ready: "rx_ready s (slot_addr b k)"
    and d: "d = load_ring_desc s (slot_addr b k)" and room: "length bs \<le> unat (rd_length d) + 1"
  shows "\<exists>s'. dma_packet_to_guest bs s = Inr (int (length bs), s') \<and> rx.at_slot b n (Suc k mod n) s' \<and>
    nn_mem s' = nn_mem (store_ring_desc (slot_addr b k) (d\<lparr>rd_length := of_nat (length bs), rd_flags := 0x11\<rparr>)
      (dma_write (unat (rd_buffer_addr d)) bs s)) \<and>
    get_reg s' NVNET_IRQ_STATUS = get_reg s NVNET_IRQ_STATUS OR 2 \<and> nn_sent s' = nn_sent s"
proof -
  let ?s1 = "snd (update_current_rx_ring_desc_addr s)"
  let ?s2 = "set_dma_idle False ?s1"
  let ?s3 = "snd (update_current_rx_ring_desc_addr ?s2)"
  let ?d' = "d\<lparr>rd_length := of_nat (length bs), rd_flags := 0x0010 OR 0x0001\<rparr>"
  let ?s4 = "set_intr_status 2 (store_ring_desc (slot_addr b k) ?d' (dma_write (unat (rd_buffer_addr d)) bs ?s3))"
  let ?s5 = "set_dma_idle True (advance_next_rx_ring_desc_addr ?s4)"
  have at2: "rx.at_slot b n k ?s2" by (rule rx.refetch [OF rx.fetch_keeps [OF at]]) simp_all
  have f: "fst (update_current_rx_ring_desc_addr ?s2) = slot_addr b k" by (rule rx.fetch_at [OF at2])
  have ld: "load_ring_desc ?s3 (slot_addr b k) = d" unfolding d by (rule load_desc_frame) simp
  have fl: "rd_flags d AND 0x8000 \<noteq> 0" using ready by (simp add: rx_ready_def d)
  have run: "dma_packet_to_guest bs s = Inr (int (length bs), ?s5)"
    unfolding dma_packet_to_guest_def split_beta Let_def can_receive_at [OF at] f ld
    using ready fl room by (simp add: assert_res_def)
  have "rx.at_slot b n (Suc k mod n) (advance_next_rx_ring_desc_addr ?s4)"
    using rx.fetch_frame [of ?s2] by (intro rx.next_slot [OF at2]) simp_all
  then have "rx.at_slot b n (Suc k mod n) ?s5" by (rule rx.refetch) simp_all
  moreover have "nn_mem ?s5 = nn_mem (store_ring_desc (slot_addr b k) ?d' (dma_write (unat (rd_buffer_addr d)) bs s))"
    by (simp add: store_ring_desc_def dma_write_def cong: if_cong)
  moreover have "get_reg ?s5 NVNET_IRQ_STATUS = get_reg s NVNET_IRQ_STATUS OR 2"
    by (simp add: set_dma_idle_def set_intr_status_def update_irq_def reg_ops advance_next_rx_ring_desc_addr_def
        update_current_rx_ring_desc_addr_def store_ring_desc_def dma_write_def Let_def)
  moreover have "nn_sent ?s5 = nn_sent s" by simp
  ultimately show ?thesis using run by auto
qed

lemma receive_filter_regs: "nn_regs s = nn_regs s' \<Longrightarrow> receive_filter s bs = receive_filter s' bs"
  by (simp add: receive_filter_def reg_mac_def get_reg_def)

text \<open>
  C38.  An accepted packet is delivered.  With the receiver enabled, the link up, the next descriptor of a ring that lies inside
  the address space available and large enough, and a packet that passes the address filter, reception stores
  exactly the packet in the descriptor's buffer, marks the descriptor with the packet's length as filled, raises the receive
  interrupt, moves to the following slot of the ring, the first one after the last, and changes no other memory.
\<close>

theorem packet_delivered:
  assumes ring: "ring_fits (get_reg s NVNET_RX_RING_PHYS_ADDR) (unat (get_rx_ring_size s))" "k < unat (get_rx_ring_size s)"
      "get_reg s NVNET_RX_RING_NEXT_DESC_PHYS_ADDR = a"
    and a: "a = slot_addr (get_reg s NVNET_RX_RING_PHYS_ADDR) k" and d: "d = load_ring_desc s a" and ready: "rx_ready s a"
    and size: "length bs \<le> RX_ALLOC_BUFSIZE" "length bs \<le> unat (rd_length d) + 1" and filter: "receive_filter s bs"
    and apart: "apart (unat (rd_buffer_addr d)) (length bs) (unat a) 8"
  shows "\<exists>s'. nvnet_receive bs s = Inr (int (length bs), s') \<and> dma_read s' (unat (rd_buffer_addr d)) (length bs) = bs \<and>
    load_ring_desc s' a = d\<lparr>rd_length := of_nat (length bs), rd_flags := 0x11\<rparr> \<and>
    get_reg s' NVNET_RX_RING_NEXT_DESC_PHYS_ADDR =
      slot_addr (get_reg s NVNET_RX_RING_PHYS_ADDR) (Suc k mod unat (get_rx_ring_size s)) \<and>
    get_reg s' NVNET_IRQ_STATUS = get_reg s NVNET_IRQ_STATUS OR 2 \<and> nn_sent s' = nn_sent s \<and>
    (\<forall>i. apart i 1 (unat a) 8 \<and> apart i 1 (unat (rd_buffer_addr d)) (length bs) \<longrightarrow> nn_mem s' i = nn_mem s i)"
proof -
  let ?b = "get_reg s NVNET_RX_RING_PHYS_ADDR" and ?n = "unat (get_rx_ring_size s)"
  let ?s = "s\<lparr>rx_dma_buf := \<lambda>i. if i < length bs then bs ! i else rx_dma_buf s i\<rparr>"
  let ?d = "d\<lparr>rd_length := of_nat (length bs), rd_flags := 0x11\<rparr>"
  have at: "rx.at_slot ?b ?n k ?s"
    using ring a by (simp add: rx.at_slot_def)
  have copy: "map (rx_dma_buf ?s) [0..<length bs] = bs" by (rule nth_equalityI) simp_all
  have ready': "rx_ready ?s (slot_addr ?b k)" "load_ring_desc ?s (slot_addr ?b k) = d"
    using ready by (simp_all add: rx_ready_def rx_enabled_def dma_enabled_def link_up_def load_ring_desc_def a d)
  have "receive_filter ?s bs" using filter receive_filter_regs [of ?s s bs] by simp
  then have "nvnet_receive bs s = dma_packet_to_guest bs ?s"
    using size(1) unfolding nvnet_receive_def nvnet_receive_iov_def Let_def concat.simps append_Nil2 copy
    by (simp add: is_packet_oversized_def)
  moreover obtain s' where s': "dma_packet_to_guest bs ?s = Inr (int (length bs), s')" "rx.at_slot ?b ?n (Suc k mod ?n) s'"
    "nn_mem s' = nn_mem (store_ring_desc a ?d (dma_write (unat (rd_buffer_addr d)) bs ?s))"
    "get_reg s' NVNET_IRQ_STATUS = get_reg ?s NVNET_IRQ_STATUS OR 2" "nn_sent s' = nn_sent ?s"
    using to_guest_delivers [OF at ready'(1) ready'(2) [symmetric] size(2)] a by auto
  have "dma_read s' (unat (rd_buffer_addr d)) (length bs) = dma_read (dma_write (unat (rd_buffer_addr d)) bs ?s) (unat (rd_buffer_addr d)) (length bs)"
    using apart unfolding apart_def s'(3) dma_read_def by (auto intro!: store_desc_mem)
  moreover have "load_ring_desc s' a = ?d"
    using load_desc_frame [OF s'(3)] by simp
  moreover have "nn_mem s' i = nn_mem s i" if "apart i 1 (unat a) 8" "apart i 1 (unat (rd_buffer_addr d)) (length bs)" for i
    using that unfolding s'(3) apart_def by (subst store_desc_mem) (auto simp: dma_write_mem)
  ultimately show ?thesis using s' by (auto simp: rx.at_slot_def dma_read_write)
qed

text \<open>A ring of one slot whose buffer takes up to 16 bytes.\<close>

definition rx_demo :: NvNetState where
  "rx_demo = set_reg NVNET_RX_RING_PHYS_ADDR 0x1000 (set_reg NVNET_RX_RING_NEXT_DESC_PHYS_ADDR 0x1000 (set_reg NVNET_RECEIVER_CONTROL 1
    (store_ring_desc 0x1000 \<lparr>rd_buffer_addr = 0x2000, rd_length = 15, rd_flags = 0x8000\<rparr> (nvnet_blank\<lparr>phy_regs := \<lambda>_. 4\<rparr>))))"

lemma rx_demo_facts:
  "get_reg rx_demo NVNET_RX_RING_PHYS_ADDR = 0x1000" "get_reg rx_demo NVNET_RX_RING_NEXT_DESC_PHYS_ADDR = 0x1000"
  "get_rx_ring_size rx_demo = 1" "load_ring_desc rx_demo 0x1000 = \<lparr>rd_buffer_addr = 0x2000, rd_length = 15, rd_flags = 0x8000\<rparr>"
  "rx_ready rx_demo 0x1000" "get_reg rx_demo NVNET_PACKET_FILTER = 0"
proof -
  have z: "get_reg rx_demo a = 0" if "a \<in> {NVNET_RING_SIZE, NVNET_PACKET_FILTER, NVNET_TX_RX_CONTROL}" for a
    using that by (auto simp: rx_demo_def nvnet_blank_def get_reg_def le_read32_def set_reg_def le_write32_def store_ring_desc_def)
  show "get_rx_ring_size rx_demo = 1" "get_reg rx_demo NVNET_PACKET_FILTER = 0" by (simp_all add: get_rx_ring_size_def z GET_MASK_def)
  show ld: "load_ring_desc rx_demo 0x1000 = \<lparr>rd_buffer_addr = 0x2000, rd_length = 15, rd_flags = 0x8000\<rparr>"
    unfolding rx_demo_def by (subst load_desc_frame [OF set_reg_frame(6)])+ (rule load_store_desc)
  show "rx_ready rx_demo 0x1000"
    unfolding rx_ready_def ld by (simp add: dma_enabled_def z) (simp add: rx_enabled_def link_up_def rx_demo_def nvnet_blank_def store_ring_desc_def)
qed (simp_all add: rx_demo_def)

theorem packet_delivered_witness:
  "\<exists>s'. nvnet_receive [1, 2, 3, 4, 5, 6, 7, 8] rx_demo = Inr (8, s') \<and> dma_read s' 0x2000 8 = [1, 2, 3, 4, 5, 6, 7, 8] \<and>
    load_ring_desc s' 0x1000 = \<lparr>rd_buffer_addr = 0x2000, rd_length = 8, rd_flags = 0x11\<rparr>"
proof -
  let ?bs = "[1, 2, 3, 4, 5, 6, 7, 8] :: u8 list"
  have slot: "(0x1000 :: u32) = slot_addr (get_reg rx_demo NVNET_RX_RING_PHYS_ADDR) 0" by (simp add: slot_addr_def rx_demo_facts)
  have f: "receive_filter rx_demo ?bs" by (simp add: receive_filter_def is_broadcast_ether_addr_def rx_demo_facts)
  have len: "length ?bs = 8" by simp
  let ?d = "\<lparr>rd_buffer_addr = 0x2000, rd_length = 15, rd_flags = 0x8000\<rparr> :: RingDesc"
  obtain s' where "nvnet_receive ?bs rx_demo = Inr (int (length ?bs), s')" "dma_read s' (unat (rd_buffer_addr ?d)) (length ?bs) = ?bs"
    "load_ring_desc s' 0x1000 = ?d\<lparr>rd_length := of_nat (length ?bs), rd_flags := 0x11\<rparr>"
    using packet_delivered [OF _ _ rx_demo_facts(2) slot rx_demo_facts(4) [symmetric] rx_demo_facts(5) _ _ f]
    by (auto simp: rx_demo_facts ring_fits_def apart_def)
  then show ?thesis unfolding len by auto
qed

section \<open>Transmission\<close>

definition frag_len :: "RingDesc \<Rightarrow> nat" where
  "frag_len d = unat (rd_length d + 1)"

definition fragment :: "NvNetState \<Rightarrow> RingDesc \<Rightarrow> u8 list" where
  "fragment s d = dma_read s (unat (rd_buffer_addr d)) (frag_len d)"

definition released :: "RingDesc \<Rightarrow> RingDesc" where
  "released d = d\<lparr>rd_flags := rd_flags d AND NOT (0x8000 OR 0x0008 OR 0x0400 OR 0x0800 OR 0x1000 OR 0x2000 OR 0x4000)\<rparr>"

text \<open>The bytes gathered so far.\<close>

definition gathered :: "NvNetState \<Rightarrow> u8 list" where
  "gathered s = map (tx_dma_buf s) [0..<unat (tx_dma_buf_offset s)]"

lemma tx_round_at:
  assumes at: "tx.at_slot b n k s" and d: "load_ring_desc s (slot_addr b k) = d"
    and valid: "rd_flags d AND 0x8000 \<noteq> 0" and room: "length (gathered s) + frag_len d \<le> TX_ALLOC_BUFSIZE"
  shows "\<exists>s'. tx_round s = Inr (rd_flags d AND 1 = 0, rd_flags d AND 1 \<noteq> 0, s') \<and> tx.at_slot b n (Suc k mod n) s' \<and>
    nn_mem s' = nn_mem (store_ring_desc (slot_addr b k) (released d) s) \<and>
    (if rd_flags d AND 1 = 0 then gathered s' = gathered s @ fragment s d \<and> nn_sent s' = nn_sent s
     else gathered s' = [] \<and> nn_sent s' = nn_sent s @ [gathered s @ fragment s d])"
proof -
  let ?s1 = "snd (update_current_tx_ring_desc_addr s)"
  let ?off = "unat (tx_dma_buf_offset s)"
  let ?bs = "fragment s d"
  have f: "fst (update_current_tx_ring_desc_addr s) = slot_addr b k" by (rule tx.fetch_at [OF at])
  have ld: "load_ring_desc ?s1 (slot_addr b k) = d" unfolding d [symmetric] by (rule load_desc_frame) simp
  have off: "unat (tx_dma_buf_offset s + ucast (rd_length d + 1)) = ?off + frag_len d"
    using room by (simp add: gathered_def frag_len_def unat_word_ariths(1) unsigned_ucast_eq take_bit_eq_mod)
  have bs: "dma_read ?s1 (unat (rd_buffer_addr d)) (unat (rd_length d + 1)) = ?bs" by (simp add: fragment_def frag_len_def dma_read_def)
  let ?s2 = "?s1\<lparr>tx_dma_buf := \<lambda>i. if ?off \<le> i \<and> i < ?off + frag_len d then ?bs ! (i - ?off) else tx_dma_buf ?s1 i,
               tx_dma_buf_offset := tx_dma_buf_offset s + ucast (rd_length d + 1)\<rparr>"
  have len: "length ?bs = frag_len d" by (simp add: fragment_def dma_read_def)
  have g2: "map (tx_dma_buf ?s2) [0..<?off + frag_len d] = gathered s @ ?bs"
    by (rule nth_equalityI) (auto simp: gathered_def nth_append len update_current_tx_ring_desc_addr_def Let_def)
  define s3 where "s3 = (if rd_flags d AND 1 \<noteq> 0
    then (send_packet (map (tx_dma_buf ?s2) [0..<unat (tx_dma_buf_offset ?s2)]) ?s2)\<lparr>tx_dma_buf_offset := 0\<rparr> else ?s2)"
  define s4 where "s4 = store_ring_desc (slot_addr b k) (released d) s3"
  have run: "tx_round s = Inr (\<not> rd_flags d AND 1 \<noteq> 0, rd_flags d AND 1 \<noteq> 0, advance_next_tx_ring_desc_addr s4)"
    unfolding tx_round_def split_beta Let_def f ld bs offset_frame using valid room off
    by (simp add: assert_res_def s4_def s3_def released_def frag_len_def gathered_def)
  have regs: "get_reg s4 a = get_reg ?s1 a" "get_tx_ring_size s4 = get_tx_ring_size ?s1" for a
    by (simp_all add: s4_def s3_def)
  have "tx.at_slot b n (Suc k mod n) (advance_next_tx_ring_desc_addr s4)"
    using tx.fetch_frame [of s] by (intro tx.next_slot [OF at]) (simp_all add: regs)
  moreover have "nn_mem (advance_next_tx_ring_desc_addr s4) = nn_mem (store_ring_desc (slot_addr b k) (released d) s)"
    by (simp add: s4_def s3_def store_ring_desc_def send_packet_def)
  moreover have "tx_dma_buf (advance_next_tx_ring_desc_addr s4) = tx_dma_buf s3" "nn_sent (advance_next_tx_ring_desc_addr s4) = nn_sent s3"
    "tx_dma_buf_offset (advance_next_tx_ring_desc_addr s4) = tx_dma_buf_offset s3"
    by (simp_all add: advance_next_tx_ring_desc_addr_def s4_def store_ring_desc_def Let_def)
  then have "if rd_flags d AND 1 = 0 then gathered (advance_next_tx_ring_desc_addr s4) = gathered s @ ?bs \<and>
        nn_sent (advance_next_tx_ring_desc_addr s4) = nn_sent s
     else gathered (advance_next_tx_ring_desc_addr s4) = [] \<and> nn_sent (advance_next_tx_ring_desc_addr s4) = nn_sent s @ [gathered s @ ?bs]"
    using off g2 by (simp add: gathered_def s3_def send_packet_def)
  ultimately show ?thesis using run by auto
qed

lemma store_slot_outside:
  assumes "ring_fits b n" "k < n" "apart i 1 (unat b) (8 * n)"
  shows "nn_mem (store_ring_desc (slot_addr b k) d s) i = nn_mem s i"
  using assms unat_slot [OF assms(1), of k] by (intro store_desc_mem) (auto simp: apart_def)

lemma load_other_slot:
  assumes "ring_fits b n" "k < n" "k' < n" "k \<noteq> k'"
  shows "load_ring_desc (store_ring_desc (slot_addr b k) d s) (slot_addr b k') = load_ring_desc s (slot_addr b k')"
  using assms(4) unat_slot [OF assms(1), of k] unat_slot [OF assms(1), of k'] assms(2,3)
  by (intro load_desc_cong store_desc_mem) linarith

lemma fragment_frame:
  assumes "\<And>i. apart i 1 (unat b) (8 * n) \<Longrightarrow> nn_mem s' i = nn_mem s i" "apart (unat (rd_buffer_addr d)) (frag_len d) (unat b) (8 * n)"
  shows "fragment s' d = fragment s d"
  unfolding fragment_def by (rule dma_read_cong) (use assms in \<open>auto simp: apart_def\<close>)

lemma later_slot:
  assumes "k < n" and "0 < j" "j < n"
  shows "(k + j) mod n \<noteq> (k :: nat)"
proof (cases "k + j < n")
  case False
  then have "(k + j) mod n = k + j - n" using assms by (simp add: mod_if)
  then show ?thesis using assms False by linarith
qed (use assms in simp)

text \<open>A chain of descriptors in consecutive slots of the ring, the last one and only that marked as the end of a frame.\<close>

definition tx_chain :: "u32 \<Rightarrow> nat \<Rightarrow> nat \<Rightarrow> RingDesc list \<Rightarrow> NvNetState \<Rightarrow> bool" where
  "tx_chain b n k ds s \<longleftrightarrow> ds \<noteq> [] \<and>
    (\<forall>j < length ds. load_ring_desc s (slot_addr b ((k + j) mod n)) = ds ! j \<and> rd_flags (ds ! j) AND 0x8000 \<noteq> 0 \<and>
      (rd_flags (ds ! j) AND 1 \<noteq> 0 \<longleftrightarrow> Suc j = length ds) \<and>
      apart (unat (rd_buffer_addr (ds ! j))) (frag_len (ds ! j)) (unat b) (8 * n))"

lemma tx_chain_tail:
  assumes chain: "tx_chain b n k (d # ds) s" and ds: "ds \<noteq> []" "length (d # ds) \<le> n" and k: "k < n"
    and keep: "\<And>k'. k' < n \<Longrightarrow> k' \<noteq> k \<Longrightarrow> load_ring_desc s' (slot_addr b k') = load_ring_desc s (slot_addr b k')"
  shows "tx_chain b n (Suc k mod n) ds s'"
  unfolding tx_chain_def
proof (intro conjI allI impI)
  fix j assume j: "j < length ds"
  have slot: "(Suc k mod n + j) mod n = (k + Suc j) mod n" by (simp add: mod_simps)
  have "(k + Suc j) mod n \<noteq> k" by (rule later_slot [OF k]) (use j ds(2) in simp_all)
  moreover have "(k + Suc j) mod n < n" using k by (intro mod_less_divisor) simp
  ultimately have kept: "load_ring_desc s' (slot_addr b ((k + Suc j) mod n)) = load_ring_desc s (slot_addr b ((k + Suc j) mod n))"
    by (intro keep)
  have c: "load_ring_desc s (slot_addr b ((k + Suc j) mod n)) = ds ! j \<and> rd_flags (ds ! j) AND 0x8000 \<noteq> 0 \<and>
      (rd_flags (ds ! j) AND 1 \<noteq> 0 \<longleftrightarrow> Suc (Suc j) = length (d # ds)) \<and>
      apart (unat (rd_buffer_addr (ds ! j))) (frag_len (ds ! j)) (unat b) (8 * n)"
    using chain [unfolded tx_chain_def, THEN conjunct2, THEN spec [of _ "Suc j"]] j by simp
  show "load_ring_desc s' (slot_addr b ((Suc k mod n + j) mod n)) = ds ! j" unfolding slot kept using c by simp
  show "rd_flags (ds ! j) AND 0x8000 \<noteq> 0" "(rd_flags (ds ! j) AND 1 \<noteq> 0) = (Suc j = length ds)"
    "apart (unat (rd_buffer_addr (ds ! j))) (frag_len (ds ! j)) (unat b) (8 * n)" using c by simp_all
qed (rule ds(1))

lemma tx_loop_chain:
  assumes "tx.at_slot b n k s" and "tx_chain b n k ds s" and "i + length ds \<le> n"
    and "length (gathered s) + sum_list (map frag_len ds) \<le> TX_ALLOC_BUFSIZE"
  shows "\<exists>s'. tx_loop i s = Inr (True, s') \<and> tx.at_slot b n ((k + length ds) mod n) s' \<and> gathered s' = [] \<and>
    nn_sent s' = nn_sent s @ [gathered s @ concat (map (fragment s) ds)] \<and>
    (\<forall>j < length ds. load_ring_desc s' (slot_addr b ((k + j) mod n)) = released (ds ! j)) \<and>
    (\<forall>k' < n. (\<forall>j < length ds. k' \<noteq> (k + j) mod n) \<longrightarrow> load_ring_desc s' (slot_addr b k') = load_ring_desc s (slot_addr b k')) \<and>
    (\<forall>a. apart a 1 (unat b) (8 * n) \<longrightarrow> nn_mem s' a = nn_mem s a)"
  using assms
proof (induction ds arbitrary: i k s)
  case Nil
  then show ?case by (simp add: tx_chain_def)
next
  case (Cons d ds)
  have fit: "ring_fits b n" and k: "k < n" and cnt: "unat (get_tx_ring_size s) = n"
    using Cons.prems(1) by (simp_all add: tx.at_slot_def)
  have d: "load_ring_desc s (slot_addr b k) = d" "rd_flags d AND 0x8000 \<noteq> 0" "rd_flags d AND 1 \<noteq> 0 \<longleftrightarrow> ds = []"
    using Cons.prems(2) k by (auto simp: tx_chain_def dest!: spec [of _ 0])
  obtain s1 where s1: "tx_round s = Inr (rd_flags d AND 1 = 0, rd_flags d AND 1 \<noteq> 0, s1)" "tx.at_slot b n (Suc k mod n) s1"
    "nn_mem s1 = nn_mem (store_ring_desc (slot_addr b k) (released d) s)"
    "if rd_flags d AND 1 = 0 then gathered s1 = gathered s @ fragment s d \<and> nn_sent s1 = nn_sent s
     else gathered s1 = [] \<and> nn_sent s1 = nn_sent s @ [gathered s @ fragment s d]"
    using tx_round_at [OF Cons.prems(1) d(1,2)] Cons.prems(4) by auto
  have own: "load_ring_desc s1 (slot_addr b k) = released d" using load_desc_frame [OF s1(3)] by simp
  have others: "load_ring_desc s1 (slot_addr b k') = load_ring_desc s (slot_addr b k')" if "k' < n" "k' \<noteq> k" for k'
    using load_desc_frame [OF s1(3)] load_other_slot [OF fit k that(1)] that(2) by metis
  have outside: "nn_mem s1 a = nn_mem s a" if "apart a 1 (unat b) (8 * n)" for a
    unfolding s1(3) by (rule store_slot_outside [OF fit k that])
  have loop: "tx_loop i s = (if ds = [] then Inr (True, s1) else tx_loop (i + 1) s1)"
    using Cons.prems(3) cnt d(3) by (subst tx_loop.simps) (auto simp: s1(1))
  show ?case
  proof (cases "ds = []")
    case True
    then show ?thesis using loop s1(2,4) d(3) own others outside k by simp
  next
    case False
    have g: "gathered s1 = gathered s @ fragment s d" "nn_sent s1 = nn_sent s" using s1(4) d(3) False by simp_all
    have chain: "tx_chain b n (Suc k mod n) ds s1"
      by (rule tx_chain_tail [OF Cons.prems(2) False _ k others]) (use Cons.prems(3) in simp)
    have "length (gathered s1) = length (gathered s) + frag_len d" by (simp add: g(1) fragment_def dma_read_def)
    then obtain s' where s': "tx_loop (i + 1) s1 = Inr (True, s')" "tx.at_slot b n ((Suc k mod n + length ds) mod n) s'" "gathered s' = []"
      "nn_sent s' = nn_sent s1 @ [gathered s1 @ concat (map (fragment s1) ds)]"
      "\<forall>j < length ds. load_ring_desc s' (slot_addr b ((Suc k mod n + j) mod n)) = released (ds ! j)"
      "\<forall>k' < n. (\<forall>j < length ds. k' \<noteq> (Suc k mod n + j) mod n) \<longrightarrow> load_ring_desc s' (slot_addr b k') = load_ring_desc s1 (slot_addr b k')"
      "\<forall>a. apart a 1 (unat b) (8 * n) \<longrightarrow> nn_mem s' a = nn_mem s1 a"
      using Cons.IH [OF s1(2) chain, of "i + 1"] Cons.prems(3,4) by auto
    have slot: "(Suc k mod n + j) mod n = (k + Suc j) mod n" for j by (simp add: mod_simps)
    have frags: "map (fragment s1) ds = map (fragment s) ds"
    proof (rule map_cong [OF refl])
      fix e assume "e \<in> set ds"
      then obtain j where j: "j < length ds" "e = ds ! j" by (auto simp: in_set_conv_nth)
      have "apart (unat (rd_buffer_addr e)) (frag_len e) (unat b) (8 * n)" using chain j by (simp add: tx_chain_def)
      with outside show "fragment s1 e = fragment s e" by (rule fragment_frame)
    qed
    have kept: "load_ring_desc s' (slot_addr b k) = load_ring_desc s1 (slot_addr b k)"
    proof -
      have "k \<noteq> (Suc k mod n + j) mod n" if "j < length ds" for j
        using later_slot [OF k, of "Suc j"] that Cons.prems(3) unfolding slot by simp
      then show ?thesis using s'(6) k by blast
    qed
    have "load_ring_desc s' (slot_addr b ((k + j) mod n)) = released ((d # ds) ! j)" if "j < length (d # ds)" for j
      using that s'(5) kept own k slot by (cases j) auto
    moreover have "load_ring_desc s' (slot_addr b k') = load_ring_desc s (slot_addr b k')"
      if "k' < n" "\<forall>j < length (d # ds). k' \<noteq> (k + j) mod n" for k'
    proof -
      have ne: "k' \<noteq> k" using that(2) k by (auto dest!: spec [of _ 0])
      have "\<forall>j < length ds. k' \<noteq> (Suc k mod n + j) mod n" using that(2) slot by (metis Suc_less_eq length_Cons)
      then show ?thesis using s'(6) that(1) others [OF that(1) ne] by simp
    qed
    ultimately show ?thesis
      using loop False s' g frags slot [of "length ds"] outside by simp
  qed
qed

lemma tx_state_cong:
  assumes "nn_mem s' = nn_mem s" "tx_dma_buf s' = tx_dma_buf s" "tx_dma_buf_offset s' = tx_dma_buf_offset s"
  shows "tx_chain b n k ds s' = tx_chain b n k ds s" "gathered s' = gathered s" "fragment s' = fragment s"
  using assms load_desc_frame [OF assms(1)] by (simp_all add: tx_chain_def gathered_def fragment_def [abs_def] dma_read_def)

lemma or_16: "(x OR 0x10) AND 0x10 \<noteq> (0 :: u32)"
proof
  assume "(x OR 0x10) AND 0x10 = (0 :: u32)"
  then have "bit ((x OR 0x10) AND 0x10) 4 = bit (0 :: u32) 4" by simp
  then show False by (simp add: bit_simps)
qed

text \<open>
  C39.  A kick transmits the frame at the head of the ring.  With the transmitter enabled and the link up, and a chain
  of valid descriptors from the next slot on, in a ring that lies inside the address space, of which the last and only the
  last ends a frame and whose lengths fit the buffer, writing the kick bit sends exactly one frame, the
  bytes gathered before followed by the fragments in ring order.  The descriptors of the chain are released, those of the other
  slots and all memory outside the ring are unchanged, the next slot is the one after the chain, around the end of the
  ring, nothing stays gathered, and the transmit interrupt is pending.
\<close>

theorem frame_transmitted:
  assumes ring: "ring_fits b n" "b = get_reg s NVNET_TX_RING_PHYS_ADDR" "n = unat (get_tx_ring_size s)" "k < n"
      "get_reg s NVNET_TX_RING_NEXT_DESC_PHYS_ADDR = slot_addr b k"
    and on: "tx_enabled s" "link_up s" and chain: "tx_chain b n k ds s" "length ds \<le> n"
    and fits: "length (gathered s) + sum_list (map frag_len ds) \<le> TX_ALLOC_BUFSIZE"
  shows "\<exists>s'. nvnet_step (Mmio_write NVNET_TX_RX_CONTROL 1 4) s = Inr s' \<and>
    nn_sent s' = nn_sent s @ [gathered s @ concat (map (fragment s) ds)] \<and> gathered s' = [] \<and>
    (\<forall>j < length ds. load_ring_desc s' (slot_addr b ((k + j) mod n)) = released (ds ! j)) \<and>
    (\<forall>k' < n. (\<forall>j < length ds. k' \<noteq> (k + j) mod n) \<longrightarrow> load_ring_desc s' (slot_addr b k') = load_ring_desc s (slot_addr b k')) \<and>
    (\<forall>a. apart a 1 (unat b) (8 * n) \<longrightarrow> nn_mem s' a = nn_mem s a) \<and>
    get_reg s' NVNET_TX_RING_NEXT_DESC_PHYS_ADDR = slot_addr b ((k + length ds) mod n) \<and>
    get_reg s' NVNET_IRQ_STATUS AND 0x10 \<noteq> 0"
proof -
  let ?s0 = "set_reg_with_mask NVNET_TX_RX_CONTROL 1 (NOT 8) s"
  let ?s1 = "set_dma_idle False ?s0"
  have "(get_reg s NVNET_TX_RX_CONTROL AND (1 OR NOT (NOT 8)) OR 1 AND NOT 8) AND 4 = 0"
    by (simp add: word_ao_dist and.assoc)
  then have "can_transmit ?s0"
    using on unfolding can_transmit_def tx_enabled_def dma_enabled_def link_up_def set_reg_with_mask_def get_set_reg(1) by simp
  moreover have "tx.at_slot b n k s"
    unfolding tx.at_slot_def using ring(1,4,5) ring(2,3) [symmetric] by blast
  then have "tx.at_slot b n k ?s1" by (rule tx.refetch) (simp_all add: set_reg_with_mask_def)
  moreover have cong: "tx_chain b n k ds ?s1 = tx_chain b n k ds s" "gathered ?s1 = gathered s" "fragment ?s1 = fragment s"
    by (rule tx_state_cong; simp add: set_dma_idle_def reg_ops)+
  ultimately obtain s' where run: "dma_packet_from_guest ?s0 = Inr (set_intr_status 0x10 (set_dma_idle True s'))"
    and s': "tx.at_slot b n ((k + length ds) mod n) s'" "gathered s' = []"
      "nn_sent s' = nn_sent ?s1 @ [gathered s @ concat (map (fragment s) ds)]"
      "\<forall>j < length ds. load_ring_desc s' (slot_addr b ((k + j) mod n)) = released (ds ! j)"
      "\<forall>k' < n. (\<forall>j < length ds. k' \<noteq> (k + j) mod n) \<longrightarrow> load_ring_desc s' (slot_addr b k') = load_ring_desc ?s1 (slot_addr b k')"
      "\<forall>a. apart a 1 (unat b) (8 * n) \<longrightarrow> nn_mem s' a = nn_mem ?s1 a"
    using tx_loop_chain [of b n k ?s1 ds 0] chain fits unfolding dma_packet_from_guest_def by auto
  let ?s2 = "set_intr_status 0x10 (set_dma_idle True s')"
  have step: "nvnet_step (Mmio_write NVNET_TX_RX_CONTROL 1 4) s = Inr ?s2"
    using run by (simp add: nvnet_step_def nvnet_mmio_write_def nat_and_3 tx_rx_control_write_def)
  have ld: "load_ring_desc ?s2 a = load_ring_desc s' a" "load_ring_desc ?s1 a = load_ring_desc s a" for a
    by (rule load_desc_frame; simp add: set_reg_with_mask_def)+
  have "gathered ?s2 = gathered s'"
    by (rule tx_state_cong; simp add: set_dma_idle_def set_intr_status_def update_irq_def reg_ops)
  moreover have "get_reg ?s2 NVNET_IRQ_STATUS AND 0x10 \<noteq> 0"
    by (simp add: set_intr_status_def update_irq_def or_reg_def or_16)
  moreover have "nn_sent ?s1 = nn_sent s" "nn_mem ?s1 = nn_mem s" by (simp_all add: set_reg_with_mask_def)
  ultimately show ?thesis
    using step s'(1-4,6) s'(5) [unfolded ld] by (intro exI [of _ ?s2]) (simp add: ld tx.at_slot_def)
qed

text \<open>Two descriptors for a frame of three bytes, in a ring of two slots at \<open>0x1000\<close>.\<close>

definition tx_demo_descs :: "RingDesc list" where
  "tx_demo_descs = [\<lparr>rd_buffer_addr = 0x2000, rd_length = 1, rd_flags = 0x8000\<rparr>, \<lparr>rd_buffer_addr = 0x2002, rd_length = 0, rd_flags = 0x8001\<rparr>]"

definition tx_demo :: NvNetState where
  "tx_demo = set_reg NVNET_TX_RING_PHYS_ADDR 0x1000 (set_reg NVNET_TX_RING_NEXT_DESC_PHYS_ADDR 0x1000 (set_reg NVNET_RING_SIZE 1
    (set_reg NVNET_TRANSMITTER_CONTROL 1 (store_ring_desc 0x1000 (tx_demo_descs ! 0) (store_ring_desc 0x1008 (tx_demo_descs ! 1)
      (dma_write 0x2000 [1, 2, 3] (nvnet_blank\<lparr>phy_regs := \<lambda>_. 4\<rparr>)))))))"

lemma tx_demo_ring:
  "get_reg tx_demo NVNET_TX_RING_PHYS_ADDR = 0x1000" "get_tx_ring_size tx_demo = 2"
  "get_reg tx_demo NVNET_TX_RING_NEXT_DESC_PHYS_ADDR = 0x1000" "tx_enabled tx_demo" "link_up tx_demo" "gathered tx_demo = []"
  "nn_sent tx_demo = []" "slot_addr 0x1000 0 = 0x1000" "slot_addr 0x1000 1 = 0x1008"
proof -
  have "ctz32 0xFFFF = 0" by code_simp
  then show "get_tx_ring_size tx_demo = 2" by (simp add: get_tx_ring_size_def tx_demo_def GET_MASK_def)
qed (simp_all add: tx_demo_def tx_enabled_def link_up_def gathered_def nvnet_blank_def dma_write_def store_ring_desc_def slot_addr_def)

lemma tx_demo_memory:
  "load_ring_desc tx_demo 0x1000 = tx_demo_descs ! 0" "load_ring_desc tx_demo 0x1008 = tx_demo_descs ! 1"
  "map (fragment tx_demo) tx_demo_descs = [[1, 2], [3]]"
proof -
  let ?m = "store_ring_desc 0x1000 (tx_demo_descs ! 0) (store_ring_desc 0x1008 (tx_demo_descs ! 1)
      (dma_write 0x2000 [1, 2, 3] (nvnet_blank\<lparr>phy_regs := \<lambda>_. 4\<rparr>)))"
  have m: "nn_mem tx_demo = nn_mem ?m" by (simp add: tx_demo_def)
  show "load_ring_desc tx_demo 0x1000 = tx_demo_descs ! 0" using load_desc_frame [OF m] by simp
  show "load_ring_desc tx_demo 0x1008 = tx_demo_descs ! 1"
    unfolding load_desc_frame [OF m] by (subst load_desc_cong [OF store_desc_mem]) auto
  show "map (fragment tx_demo) tx_demo_descs = [[1, 2], [3]]"
    by (simp add: fragment_def dma_read_def m store_desc_mem dma_write_mem tx_demo_descs_def frag_len_def upt_rec)
qed

theorem frame_transmitted_witness:
  "\<exists>s'. nvnet_step (Mmio_write NVNET_TX_RX_CONTROL 1 4) tx_demo = Inr s' \<and> nn_sent s' = [[1, 2, 3]] \<and>
    load_ring_desc s' 0x1008 = \<lparr>rd_buffer_addr = 0x2002, rd_length = 0, rd_flags = 1\<rparr> \<and>
    get_reg s' NVNET_TX_RING_NEXT_DESC_PHYS_ADDR = 0x1000"
proof -
  have chain: "tx_chain 0x1000 2 0 tx_demo_descs tx_demo"
    using tx_demo_memory(1,2) tx_demo_ring(8,9) by (simp add: tx_chain_def tx_demo_descs_def All_less_Suc apart_def frag_len_def)
  have "\<exists>s'. nvnet_step (Mmio_write NVNET_TX_RX_CONTROL 1 4) tx_demo = Inr s' \<and>
    nn_sent s' = nn_sent tx_demo @ [gathered tx_demo @ concat (map (fragment tx_demo) tx_demo_descs)] \<and> gathered s' = [] \<and>
    (\<forall>j < length tx_demo_descs. load_ring_desc s' (slot_addr 0x1000 ((0 + j) mod 2)) = released (tx_demo_descs ! j)) \<and>
    (\<forall>k' < 2. (\<forall>j < length tx_demo_descs. k' \<noteq> (0 + j) mod 2) \<longrightarrow> load_ring_desc s' (slot_addr 0x1000 k') = load_ring_desc tx_demo (slot_addr 0x1000 k')) \<and>
    (\<forall>a. apart a 1 (unat (0x1000 :: u32)) (8 * 2) \<longrightarrow> nn_mem s' a = nn_mem tx_demo a) \<and>
    get_reg s' NVNET_TX_RING_NEXT_DESC_PHYS_ADDR = slot_addr 0x1000 ((0 + length tx_demo_descs) mod 2) \<and>
    get_reg s' NVNET_IRQ_STATUS AND 0x10 \<noteq> 0"
    by (rule frame_transmitted [OF _ _ _ _ _ _ _ chain])
      (simp_all add: tx_demo_ring ring_fits_def tx_demo_descs_def frag_len_def)
  then obtain s' where s': "nvnet_step (Mmio_write NVNET_TX_RX_CONTROL 1 4) tx_demo = Inr s'"
    "nn_sent s' = nn_sent tx_demo @ [gathered tx_demo @ concat (map (fragment tx_demo) tx_demo_descs)]"
    "\<forall>j < length tx_demo_descs. load_ring_desc s' (slot_addr 0x1000 ((0 + j) mod 2)) = released (tx_demo_descs ! j)"
    "get_reg s' NVNET_TX_RING_NEXT_DESC_PHYS_ADDR = slot_addr 0x1000 ((0 + length tx_demo_descs) mod 2)" by blast
  have "load_ring_desc s' 0x1008 = released (tx_demo_descs ! 1)"
    using s'(3) [THEN spec, of 1] tx_demo_ring(9) by (simp add: tx_demo_descs_def)
  then show ?thesis
    using s' by (intro exI [of _ s']) (simp add: tx_demo_ring tx_demo_memory released_def, simp add: tx_demo_descs_def tx_demo_ring)
qed

end
