(* ===== verification/Crypto.thy ===== *)
theory Crypto
  imports Registers
begin

text \<open>
  The hash \<open>util/sha1.c\<close> and the cipher \<open>util/rc4.c\<close>.  The context of the hash keeps a block buffer
  that is filled byte by byte; the reference hash pads the whole message and folds the compression function over its
  blocks.  Where the code passes a pointer into the context itself, the data is read through the context.
\<close>

section \<open>SHA-1\<close>

record SHA1Context =
  sha_intermediate :: "nat \<Rightarrow> u32"
  sha_msg_blk :: "nat \<Rightarrow> u8"
  sha_msg_blk_index :: u32
  sha_length :: u32
  sha_computed :: bool

definition sha1_rotate :: "nat \<Rightarrow> u32 \<Rightarrow> u32" where
  "sha1_rotate bits val = push_bit bits val OR drop_bit (32 - bits) val"

definition sha1_fill :: "u32 \<Rightarrow> u32 \<Rightarrow> u32 \<Rightarrow> u32 \<Rightarrow> u32 \<Rightarrow> SHA1Context \<Rightarrow> SHA1Context" where
  "sha1_fill a b c d e ctx = ctx\<lparr>sha_intermediate := (sha_intermediate ctx)(0 := a, 1 := b, 2 := c, 3 := d, 4 := e)\<rparr>"

definition be32 :: "(nat \<Rightarrow> u8) \<Rightarrow> nat \<Rightarrow> u32" where
  "be32 blk i = push_bit 24 (ucast (blk (4 * i))) OR push_bit 16 (ucast (blk (4 * i + 1))) OR
    push_bit 8 (ucast (blk (4 * i + 2))) OR ucast (blk (4 * i + 3))"

text \<open>The message schedule: sixteen words of the block, extended to eighty.\<close>

primrec sha1_extend :: "nat \<Rightarrow> u32 list \<Rightarrow> u32 list" where
  "sha1_extend 0 w = w"
| "sha1_extend (Suc n) w =
    (let i = length w in sha1_extend n (w @ [sha1_rotate 1 (w ! (i - 3) XOR w ! (i - 8) XOR w ! (i - 14) XOR w ! (i - 16))]))"

definition sha1_schedule :: "(nat \<Rightarrow> u8) \<Rightarrow> u32 list" where
  "sha1_schedule blk = sha1_extend 64 (map (be32 blk) [0..<16])"

fun sha1_round :: "nat \<times> u32 \<Rightarrow> u32 \<times> u32 \<times> u32 \<times> u32 \<times> u32 \<Rightarrow> u32 \<times> u32 \<times> u32 \<times> u32 \<times> u32" where
  "sha1_round (i, w) (a, b, c, d, e) =
    (let temp = sha1_rotate 5 a + w + e;
         temp = temp +
           (if i div 20 = 0 then 0x5A827999 + ((b AND c) OR (NOT b AND d))
            else if i div 20 = 1 then 0x6ED9EBA1 + (b XOR c XOR d)
            else if i div 20 = 2 then 0x8F1BBCDC + ((b AND c) OR (b AND d) OR (c AND d))
            else 0xCA62C1D6 + (b XOR c XOR d))
     in (temp, a, sha1_rotate 30 b, c, d))"

definition sha1_compress :: "(nat \<Rightarrow> u32) \<Rightarrow> (nat \<Rightarrow> u8) \<Rightarrow> nat \<Rightarrow> u32" where
  "sha1_compress h blk =
    (case fold sha1_round (zip [0..<80] (sha1_schedule blk)) (h 0, h 1, h 2, h 3, h 4) of
      (a, b, c, d, e) \<Rightarrow> h(0 := h 0 + a, 1 := h 1 + b, 2 := h 2 + c, 3 := h 3 + d, 4 := h 4 + e))"

definition sha1_process :: "SHA1Context \<Rightarrow> SHA1Context" where
  "sha1_process ctx = ctx\<lparr>sha_intermediate := sha1_compress (sha_intermediate ctx) (sha_msg_blk ctx), sha_msg_blk_index := 0\<rparr>"

text \<open>\<open>ctx->msg_blk[ctx->msg_blk_index++] = v\<close>\<close>

definition push_byte :: "u8 \<Rightarrow> SHA1Context \<Rightarrow> SHA1Context res" where
  "push_byte v ctx =
    res_bind (arr_set 64 (sha_msg_blk ctx) (unat (sha_msg_blk_index ctx)) v) (\<lambda>blk.
      Inr (ctx\<lparr>sha_msg_blk := blk, sha_msg_blk_index := sha_msg_blk_index ctx + 1\<rparr>))"

text \<open>\<open>while (ctx->msg_blk_index < n) ctx->msg_blk[ctx->msg_blk_index++] = 0;\<close>\<close>

definition zero_until :: "nat \<Rightarrow> SHA1Context \<Rightarrow> SHA1Context res" where
  "zero_until n ctx = fold_res (\<lambda>_. push_byte 0) [unat (sha_msg_blk_index ctx)..<n] ctx"

definition sha1_pad :: "SHA1Context \<Rightarrow> SHA1Context res" where
  "sha1_pad ctx =
    res_bind (push_byte 0x80 ctx) (\<lambda>ctx.
    res_bind (if unat (sha_msg_blk_index ctx) > 56
              then res_bind (zero_until 64 ctx) (\<lambda>ctx. Inr (sha1_process ctx)) else Inr ctx) (\<lambda>ctx.
    res_bind (zero_until 56 ctx) (\<lambda>ctx.
      let n = sha_length ctx;
          blk = (sha_msg_blk ctx)(56 := 0, 57 := 0, 58 := 0, 59 := 0, 60 := ucast (drop_bit 24 n),
            61 := ucast (drop_bit 16 n), 62 := ucast (drop_bit 8 n), 63 := ucast n)
      in Inr (sha1_process (ctx\<lparr>sha_msg_blk := blk\<rparr>)))))"

text \<open>The data is read through the context, which it may be part of.\<close>

definition sha1_input_from :: "(SHA1Context \<Rightarrow> nat \<Rightarrow> u8) \<Rightarrow> nat \<Rightarrow> SHA1Context \<Rightarrow> SHA1Context res" where
  "sha1_input_from data_at len ctx =
    fold_res (\<lambda>i ctx. res_bind (push_byte (data_at ctx i) ctx) (\<lambda>ctx.
        Inr (if sha_msg_blk_index ctx = 64 then sha1_process ctx else ctx)))
      [0..<len] (ctx\<lparr>sha_length := sha_length ctx + of_nat (8 * len)\<rparr>)"

definition sha1_input :: "u8 list \<Rightarrow> SHA1Context \<Rightarrow> SHA1Context res" where
  "sha1_input bs = sha1_input_from (\<lambda>_ i. bs ! i) (length bs)"

definition sha1_result :: "SHA1Context \<Rightarrow> (u8 list \<times> SHA1Context) res" where
  "sha1_result ctx =
    res_bind (if \<not> sha_computed ctx
              then res_bind (sha1_pad ctx) (\<lambda>ctx. Inr (ctx\<lparr>sha_length := 0, sha_computed := True\<rparr>)) else Inr ctx) (\<lambda>ctx.
      Inr (map (\<lambda>i. ucast (drop_bit (8 * (3 - i mod 4)) (sha_intermediate ctx (i div 4)))) [0..<20], ctx))"

definition sha1_reset :: "SHA1Context \<Rightarrow> SHA1Context" where
  "sha1_reset ctx = (sha1_fill 0x67452301 0xEFCDAB89 0x98BADCFE 0x10325476 0xC3D2E1F0 ctx)
    \<lparr>sha_msg_blk_index := 0, sha_computed := False, sha_length := 0\<rparr>"

section \<open>RC4\<close>

definition rc4_swap :: "(nat \<Rightarrow> u8) \<Rightarrow> nat \<Rightarrow> nat \<Rightarrow> nat \<Rightarrow> u8" where
  "rc4_swap s i j = s(i := s j, j := s i)"

definition rc4_init :: "u8 list \<Rightarrow> (nat \<Rightarrow> u8) res" where
  "rc4_init key =
    (if key = [] then Inl Div_by_zero
     else Inr (fst (fold (\<lambda>i (s, j). let j = (j + unat (s i) + unat (key ! (i mod length key))) mod 256 in (rc4_swap s i j, j))
       [0..<256] (of_nat, 0))))"

text \<open>One byte of the key stream, with the loop's two indices.\<close>

fun rc4_step :: "(nat \<Rightarrow> u8) \<times> nat \<times> nat \<Rightarrow> u8 \<times> (nat \<Rightarrow> u8) \<times> nat \<times> nat" where
  "rc4_step (s, i, j) =
    (let i = (i + 1) mod 256; j = (j + unat (s i)) mod 256; s = rc4_swap s i j
     in (s ((unat (s i) + unat (s j)) mod 256), s, i, j))"

primrec rc4_loop :: "u8 list \<Rightarrow> (nat \<Rightarrow> u8) \<times> nat \<times> nat \<Rightarrow> u8 list \<times> (nat \<Rightarrow> u8)" where
  "rc4_loop [] st = ([], fst st)"
| "rc4_loop (b # bs) st = (let (k, st) = rc4_step st; (cs, s) = rc4_loop bs st in ((b XOR k) # cs, s))"

definition rc4_crypt :: "(nat \<Rightarrow> u8) \<Rightarrow> u8 list \<Rightarrow> u8 list \<times> (nat \<Rightarrow> u8)" where
  "rc4_crypt s bs = rc4_loop bs (s, 0, 0)"

section \<open>The block buffer\<close>

text \<open>The context has chaining value \<open>h\<close> and the bytes \<open>buf\<close> waiting in its buffer.\<close>

definition buffered :: "SHA1Context \<Rightarrow> (nat \<Rightarrow> u32) \<Rightarrow> u8 list \<Rightarrow> bool" where
  "buffered ctx h buf \<longleftrightarrow> sha_intermediate ctx = h \<and> length buf \<le> 64 \<and> unat (sha_msg_blk_index ctx) = length buf \<and>
    (\<forall>i < length buf. sha_msg_blk ctx i = buf ! i)"

lemma compress_cong: "(\<And>i. i < 64 \<Longrightarrow> blk i = blk' i) \<Longrightarrow> sha1_compress h blk = sha1_compress h blk'"
proof -
  assume e: "\<And>i. i < 64 \<Longrightarrow> blk i = blk' i"
  have "map (be32 blk) [0..<16] = map (be32 blk') [0..<16]" by (simp add: be32_def e)
  then show ?thesis by (simp only: sha1_compress_def sha1_schedule_def)
qed

lemma push_byte_buffered:
  assumes "buffered ctx h buf" and "length buf < 64"
  shows "\<exists>ctx'. push_byte v ctx = Inr ctx' \<and> buffered ctx' h (buf @ [v]) \<and> sha_length ctx' = sha_length ctx \<and>
    sha_computed ctx' = sha_computed ctx"
proof -
  have "unat (sha_msg_blk_index ctx + 1) = Suc (length buf)"
    using assms unat_Suc_u32 [of "sha_msg_blk_index ctx"] by (simp add: buffered_def)
  then show ?thesis using assms by (auto simp: push_byte_def buffered_def nth_append less_Suc_eq)
qed

lemma process_buffered:
  assumes "buffered ctx h buf" and "length buf = 64"
  shows "buffered (sha1_process ctx) (sha1_compress h ((!) buf)) []"
  using assms compress_cong [of "sha_msg_blk ctx" "(!) buf" h] by (simp add: buffered_def sha1_process_def)

lemma process_simps [simp]:
  "sha_length (sha1_process ctx) = sha_length ctx" "sha_computed (sha1_process ctx) = sha_computed ctx"
  by (simp_all add: sha1_process_def)

lemma zero_fold_buffered:
  assumes "buffered ctx h buf" and "length buf + length is \<le> 64"
  shows "\<exists>ctx'. fold_res (\<lambda>_. push_byte 0) is ctx = Inr ctx' \<and> buffered ctx' h (buf @ replicate (length is) 0) \<and>
    sha_length ctx' = sha_length ctx \<and> sha_computed ctx' = sha_computed ctx"
  using assms
proof (induction "is" arbitrary: ctx buf)
  case (Cons i "is")
  from Cons.prems obtain c where c: "push_byte 0 ctx = Inr c" "buffered c h (buf @ [0])" "sha_length c = sha_length ctx"
    "sha_computed c = sha_computed ctx" using push_byte_buffered [of ctx h buf 0] by auto
  then show ?case using Cons.IH [OF c(2)] Cons.prems(2) by (auto simp: replicate_app_Cons_same)
qed auto

lemma zero_until_buffered:
  assumes "buffered ctx h buf" and "length buf \<le> n" and "n \<le> 64"
  shows "\<exists>ctx'. zero_until n ctx = Inr ctx' \<and> buffered ctx' h (buf @ replicate (n - length buf) 0) \<and>
    sha_length ctx' = sha_length ctx \<and> sha_computed ctx' = sha_computed ctx"
  using zero_fold_buffered [OF assms(1), of "[unat (sha_msg_blk_index ctx)..<n]"] assms
  by (simp add: zero_until_def buffered_def)

text \<open>The reference: all full blocks of the padded message.\<close>

function sha1_blocks :: "(nat \<Rightarrow> u32) \<Rightarrow> u8 list \<Rightarrow> nat \<Rightarrow> u32" where
  "sha1_blocks h bs = (if length bs < 64 then h else sha1_blocks (sha1_compress h ((!) (take 64 bs))) (drop 64 bs))"
  by auto
termination by (relation "measure (\<lambda>(h, bs). length bs)") auto

declare sha1_blocks.simps [simp del]

definition be_bytes :: "u32 \<Rightarrow> u8 list" where
  "be_bytes n = [ucast (drop_bit 24 n), ucast (drop_bit 16 n), ucast (drop_bit 8 n), ucast n]"

definition padding :: "nat \<Rightarrow> u32 \<Rightarrow> u8 list" where
  "padding len bits = [0x80] @ replicate ((119 - len mod 64) mod 64) 0 @ [0, 0, 0, 0] @ be_bytes bits"

definition digest :: "(nat \<Rightarrow> u32) \<Rightarrow> u8 list" where
  "digest h = concat (map (\<lambda>i. be_bytes (h i)) [0..<5])"

lemma sha1_blocks_append: "length b = 64 \<Longrightarrow> sha1_blocks h (b @ bs) = sha1_blocks (sha1_compress h ((!) b)) bs"
  by (subst sha1_blocks.simps) simp

lemma sha1_blocks_one: "length b = 64 \<Longrightarrow> sha1_blocks h b = sha1_compress h ((!) b)"
  using sha1_blocks_append [of b h "[]"] by (simp add: sha1_blocks.simps [of _ "[]"])

lemma buffered_nil [simp]: "buffered ctx h [] \<longleftrightarrow> sha_intermediate ctx = h \<and> sha_msg_blk_index ctx = 0"
  by (auto simp: buffered_def unat_eq_0)

text \<open>One byte of input.\<close>

fun absorb :: "u8 \<Rightarrow> (nat \<Rightarrow> u32) \<times> u8 list \<Rightarrow> (nat \<Rightarrow> u32) \<times> u8 list" where
  "absorb b (h, buf) = (if length buf = 63 then (sha1_compress h ((!) (buf @ [b])), []) else (h, buf @ [b]))"

lemma absorb_step:
  assumes "buffered ctx h buf" and "length buf < 64"
  shows "\<exists>ctx'. res_bind (push_byte b ctx) (\<lambda>ctx. Inr (if sha_msg_blk_index ctx = 64 then sha1_process ctx else ctx)) = Inr ctx' \<and>
    buffered ctx' (fst (absorb b (h, buf))) (snd (absorb b (h, buf))) \<and> sha_length ctx' = sha_length ctx \<and>
    sha_computed ctx' = sha_computed ctx"
proof -
  obtain c where c: "push_byte b ctx = Inr c" "buffered c h (buf @ [b])" "sha_length c = sha_length ctx"
    "sha_computed c = sha_computed ctx" using push_byte_buffered [OF assms] by blast
  have "sha_msg_blk_index c = 64 \<longleftrightarrow> length buf = 63"
    using c(2) by (simp add: buffered_def word_unat_eq_iff)
  then show ?thesis using c process_buffered [OF c(2)] by simp
qed

lemma absorb_blocks:
  assumes "fold absorb msg (h, []) = (h', buf)"
  shows "length buf = length msg mod 64 \<and> (\<forall>rest. sha1_blocks h (msg @ rest) = sha1_blocks h' (buf @ rest))"
  using assms
proof (induction msg arbitrary: h' buf rule: rev_induct)
  case (snoc b msg)
  obtain h1 buf1 where 1: "fold absorb msg (h, []) = (h1, buf1)" by fastforce
  note IH = snoc.IH [OF 1]
  have "length buf = Suc (length msg) mod 64"
    using snoc.prems 1 IH by (auto simp: mod_Suc split: if_splits)
  moreover have "sha1_blocks h (msg @ [b] @ rest) = sha1_blocks h' (buf @ rest)" for rest
    using snoc.prems 1 IH sha1_blocks_append [of "buf1 @ [b]" h1 rest] by (auto split: if_splits)
  ultimately show ?case by simp
qed simp

lemma absorb_short: "length (snd st) < 64 \<Longrightarrow> length (snd (fold absorb msg st)) < 64"
  by (induction msg arbitrary: st) (auto split: prod.splits)

lemma input_fold:
  assumes "buffered ctx h buf" and "length buf < 64"
  shows "\<exists>ctx'. fold_res (\<lambda>i ctx. res_bind (push_byte (bs ! i) ctx) (\<lambda>ctx.
      Inr (if sha_msg_blk_index ctx = 64 then sha1_process ctx else ctx))) [0..<length bs] ctx = Inr ctx' \<and>
    buffered ctx' (fst (fold absorb bs (h, buf))) (snd (fold absorb bs (h, buf))) \<and> sha_length ctx' = sha_length ctx \<and>
    sha_computed ctx' = sha_computed ctx"
proof (induction bs rule: rev_induct)
  case (snoc b bs)
  let ?body = "\<lambda>bs i ctx. res_bind (push_byte (bs ! i) ctx) (\<lambda>ctx.
      Inr (if sha_msg_blk_index ctx = 64 then sha1_process ctx else ctx))"
  obtain c where c: "fold_res (?body bs) [0..<length bs] ctx = Inr c"
    "buffered c (fst (fold absorb bs (h, buf))) (snd (fold absorb bs (h, buf)))" "sha_length c = sha_length ctx"
    "sha_computed c = sha_computed ctx" using snoc.IH by blast
  have "fold_res (?body (bs @ [b])) [0..<length bs] ctx = fold_res (?body bs) [0..<length bs] ctx"
    by (rule fold_res_cong) (simp add: nth_append)
  moreover obtain c' where "res_bind (push_byte b c) (\<lambda>ctx.
      Inr (if sha_msg_blk_index ctx = 64 then sha1_process ctx else ctx)) = Inr c'"
    "buffered c' (fst (fold absorb (bs @ [b]) (h, buf))) (snd (fold absorb (bs @ [b]) (h, buf)))"
    "sha_length c' = sha_length c" "sha_computed c' = sha_computed c"
    using absorb_step [OF c(2) absorb_short, of b] assms(2) by auto
  ultimately show ?case using c by (simp add: fold_res_append)
qed (use assms in auto)

lemma sha1_input_buffered:
  assumes "buffered ctx h []"
  shows "\<exists>ctx'. sha1_input bs ctx = Inr ctx' \<and> sha_length ctx' = sha_length ctx + of_nat (8 * length bs) \<and>
    sha_computed ctx' = sha_computed ctx \<and> buffered ctx' (fst (fold absorb bs (h, []))) (snd (fold absorb bs (h, [])))"
  using input_fold [of "ctx\<lparr>sha_length := sha_length ctx + of_nat (8 * length bs)\<rparr>" h "[]" bs] assms
  unfolding sha1_input_def sha1_input_from_def by auto

lemma nth_overlay:
  fixes n :: u32
  assumes "length buf = 56" and "\<And>i. i < 56 \<Longrightarrow> blk i = buf ! i"
  shows "i < 64 \<Longrightarrow> (blk(56 := 0, 57 := 0, 58 := 0, 59 := 0, 60 := ucast (drop_bit 24 n), 61 := ucast (drop_bit 16 n),
    62 := ucast (drop_bit 8 n), 63 := ucast n)) i = (buf @ [0, 0, 0, 0] @ be_bytes n) ! i"
proof -
  assume i: "i < 64"
  consider "i < 56" | "i \<in> {56, 57, 58, 59, 60, 61, 62, 63}" using i by force
  then show ?thesis by cases (use assms in \<open>auto simp: nth_append be_bytes_def\<close>)
qed

lemma pad_last:
  assumes "buffered ctx h buf" and "length buf \<le> 56"
  shows "\<exists>ctx'. zero_until 56 ctx = Inr ctx' \<and> sha_intermediate (sha1_process (ctx'\<lparr>sha_msg_blk :=
      (sha_msg_blk ctx')(56 := 0, 57 := 0, 58 := 0, 59 := 0, 60 := ucast (drop_bit 24 (sha_length ctx')),
        61 := ucast (drop_bit 16 (sha_length ctx')), 62 := ucast (drop_bit 8 (sha_length ctx')), 63 := ucast (sha_length ctx'))\<rparr>)) =
    sha1_blocks h (buf @ replicate (56 - length buf) 0 @ [0, 0, 0, 0] @ be_bytes (sha_length ctx))"
proof -
  let ?b = "buf @ replicate (56 - length buf) 0"
  obtain c where c: "zero_until 56 ctx = Inr c" "buffered c h ?b" "sha_length c = sha_length ctx"
    using zero_until_buffered [OF assms] by auto
  have len: "length ?b = 56" using assms(2) by simp
  have b: "\<And>i. i < 56 \<Longrightarrow> sha_msg_blk c i = ?b ! i" using c(2) len unfolding buffered_def by auto
  have "sha1_compress h ((sha_msg_blk c)(56 := 0, 57 := 0, 58 := 0, 59 := 0, 60 := ucast (drop_bit 24 (sha_length c)),
      61 := ucast (drop_bit 16 (sha_length c)), 62 := ucast (drop_bit 8 (sha_length c)), 63 := ucast (sha_length c))) =
    sha1_compress h ((!) (?b @ [0, 0, 0, 0] @ be_bytes (sha_length c)))"
    by (rule compress_cong) (rule nth_overlay [OF len b])
  moreover have "length (?b @ [0, 0, 0, 0] @ be_bytes (sha_length c)) = 64" using len by (simp add: be_bytes_def)
  note sha1_blocks_one [OF this, of h]
  ultimately show ?thesis using c by (simp add: sha1_process_def buffered_def)
qed

lemma sha1_pad_blocks:
  assumes "buffered ctx h buf" and "length buf < 64" and "len mod 64 = length buf"
  shows "\<exists>ctx'. sha1_pad ctx = Inr ctx' \<and> sha_intermediate ctx' = sha1_blocks h (buf @ padding len (sha_length ctx))"
proof -
  obtain c where c: "push_byte 0x80 ctx = Inr c" "buffered c h (buf @ [0x80])" "sha_length c = sha_length ctx"
    using push_byte_buffered [OF assms(1,2)] by blast
  have i: "unat (sha_msg_blk_index c) = Suc (length buf)" using c(2) by (simp add: buffered_def)
  show ?thesis
  proof (cases "length buf < 56")
    case True
    then have "(119 - len mod 64) mod 64 = 55 - length buf" using assms(3) by (simp add: mod_if)
    then show ?thesis
      using True c i pad_last [OF c(2)] by (auto simp: sha1_pad_def Let_def padding_def)
  next
    case False
    let ?b = "buf @ [0x80] @ replicate (63 - length buf) 0"
    obtain d where d: "zero_until 64 c = Inr d" "buffered d h ?b" "sha_length d = sha_length ctx"
      using zero_until_buffered [OF c(2), of 64] assms(2) c(3) by auto
    have len: "length ?b = 64" using False assms(2) by simp
    note p = process_buffered [OF d(2) len]
    have "replicate ((119 - len mod 64) mod 64) (0 :: u8) = replicate (63 - length buf) 0 @ replicate 56 0"
      using False assms(2,3) by (simp add: mod_if flip: replicate_add)
    then have "sha1_blocks h (buf @ padding len (sha_length ctx)) =
        sha1_blocks (sha1_compress h ((!) ?b)) (replicate 56 0 @ [0, 0, 0, 0] @ be_bytes (sha_length ctx))"
      using sha1_blocks_append [OF len] by (simp add: padding_def)
    then show ?thesis
      using False c i d pad_last [OF p] by (auto simp: sha1_pad_def Let_def)
  qed
qed

lemma digest_map:
  "map (\<lambda>i. ucast (drop_bit (8 * (3 - i mod 4)) (h (i div 4)))) [0..<20] = digest h"
  by (simp add: digest_def be_bytes_def upt_rec) (simp add: eval_nat_numeral)

lemma sha1_inputs_buffered:
  assumes "buffered ctx h buf" and "length buf < 64"
  shows "\<exists>ctx'. fold_res sha1_input chunks ctx = Inr ctx' \<and> sha_length ctx' = sha_length ctx + of_nat (8 * length (concat chunks)) \<and>
    sha_computed ctx' = sha_computed ctx \<and>
    buffered ctx' (fst (fold absorb (concat chunks) (h, buf))) (snd (fold absorb (concat chunks) (h, buf)))"
  using assms
proof (induction chunks arbitrary: ctx h buf)
  case (Cons bs chunks)
  let ?c = "ctx\<lparr>sha_length := sha_length ctx + of_nat (8 * length bs)\<rparr>"
  have "buffered ?c h buf" using Cons.prems(1) by (simp add: buffered_def)
  from input_fold [OF this Cons.prems(2), of bs] obtain c where c: "sha1_input bs ctx = Inr c"
    "buffered c (fst (fold absorb bs (h, buf))) (snd (fold absorb bs (h, buf)))" "sha_computed c = sha_computed ctx"
    "sha_length c = sha_length ctx + of_nat (8 * length bs)"
    unfolding sha1_input_def sha1_input_from_def by auto
  from Cons.IH [OF c(2) absorb_short] show ?case
    using c Cons.prems(2) by (simp add: algebra_simps)
qed auto

lemma sha1_result_blocks:
  assumes hb: "fold absorb msg (h0, []) = (h, buf)" and c: "buffered c h buf" "\<not> sha_computed c"
  shows "\<exists>c2. sha1_result c = Inr (digest (sha1_blocks h0 (msg @ padding (length msg) (sha_length c))), c2)"
proof -
  note blocks = absorb_blocks [OF hb]
  have l: "length buf < 64" "length msg mod 64 = length buf" using blocks by simp_all
  obtain c2 where c2: "sha1_pad c = Inr c2" "sha_intermediate c2 = sha1_blocks h (buf @ padding (length msg) (sha_length c))"
    using sha1_pad_blocks [OF c(1) l] by blast
  have "sha1_blocks h (buf @ padding (length msg) (sha_length c)) = sha1_blocks h0 (msg @ padding (length msg) (sha_length c))"
    using blocks by metis
  then show ?thesis using c(2) c2 by (simp add: sha1_result_def digest_map)
qed

text \<open>
  C29.  The streaming hash refines the reference: for a message given in any chunks, from any chaining value and
  initial bit count, no byte is written outside the block buffer, and the digest is that of the compression function folded over
  the blocks of the message followed by its padding.
\<close>

theorem sha1_streaming:
  assumes "sha_msg_blk_index ctx = 0" and "\<not> sha_computed ctx"
  shows "\<exists>ctx1 ctx2. fold_res sha1_input chunks ctx = Inr ctx1 \<and>
    sha1_result ctx1 = Inr (digest (sha1_blocks (sha_intermediate ctx)
      (concat chunks @ padding (length (concat chunks)) (sha_length ctx + of_nat (8 * length (concat chunks))))), ctx2)"
proof -
  let ?msg = "concat chunks"
  obtain h buf where hb: "fold absorb ?msg (sha_intermediate ctx, []) = (h, buf)" by fastforce
  obtain c where c: "fold_res sha1_input chunks ctx = Inr c" "sha_length c = sha_length ctx + of_nat (8 * length ?msg)"
    "\<not> sha_computed c" "buffered c h buf"
    using sha1_inputs_buffered [of ctx "sha_intermediate ctx" "[]" chunks] assms hb by auto
  then show ?thesis using sha1_result_blocks [OF hb c(4,3)] by auto
qed

definition sha1_demo :: SHA1Context where
  "sha1_demo = sha1_reset \<lparr>sha_intermediate = \<lambda>_. 0, sha_msg_blk = \<lambda>_. 0xCC, sha_msg_blk_index = 7, sha_length = 9, sha_computed = True\<rparr>"

theorem sha1_streaming_witness:
  "\<exists>ctx1 ctx2. fold_res sha1_input [[0x61], [0x62, 0x63]] sha1_demo = Inr ctx1 \<and>
    sha1_result ctx1 = Inr (digest (sha1_compress (sha_intermediate sha1_demo)
      ((!) ([0x61, 0x62, 0x63, 0x80] @ replicate 52 0 @ [0, 0, 0, 0, 0, 0, 0, 24]))), ctx2)"
proof -
  let ?chunks = "[[0x61], [0x62, 0x63]] :: u8 list list"
  have p: "concat ?chunks @ padding (length (concat ?chunks)) (sha_length sha1_demo + of_nat (8 * length (concat ?chunks))) =
      [0x61, 0x62, 0x63, 0x80] @ replicate 52 0 @ [0, 0, 0, 0, 0, 0, 0, 24]"
    by (simp add: padding_def be_bytes_def sha1_demo_def sha1_reset_def sha1_fill_def)
  have q: "sha1_blocks h ([0x61, 0x62, 0x63, 0x80] @ replicate 52 0 @ [0, 0, 0, 0, 0, 0, 0, 24]) =
      sha1_compress h ((!) ([0x61, 0x62, 0x63, 0x80] @ replicate 52 0 @ [0, 0, 0, 0, 0, 0, 0, 24]))" for h
    by (rule sha1_blocks_one) simp
  have "sha_msg_blk_index sha1_demo = 0" "\<not> sha_computed sha1_demo"
    by (simp_all add: sha1_demo_def sha1_reset_def sha1_fill_def)
  from sha1_streaming [OF this, of ?chunks] show ?thesis unfolding p q .
qed

section \<open>The key stream\<close>

lemma rc4_loop_twice: "fst (rc4_loop (fst (rc4_loop bs st)) st) = bs"
  by (induction bs arbitrary: st) (simp_all add: Let_def split_beta xor.assoc del: rc4_step.simps)

lemma rc4_loop_length: "length (fst (rc4_loop bs st)) = length bs"
  by (induction bs arbitrary: st) (simp_all add: Let_def split_beta del: rc4_step.simps)

lemma rc4_crypt_twice: "fst (rc4_crypt s (fst (rc4_crypt s bs))) = bs"
  by (simp add: rc4_crypt_def rc4_loop_twice)

lemma rc4_crypt_length: "length (fst (rc4_crypt s bs)) = length bs"
  by (simp add: rc4_crypt_def rc4_loop_length)

text \<open>The state stays a permutation of the bytes: none occurs twice among its 256 entries.\<close>

definition permutes_bytes :: "(nat \<Rightarrow> u8) \<Rightarrow> bool" where
  "permutes_bytes s \<longleftrightarrow> inj_on s {..<256}"

lemma rc4_swap_perm:
  assumes "i < 256" and "j < 256" and "permutes_bytes s"
  shows "permutes_bytes (rc4_swap s i j)"
  unfolding permutes_bytes_def rc4_swap_def
proof (rule inj_onI)
  have inj: "s a = s b \<longleftrightarrow> a = b" if "a < 256" "b < 256" for a b
    using assms(3) that by (auto simp: permutes_bytes_def inj_on_def)
  fix a b assume "a \<in> {..<256}" "b \<in> {..<256}" and "(s(i := s j, j := s i)) a = (s(i := s j, j := s i)) b"
  then show "a = b" using assms(1,2) by (auto simp: fun_upd_apply inj split: if_split_asm)
qed

lemma bytes_identity: "permutes_bytes of_nat"
  unfolding permutes_bytes_def
proof (rule inj_onI)
  fix a b :: nat assume "a \<in> {..<256}" "b \<in> {..<256}" and "(of_nat a :: u8) = of_nat b"
  then show "a = b" by (simp add: word_of_nat_eq_iff take_bit_eq_mod)
qed

lemma rc4_init_perm:
  assumes "key \<noteq> []"
  shows "\<exists>s. rc4_init key = Inr s \<and> permutes_bytes s"
proof -
  let ?f = "\<lambda>i (s, j). let j = (j + unat (s i) + unat (key ! (i mod length key))) mod 256 in (rc4_swap s i j, j)"
  have "permutes_bytes (fst (fold ?f is (s, j)))" if "set is \<subseteq> {..<256}" "permutes_bytes s" for "is" s j
    using that by (induction "is" arbitrary: s j) (auto simp: Let_def rc4_swap_perm)
  then show ?thesis using assms bytes_identity by (simp add: rc4_init_def atLeast0LessThan)
qed

end
