(* ===== verification/EEPROM.thy ===== *)
theory EEPROM
  imports Crypto
begin

text \<open>
  The generator of a console EEPROM, \<open>hw/xbox/eeprom_generation.c\<close>.  The image is the packed structure as bytes, so that
  the checksums and the cipher can run across neighbouring fields the way the code does.  The random bytes and the
  outcome of the file operations are arguments.
\<close>

section \<open>The image\<close>

datatype eeprom_field = EE_hash | EE_confounder | EE_hdd_key | EE_region | EE_checksum | EE_serial | EE_mac | EE_padding
  | EE_online_key | EE_video_standard | EE_padding2 | EE_user_checksum | EE_user_section

definition XboxEEPROM :: "(eeprom_field \<times> nat) list" where
  "XboxEEPROM = [(EE_hash, 20), (EE_confounder, 8), (EE_hdd_key, 16), (EE_region, 4), (EE_checksum, 4), (EE_serial, 12),
    (EE_mac, 6), (EE_padding, 2), (EE_online_key, 16), (EE_video_standard, 4), (EE_padding2, 4), (EE_user_checksum, 4),
    (EE_user_section, 156)]"

primrec offset_in :: "(eeprom_field \<times> nat) list \<Rightarrow> eeprom_field \<Rightarrow> nat" where
  "offset_in [] f = 0"
| "offset_in (x # xs) f = (if fst x = f then 0 else snd x + offset_in xs f)"

definition offset_of :: "eeprom_field \<Rightarrow> nat" where
  "offset_of f = offset_in XboxEEPROM f"

datatype XboxEEPROMVersion = XBOX_EEPROM_VERSION_D | XBOX_EEPROM_VERSION_R1 | XBOX_EEPROM_VERSION_R2 | XBOX_EEPROM_VERSION_R3

definition bytes_at :: "nat \<Rightarrow> nat \<Rightarrow> u8 list \<Rightarrow> u8 list" where
  "bytes_at off len img = take len (drop off img)"

definition set_bytes :: "nat \<Rightarrow> u8 list \<Rightarrow> u8 list \<Rightarrow> u8 list" where
  "set_bytes off bs img = take off img @ bs @ drop (off + length bs) img"

definition le_bytes :: "u32 \<Rightarrow> u8 list" where
  "le_bytes n = [ucast n, ucast (drop_bit 8 n), ucast (drop_bit 16 n), ucast (drop_bit 24 n)]"

definition le_word :: "u8 list \<Rightarrow> nat \<Rightarrow> u32" where
  "le_word bs i = ucast (bs ! (4 * i)) OR push_bit 8 (ucast (bs ! (4 * i + 1))) OR
    push_bit 16 (ucast (bs ! (4 * i + 2))) OR push_bit 24 (ucast (bs ! (4 * i + 3)))"

section \<open>The checksum\<close>

fun crc_step :: "u32 \<Rightarrow> u32 \<times> u32 \<Rightarrow> u32 \<times> u32" where
  "crc_step val (high, low) =
    (let sum = push_bit 32 (ucast high) OR ucast low :: u64
     in (ucast (drop_bit 32 (sum + ucast val)), low + val))"

definition xbox_eeprom_crc :: "u8 list \<Rightarrow> u32" where
  "xbox_eeprom_crc bs =
    (let (high, low) = fold crc_step (map (le_word bs) [0..<length bs div 4]) (0, 0) in NOT (high + low))"

section \<open>The keyed hash\<close>

definition xbox_sha1_reset :: "XboxEEPROMVersion \<Rightarrow> bool \<Rightarrow> SHA1Context \<Rightarrow> SHA1Context" where
  "xbox_sha1_reset ver first ctx =
    (let ctx = ctx\<lparr>sha_msg_blk_index := 0, sha_computed := False, sha_length := 512\<rparr>
     in case ver of
       XBOX_EEPROM_VERSION_D \<Rightarrow>
         if first then sha1_fill 0x85F9E51A 0xE04613D2 0x6D86A50C 0x77C32E3C 0x4BD717A4 ctx
         else sha1_fill 0x5D7A9C6B 0xE1922BEB 0xB82CCDBC 0x3137AB34 0x486B52B3 ctx
     | XBOX_EEPROM_VERSION_R2 \<Rightarrow>
         if first then sha1_fill 0x39B06E79 0xC9BD25E8 0xDBC6B498 0x40B4389D 0x86BBD7ED ctx
         else sha1_fill 0x9B49BED3 0x84B430FC 0x6B8749CD 0xEBFE5FE5 0xD96E7393 ctx
     | XBOX_EEPROM_VERSION_R3 \<Rightarrow>
         if first then sha1_fill 0x8058763A 0xF97D4E0E 0x865A9762 0x8A3D920D 0x08995B2C ctx
         else sha1_fill 0x01075307 0xA2f1E037 0x1186EEEA 0x88DA9992 0x168A5609 ctx
     | _ \<Rightarrow>
         if first then sha1_fill 0x72127625 0x336472B9 0xBE609BEA 0xF55E226B 0x99958DAC ctx
         else sha1_fill 0x76441D41 0x4DE82659 0x2E8EF85E 0xB256FACA 0xC4FE2DE8 ctx)"

text \<open>The first digest is written over the block buffer of the context, which is then the input of the second hash.\<close>

definition digest_to_block :: "u8 list \<Rightarrow> SHA1Context \<Rightarrow> SHA1Context" where
  "digest_to_block d ctx = ctx\<lparr>sha_msg_blk := \<lambda>i. if i < length d then d ! i else sha_msg_blk ctx i\<rparr>"

definition xbox_sha1_compute :: "XboxEEPROMVersion \<Rightarrow> u8 list \<Rightarrow> SHA1Context \<Rightarrow> (u8 list \<times> SHA1Context) res" where
  "xbox_sha1_compute ver bs ctx =
    res_bind (sha1_input bs (xbox_sha1_reset ver True ctx)) (\<lambda>ctx.
    res_bind (sha1_result ctx) (\<lambda>(d, ctx).
    res_bind (sha1_input_from sha_msg_blk 20 (xbox_sha1_reset ver False (digest_to_block d ctx))) sha1_result))"

section \<open>Generation\<close>

record eeprom_random =
  rnd_confounder :: "u8 list"
  rnd_hdd_key :: "u8 list"
  rnd_online_key :: "u8 list"
  rnd_mac :: "u8 list"
  rnd_serial :: "u8 list"

definition default_user_section :: "u8 list" where
  "default_user_section =
    [0x00, 0x00, 0x00, 0x00, 0x47, 0x4D, 0x54, 0x00, 0x42, 0x53, 0x54, 0x00,
     0x00, 0x00, 0x00, 0x00, 0x00, 0x00, 0x00, 0x00, 0x0A, 0x05, 0x00, 0x02, 0x03, 0x05, 0x00, 0x01, 0x00, 0x00,
     0x00, 0x00, 0x00, 0x00, 0x00, 0x00, 0x00, 0x00, 0x00, 0x00, 0xC4, 0xFF, 0xFF, 0xFF]"

text \<open>The image before the checksums.\<close>

definition eeprom_plain :: "eeprom_random \<Rightarrow> u8 list" where
  "eeprom_plain rnd = fold (\<lambda>(off, bs). set_bytes off bs)
    [(offset_of EE_region, le_bytes 1),
     (offset_of EE_video_standard, le_bytes 0x00400100),
     (offset_of EE_confounder, rnd_confounder rnd),
     (offset_of EE_hdd_key, rnd_hdd_key rnd),
     (offset_of EE_online_key, rnd_online_key rnd),
     (offset_of EE_mac, [0x00, 0x50, 0xF2]),
     (offset_of EE_mac + 3, rnd_mac rnd),
     (offset_of EE_serial, map (\<lambda>b. 0x30 + b mod 10) (rnd_serial rnd)),
     (offset_of EE_user_section, default_user_section),
     (offset_of EE_user_section + 0x2C, le_bytes 1)] (replicate 256 0)"

definition eeprom_checksums :: "u8 list \<Rightarrow> u8 list" where
  "eeprom_checksums e =
    (let e = set_bytes (offset_of EE_checksum) (le_bytes (xbox_eeprom_crc (bytes_at (offset_of EE_serial) 0x2C e))) e
     in set_bytes (offset_of EE_user_checksum) (le_bytes (xbox_eeprom_crc (bytes_at (offset_of EE_user_section) 0x5C e))) e)"

definition eeprom_encrypt :: "XboxEEPROMVersion \<Rightarrow> SHA1Context \<Rightarrow> u8 list \<Rightarrow> u8 list res" where
  "eeprom_encrypt ver sctx e =
    res_bind (xbox_sha1_compute ver (bytes_at (offset_of EE_confounder) 0x1C e) sctx) (\<lambda>(hash, sctx).
    let e = set_bytes (offset_of EE_hash) hash e in
    res_bind (xbox_sha1_compute ver (bytes_at (offset_of EE_hash) 20 e) sctx) (\<lambda>(seed, sctx).
    res_bind (rc4_init seed) (\<lambda>rctx.
      Inr (set_bytes (offset_of EE_confounder) (fst (rc4_crypt rctx (bytes_at (offset_of EE_confounder) 0x1C e))) e))))"

text \<open>
  \<open>opened\<close> and \<open>written\<close> are what \<open>qemu_fopen\<close> and \<open>fwrite\<close> return; the result is the returned value with the bytes
  handed to the file.
\<close>

definition xbox_eeprom_generate ::
  "eeprom_random \<Rightarrow> SHA1Context \<Rightarrow> bool \<Rightarrow> nat \<Rightarrow> XboxEEPROMVersion \<Rightarrow> (bool \<times> u8 list option) res" where
  "xbox_eeprom_generate rnd sctx opened written ver =
    res_bind (eeprom_encrypt ver sctx (eeprom_checksums (eeprom_plain rnd))) (\<lambda>e.
      Inr (if \<not> opened then (False, None) else (written = 1, Some e)))"

section \<open>Fields\<close>

lemma offsets [simp]:
  "offset_of EE_hash = 0" "offset_of EE_confounder = 20" "offset_of EE_hdd_key = 28" "offset_of EE_region = 44"
  "offset_of EE_checksum = 48" "offset_of EE_serial = 52" "offset_of EE_mac = 64" "offset_of EE_padding = 70"
  "offset_of EE_online_key = 72" "offset_of EE_video_standard = 88" "offset_of EE_padding2 = 92"
  "offset_of EE_user_checksum = 96" "offset_of EE_user_section = 100"
  by (simp_all add: offset_of_def XboxEEPROM_def)

lemma length_le_bytes [simp]: "length (le_bytes n) = 4"
  by (simp add: le_bytes_def)

lemma length_set_bytes [simp]: "off + length bs \<le> length img \<Longrightarrow> length (set_bytes off bs img) = length img"
  by (simp add: set_bytes_def)

lemma length_bytes_at [simp]: "off + len \<le> length img \<Longrightarrow> length (bytes_at off len img) = len"
  by (simp add: bytes_at_def)

lemma bytes_at_same: "off + length bs \<le> length img \<Longrightarrow> len = length bs \<Longrightarrow> bytes_at off len (set_bytes off bs img) = bs"
  by (simp add: set_bytes_def bytes_at_def)

lemma bytes_at_other:
  assumes "off' + length bs \<le> length img" and "off + len \<le> off' \<or> off' + length bs \<le> off"
  shows "bytes_at off len (set_bytes off' bs img) = bytes_at off len img"
  using assms(2)
proof
  assume "off + len \<le> off'"
  then show ?thesis using assms(1) by (simp add: set_bytes_def bytes_at_def drop_take min_def) linarith
next
  assume "off' + length bs \<le> off"
  then show ?thesis using assms(1) by (simp add: set_bytes_def bytes_at_def)
qed

lemma bytes_at_add: "bytes_at off (m + n) img = bytes_at off m img @ bytes_at (off + m) n img"
  by (simp add: bytes_at_def take_add add.commute)

lemmas image_simps = bytes_at_same bytes_at_other

section \<open>The keyed hash\<close>

definition key_state :: "XboxEEPROMVersion \<Rightarrow> bool \<Rightarrow> nat \<Rightarrow> u32" where
  "key_state ver first = sha_intermediate (xbox_sha1_reset ver first
    \<lparr>sha_intermediate = \<lambda>_. 0, sha_msg_blk = \<lambda>_. 0, sha_msg_blk_index = 0, sha_length = 0, sha_computed = False\<rparr>)"

text \<open>
  The reference: two hashes, each continued from the state after a secret block of 64 bytes (512 bits), the second
  one over the digest of the first.
\<close>

definition continued_hash :: "(nat \<Rightarrow> u32) \<Rightarrow> u8 list \<Rightarrow> u8 list" where
  "continued_hash h bs = digest (sha1_blocks h (bs @ padding (length bs) (512 + of_nat (8 * length bs))))"

definition keyed_hash :: "XboxEEPROMVersion \<Rightarrow> u8 list \<Rightarrow> u8 list" where
  "keyed_hash ver bs = continued_hash (key_state ver False) (continued_hash (key_state ver True) bs)"

definition same_state :: "(nat \<Rightarrow> u32) \<Rightarrow> (nat \<Rightarrow> u32) \<Rightarrow> bool" where
  "same_state h h' \<longleftrightarrow> (\<forall>i < 5. h i = h' i)"

lemma same_state_compress: "same_state h h' \<Longrightarrow> same_state (sha1_compress h blk) (sha1_compress h' blk)"
  by (auto simp: same_state_def sha1_compress_def split: prod.split)

lemma same_state_blocks: "same_state h h' \<Longrightarrow> same_state (sha1_blocks h bs) (sha1_blocks h' bs)"
proof (induction h bs arbitrary: h' rule: sha1_blocks.induct)
  case (1 h bs)
  show ?case
  proof (cases "length bs < 64")
    case False
    then show ?thesis
      using 1 by (subst (1 2) sha1_blocks.simps) (simp add: same_state_compress)
  qed (use 1 in \<open>simp add: sha1_blocks.simps\<close>)
qed

lemma same_state_digest: "same_state h h' \<Longrightarrow> digest h = digest h'"
  unfolding same_state_def digest_def by (intro arg_cong [where f = concat] map_cong) auto

lemma length_digest [simp]: "length (digest h) = 20"
  by (simp add: digest_def be_bytes_def upt_rec)

lemma length_keyed_hash [simp]: "length (keyed_hash ver bs) = 20"
  by (simp add: keyed_hash_def continued_hash_def)

lemma reset_fill:
  obtains a b c d e where "\<And>ctx. xbox_sha1_reset ver first ctx =
    sha1_fill a b c d e (ctx\<lparr>sha_msg_blk_index := 0, sha_computed := False, sha_length := 512\<rparr>)"
  unfolding xbox_sha1_reset_def Let_def by (cases ver; cases first; simp only: XboxEEPROMVersion.case if_True if_False; blast)

lemma reset_simps [simp]:
  "sha_msg_blk_index (xbox_sha1_reset ver first ctx) = 0" "\<not> sha_computed (xbox_sha1_reset ver first ctx)"
  "sha_length (xbox_sha1_reset ver first ctx) = 512" "sha_msg_blk (xbox_sha1_reset ver first ctx) = sha_msg_blk ctx"
  by (rule reset_fill [of ver first], simp add: sha1_fill_def)+

lemma reset_key_state: "same_state (sha_intermediate (xbox_sha1_reset ver first ctx)) (key_state ver first)"
  by (rule reset_fill [of ver first]) (simp add: same_state_def key_state_def sha1_fill_def)

lemma continued_hash_reset: "continued_hash (sha_intermediate (xbox_sha1_reset ver first ctx)) bs = continued_hash (key_state ver first) bs"
  unfolding continued_hash_def by (intro same_state_digest same_state_blocks reset_key_state)

lemma reset_hash:
  obtains c c2 where "sha1_input bs (xbox_sha1_reset ver first ctx) = Inr c"
    "sha1_result c = Inr (continued_hash (key_state ver first) bs, c2)"
proof -
  let ?r = "xbox_sha1_reset ver first ctx"
  obtain h buf where hb: "fold absorb bs (sha_intermediate ?r, []) = (h, buf)" by fastforce
  obtain c where c: "sha1_input bs ?r = Inr c" "sha_length c = 512 + of_nat (8 * length bs)" "\<not> sha_computed c" "buffered c h buf"
    using sha1_input_buffered [of ?r "sha_intermediate ?r" bs] hb by auto
  show ?thesis
    using sha1_result_blocks [OF hb c(4,3)] c that continued_hash_reset [of ver first ctx bs]
    by (auto simp: continued_hash_def)
qed

text \<open>Feeding the block buffer to itself is feeding its contents.\<close>

lemma input_own_block:
  assumes "sha_msg_blk_index ctx = 0" and "n < 64"
  shows "sha1_input_from sha_msg_blk n ctx = sha1_input (map (sha_msg_blk ctx) [0..<n]) ctx"
proof -
  let ?body = "\<lambda>rd i ctx. res_bind (push_byte (rd ctx i) ctx) (\<lambda>ctx.
      Inr (if sha_msg_blk_index ctx = 64 then sha1_process ctx else ctx))"
  have "fold_res (?body rd) [0..<k] c = Inr (c\<lparr>sha_msg_blk_index := of_nat k\<rparr>)"
    if "k \<le> n" "sha_msg_blk_index c = 0" "\<And>i j. i < n \<Longrightarrow> rd (c\<lparr>sha_msg_blk_index := j\<rparr>) i = sha_msg_blk c i" for k c rd
    using that(1)
  proof (induction k)
    case (Suc k)
    have u: "unat (of_nat (Suc k) :: u32) = Suc k" "unat (of_nat k :: u32) = k"
      using Suc.prems assms(2) unat_of_nat_small [of "Suc k"] unat_of_nat_small [of k] by simp_all
    have "(of_nat (Suc k) :: u32) \<noteq> 64"
    proof
      assume "(of_nat (Suc k) :: u32) = 64"
      then have "unat (of_nat (Suc k) :: u32) = 64" by simp
      then show False using u Suc.prems assms(2) by linarith
    qed
    note this u(2)
    then show ?case using Suc that(3) assms(2) by (simp add: fold_res_append push_byte_def add.commute)
  qed (use that in simp)
  note loop = this
  show ?thesis
    unfolding sha1_input_def sha1_input_from_def
    using assms(1) by (simp add: loop)
qed

lemma xbox_sha1_compute_hash: "\<exists>ctx'. xbox_sha1_compute ver bs ctx = Inr (keyed_hash ver bs, ctx')"
proof -
  let ?d = "continued_hash (key_state ver True) bs"
  obtain c c2 where c: "sha1_input bs (xbox_sha1_reset ver True ctx) = Inr c" "sha1_result c = Inr (?d, c2)"
    by (rule reset_hash)
  let ?c = "xbox_sha1_reset ver False (digest_to_block ?d c2)"
  have "map (sha_msg_blk ?c) [0..<20] = ?d"
    by (rule nth_equalityI) (simp_all add: digest_to_block_def continued_hash_def)
  then have "sha1_input_from sha_msg_blk 20 ?c = sha1_input ?d ?c"
    by (simp add: input_own_block)
  moreover obtain c3 c4 where "sha1_input ?d ?c = Inr c3" "sha1_result c3 = Inr (keyed_hash ver bs, c4)"
    unfolding keyed_hash_def by (rule reset_hash)
  ultimately show ?thesis using c by (simp add: xbox_sha1_compute_def)
qed

section \<open>The generated image\<close>

text \<open>What a console does with an image: decrypt the security section with the key made from the hash, and check the hash and the
  two checksums.\<close>

definition eeprom_secret :: "XboxEEPROMVersion \<Rightarrow> u8 list \<Rightarrow> u8 list res" where
  "eeprom_secret ver img =
    res_bind (rc4_init (keyed_hash ver (bytes_at (offset_of EE_hash) 20 img))) (\<lambda>s.
      Inr (fst (rc4_crypt s (bytes_at (offset_of EE_confounder) 0x1C img))))"

definition eeprom_valid :: "XboxEEPROMVersion \<Rightarrow> u8 list \<Rightarrow> bool" where
  "eeprom_valid ver img \<longleftrightarrow> length img = 256 \<and>
    bytes_at (offset_of EE_checksum) 4 img = le_bytes (xbox_eeprom_crc (bytes_at (offset_of EE_serial) 0x2C img)) \<and>
    bytes_at (offset_of EE_user_checksum) 4 img = le_bytes (xbox_eeprom_crc (bytes_at (offset_of EE_user_section) 0x5C img)) \<and>
    (case eeprom_secret ver img of Inr sec \<Rightarrow> keyed_hash ver sec = bytes_at (offset_of EE_hash) 20 img | Inl _ \<Rightarrow> False)"

definition random_sizes :: "eeprom_random \<Rightarrow> bool" where
  "random_sizes rnd \<longleftrightarrow> length (rnd_confounder rnd) = 8 \<and> length (rnd_hdd_key rnd) = 16 \<and> length (rnd_online_key rnd) = 16 \<and>
    length (rnd_mac rnd) = 3 \<and> length (rnd_serial rnd) = 12"

lemma eeprom_plain_fields:
  assumes "random_sizes rnd"
  shows "length (eeprom_plain rnd) = 256"
    and "bytes_at 20 28 (eeprom_plain rnd) = rnd_confounder rnd @ rnd_hdd_key rnd @ le_bytes 1"
    and "bytes_at 52 12 (eeprom_plain rnd) = map (\<lambda>b. 0x30 + b mod 10) (rnd_serial rnd)"
    and "bytes_at 64 6 (eeprom_plain rnd) = [0x00, 0x50, 0xF2] @ rnd_mac rnd"
proof -
  have l: "length (rnd_confounder rnd) = 8" "length (rnd_hdd_key rnd) = 16" "length (rnd_online_key rnd) = 16"
    "length (rnd_mac rnd) = 3" "length (rnd_serial rnd) = 12" "length default_user_section = 44"
    using assms by (simp_all add: random_sizes_def default_user_section_def)
  show "length (eeprom_plain rnd) = 256" by (simp add: eeprom_plain_def l)
  have "bytes_at 20 8 (eeprom_plain rnd) = rnd_confounder rnd" "bytes_at 28 16 (eeprom_plain rnd) = rnd_hdd_key rnd"
    "bytes_at 44 4 (eeprom_plain rnd) = le_bytes 1"
    by (simp_all add: eeprom_plain_def l image_simps)
  then show "bytes_at 20 28 (eeprom_plain rnd) = rnd_confounder rnd @ rnd_hdd_key rnd @ le_bytes 1"
    using bytes_at_add [of 20 8 20 "eeprom_plain rnd"] bytes_at_add [of 28 16 4 "eeprom_plain rnd"] by simp
  show "bytes_at 52 12 (eeprom_plain rnd) = map (\<lambda>b. 0x30 + b mod 10) (rnd_serial rnd)"
    by (simp add: eeprom_plain_def l image_simps)
  have "bytes_at 64 3 (eeprom_plain rnd) = [0x00, 0x50, 0xF2]" "bytes_at 67 3 (eeprom_plain rnd) = rnd_mac rnd"
    by (simp_all add: eeprom_plain_def l image_simps)
  then show "bytes_at 64 6 (eeprom_plain rnd) = [0x00, 0x50, 0xF2] @ rnd_mac rnd"
    using bytes_at_add [of 64 3 3 "eeprom_plain rnd"] by simp
qed

lemma eeprom_checksums_fields:
  assumes "length e = 256"
  shows "length (eeprom_checksums e) = 256"
    and "bytes_at 48 4 (eeprom_checksums e) = le_bytes (xbox_eeprom_crc (bytes_at 52 44 (eeprom_checksums e)))"
    and "bytes_at 96 4 (eeprom_checksums e) = le_bytes (xbox_eeprom_crc (bytes_at 100 92 (eeprom_checksums e)))"
  using assms by (simp_all add: eeprom_checksums_def Let_def image_simps)

lemma eeprom_checksums_other:
  assumes "length e = 256" and "off + len \<le> 48 \<or> 52 \<le> off \<and> off + len \<le> 96"
  shows "bytes_at off len (eeprom_checksums e) = bytes_at off len e"
  using assms(2) by (elim disjE conjE) (simp_all add: eeprom_checksums_def Let_def image_simps assms(1))

lemma eeprom_encrypt_fields:
  assumes "length e = 256"
  shows "\<exists>img. eeprom_encrypt ver sctx e = Inr img \<and> length img = 256 \<and>
    bytes_at 0 20 img = keyed_hash ver (bytes_at 20 28 e) \<and> eeprom_secret ver img = Inr (bytes_at 20 28 e) \<and>
    (\<forall>off len. 48 \<le> off \<longrightarrow> bytes_at off len img = bytes_at off len e)"
proof -
  let ?hash = "keyed_hash ver (bytes_at 20 28 e)"
  let ?e = "set_bytes 0 ?hash e"
  have e: "length ?e = 256" "bytes_at 0 20 ?e = ?hash" "bytes_at 20 28 ?e = bytes_at 20 28 e"
    using assms by (simp_all add: image_simps)
  obtain c where c: "xbox_sha1_compute ver (bytes_at 20 28 e) sctx = Inr (?hash, c)" using xbox_sha1_compute_hash by blast
  obtain c' where c': "xbox_sha1_compute ver ?hash c = Inr (keyed_hash ver ?hash, c')" using xbox_sha1_compute_hash by blast
  have "keyed_hash ver ?hash \<noteq> []" using length_keyed_hash [of ver ?hash] by force
  then obtain s where s: "rc4_init (keyed_hash ver ?hash) = Inr s" using rc4_init_perm by blast
  let ?sec = "fst (rc4_crypt s (bytes_at 20 28 e))"
  have len: "length ?sec = 28" using assms by (simp add: rc4_crypt_length)
  have "eeprom_encrypt ver sctx e = Inr (set_bytes 20 ?sec ?e)"
    using c c' s e by (simp add: eeprom_encrypt_def)
  moreover have "bytes_at 0 20 (set_bytes 20 ?sec ?e) = ?hash" "bytes_at 20 28 (set_bytes 20 ?sec ?e) = ?sec"
    using e len by (simp_all add: image_simps)
  moreover have "bytes_at off n (set_bytes 20 ?sec ?e) = bytes_at off n e" if "48 \<le> off" for off n
    using that e len assms by (simp add: image_simps)
  ultimately show ?thesis using e len s by (simp add: eeprom_secret_def rc4_crypt_twice)
qed

lemma generated_image:
  assumes "random_sizes rnd"
  shows "\<exists>img. eeprom_encrypt ver sctx (eeprom_checksums (eeprom_plain rnd)) = Inr img \<and> eeprom_valid ver img \<and>
    eeprom_secret ver img = Inr (rnd_confounder rnd @ rnd_hdd_key rnd @ le_bytes 1) \<and>
    (\<forall>b \<in> set (bytes_at (offset_of EE_serial) 12 img). 0x30 \<le> b \<and> b \<le> 0x39) \<and>
    bytes_at (offset_of EE_mac) 6 img = [0x00, 0x50, 0xF2] @ rnd_mac rnd"
proof -
  note plain = eeprom_plain_fields [OF assms]
  let ?e = "eeprom_checksums (eeprom_plain rnd)"
  note sums = eeprom_checksums_fields [OF plain(1)] and other = eeprom_checksums_other [OF plain(1)]
  obtain img where img: "eeprom_encrypt ver sctx ?e = Inr img" "length img = 256"
    "bytes_at 0 20 img = keyed_hash ver (bytes_at 20 28 ?e)" "eeprom_secret ver img = Inr (bytes_at 20 28 ?e)"
    and same: "\<And>off len. 48 \<le> off \<Longrightarrow> bytes_at off len img = bytes_at off len ?e"
    using eeprom_encrypt_fields [OF sums(1)] by metis
  have digit: "0x30 \<le> 0x30 + b mod 10 \<and> 0x30 + b mod 10 \<le> 0x39" for b :: u8
  proof -
    have "unat (b mod 10) \<le> 9" by (simp add: unat_mod)
    then show ?thesis by (simp add: word_le_nat_alt unat_word_ariths(1))
  qed
  have "eeprom_valid ver img" using img same sums by (simp add: eeprom_valid_def)
  moreover have "\<forall>b \<in> set (bytes_at 52 12 img). 0x30 \<le> b \<and> b \<le> 0x39"
    using digit by (simp add: same other plain)
  ultimately show ?thesis
    using img same by (simp add: other plain)
qed

text \<open>
  C30.  The generated image is one that a console of the chosen version accepts: both checksums match the bytes they cover,
  decrypting the security section with the key derived from the hash field gives back the confounder, the disk key and the
  region, and the hash field is the keyed hash of that section.  The serial number consists of decimal digits and the network
  address starts with the vendor's prefix.  None of this depends on the contents of the uninitialised hash context.
\<close>

theorem generated_image_valid:
  assumes "random_sizes rnd"
  shows "\<exists>img. xbox_eeprom_generate rnd sctx True written ver = Inr (written = 1, Some img) \<and> eeprom_valid ver img \<and>
    eeprom_secret ver img = Inr (rnd_confounder rnd @ rnd_hdd_key rnd @ le_bytes 1) \<and>
    (\<forall>b \<in> set (bytes_at (offset_of EE_serial) 12 img). 0x30 \<le> b \<and> b \<le> 0x39) \<and>
    bytes_at (offset_of EE_mac) 6 img = [0x00, 0x50, 0xF2] @ rnd_mac rnd"
  using generated_image [OF assms, of ver sctx] unfolding xbox_eeprom_generate_def by auto

definition demo_random :: eeprom_random where
  "demo_random = \<lparr>rnd_confounder = [1, 2, 3, 4, 5, 6, 7, 8], rnd_hdd_key = replicate 16 0xA5, rnd_online_key = replicate 16 0x5A,
    rnd_mac = [0x12, 0x34, 0x56], rnd_serial = replicate 12 0xFF\<rparr>"

theorem generated_image_valid_witness:
  "random_sizes demo_random \<and>
   (\<exists>img. xbox_eeprom_generate demo_random sha1_demo True 1 XBOX_EEPROM_VERSION_R1 = Inr (True, Some img) \<and>
     eeprom_valid XBOX_EEPROM_VERSION_R1 img \<and> bytes_at (offset_of EE_mac) 6 img = [0x00, 0x50, 0xF2, 0x12, 0x34, 0x56])"
proof -
  have r: "random_sizes demo_random" by (simp add: random_sizes_def demo_random_def)
  have m: "rnd_mac demo_random = [0x12, 0x34, 0x56]" by (simp add: demo_random_def)
  from generated_image_valid [OF r, of sha1_demo 1 XBOX_EEPROM_VERSION_R1] obtain img where
    "xbox_eeprom_generate demo_random sha1_demo True 1 XBOX_EEPROM_VERSION_R1 = Inr (1 = (1 :: nat), Some img)"
    "eeprom_valid XBOX_EEPROM_VERSION_R1 img" "bytes_at (offset_of EE_mac) 6 img = [0x00, 0x50, 0xF2] @ rnd_mac demo_random"
    by blast
  then show ?thesis using r m by (intro conjI exI [of _ img]) simp_all
qed

section \<open>The checksum\<close>

lemma join_words: "unat (push_bit 32 (ucast high) OR ucast low :: u64) = unat high * 2 ^ 32 + unat low" for high low :: u32
proof -
  have "push_bit 32 (ucast high) OR ucast low = push_bit 32 (ucast high) + (ucast low :: u64)"
    by (rule disjunctive_add [symmetric]) (auto simp: bit_simps dest!: bit_imp_le_length [of low])
  also have "\<dots> = of_nat (unat high * 2 ^ 32 + unat low)"
    by (simp add: push_bit_eq_mult)
  finally have e: "push_bit 32 (ucast high) OR ucast low = (of_nat (unat high * 2 ^ 32 + unat low) :: u64)" .
  have "unat high * 2 ^ 32 + unat low < 2 ^ 64" using unat_u32_less [of high] unat_u32_less [of low] by simp
  then show ?thesis unfolding e by (simp only: unat_of_nat take_bit_eq_mod) simp
qed

lemma crc_step_value:
  assumes "crc_step val (high, low) = (high', low')"
  shows "unat high' * 2 ^ 32 + unat low' = (unat high * 2 ^ 32 + unat low + unat val) mod 2 ^ 64"
proof -
  let ?t = "unat high * 2 ^ 32 + unat low + unat val"
  have val: "unat (ucast val :: u64) = unat val" using unat_u32_less [of val] by (simp add: unsigned_ucast_eq take_bit_eq_mod)
  have sum: "unat ((push_bit 32 (ucast high) OR ucast low) + ucast val :: u64) = ?t mod 2 ^ 64"
    by (simp only: unat_word_ariths(1) join_words val) simp
  have "unat (ucast (drop_bit 32 ((push_bit 32 (ucast high) OR ucast low) + ucast val :: u64)) :: u32) =
      (?t mod 2 ^ 64 div 2 ^ 32) mod 2 ^ 32"
    unfolding unsigned_ucast_eq unat_drop_bit_eq sum by (simp add: drop_bit_eq_div take_bit_eq_mod)
  then have "unat high' = ?t mod 2 ^ 64 div 2 ^ 32"
    using assms by (simp add: Let_def)
  moreover have "unat low' = ?t mod 2 ^ 64 mod 2 ^ 32"
    using assms by (auto simp: Let_def unat_word_ariths(1) mod_mod_cancel add.assoc)
  ultimately show ?thesis by simp
qed

lemma crc_fold_value:
  assumes "fold crc_step ws (high, low) = (high', low')"
  shows "unat high' * 2 ^ 32 + unat low' = (unat high * 2 ^ 32 + unat low + sum_list (map unat ws)) mod 2 ^ 64"
  using assms
proof (induction ws arbitrary: high low)
  case Nil
  then show ?case using unat_u32_less [of high] unat_u32_less [of low] by simp
next
  case (Cons w ws)
  obtain h l where hl: "crc_step w (high, low) = (h, l)" by fastforce
  have "unat high' * 2 ^ 32 + unat low' = ((unat h * 2 ^ 32 + unat l) + sum_list (map unat ws)) mod 2 ^ 64"
    using Cons.IH [of h l] Cons.prems unfolding fold_simps comp_def hl by simp
  then show ?case unfolding crc_step_value [OF hl] by (simp only: mod_add_left_eq list.map sum_list.Cons add.assoc)
qed

text \<open>
  C31.  The checksum equals its arithmetic definition: with \<open>s\<close> the sum of the little-endian words as an unbounded number,
  it is the complement of the carries out of 32 bits added to the low word.  The split accumulator loses nothing.
\<close>

theorem crc_end_around:
  "xbox_eeprom_crc bs =
    (let s = sum_list (map (\<lambda>i. unat (le_word bs i)) [0..<length bs div 4]) in NOT (of_nat (s div 2 ^ 32 + s mod 2 ^ 32)))"
proof -
  let ?ws = "map (le_word bs) [0..<length bs div 4]"
  let ?s = "sum_list (map unat ?ws)"
  obtain high low where hl: "fold crc_step ?ws (0, 0) = (high, low)" by fastforce
  have v: "unat high * 2 ^ 32 + unat low = ?s mod 2 ^ 64" using crc_fold_value [OF hl] by simp
  have "unat high = ?s mod 2 ^ 64 div 2 ^ 32" "unat low = ?s mod 2 ^ 64 mod 2 ^ 32"
    unfolding v [symmetric] using unat_u32_less [of low] by simp_all
  then have "high = of_nat (?s mod 2 ^ 64 div 2 ^ 32)" "low = of_nat (?s mod 2 ^ 64 mod 2 ^ 32)"
    by (metis of_nat_unat ucast_id)+
  moreover have "(of_nat (?s mod 2 ^ 64 div 2 ^ 32) :: u32) = of_nat (?s div 2 ^ 32)"
    using mod_mult2_eq [of ?s "2 ^ 32" "2 ^ 32"] by (simp add: word_of_nat_eq_iff take_bit_eq_mod)
  moreover have "?s mod 2 ^ 64 mod 2 ^ 32 = ?s mod 2 ^ 32" by (simp add: mod_mod_cancel)
  ultimately have "high + low = of_nat (?s div 2 ^ 32 + ?s mod 2 ^ 32)" by (simp only: of_nat_add)
  then show ?thesis by (simp only: xbox_eeprom_crc_def hl Let_def prod.case map_map comp_def)
qed

end
