(* ===== verification/EEPROM_Boot.thy ===== *)
theory EEPROM_Boot
  imports AMD_SMBus EEPROM
begin

text \<open>
  The EEPROM from its generation to the guest: the image that \<open>eeprom_generation.c\<close> writes to the file is the one that the
  device of \<open>smbus_storage.c\<close> loads when it is realized, and the one that the guest reads through the ports of the controller
  in \<open>amd_smbus.c\<close>.  The driver's reading loop is defined here on top of the port accesses.
\<close>

section \<open>The driver's reading loop\<close>

text \<open>For each offset the byte-read sequence, then the data port.\<close>

fun eeprom_read_all :: "'d SMBusDeviceClass \<Rightarrow> u8 list \<Rightarrow> 'd AMD756SMBus \<Rightarrow> (u32 list \<times> 'd AMD756SMBus) res" where
  "eeprom_read_all sc [] s = Inr ([], s)"
| "eeprom_read_all sc (off # offs) s =
    res_bind (port_run sc (eeprom_peek off) s) (\<lambda>s.
    res_bind (amd756_smb_ioport_readb s 6) (\<lambda>(v, s).
    res_bind (eeprom_read_all sc offs s) (\<lambda>(vs, s). Inr (v # vs, s))))"

definition all_offsets :: "u8 list" where
  "all_offsets = map of_nat [0..<256]"

lemma eeprom_read_all_run:
  assumes "eeprom_on s i st"
  shows "\<exists>s' st'. eeprom_read_all (xbox_class hf) offs s = Inr (map (\<lambda>off. ucast (st_data st ! unat off)) offs, s') \<and>
    eeprom_on s' i st' \<and> same_others i (smbus s) (smbus s') \<and> st' = st\<lparr>st_offset := st_offset st'\<rparr>"
  using assms
proof (induction offs arbitrary: s st)
  case Nil
  then show ?case by (auto simp: same_others_def)
next
  case (Cons off offs)
  obtain s1 st1 where 1: "port_run (xbox_class hf) (eeprom_peek off) s = Inr s1" "eeprom_on s1 i st1"
    "same_others i (smbus s) (smbus s1)" "st_data st1 = st_data st" "st1 = st\<lparr>st_offset := st_offset st1\<rparr>" "smb_data0 s1 = st_data st ! unat off"
    using eeprom_peek_run [OF Cons.prems, of hf off] by blast
  obtain s' st' where 2: "eeprom_read_all (xbox_class hf) offs s1 = Inr (map (\<lambda>off. ucast (st_data st1 ! unat off)) offs, s')"
    "eeprom_on s' i st'" "same_others i (smbus s1) (smbus s')" "st' = st1\<lparr>st_offset := st_offset st'\<rparr>"
    using Cons.IH [OF 1(2)] by blast
  have "amd756_smb_ioport_readb s1 6 = Inr (ucast (st_data st ! unat off), s1)"
    by (simp add: amd756_smb_ioport_readb_def 1(6))
  moreover have "same_others i (smbus s) (smbus s')" using 1(3) 2(3) by (simp add: same_others_def)
  moreover have "st' = st\<lparr>st_offset := st_offset st'\<rparr>" using 1(5) 2(4) by (cases st; cases st1; cases st') simp
  moreover have "eeprom_read_all (xbox_class hf) (off # offs) s = Inr (map (\<lambda>off. ucast (st_data st ! unat off)) (off # offs), s')"
    using 1(1,4) 2(1) calculation(1) by simp
  ultimately show ?case using 2(2) by blast
qed

lemma read_image:
  assumes "length img = 256"
  shows "map (\<lambda>off. ucast (img ! unat off) :: u32) all_offsets = map ucast img"
  using assms by (intro nth_equalityI) (simp_all add: all_offsets_def unat_of_nat)

section \<open>Loading the file\<close>

text \<open>A machine whose EEPROM slot holds the device just realized.\<close>

definition attach_eeprom :: "nat \<Rightarrow> SMBusStorageDevice \<Rightarrow> xbox_dev AMD756SMBus \<Rightarrow> xbox_dev AMD756SMBus" where
  "attach_eeprom i st s = s\<lparr>smbus := put_dev (smbus s) i ((bus_children (smbus s) ! i)\<lparr>dev_state := Dev_Storage st\<rparr>)\<rparr>"

lemma realize_loads:
  assumes "length img = 256" and "st_size st = 256" and "st_file st \<noteq> None"
  shows "smbus_storage_realize (int (length img)) True img st = (False, st\<lparr>st_data := img, st_offset := 0\<rparr>)"
  using assms by (simp add: smbus_storage_realize_def)

lemma attach_on:
  assumes "bus_idle (smbus s)" and "dev_at (smbus s) 0x54 i" and "storage_inv st"
  shows "eeprom_on (attach_eeprom i st s) i st"
proof -
  have "dev_idle ((bus_children (smbus s) ! i)\<lparr>dev_state := Dev_Storage st\<rparr>)"
    using dev_idleD(1) [OF assms(1,2)] by (simp add: dev_idle_def)
  then show ?thesis
    using assms put_dev_idle put_dev_at [OF assms(2)]
    by (simp add: eeprom_on_def attach_eeprom_def dev_at_def)
qed

lemma loaded_inv:
  assumes "length img = 256" and "st_size st = 256"
  shows "storage_inv (st\<lparr>st_data := img, st_offset := 0\<rparr>)"
  using assms by (simp add: storage_inv_def)

section \<open>From the generator to the guest\<close>

text \<open>
  C40.  What the generator writes is what the guest sees.  For every set of random bytes, console version and contents of the
  uninitialised hash context, the file that the generator writes is accepted by the EEPROM device; the guest that then
  reads the 256 bytes through the controller's ports gets exactly that image, and it is valid for the console.  After the guest
  changes a byte and the host file accepts the data, the file loads again and the next guest reads the image with that
  byte changed.
\<close>

theorem eeprom_reaches_guest:
  assumes "random_sizes rnd" and bus: "bus_idle (smbus s)" "dev_at (smbus s) 0x54 i"
    and dev: "st_size st = 256" "st_file st \<noteq> None" "st_persist st" and host: "hf_open hf" "hf_write hf 256 = 256"
  shows "\<exists>img st1 s1 s2. xbox_eeprom_generate rnd sctx True 1 ver = Inr (True, Some img) \<and> eeprom_valid ver img \<and>
    smbus_storage_realize (int (length img)) True img (st\<lparr>st_disk := img\<rparr>) = (False, st1) \<and>
    eeprom_read_all (xbox_class hf) all_offsets (attach_eeprom i st1 s) = Inr (map ucast img, s1) \<and>
    port_run (xbox_class hf) (eeprom_poke off v) s1 = Inr s2 \<and>
    (\<exists>st2 st3 s3. eeprom_on s2 i st2 \<and> st_disk st2 = img[unat off := v] \<and>
      smbus_storage_realize (int (length (st_disk st2))) True (st_disk st2) (st\<lparr>st_disk := st_disk st2\<rparr>) = (False, st3) \<and>
      eeprom_read_all (xbox_class hf) all_offsets (attach_eeprom i st3 s) = Inr (map ucast (img[unat off := v]), s3))"
proof -
  obtain img where img: "eeprom_encrypt ver sctx (eeprom_checksums (eeprom_plain rnd)) = Inr img" "eeprom_valid ver img"
    using generated_image [OF assms(1)] by blast
  have len: "length img = 256" using img(2) by (simp add: eeprom_valid_def)
  obtain st1 where st1: "smbus_storage_realize (int (length img)) True img (st\<lparr>st_disk := img\<rparr>) = (False, st1)"
    "st1 = st\<lparr>st_disk := img, st_data := img, st_offset := 0\<rparr>" "storage_inv st1"
    using realize_loads [OF len, of "st\<lparr>st_disk := img\<rparr>"] loaded_inv [OF len, of "st\<lparr>st_disk := img\<rparr>"] dev by simp
  note on = attach_on [OF bus st1(3)]
  obtain s1 st' where s1: "eeprom_read_all (xbox_class hf) all_offsets (attach_eeprom i st1 s) = Inr (map ucast img, s1)"
    "eeprom_on s1 i st'" "st' = st1\<lparr>st_offset := st_offset st'\<rparr>"
    using eeprom_read_all_run [OF on, of hf all_offsets] read_image [OF len] by (auto simp: st1(2))
  have same: "st_data st' = img" "st_disk st' = img" "st_file st' \<noteq> None" "st_persist st'" "st_size st' = 256"
    by (subst s1(3), simp add: st1(2) dev)+
  obtain s2 st2 where s2: "port_run (xbox_class hf) (eeprom_poke off v) s1 = Inr s2" "eeprom_on s2 i st2"
    "st_disk st2 = img[unat off := v]"
    using eeprom_poke_run [OF s1(2), of hf off v] same host len by auto
  let ?img = "img[unat off := v]" and ?st = "st\<lparr>st_disk := img[unat off := v]\<rparr>"
  have len': "length ?img = 256" using len by simp
  note again = realize_loads [OF len', of ?st] and on' = attach_on [OF bus loaded_inv [OF len', of ?st]]
  obtain s3 where s3: "eeprom_read_all (xbox_class hf) all_offsets
      (attach_eeprom i (?st\<lparr>st_data := ?img, st_offset := 0\<rparr>) s) = Inr (map ucast ?img, s3)"
    using eeprom_read_all_run [OF on', of hf all_offsets] read_image [OF len'] dev by auto
  show ?thesis
    using img st1(1) s1(1) s2 s3 again dev by (auto simp: xbox_eeprom_generate_def)
qed

definition demo_host :: host_file where
  "demo_host = \<lparr>hf_open = True, hf_write = int\<rparr>"

definition demo_storage :: SMBusStorageDevice where
  "demo_storage = demo_eeprom\<lparr>st_file := Some ''eeprom.bin'', st_persist := True\<rparr>"

theorem eeprom_reaches_guest_witness:
  "\<exists>img st1 s1. xbox_eeprom_generate demo_random sha1_demo True 1 XBOX_EEPROM_VERSION_R1 = Inr (True, Some img) \<and>
    smbus_storage_realize 256 True img (demo_storage\<lparr>st_disk := img\<rparr>) = (False, st1) \<and>
    eeprom_read_all (xbox_class demo_host) all_offsets (attach_eeprom 1 st1 demo_smbus) = Inr (map ucast img, s1)"
proof -
  have r: "random_sizes demo_random" by (simp add: random_sizes_def demo_random_def)
  have bus: "bus_idle (smbus demo_smbus)" "dev_at (smbus demo_smbus) 0x54 1" using demo_eeprom_on by (simp_all add: eeprom_on_def)
  have dev: "st_size demo_storage = 256" "st_file demo_storage \<noteq> None" "st_persist demo_storage"
    by (simp_all add: demo_storage_def demo_eeprom_def)
  have host: "hf_open demo_host" "hf_write demo_host 256 = 256" by (simp_all add: demo_host_def)
  from eeprom_reaches_guest [OF r bus dev host, of sha1_demo XBOX_EEPROM_VERSION_R1 0 1] obtain img st1 s1 where
    g: "xbox_eeprom_generate demo_random sha1_demo True 1 XBOX_EEPROM_VERSION_R1 = Inr (True, Some img)"
    "eeprom_valid XBOX_EEPROM_VERSION_R1 img"
    "smbus_storage_realize (int (length img)) True img (demo_storage\<lparr>st_disk := img\<rparr>) = (False, st1)"
    "eeprom_read_all (xbox_class demo_host) all_offsets (attach_eeprom 1 st1 demo_smbus) = Inr (map ucast img, s1)" by blast
  moreover have "length img = 256" using g(2) by (simp add: eeprom_valid_def)
  ultimately show ?thesis by auto
qed

end
