(* ===== verification/Spec2Isabelle.thy ===== *)
theory Spec2Isabelle
  imports Prim_Rewrite Swizzle AMD_SMBus PGRAPH_Track PFIFO_Progress S3TC NvNet_Rings EEPROM_Boot
begin

text \<open>
  A verification library for the Xbox hardware emulation of xemu: the devices below \<open>src/hw/xbox\<close>, with the parts of
  \<open>src/hw/i2c\<close> and \<open>src/util\<close> they are built on.

  \<^bold>\<open>The program.\<close>  The guest writes graphics commands into a buffer and moves a put pointer.  The command FIFO
  (\<open>nv2a/pfifo.c\<close>) fetches words, decodes headers, looks objects up in a hash table and hands methods to the
  drawing engine (\<open>nv2a/pgraph/pgraph.c\<close>), which keeps a register file, collects vertices and index ranges into a batch and calls
  a renderer through a table of operations.  Before the host draws, primitives the host does not have are rewritten
  (\<open>prim_rewrite.c\<close>), textures are converted from Z order (\<open>swizzle.c\<close>) and decompressed (\<open>s3tc.c\<close>).  The register
  blocks of the processor raise interrupts that \<open>nv2a.c\<close> combines into one line.  Next to it are an Ethernet controller
  (\<open>mcpx/nvnet/nvnet.c\<close>) and an SMBus host controller (\<open>amd_smbus.c\<close>), behind which the system management controller,
  the EEPROM, a temperature monitor and the video encoders answer over the I2C core.  The EEPROM's file is
  made by \<open>eeprom_generation.c\<close>.

  \<^bold>\<open>How the code is represented.\<close>  A structure is a record, an enumeration a datatype, an unsigned integer a word of its width.
  An array is a function or a list with its bound checked at each access.  Code that can stop (a failed
  assertion, a division by zero, an access outside an array) returns a value of \<open>'a res\<close>, the fault or the result.  A function that changes a
  device takes its record and returns it updated.  Loops are recursion over a list or a number.  Three loops whose end is not evident
  are partial functions whose value \<open>None\<close> means that they do not return: the mask generator of \<open>swizzle.c\<close>, the
  32-bit counting loop and the FIFO's fetch loop.  There is no fuel anywhere.  That the mask generator returns is
  part of \<open>swizzle_masks_correct\<close>; that the fetch loop returns is \<open>pusher_terminates\<close>, for buffers without control
  transfers (a jump to itself is a legal program on which the code does not return either).

  \<^bold>\<open>Shared theories.\<close>
  \<^item> \<open>Prelude\<close>: integer types, faults, sequencing, folds with invariants, checked arrays.
  \<^item> \<open>Registers\<close>: the bit-field macros and byte access to words.

  \<^bold>\<open>Preparing data for the host renderer.\<close>
  \<^item> \<open>Prim_Rewrite\<close>: \<open>pgraph/prim_rewrite.c\<close>, every function.  The rewritten indices are those of a reference
    definition by primitive, they fit the buffer that was sized before, and the provoking vertex comes first.
  \<^item> \<open>Swizzle\<close>: \<open>pgraph/swizzle.c\<close>.  The masks partition the offset bits, the box functions place each pixel at its interleaved
    offset, and unswizzling undoes swizzling.
  \<^item> \<open>S3TC\<close>: \<open>pgraph/s3tc.c\<close>.  All three formats decode each texel from its block, for flat and volume textures, inside their
    buffers; the palette entries have their values without overflow.

  \<^bold>\<open>The graphics processor.\<close>
  \<^item> \<open>NV2A_Regs\<close>, \<open>NV2A_State\<close>: register numbers, and the state of \<open>nv2a_int.h\<close> and \<open>pgraph.h\<close> with the register accessors.
  \<^item> \<open>NV2A_Blocks\<close>: \<open>nv2a.c\<close> and the handlers of PMC, PTIMER, PCRTC, PBUS, PFB, PRAMDAC, PVIDEO, PRMDIO, USER and the
    stubs.  The interrupt line follows the blocks; timer, palette, tile clipping and narrow reads.
  \<^item> \<open>PGRAPH_Regs\<close>, \<open>PGRAPH_Vertex\<close>, \<open>PGRAPH_Draw\<close>: \<open>pgraph.c\<close>, \<open>rdi.c\<close>, \<open>vertex.c\<close> and \<open>null/renderer.c\<close>: the register file,
    one definition per method handler, vertex attributes, and batches.  The lazily filled attribute buffers record each
    vertex, and the draw methods append exactly the ranges asked for.
  \<^item> \<open>PGRAPH\<close>, \<open>PGRAPH_Track\<close>: \<open>methods.h.inc\<close> and the dispatch of \<open>pgraph_method\<close>.  Every state method of the table stays
    inside the arrays and marks what it changes.
  \<^item> \<open>PFIFO\<close>, \<open>PFIFO_Progress\<close>: \<open>pfifo.c\<close>.  Decoding, subroutines, object lookup, stalls and their release, and termination.
    The locale \<open>renderer_frame\<close> is what the FIFO needs of a renderer; it is interpreted on the null renderer.

  \<^bold>\<open>SMBus and EEPROM.\<close>
  \<^item> \<open>I2C\<close>: \<open>hw/i2c/core.c\<close>, \<open>smbus_slave.c\<close>, \<open>smbus_master.c\<close>.  The locale \<open>smbus_class\<close> is the contract of a device class.
  \<^item> \<open>SMBus_Devices\<close>: the devices, each an interpretation of \<open>smbus_class\<close>, and the class of the whole machine.
  \<^item> \<open>AMD_SMBus\<close>: \<open>amd_smbus.c\<close>.  Invariant of the ports under every access sequence, EEPROM and controller behaviour.
  \<^item> \<open>Crypto\<close>: \<open>util/sha1.c\<close>, \<open>util/rc4.c\<close>.  The incremental hash is the fold of the compression function over the padded message.
  \<^item> \<open>EEPROM\<close>: \<open>eeprom_generation.c\<close>.  The generated image is valid.
  \<^item> \<open>EEPROM_Boot\<close>: the composition of the generator, the EEPROM device, the bus and the controller.

  \<^bold>\<open>Network.\<close>
  \<^item> \<open>NvNet\<close>: \<open>mcpx/nvnet/nvnet.c\<close>: registers, interrupts, PHY, rings, reset and snapshots.  The locale \<open>irq_contract\<close> is interpreted
    for the exact line and for the raised line.
  \<^item> \<open>NvNet_Rings\<close>: the locale \<open>desc_ring\<close>, interpreted for the transmit and the receive ring, delivery of packets and
    transmission of chains of fragments.

  \<^bold>\<open>Parameters.\<close>  Renderer operations, the vertex-program interpreter, host clocks, random bytes, the results of
  file operations and the contents of memory the host allocates are arguments.  The properties that need something of them say so.

  \<^bold>\<open>Not modelled.\<close>
  \<^item> The OpenGL and Vulkan renderers and the shader generators (\<open>pgraph/gl\<close>, \<open>vk\<close>, \<open>glsl\<close>, \<open>texture.c\<close>): they produce
    calls of host libraries and shader text whose meaning is outside the process.
  \<^item> The audio processor (\<open>mcpx/apu\<close>, \<open>mcpx/aci.c\<close>): voices are mixed in host floating point, and the signal
    processor is an interpreter of several thousand lines of its own.
  \<^item> Machine assembly and buses (\<open>xbox.c\<close>, \<open>xbox_pci.c\<close>, \<open>chihiro*\<close>, \<open>acpi_xbox.c\<close>, \<open>lpc47m157.c\<close>) and USB input (\<open>xid*\<close>,
    \<open>xblc.c\<close>): they register objects and forward to the QEMU cores for PCI, USB and ISA.
  \<^item> The VGA aliases (\<open>prmcio.c\<close>, \<open>prmvio.c\<close>), debug and profile output, migration descriptions and object construction.
  \<^item> Locks and condition variables: each definition is a handler that runs under its lock; other threads act between
    handlers, and the properties that speak of sequences allow any handler next.
  \<^item> The rest of QEMU (processors, block layer, display) and the Android front end.
\<close>

end
